(* ===== verification/Prelude.thy ===== *)
theory Prelude
  imports Main "HOL-Library.Word" "HOL-Library.AList"
begin

text \<open>
  Shared vocabulary of the development: the outcome of a Rust call that may panic, the
  fact collections the component proofs draw on, Rust's saturating addition on \<open>u32\<close>, and
  the model of the concurrent hash map (\<open>DashMap\<close>, and \<open>HashMap\<close> where the code iterates
  it) as an association list with one entry per key, together with the interface its
  clients rely on.
\<close>

section \<open>Fact collections\<close>

named_theorems fields_of \<open>what the fields of a constructed record are\<close>
named_theorems keeps \<open>preservation of invariants by operations\<close>

section \<open>Calls that may panic\<close>

text \<open>
  \<open>Panic\<close> is an unwinding panic (for instance the overflow of a \<open>Decimal\<close> product);
  \<open>Ret x\<close> is a normal return. Rust's \<open>Result\<close> is a sum inside \<open>Ret\<close>.
\<close>

datatype 'a rust = Panic | Ret 'a

definition bind_rust :: "'a rust \<Rightarrow> ('a \<Rightarrow> 'b rust) \<Rightarrow> 'b rust" where
  "bind_rust x f = (case x of Panic \<Rightarrow> Panic | Ret a \<Rightarrow> f a)"

lemma bind_rust_simps [simp]:
  "bind_rust Panic f = Panic"
  "bind_rust (Ret a) f = f a"
  by (simp_all add: bind_rust_def)

lemma bind_rust_Ret_iff:
  "bind_rust x f = Ret b \<longleftrightarrow> (\<exists>a. x = Ret a \<and> f a = Ret b)"
  by (cases x) simp_all

lemma map_rust_Ret_iff:
  "map_rust f x = Ret b \<longleftrightarrow> (\<exists>a. x = Ret a \<and> b = f a)"
  by (cases x) auto

section \<open>Machine integers\<close>

type_synonym u8 = "8 word"
type_synonym u32 = "32 word"
type_synonym u64 = "64 word"

definition saturating_add_u32 :: "u32 \<Rightarrow> u32 \<Rightarrow> u32" where
  "saturating_add_u32 a b = (if unat a + unat b < 2 ^ 32 then a + b else - 1)"

lemma unat_saturating_add_u32:
  "unat (saturating_add_u32 a b) = min (unat a + unat b) (2 ^ 32 - 1)"
proof (cases "unat a + unat b < 2 ^ 32")
  case True
  then have "unat (a + b) = unat a + unat b"
    by (subst unat_add_lem [symmetric]) simp
  with True show ?thesis by (simp add: saturating_add_u32_def)
next
  case False
  then show ?thesis
    by (simp add: saturating_add_u32_def unat_word_ariths unsigned_minus_1_eq_mask mask_eq_exp_minus_1)
qed

section \<open>Lists\<close>

lemma last_snoc_case [simp]: "last (xs @ [x]) = x"
  by simp

lemma max_as_if: "max v m = (if v > m then v else (m :: 'a::linorder))"
  by (auto simp: max_def)

lemma min_as_if: "min v m = (if v < m then v else (m :: 'a::linorder))"
  by (auto simp: min_def)

lemma Max_set_snoc:
  fixes v :: "'a::linorder"
  assumes "xs \<noteq> []"
  shows "Max (set (xs @ [v])) = (if v > Max (set xs) then v else Max (set xs))"
proof -
  have "set (xs @ [v]) = insert v (set xs)" by simp
  with assms have "Max (set (xs @ [v])) = max v (Max (set xs))" by simp
  then show ?thesis by (simp only: max_as_if)
qed

lemma Min_set_snoc:
  fixes v :: "'a::linorder"
  assumes "xs \<noteq> []"
  shows "Min (set (xs @ [v])) = (if v < Min (set xs) then v else Min (set xs))"
proof -
  have "set (xs @ [v]) = insert v (set xs)" by simp
  with assms have "Min (set (xs @ [v])) = min v (Min (set xs))" by simp
  then show ?thesis by (simp only: min_as_if)
qed

lemma hd_append_ne [simp]: "xs \<noteq> [] \<Longrightarrow> hd (xs @ ys) = hd xs"
  by (cases xs) auto

section \<open>Concurrent maps\<close>

text \<open>
  A \<open>DashMap\<close> is an association list with distinct keys. Its iteration order is
  unspecified, so no lemma about a client may depend on the order of the list.
\<close>

type_synonym ('k, 'v) dashmap = "('k \<times> 'v) list"

definition dm_ok :: "('k, 'v) dashmap \<Rightarrow> bool" where
  "dm_ok m \<longleftrightarrow> distinct (map fst m)"

definition dm_get :: "('k, 'v) dashmap \<Rightarrow> 'k \<Rightarrow> 'v option" where
  "dm_get m k = map_of m k"

definition dm_insert :: "'k \<Rightarrow> 'v \<Rightarrow> ('k, 'v) dashmap \<Rightarrow> ('k, 'v) dashmap" where
  "dm_insert k v m = AList.update k v m"

definition dm_remove :: "'k \<Rightarrow> ('k, 'v) dashmap \<Rightarrow> ('k, 'v) dashmap" where
  "dm_remove k m = AList.delete k m"

definition dm_keys :: "('k, 'v) dashmap \<Rightarrow> 'k list" where
  "dm_keys m = map fst m"

text \<open>
  What the clients need of a keyed store. \<open>get\<close> determines everything a client can
  observe; \<open>keys\<close> lists the present keys once each.
\<close>

locale keyed_store =
  fixes ok :: "'m \<Rightarrow> bool"
    and get :: "'m \<Rightarrow> 'k \<Rightarrow> 'v option"
    and insert :: "'k \<Rightarrow> 'v \<Rightarrow> 'm \<Rightarrow> 'm"
    and remove :: "'k \<Rightarrow> 'm \<Rightarrow> 'm"
    and keys :: "'m \<Rightarrow> 'k list"
  assumes get_insert: "ok m \<Longrightarrow> get (insert k v m) k' = (if k' = k then Some v else get m k')"
    and get_remove: "ok m \<Longrightarrow> get (remove k m) k' = (if k' = k then None else get m k')"
    and ok_insert: "ok m \<Longrightarrow> ok (insert k v m)"
    and ok_remove: "ok m \<Longrightarrow> ok (remove k m)"
    and set_keys: "ok m \<Longrightarrow> k \<in> set (keys m) \<longleftrightarrow> get m k \<noteq> None"
    and distinct_keys: "ok m \<Longrightarrow> distinct (keys m)"
begin

lemma get_insert_same: "ok m \<Longrightarrow> get (insert k v m) k = Some v"
  by (simp add: get_insert)

lemma get_insert_other: "ok m \<Longrightarrow> k' \<noteq> k \<Longrightarrow> get (insert k v m) k' = get m k'"
  by (simp add: get_insert)

lemma ok_fold_remove: "ok m \<Longrightarrow> ok (fold remove ks m)"
  by (induction ks arbitrary: m) (auto simp: ok_remove)

lemma get_fold_remove:
  "ok m \<Longrightarrow> get (fold remove ks m) k = (if k \<in> set ks then None else get m k)"
  by (induction ks arbitrary: m) (auto simp: ok_remove get_remove)

lemma ok_fold_insert: "ok m \<Longrightarrow> ok (fold (\<lambda>(k, v). insert k v) kvs m)"
  by (induction kvs arbitrary: m) (auto simp: ok_insert)

lemma get_fold_insert:
  "ok m \<Longrightarrow> get (fold (\<lambda>(k, v). insert k v) kvs m) k =
     (case map_of (rev kvs) k of None \<Rightarrow> get m k | Some v \<Rightarrow> Some v)"
proof (induction kvs arbitrary: m)
  case Nil
  then show ?case by simp
next
  case (Cons kv kvs)
  obtain k1 v1 where kv: "kv = (k1, v1)" by (cases kv)
  have "get (fold (\<lambda>(k, v). insert k v) kvs (insert k1 v1 m)) k =
      (case map_of (rev kvs) k of None \<Rightarrow> get (insert k1 v1 m) k | Some v \<Rightarrow> Some v)"
    by (rule Cons.IH) (rule ok_insert [OF Cons.prems])
  then show ?case
    by (auto simp: kv get_insert [OF Cons.prems] map_add_def split: option.splits)
qed

end

interpretation dm: keyed_store dm_ok dm_get dm_insert dm_remove dm_keys
proof unfold_locales
  fix m :: "('a, 'b) dashmap" and k k' v
  assume ok: "dm_ok m"
  show "dm_get (dm_insert k v m) k' = (if k' = k then Some v else dm_get m k')"
    by (simp add: dm_get_def dm_insert_def update_conv')
  show "dm_get (dm_remove k m) k' = (if k' = k then None else dm_get m k')"
    by (simp add: dm_get_def dm_remove_def delete_conv')
  show "dm_ok (dm_insert k v m)"
    using ok by (simp add: dm_ok_def dm_insert_def distinct_update)
  show "dm_ok (dm_remove k m)"
    using ok by (simp add: dm_ok_def dm_remove_def distinct_delete)
  show "k \<in> set (dm_keys m) \<longleftrightarrow> dm_get m k \<noteq> None"
    by (auto simp: dm_get_def dm_keys_def map_of_eq_None_iff)
  show "distinct (dm_keys m)"
    using ok by (simp add: dm_ok_def dm_keys_def)
qed

lemma dm_ok_Nil [simp]: "dm_ok []"
  by (simp add: dm_ok_def)

lemma dm_get_Nil [simp]: "dm_get [] k = None"
  by (simp add: dm_get_def)

lemma dm_get_in_set: "dm_get m k = Some v \<Longrightarrow> (k, v) \<in> set m"
  by (simp add: dm_get_def map_of_SomeD)

lemma dm_get_iff: "dm_ok m \<Longrightarrow> dm_get m k = Some v \<longleftrightarrow> (k, v) \<in> set m"
  by (simp add: dm_get_def dm_ok_def)

lemma dm_get_entry: "dm_ok m \<Longrightarrow> (k, v) \<in> set m \<Longrightarrow> dm_get m k = Some v"
  by (simp add: dm_get_iff)

end
