(* ===== verification/Text.thy ===== *)
theory Text
  imports Prelude "HOL-Library.Char_ord" "HOL-Library.List_Lexorder"
begin

text \<open>
  The part of Rust's string library the code uses, on strings as byte lists: ASCII case
  mapping, prefixes, substrings, splitting, and the printing and parsing of unsigned
  integers. Each function follows the documented behaviour of its standard-library
  namesake.
\<close>

section \<open>Case mapping\<close>

definition lower_char :: "char \<Rightarrow> char" where
  "lower_char c = (let n = of_char c :: nat in if 65 \<le> n \<and> n \<le> 90 then char_of (n + 32) else c)"

definition upper_char :: "char \<Rightarrow> char" where
  "upper_char c = (let n = of_char c :: nat in if 97 \<le> n \<and> n \<le> 122 then char_of (n - 32) else c)"

definition to_ascii_lowercase :: "string \<Rightarrow> string" where
  "to_ascii_lowercase s = map lower_char s"

definition to_ascii_uppercase :: "string \<Rightarrow> string" where
  "to_ascii_uppercase s = map upper_char s"

lemma lower_char_idem [simp]: "lower_char (lower_char c) = lower_char c"
  by (simp add: lower_char_def Let_def)

lemma to_ascii_lowercase_idem [simp]:
  "to_ascii_lowercase (to_ascii_lowercase s) = to_ascii_lowercase s"
  by (simp add: to_ascii_lowercase_def)

lemma lower_upper_char [simp]: "lower_char (upper_char c) = lower_char c"
proof (cases "97 \<le> (of_char c :: nat) \<and> (of_char c :: nat) \<le> 122")
  case True
  then have "(of_char c - 32 :: nat) mod 256 = of_char c - 32" by (intro mod_less) linarith
  moreover have "(65 :: nat) \<le> of_char c - 32" "of_char c - 32 \<le> (90 :: nat)"
    using True by linarith+
  ultimately show ?thesis using True by (simp add: lower_char_def upper_char_def Let_def)
next
  case False
  then have "upper_char c = c" unfolding upper_char_def Let_def by (rule if_not_P)
  then show ?thesis by simp
qed

lemma to_ascii_lowercase_uppercase [simp]:
  "to_ascii_lowercase (to_ascii_uppercase s) = to_ascii_lowercase s"
  by (simp add: to_ascii_lowercase_def to_ascii_uppercase_def)

section \<open>Prefixes, substrings, splitting\<close>

definition starts_with :: "string \<Rightarrow> string \<Rightarrow> bool" where
  "starts_with s p \<longleftrightarrow> take (length p) s = p"

definition ends_with :: "string \<Rightarrow> string \<Rightarrow> bool" where
  "ends_with s p \<longleftrightarrow> length p \<le> length s \<and> drop (length s - length p) s = p"

definition strip_prefix :: "string \<Rightarrow> string \<Rightarrow> string option" where
  "strip_prefix s p = (if starts_with s p then Some (drop (length p) s) else None)"

fun contains :: "string \<Rightarrow> string \<Rightarrow> bool" where
  "contains [] p = (p = [])"
| "contains (c # s) p = (starts_with (c # s) p \<or> contains s p)"

fun split_on :: "char \<Rightarrow> string \<Rightarrow> string list" where
  "split_on c [] = [[]]"
| "split_on c (x # xs) =
     (if x = c then [] # split_on c xs
      else (case split_on c xs of [] \<Rightarrow> [[x]] | h # t \<Rightarrow> (x # h) # t))"

text \<open>\<open>splitn(2, c)\<close> and \<open>find(c)\<close>: what precedes and follows the first \<open>c\<close>, if any.\<close>

fun split_first :: "char \<Rightarrow> string \<Rightarrow> (string \<times> string) option" where
  "split_first c [] = None"
| "split_first c (x # xs) =
     (if x = c then Some ([], xs)
      else map_option (\<lambda>(a, b). (x # a, b)) (split_first c xs))"

lemma starts_with_append [simp]: "starts_with (p @ s) p"
  by (simp add: starts_with_def)

lemma strip_prefix_append [simp]: "strip_prefix (p @ s) p = Some s"
  by (simp add: strip_prefix_def)

lemma strip_prefix_Some_iff: "strip_prefix s p = Some t \<longleftrightarrow> s = p @ t"
  by (auto simp: strip_prefix_def starts_with_def) (metis append_take_drop_id)

lemma ends_with_append [simp]: "ends_with (s @ p) p"
  by (simp add: ends_with_def)

lemma split_first_append [simp]:
  "c \<notin> set a \<Longrightarrow> split_first c (a @ c # b) = Some (a, b)"
  by (induction a) auto

lemma split_first_None_iff: "split_first c s = None \<longleftrightarrow> c \<notin> set s"
  by (induction s) auto

lemma split_first_SomeD:
  "split_first c s = Some (a, b) \<Longrightarrow> s = a @ c # b \<and> c \<notin> set a"
  by (induction s arbitrary: a b) (auto split: if_splits)

lemma split_on_ne [simp]: "split_on c s \<noteq> []"
  by (induction s) (auto split: list.splits)

lemma split_on_no_sep: "c \<notin> set s \<Longrightarrow> split_on c s = [s]"
  by (induction s) auto

lemma split_on_append:
  "c \<notin> set a \<Longrightarrow> split_on c (a @ c # b) = a # split_on c b"
  by (induction a) auto

text \<open>Joining with a separator no part contains, then splitting, gives the parts back.\<close>

fun join_with :: "char \<Rightarrow> string list \<Rightarrow> string" where
  "join_with c [] = []"
| "join_with c [s] = s"
| "join_with c (s # t # ss) = s @ c # join_with c (t # ss)"

lemma split_on_join_with:
  "ss \<noteq> [] \<Longrightarrow> \<forall>s \<in> set ss. c \<notin> set s \<Longrightarrow> split_on c (join_with c ss) = ss"
  by (induction c ss rule: join_with.induct) (auto simp: split_on_no_sep split_on_append)

lemma contains_append: "contains (a @ p @ b) p"
proof (induction a)
  case Nil
  show ?case
  proof (cases "p @ b")
    case (Cons c s)
    with starts_with_append [of p b] show ?thesis by simp
  qed simp
next
  case (Cons c a)
  then show ?case by simp
qed

section \<open>Unsigned integers as text\<close>

definition digit_char :: "nat \<Rightarrow> char" where
  "digit_char d = (if d < 10 then char_of (48 + d) else char_of (87 + d))"

fun show_base :: "nat \<Rightarrow> nat \<Rightarrow> string" where
  "show_base b n =
     (if b < 2 \<or> n < b then [digit_char n] else show_base b (n div b) @ [digit_char (n mod b)])"

declare show_base.simps [simp del]

definition show_nat :: "nat \<Rightarrow> string" where
  "show_nat n = show_base 10 n"

definition show_hex :: "nat \<Rightarrow> string" where
  "show_hex n = show_base 16 n"

definition digit_val :: "char \<Rightarrow> nat option" where
  "digit_val c = (let n = of_char c :: nat in if 48 \<le> n \<and> n \<le> 57 then Some (n - 48) else None)"

fun parse_digits :: "nat \<Rightarrow> string \<Rightarrow> nat option" where
  "parse_digits acc [] = Some acc"
| "parse_digits acc (c # cs) =
     (case digit_val c of None \<Rightarrow> None | Some d \<Rightarrow> parse_digits (10 * acc + d) cs)"

text \<open>
  \<open>str::parse\<close> at an unsigned type of \<open>bits\<close> bits: one optional leading \<open>+\<close>, at least
  one digit, nothing else, and a value in range.
\<close>

definition parse_uint :: "nat \<Rightarrow> string \<Rightarrow> nat option" where
  "parse_uint bits s =
     (let t = (case s of c # cs \<Rightarrow> if c = CHR ''+'' then cs else s | [] \<Rightarrow> s)
      in if t = [] then None
         else (case parse_digits 0 t of None \<Rightarrow> None
               | Some n \<Rightarrow> if n < 2 ^ bits then Some n else None))"

lemma of_char_digit_char: "d < 10 \<Longrightarrow> of_char (digit_char d) = (48 + d :: nat)"
  by (simp add: digit_char_def)

lemma digit_val_digit_char: "d < 10 \<Longrightarrow> digit_val (digit_char d) = Some d"
  by (simp add: digit_val_def of_char_digit_char)

lemma digit_char_less_iff:
  "d < 10 \<Longrightarrow> e < 10 \<Longrightarrow> digit_char d < digit_char e \<longleftrightarrow> d < e"
  by (simp add: less_char_def of_char_digit_char)

lemma show_base_ne [simp]: "show_base b n \<noteq> []"
  by (subst show_base.simps) simp

lemma show_nat_ne [simp]: "show_nat n \<noteq> []"
  by (simp add: show_nat_def)

lemma show_nat_rec:
  "show_nat n = (if n < 10 then [digit_char n] else show_nat (n div 10) @ [digit_char (n mod 10)])"
  unfolding show_nat_def by (subst show_base.simps) simp

lemma show_nat_digits: "\<forall>c \<in> set (show_nat n). \<exists>d < 10. c = digit_char d"
proof (induction n rule: less_induct)
  case (less n)
  show ?case
  proof (cases "n < 10")
    case True
    then show ?thesis by (auto simp: show_nat_rec [of n])
  next
    case False
    then have IH: "\<forall>c \<in> set (show_nat (n div 10)). \<exists>d < 10. c = digit_char d"
      by (intro less.IH) simp
    have "\<exists>d < 10. digit_char (n mod 10) = digit_char d" by (intro exI [of _ "n mod 10"]) simp
    with IH False show ?thesis by (auto simp: show_nat_rec [of n])
  qed
qed

lemma show_nat_no_char:
  assumes "of_char c < (48 :: nat) \<or> (57 :: nat) < of_char c"
  shows "c \<notin> set (show_nat n)"
proof
  assume "c \<in> set (show_nat n)"
  then obtain d where "d < 10" "c = digit_char d" using show_nat_digits by blast
  with assms show False by (auto simp: of_char_digit_char)
qed

lemma parse_digits_append:
  "parse_digits acc (xs @ ys) =
     (case parse_digits acc xs of None \<Rightarrow> None | Some n \<Rightarrow> parse_digits n ys)"
  by (induction xs arbitrary: acc) (auto split: option.splits)

lemma parse_digits_show_nat: "parse_digits 0 (show_nat n) = Some n"
proof (induction n rule: less_induct)
  case (less n)
  show ?case
  proof (cases "n < 10")
    case True
    then show ?thesis by (simp add: show_nat_rec [of n] digit_val_digit_char)
  next
    case False
    then have "parse_digits 0 (show_nat (n div 10)) = Some (n div 10)"
      by (intro less.IH) simp
    with False show ?thesis
      by (simp add: show_nat_rec [of n] parse_digits_append digit_val_digit_char)
  qed
qed

lemma parse_uint_show_nat: "parse_uint bits (show_nat n) = (if n < 2 ^ bits then Some n else None)"
proof -
  obtain c cs where s: "show_nat n = c # cs" by (cases "show_nat n") auto
  have "CHR ''+'' \<notin> set (show_nat n)" by (rule show_nat_no_char) simp
  with s have "c \<noteq> CHR ''+''" by auto
  with s show ?thesis
    using parse_digits_show_nat [of n] by (simp add: parse_uint_def Let_def)
qed

text \<open>
  Numerals of equal length compare like their values: the fact behind sorting file names
  that start with a timestamp.
\<close>

lemma list_less_append:
  fixes a b :: "'a::linorder list"
  assumes "length a = length b" "a < b"
  shows "a @ xs < b @ ys"
  using assms by (induction a b rule: list_induct2) auto

lemma show_nat_less:
  assumes "length (show_nat m) = length (show_nat n)" "m < n"
  shows "show_nat m < show_nat n"
  using assms
proof (induction n arbitrary: m rule: less_induct)
  case (less n)
  show ?case
  proof (cases "n < 10")
    case True
    with less.prems show ?thesis by (simp add: show_nat_rec [of n] show_nat_rec [of m] digit_char_less_iff)
  next
    case False
    have m10: "\<not> m < 10"
    proof
      assume "m < 10"
      then have "length (show_nat m) = 1" by (simp add: show_nat_rec [of m])
      moreover have "length (show_nat n) = Suc (length (show_nat (n div 10)))"
        using False by (simp add: show_nat_rec [of n])
      ultimately show False using less.prems(1) by simp
    qed
    have len: "length (show_nat (m div 10)) = length (show_nat (n div 10))"
      using less.prems(1) False m10 by (simp add: show_nat_rec [of n] show_nat_rec [of m])
    show ?thesis
    proof (cases "m div 10 < n div 10")
      case True
      then have "show_nat (m div 10) < show_nat (n div 10)"
        using less.IH [of "n div 10" "m div 10"] False len by simp
      then have "show_nat (m div 10) @ [digit_char (m mod 10)]
          < show_nat (n div 10) @ [digit_char (n mod 10)]"
        by (rule list_less_append [OF len])
      with False m10 show ?thesis by (simp add: show_nat_rec [of n] show_nat_rec [of m])
    next
      case F: False
      with less.prems(2) have eq: "m div 10 = n div 10" by (meson div_le_mono le_antisym less_imp_le not_le)
      have "m mod 10 < n mod 10"
        using less.prems(2) eq by (metis add_less_cancel_left div_mult_mod_eq)
      then have "digit_char (m mod 10) < digit_char (n mod 10)"
        by (subst digit_char_less_iff) auto
      with False m10 eq show ?thesis
        by (simp add: show_nat_rec [of n] show_nat_rec [of m] list_less_def lexord_same_pref_iff)
    qed
  qed
qed

section \<open>Slices\<close>

text \<open>\<open>slice::chunks(n)\<close>: the shards of a subscription list.\<close>

fun chunks :: "nat \<Rightarrow> 'a list \<Rightarrow> 'a list list" where
  "chunks n [] = []"
| "chunks n (x # xs) = (if n = 0 then [] else take n (x # xs) # chunks n (drop (n - 1) xs))"

lemma concat_chunks: "0 < n \<Longrightarrow> concat (chunks n xs) = xs"
proof (induction n xs rule: chunks.induct)
  case (2 n x xs)
  then have "concat (chunks n (drop (n - 1) xs)) = drop (n - 1) xs" by simp
  with 2(2) show ?case by (cases n) (simp_all add: append_take_drop_id)
qed simp

lemma chunk_sizes: "c \<in> set (chunks n xs) \<Longrightarrow> length c \<le> n"
  by (induction n xs rule: chunks.induct) (auto split: if_splits)

lemma chunks_nonempty: "0 < n \<Longrightarrow> c \<in> set (chunks n xs) \<Longrightarrow> c \<noteq> []"
  by (induction n xs rule: chunks.induct) auto

end
