(* ===== verification/Timestamps.thy ===== *)
theory Timestamps
  imports Prelude
begin

text \<open>
  Time as the code uses it: an \<open>OffsetDateTime\<close> in UTC and a signed \<open>Duration\<close>, both as
  integer nanoseconds (the timestamp since the Unix epoch), and the truncation to the
  minute of \<open>common/bucket.rs\<close>. The calendar range of the time library is not modelled.
\<close>

type_synonym timestamp = int
type_synonym duration = int

definition seconds :: "int \<Rightarrow> duration" where
  "seconds n = n * 1000000000"

definition minutes :: "int \<Rightarrow> duration" where
  "minutes n = n * 60000000000"

text \<open>The wall-clock fields the truncation reads.\<close>

definition ts_second :: "timestamp \<Rightarrow> int" where
  "ts_second t = (t div 1000000000) mod 60"

definition ts_nanosecond :: "timestamp \<Rightarrow> int" where
  "ts_nanosecond t = t mod 1000000000"

definition floor_to_minute :: "timestamp \<Rightarrow> timestamp" where
  "floor_to_minute ts = ts - seconds (ts_second ts) - ts_nanosecond ts"

definition next_minute_after :: "timestamp \<Rightarrow> timestamp" where
  "next_minute_after now = floor_to_minute now + minutes 1"

definition aligned :: "timestamp \<Rightarrow> bool" where
  "aligned t \<longleftrightarrow> t mod minutes 1 = 0"

lemma minutes_1: "minutes 1 = 60000000000"
  by (simp add: minutes_def)

lemma floor_to_minute_mod: "floor_to_minute ts = ts - ts mod minutes 1"
proof -
  have "ts mod (1000000000 * 60) = 1000000000 * ((ts div 1000000000) mod 60) + ts mod 1000000000"
    by (rule zmod_zmult2_eq) simp
  then show ?thesis
    by (simp add: floor_to_minute_def ts_second_def ts_nanosecond_def seconds_def minutes_def)
qed

lemma floor_to_minute_bounds:
  "floor_to_minute ts \<le> ts" "ts < floor_to_minute ts + minutes 1"
  by (simp_all add: floor_to_minute_mod minutes_1)

lemma aligned_floor [simp]: "aligned (floor_to_minute ts)"
  by (simp add: aligned_def floor_to_minute_mod minutes_1 mod_simps)

lemma floor_aligned: "aligned ts \<Longrightarrow> floor_to_minute ts = ts"
  by (simp add: aligned_def floor_to_minute_mod)

lemma aligned_add_minutes: "aligned t \<Longrightarrow> aligned (t + minutes k)"
  by (simp add: aligned_def minutes_def mod_simps)

lemma aligned_diff_minutes: "aligned t \<Longrightarrow> aligned (t - minutes k)"
  using aligned_add_minutes [of t "- k"] by (simp add: minutes_def)

lemma floor_to_minute_unique:
  assumes "aligned b" "b \<le> ts" "ts < b + minutes 1"
  shows "floor_to_minute ts = b"
proof -
  from assms(1) obtain k where b: "b = minutes 1 * k"
    by (auto simp: aligned_def mod_eq_0_iff_dvd elim: dvdE)
  have "ts mod minutes 1 = (minutes 1 * k + (ts - b)) mod minutes 1" by (simp add: b)
  also have "\<dots> = (ts - b) mod minutes 1" by simp
  also have "\<dots> = ts - b" using assms(2,3) by (intro mod_pos_pos_trivial) auto
  finally have "ts mod minutes 1 = ts - b" .
  then show ?thesis by (simp add: floor_to_minute_mod)
qed

lemma floor_to_minute_mono: "s \<le> t \<Longrightarrow> floor_to_minute s \<le> floor_to_minute t"
proof -
  have eq: "floor_to_minute x = x div minutes 1 * minutes 1" for x
    using minus_mod_eq_div_mult [of x "minutes 1"] by (simp add: floor_to_minute_mod)
  assume "s \<le> t"
  then have "s div minutes 1 \<le> t div minutes 1"
    by (intro zdiv_mono1) (simp_all add: minutes_1)
  then show ?thesis by (simp add: eq minutes_1)
qed

text \<open>
  Truncation to the minute: the result is aligned, not after the timestamp and less than a
  minute before it, and it is the only aligned instant with that property.
\<close>

lemma floor_to_minute_spec:
  "floor_to_minute ts = b \<longleftrightarrow> aligned b \<and> b \<le> ts \<and> ts < b + minutes 1"
  using floor_to_minute_unique floor_to_minute_bounds aligned_floor by blast

lemma next_minute_after_gt: "now < next_minute_after now"
  using floor_to_minute_bounds(2) by (simp add: next_minute_after_def)

end
