(* ===== verification/Core_Types.thy ===== *)
theory Core_Types
  imports Text Timestamps
begin

text \<open>
  The domain types of \<open>oi-core\<close>: exchanges with their codes and parser
  (\<open>exchange.rs\<close>), instruments and their metadata (\<open>instrument.rs\<close>), units and unit
  conversion (\<open>unit.rs\<close>), price quotes (\<open>price.rs\<close>), funding records (\<open>funding.rs\<close>) and
  the error taxonomy (\<open>error.rs\<close>).

  Decimal numbers come from a third-party crate: their type is the parameter \<open>'d\<close>, of
  which the code uses the total order (class \<open>linorder\<close>) and the product, an argument
  \<open>mul\<close> that may panic on overflow.
\<close>

section \<open>Exchanges\<close>

datatype exchange =
  Binance | Bybit | Okx | BingX | KuCoin | Mexc | Bitget | Hyperliquid | Aster

fun exchange_code :: "exchange \<Rightarrow> string" where
  "exchange_code Binance = ''binance''"
| "exchange_code Bybit = ''bybit''"
| "exchange_code Okx = ''okx''"
| "exchange_code BingX = ''bingx''"
| "exchange_code KuCoin = ''kucoin''"
| "exchange_code Mexc = ''mexc''"
| "exchange_code Bitget = ''bitget''"
| "exchange_code Hyperliquid = ''hyperliquid''"
| "exchange_code Aster = ''aster''"

definition all_exchanges :: "exchange list" where
  "all_exchanges = [Binance, Bybit, Okx, BingX, KuCoin, Mexc, Bitget, Hyperliquid, Aster]"

definition exchange_from_str :: "string \<Rightarrow> string + exchange" where
  "exchange_from_str s =
     (let t = to_ascii_lowercase s in
      if t = ''binance'' then Inr Binance
      else if t = ''bybit'' then Inr Bybit
      else if t = ''okx'' then Inr Okx
      else if t = ''bingx'' then Inr BingX
      else if t = ''kucoin'' then Inr KuCoin
      else if t = ''mexc'' then Inr Mexc
      else if t = ''bitget'' then Inr Bitget
      else if t = ''hyperliquid'' then Inr Hyperliquid
      else if t = ''aster'' then Inr Aster
      else Inl (''unknown exchange: '' @ t))"

text \<open>The declaration order, as the linear order of the type.\<close>

fun exchange_rank :: "exchange \<Rightarrow> nat" where
  "exchange_rank Binance = 0"
| "exchange_rank Bybit = 1"
| "exchange_rank Okx = 2"
| "exchange_rank BingX = 3"
| "exchange_rank KuCoin = 4"
| "exchange_rank Mexc = 5"
| "exchange_rank Bitget = 6"
| "exchange_rank Hyperliquid = 7"
| "exchange_rank Aster = 8"

lemma exchange_rank_inj [simp]: "exchange_rank a = exchange_rank b \<longleftrightarrow> a = b"
  by (cases a; cases b) simp_all

instantiation exchange :: linorder
begin

definition less_eq_exchange :: "exchange \<Rightarrow> exchange \<Rightarrow> bool" where
  "less_eq_exchange a b \<longleftrightarrow> exchange_rank a \<le> exchange_rank b"

definition less_exchange :: "exchange \<Rightarrow> exchange \<Rightarrow> bool" where
  "less_exchange a b \<longleftrightarrow> exchange_rank a < exchange_rank b"

instance
proof
  fix a b :: exchange
  assume "a \<le> b" "b \<le> a"
  then have "exchange_rank a = exchange_rank b" by (simp add: less_eq_exchange_def)
  then show "a = b" by simp
qed (auto simp: less_eq_exchange_def less_exchange_def)

end

lemma in_all_exchanges [simp]: "e \<in> set all_exchanges"
  by (cases e) (simp_all add: all_exchanges_def)

lemma all_exchanges_sorted: "sorted all_exchanges" "distinct all_exchanges"
  by (simp_all add: all_exchanges_def less_eq_exchange_def)

lemma exchange_code_inj [simp]: "exchange_code a = exchange_code b \<longleftrightarrow> a = b"
  by (cases a; cases b) simp_all

lemma exchange_code_lower [simp]: "to_ascii_lowercase (exchange_code e) = exchange_code e"
  by (cases e) (simp_all add: to_ascii_lowercase_def lower_char_def Let_def)

lemma exchange_code_no_colon: "CHR '':'' \<notin> set (exchange_code e)"
  by (cases e) simp_all

lemma exchange_code_no_comma: "CHR '','' \<notin> set (exchange_code e)"
  by (cases e) simp_all

lemma exchange_code_ne [simp]: "exchange_code e \<noteq> []"
  by (cases e) simp_all

lemma exchange_from_str_code_lower: "to_ascii_lowercase s = exchange_code e \<Longrightarrow> exchange_from_str s = Inr e"
  by (cases e) (simp_all add: exchange_from_str_def)

lemma exchange_from_str_iff:
  "exchange_from_str s = Inr e \<longleftrightarrow> to_ascii_lowercase s = exchange_code e"
proof
  show "to_ascii_lowercase s = exchange_code e" if "exchange_from_str s = Inr e"
    using that by (auto simp: exchange_from_str_def Let_def split: if_splits)
qed (rule exchange_from_str_code_lower)

section \<open>Units\<close>

datatype unit_kind = Coins | Usd | Contracts

fun to_coins :: "('d \<Rightarrow> 'd \<Rightarrow> 'd rust) \<Rightarrow> unit_kind \<Rightarrow> 'd \<Rightarrow> 'd option \<Rightarrow> 'd option rust" where
  "to_coins mul Coins native multiplier = Ret (Some native)"
| "to_coins mul Contracts native multiplier =
     (case multiplier of None \<Rightarrow> Ret None | Some m \<Rightarrow> map_rust Some (mul native m))"
| "to_coins mul Usd native multiplier = Ret None"

fun to_usd :: "('d \<Rightarrow> 'd \<Rightarrow> 'd rust) \<Rightarrow> unit_kind \<Rightarrow> 'd \<Rightarrow> 'd option \<Rightarrow> 'd option \<Rightarrow> 'd option rust" where
  "to_usd mul Usd native multiplier price = Ret (Some native)"
| "to_usd mul Coins native multiplier price =
     (case price of None \<Rightarrow> Ret None | Some p \<Rightarrow> map_rust Some (mul native p))"
| "to_usd mul Contracts native multiplier price =
     (case (multiplier, price) of
        (Some m, Some p) \<Rightarrow> bind_rust (mul native m) (\<lambda>c. map_rust Some (mul c p))
      | _ \<Rightarrow> Ret None)"

section \<open>Instruments\<close>

record instrument_id =
  id_exchange :: exchange
  id_symbol :: string

definition new_instrument :: "exchange \<Rightarrow> string \<Rightarrow> instrument_id" where
  "new_instrument ex symb = \<lparr>id_exchange = ex, id_symbol = symb\<rparr>"

definition instrument_key :: "instrument_id \<Rightarrow> string" where
  "instrument_key i = exchange_code (id_exchange i) @ '':'' @ id_symbol i"

record 'd instrument_meta =
  meta_id :: instrument_id
  meta_base_asset :: string
  meta_quote_asset :: string
  meta_is_perpetual :: bool
  meta_native_unit :: unit_kind
  meta_contract_multiplier :: "'d option"
  meta_price_tick :: "'d option"
  meta_qty_step :: "'d option"
  meta_active :: bool

lemma new_instrument_simps [simp]:
  "id_exchange (new_instrument ex symb) = ex"
  "id_symbol (new_instrument ex symb) = symb"
  by (simp_all add: new_instrument_def)

lemma new_instrument_inj [simp]: "new_instrument ex a = new_instrument ex b \<longleftrightarrow> a = b"
  by (simp add: new_instrument_def)

lemma new_instrument_eq [simp]: "new_instrument (id_exchange i) (id_symbol i) = i"
  by (simp add: new_instrument_def)

lemma split_key: "split_first CHR '':'' (instrument_key i) = Some (exchange_code (id_exchange i), id_symbol i)"
  by (simp add: instrument_key_def exchange_code_no_colon)

lemma instrument_key_inj [simp]: "instrument_key i = instrument_key j \<longleftrightarrow> i = j"
proof
  assume "instrument_key i = instrument_key j"
  then have "Some (exchange_code (id_exchange i), id_symbol i) = Some (exchange_code (id_exchange j), id_symbol j)"
    using split_key [of i] split_key [of j] by simp
  then show "i = j" by simp
qed simp

section \<open>Prices and funding\<close>

datatype price_source = Mark | Last | Index | Mid

record 'd price_quote =
  quote_instrument :: instrument_id
  quote_price :: 'd
  quote_source :: price_source
  quote_ts :: timestamp

record 'd funding_bar =
  fb_instrument :: instrument_id
  fb_bucket_ts :: timestamp
  fb_recv_ts :: timestamp
  fb_rate :: 'd
  fb_next_funding_ts :: "timestamp option"
  fb_interval_hours :: "u8 option"

record 'd funding_event =
  fe_instrument :: instrument_id
  fe_settlement_ts :: timestamp
  fe_rate :: 'd
  fe_mark_price :: "'d option"

section \<open>Errors\<close>

text \<open>
  An error carries the fixed text of its format string; values interpolated into it from
  other crates (timestamps, I/O errors) are left out. A \<open>Retry-After\<close> is in seconds.
\<close>

datatype exchange_error =
    Transient string string
  | RateLimited "nat option"
  | Auth string
  | Schema string
  | NotFound string
  | Unexpected string

fun is_retryable :: "exchange_error \<Rightarrow> bool" where
  "is_retryable (Transient k m) = True"
| "is_retryable (RateLimited r) = True"
| "is_retryable (Auth m) = False"
| "is_retryable (Schema m) = False"
| "is_retryable (NotFound m) = False"
| "is_retryable (Unexpected m) = False"

datatype core_error =
    ExchangeErr exchange_error
  | Storage string
  | Config string
  | Io string
  | Other string

fun show_retry_after :: "nat option \<Rightarrow> string" where
  "show_retry_after None = ''None''"
| "show_retry_after (Some n) = ''Some('' @ show_nat n @ ''s)''"

fun show_exchange_error :: "exchange_error \<Rightarrow> string" where
  "show_exchange_error (Transient k m) = ''transient error ('' @ k @ ''): '' @ m"
| "show_exchange_error (RateLimited r) = ''rate limited; retry_after='' @ show_retry_after r"
| "show_exchange_error (Auth m) = ''auth error: '' @ m"
| "show_exchange_error (Schema m) = ''schema drift: '' @ m"
| "show_exchange_error (NotFound m) = ''instrument not found: '' @ m"
| "show_exchange_error (Unexpected m) = ''unexpected: '' @ m"

fun show_core_error :: "core_error \<Rightarrow> string" where
  "show_core_error (ExchangeErr e) = show_exchange_error e"
| "show_core_error (Storage m) = ''storage error: '' @ m"
| "show_core_error (Config m) = ''config error: '' @ m"
| "show_core_error (Io m) = ''io: '' @ m"
| "show_core_error (Other m) = ''other: '' @ m"

text \<open>The label \<open>runner.rs\<close> gives a fetch error in its metric.\<close>

fun classify_err :: "exchange_error \<Rightarrow> string" where
  "classify_err (Transient k m) = ''http''"
| "classify_err (RateLimited r) = ''ratelimit''"
| "classify_err (Auth m) = ''auth''"
| "classify_err (Schema m) = ''schema''"
| "classify_err (NotFound m) = ''notfound''"
| "classify_err (Unexpected m) = ''other''"

end
