(* ===== verification/Bars.thy ===== *)
theory Bars
  imports Core_Types
begin

text \<open>
  \<open>oi-core/src/snapshot.rs\<close>: the enrichment of a raw open-interest reading into a sample
  (\<open>enrich\<close>), and the one-minute OHLC bar folded from samples (\<open>start_from_sample\<close>,
  \<open>observe\<close>, \<open>fold_optional\<close>). The abstract specification \<open>bar_spec\<close> says what the bar
  of a list of samples is; folding \<open>observe\<close> over the samples refines it.
\<close>

section \<open>Raw readings and samples\<close>

record 'd raw_oi =
  raw_instrument :: instrument_id
  raw_value :: 'd
  raw_unit :: unit_kind
  raw_bucket_ts :: timestamp
  raw_recv_ts :: timestamp
  raw_price_hint :: "'d price_quote option"

record 'd oi_sample =
  s_instrument :: instrument_id
  s_bucket_ts :: timestamp
  s_recv_ts :: timestamp
  s_native_value :: 'd
  s_native_unit :: unit_kind
  s_oi_coins :: "'d option"
  s_oi_usd :: "'d option"
  s_price_used :: "'d option"

definition enrich ::
  "('d \<Rightarrow> 'd \<Rightarrow> 'd rust) \<Rightarrow> 'd raw_oi \<Rightarrow> 'd instrument_meta \<Rightarrow> 'd option \<Rightarrow> (exchange_error + 'd oi_sample) rust" where
  "enrich mul raw meta price_usd =
     (if raw_instrument raw \<noteq> meta_id meta
      then Ret (Inl (Schema (''instrument mismatch: raw='' @ instrument_key (raw_instrument raw)
                             @ '' meta='' @ instrument_key (meta_id meta))))
      else
        (let mult = meta_contract_multiplier meta;
             price = (case map_option quote_price (raw_price_hint raw) of
                        Some p \<Rightarrow> Some p | None \<Rightarrow> price_usd)
         in bind_rust (to_coins mul (raw_unit raw) (raw_value raw) mult) (\<lambda>coins.
            bind_rust (to_usd mul (raw_unit raw) (raw_value raw) mult price) (\<lambda>usd.
            Ret (Inr \<lparr>s_instrument = raw_instrument raw,
                      s_bucket_ts = raw_bucket_ts raw,
                      s_recv_ts = raw_recv_ts raw,
                      s_native_value = raw_value raw,
                      s_native_unit = raw_unit raw,
                      s_oi_coins = coins,
                      s_oi_usd = usd,
                      s_price_used = price\<rparr>)))))"

section \<open>The bar\<close>

record 'd oi_snapshot =
  b_instrument :: instrument_id
  b_bucket_ts :: timestamp
  b_first_recv_ts :: timestamp
  b_last_recv_ts :: timestamp
  b_samples :: u32
  b_native_unit :: unit_kind
  b_native_open :: 'd
  b_native_high :: 'd
  b_native_low :: 'd
  b_native_close :: 'd
  b_oi_coins_open :: "'d option"
  b_oi_coins_high :: "'d option"
  b_oi_coins_low :: "'d option"
  b_oi_coins_close :: "'d option"
  b_oi_usd_open :: "'d option"
  b_oi_usd_high :: "'d option"
  b_oi_usd_low :: "'d option"
  b_oi_usd_close :: "'d option"
  b_price_used_close :: "'d option"

definition start_from_sample :: "'d oi_sample \<Rightarrow> 'd oi_snapshot" where
  "start_from_sample s =
     \<lparr>b_instrument = s_instrument s,
      b_bucket_ts = s_bucket_ts s,
      b_first_recv_ts = s_recv_ts s,
      b_last_recv_ts = s_recv_ts s,
      b_samples = 1,
      b_native_unit = s_native_unit s,
      b_native_open = s_native_value s,
      b_native_high = s_native_value s,
      b_native_low = s_native_value s,
      b_native_close = s_native_value s,
      b_oi_coins_open = s_oi_coins s,
      b_oi_coins_high = s_oi_coins s,
      b_oi_coins_low = s_oi_coins s,
      b_oi_coins_close = s_oi_coins s,
      b_oi_usd_open = s_oi_usd s,
      b_oi_usd_high = s_oi_usd s,
      b_oi_usd_low = s_oi_usd s,
      b_oi_usd_close = s_oi_usd s,
      b_price_used_close = s_price_used s\<rparr>"

text \<open>The four \<open>&mut\<close> arguments of \<open>fold_optional\<close>, in its order: open, high, low, close.\<close>

type_synonym 'd opt_ohlc = "'d option \<times> 'd option \<times> 'd option \<times> 'd option"

fun fold_optional :: "('d::linorder) opt_ohlc \<Rightarrow> 'd option \<Rightarrow> 'd opt_ohlc" where
  "fold_optional (op, hi, lo, cl) None = (op, hi, lo, cl)"
| "fold_optional (op, hi, lo, cl) (Some v) =
     (if op = None then (Some v, Some v, Some v, Some v)
      else (op,
            (case hi of Some h \<Rightarrow> if v > h then Some v else hi | None \<Rightarrow> hi),
            (case lo of Some l \<Rightarrow> if v < l then Some v else lo | None \<Rightarrow> lo),
            Some v))"

definition observe :: "('d::linorder) oi_snapshot \<Rightarrow> 'd oi_sample \<Rightarrow> exchange_error + 'd oi_snapshot" where
  "observe b s =
     (if s_instrument s \<noteq> b_instrument b \<or> s_bucket_ts s \<noteq> b_bucket_ts b
      then Inl (Schema ''observe: sample bucket does not match bar'')
      else
        (let v = s_native_value s;
             (co, ch, cl, cc) = fold_optional
               (b_oi_coins_open b, b_oi_coins_high b, b_oi_coins_low b, b_oi_coins_close b)
               (s_oi_coins s);
             (uo, uh, ul, uc) = fold_optional
               (b_oi_usd_open b, b_oi_usd_high b, b_oi_usd_low b, b_oi_usd_close b)
               (s_oi_usd s)
         in Inr (b\<lparr>b_samples := saturating_add_u32 (b_samples b) 1,
                   b_last_recv_ts := s_recv_ts s,
                   b_native_close := v,
                   b_native_high := (if v > b_native_high b then v else b_native_high b),
                   b_native_low := (if v < b_native_low b then v else b_native_low b),
                   b_oi_coins_open := co, b_oi_coins_high := ch,
                   b_oi_coins_low := cl, b_oi_coins_close := cc,
                   b_oi_usd_open := uo, b_oi_usd_high := uh,
                   b_oi_usd_low := ul, b_oi_usd_close := uc,
                   b_price_used_close :=
                     (case s_price_used s of Some p \<Rightarrow> Some p | None \<Rightarrow> b_price_used_close b)\<rparr>)))"

text \<open>Folding a sequence of samples into a bar, stopping at the first rejection.\<close>

fun observe_all :: "('d::linorder) oi_snapshot \<Rightarrow> 'd oi_sample list \<Rightarrow> exchange_error + 'd oi_snapshot" where
  "observe_all b [] = Inr b"
| "observe_all b (s # ss) = (case observe b s of Inl e \<Rightarrow> Inl e | Inr b' \<Rightarrow> observe_all b' ss)"

section \<open>Specification\<close>

text \<open>
  The OHLC summary of a list of values, absent when there are none; \<open>bar_spec ss\<close> is the
  bar a non-empty list of samples ought to produce.
\<close>

definition opt_ohlc_of :: "('d::linorder) list \<Rightarrow> 'd opt_ohlc" where
  "opt_ohlc_of vs =
     (if vs = [] then (None, None, None, None)
      else (Some (hd vs), Some (Max (set vs)), Some (Min (set vs)), Some (last vs)))"

definition last_opt :: "'a list \<Rightarrow> 'a option" where
  "last_opt xs = (if xs = [] then None else Some (last xs))"

definition somes :: "('a \<Rightarrow> 'b option) \<Rightarrow> 'a list \<Rightarrow> 'b list" where
  "somes f xs = List.map_filter f xs"

definition bar_spec :: "('d::linorder) oi_sample list \<Rightarrow> 'd oi_snapshot" where
  "bar_spec ss =
     (let s = hd ss; vs = map s_native_value ss;
          (co, ch, cl, cc) = opt_ohlc_of (somes s_oi_coins ss);
          (uo, uh, ul, uc) = opt_ohlc_of (somes s_oi_usd ss)
      in \<lparr>b_instrument = s_instrument s,
          b_bucket_ts = s_bucket_ts s,
          b_first_recv_ts = s_recv_ts s,
          b_last_recv_ts = s_recv_ts (last ss),
          b_samples = of_nat (min (length ss) (2 ^ 32 - 1)),
          b_native_unit = s_native_unit s,
          b_native_open = hd vs, b_native_high = Max (set vs),
          b_native_low = Min (set vs), b_native_close = last vs,
          b_oi_coins_open = co, b_oi_coins_high = ch, b_oi_coins_low = cl, b_oi_coins_close = cc,
          b_oi_usd_open = uo, b_oi_usd_high = uh, b_oi_usd_low = ul, b_oi_usd_close = uc,
          b_price_used_close = last_opt (somes s_price_used ss)\<rparr>)"

definition same_bucket :: "instrument_id \<Rightarrow> timestamp \<Rightarrow> 'd oi_sample list \<Rightarrow> bool" where
  "same_bucket i t ss \<longleftrightarrow> (\<forall>s \<in> set ss. s_instrument s = i \<and> s_bucket_ts s = t)"

section \<open>Observing a sample refines the specification\<close>

definition coins_col :: "'d oi_snapshot \<Rightarrow> 'd opt_ohlc" where
  "coins_col b = (b_oi_coins_open b, b_oi_coins_high b, b_oi_coins_low b, b_oi_coins_close b)"

definition usd_col :: "'d oi_snapshot \<Rightarrow> 'd opt_ohlc" where
  "usd_col b = (b_oi_usd_open b, b_oi_usd_high b, b_oi_usd_low b, b_oi_usd_close b)"

lemma somes_simps [simp]:
  "somes f [] = []"
  "somes f (x # xs) = (case f x of None \<Rightarrow> somes f xs | Some v \<Rightarrow> v # somes f xs)"
  by (simp_all add: somes_def List.map_filter_simps split: option.splits)

lemma somes_append [simp]: "somes f (xs @ ys) = somes f xs @ somes f ys"
  by (induction xs) (auto split: option.splits)

lemma fold_optional_spec:
  "fold_optional (opt_ohlc_of vs) x =
     opt_ohlc_of (vs @ (case x of None \<Rightarrow> [] | Some v \<Rightarrow> [v]))"
proof (cases x)
  case None
  then show ?thesis by (cases "vs = []") (simp_all add: opt_ohlc_of_def)
next
  case (Some v)
  show ?thesis
  proof (cases "vs = []")
    case True
    with Some show ?thesis by (simp add: opt_ohlc_of_def)
  next
    case False
    then show ?thesis
      by (simp only: opt_ohlc_of_def Some if_False append_is_Nil_conv not_Cons_self2 option.case
            fold_optional.simps Max_set_snoc [OF False] Min_set_snoc [OF False]
            hd_append_ne [OF False] last_snoc)
        (simp split: if_splits)
  qed
qed

lemma unat_of_nat_u32: "k < 2 ^ 32 \<Longrightarrow> unat (of_nat k :: u32) = k"
  by (simp add: unat_of_nat)

lemma samples_step:
  "saturating_add_u32 (of_nat (min n (2 ^ 32 - 1))) 1 = of_nat (min (Suc n) (2 ^ 32 - 1))"
proof -
  let ?k = "min n (2 ^ 32 - 1) :: nat" and ?k' = "min (Suc n) (2 ^ 32 - 1) :: nat"
  have "unat (saturating_add_u32 (of_nat ?k) 1) = min (?k + 1) (2 ^ 32 - 1)"
    by (simp only: unat_saturating_add_u32 unat_1) (simp add: unat_of_nat_u32 min_less_iff_disj del: of_nat_min)
  also have "\<dots> = ?k'" by simp
  also have "?k' = unat (of_nat ?k' :: u32)"
    by (rule unat_of_nat_u32 [symmetric]) (simp add: min_less_iff_disj)
  finally show ?thesis by (rule unsigned_word_eqI)
qed

lemma observe_bar_spec:
  assumes ne: "ss \<noteq> []"
    and same: "s_instrument s = s_instrument (hd ss)" "s_bucket_ts s = s_bucket_ts (hd ss)"
  shows "observe (bar_spec ss) s = Inr (bar_spec (ss @ [s]))"
proof -
  obtain co ch cl cc where c: "opt_ohlc_of (somes s_oi_coins ss) = (co, ch, cl, cc)"
    by (cases "opt_ohlc_of (somes s_oi_coins ss)")
  obtain uo uh ul uc where u: "opt_ohlc_of (somes s_oi_usd ss) = (uo, uh, ul, uc)"
    by (cases "opt_ohlc_of (somes s_oi_usd ss)")
  obtain co' ch' cl' cc' where c': "opt_ohlc_of (somes s_oi_coins (ss @ [s])) = (co', ch', cl', cc')"
    by (cases "opt_ohlc_of (somes s_oi_coins (ss @ [s]))")
  obtain uo' uh' ul' uc' where u': "opt_ohlc_of (somes s_oi_usd (ss @ [s])) = (uo', uh', ul', uc')"
    by (cases "opt_ohlc_of (somes s_oi_usd (ss @ [s]))")
  have fc: "fold_optional (co, ch, cl, cc) (s_oi_coins s) = (co', ch', cl', cc')"
    using fold_optional_spec [of "somes s_oi_coins ss" "s_oi_coins s"] c c'
    by (simp split: option.splits)
  have fu: "fold_optional (uo, uh, ul, uc) (s_oi_usd s) = (uo', uh', ul', uc')"
    using fold_optional_spec [of "somes s_oi_usd ss" "s_oi_usd s"] u u'
    by (simp split: option.splits)
  let ?vs = "map s_native_value ss"
  have vs: "?vs \<noteq> []" using ne by simp
  have mx: "Max (set (map s_native_value (ss @ [s]))) =
      (if s_native_value s > Max (set ?vs) then s_native_value s else Max (set ?vs))"
    using Max_set_snoc [OF vs, of "s_native_value s"] by (simp only: map_append list.map)
  have mn: "Min (set (map s_native_value (ss @ [s]))) =
      (if s_native_value s < Min (set ?vs) then s_native_value s else Min (set ?vs))"
    using Min_set_snoc [OF vs, of "s_native_value s"] by (simp only: map_append list.map)
  have pr: "last_opt (somes s_price_used (ss @ [s])) =
      (case s_price_used s of Some p \<Rightarrow> Some p | None \<Rightarrow> last_opt (somes s_price_used ss))"
    by (simp add: last_opt_def split: option.splits)
  have len: "length (ss @ [s]) = Suc (length ss)" by simp
  have hds: "hd (ss @ [s]) = hd ss" "hd (map s_native_value (ss @ [s])) = hd ?vs"
    "last (map s_native_value (ss @ [s])) = s_native_value s" "last (ss @ [s]) = s"
    using ne by (simp_all add: hd_map)
  show ?thesis
    unfolding observe_def bar_spec_def Let_def c u c' u' mx mn pr len hds samples_step [symmetric]
    using same fc fu by (cases "s_price_used s") simp_all
qed

lemma start_bar_spec: "start_from_sample s = bar_spec [s]"
  by (auto simp: start_from_sample_def bar_spec_def opt_ohlc_of_def last_opt_def split: option.splits)

lemma observe_all_bar_spec:
  assumes "same_bucket i t (s # ss)"
  shows "observe_all (bar_spec (s # pre)) ss = Inr (bar_spec (s # pre @ ss))"
  using assms
proof (induction ss arbitrary: pre)
  case Nil
  then show ?case by simp
next
  case (Cons x ss)
  from Cons.prems have x: "s_instrument x = s_instrument s" "s_bucket_ts x = s_bucket_ts s"
    by (auto simp: same_bucket_def)
  have "observe (bar_spec (s # pre)) x = Inr (bar_spec (s # (pre @ [x])))"
    using observe_bar_spec [of "s # pre" x] x by simp
  moreover have "observe_all (bar_spec (s # (pre @ [x]))) ss = Inr (bar_spec (s # (pre @ [x]) @ ss))"
    using Cons.prems by (intro Cons.IH) (auto simp: same_bucket_def)
  ultimately show ?case by simp
qed

section \<open>Invariant of a bar\<close>

fun col_ok :: "('d::linorder) opt_ohlc \<Rightarrow> bool" where
  "col_ok (None, None, None, None) = True"
| "col_ok (Some op, Some hi, Some lo, Some cl) = (lo \<le> op \<and> op \<le> hi \<and> lo \<le> cl \<and> cl \<le> hi)"
| "col_ok _ = False"

definition bar_ok :: "('d::linorder) oi_snapshot \<Rightarrow> bool" where
  "bar_ok b \<longleftrightarrow>
     col_ok (Some (b_native_open b), Some (b_native_high b), Some (b_native_low b), Some (b_native_close b))
     \<and> col_ok (coins_col b) \<and> col_ok (usd_col b) \<and> 1 \<le> unat (b_samples b)"

lemma col_ok_same [simp]: "col_ok (x, x, x, x)"
  by (cases x) auto

lemma col_ok_cases:
  assumes "col_ok c"
  obtains "c = (None, None, None, None)"
    | op hi lo cl where "c = (Some op, Some hi, Some lo, Some cl)"
        "lo \<le> op" "op \<le> hi" "lo \<le> cl" "cl \<le> hi"
  using assms by (cases c rule: col_ok.cases) auto

lemma fold_optional_ok [keeps]: "col_ok c \<Longrightarrow> col_ok (fold_optional c x)"
  by (cases x; erule col_ok_cases) auto

lemma bar_ok_start [keeps]: "bar_ok (start_from_sample s)"
  by (simp add: bar_ok_def start_from_sample_def coins_col_def usd_col_def)

text \<open>What one accepted sample does to every field.\<close>

lemma observe_Inr:
  assumes "observe b s = Inr b'"
  shows "s_instrument s = b_instrument b" "s_bucket_ts s = b_bucket_ts b"
    "b_instrument b' = b_instrument b" "b_bucket_ts b' = b_bucket_ts b"
    "b_first_recv_ts b' = b_first_recv_ts b" "b_native_unit b' = b_native_unit b"
    "b_native_open b' = b_native_open b"
    "b_samples b' = saturating_add_u32 (b_samples b) 1"
    "b_last_recv_ts b' = s_recv_ts s"
    "b_native_close b' = s_native_value s"
    "b_native_high b' = max (s_native_value s) (b_native_high b)"
    "b_native_low b' = min (s_native_value s) (b_native_low b)"
    "coins_col b' = fold_optional (coins_col b) (s_oi_coins s)"
    "usd_col b' = fold_optional (usd_col b) (s_oi_usd s)"
    "b_price_used_close b' = (case s_price_used s of Some p \<Rightarrow> Some p | None \<Rightarrow> b_price_used_close b)"
proof -
  obtain co ch cl cc where c: "fold_optional (coins_col b) (s_oi_coins s) = (co, ch, cl, cc)"
    by (cases "fold_optional (coins_col b) (s_oi_coins s)")
  obtain uo uh ul uc where u: "fold_optional (usd_col b) (s_oi_usd s) = (uo, uh, ul, uc)"
    by (cases "fold_optional (usd_col b) (s_oi_usd s)")
  have same: "s_instrument s = b_instrument b \<and> s_bucket_ts s = b_bucket_ts b"
    using assms by (auto simp: observe_def split: if_splits)
  then show "s_instrument s = b_instrument b" "s_bucket_ts s = b_bucket_ts b" by auto
  note b' = assms [unfolded observe_def Let_def, folded coins_col_def usd_col_def, unfolded c u, simplified same, simplified, symmetric]
  show "b_instrument b' = b_instrument b" "b_bucket_ts b' = b_bucket_ts b"
    "b_first_recv_ts b' = b_first_recv_ts b" "b_native_unit b' = b_native_unit b"
    "b_native_open b' = b_native_open b"
    "b_samples b' = saturating_add_u32 (b_samples b) 1"
    "b_last_recv_ts b' = s_recv_ts s"
    "b_native_close b' = s_native_value s"
    "b_native_high b' = max (s_native_value s) (b_native_high b)"
    "b_native_low b' = min (s_native_value s) (b_native_low b)"
    "coins_col b' = fold_optional (coins_col b) (s_oi_coins s)"
    "usd_col b' = fold_optional (usd_col b) (s_oi_usd s)"
    "b_price_used_close b' = (case s_price_used s of Some p \<Rightarrow> Some p | None \<Rightarrow> b_price_used_close b)"
    unfolding c u by (simp_all add: b' coins_col_def usd_col_def max_as_if min_as_if)
qed

lemma observe_Inr_iff:
  "(\<exists>b'. observe b s = Inr b') \<longleftrightarrow> s_instrument s = b_instrument b \<and> s_bucket_ts s = b_bucket_ts b"
  by (auto simp: observe_def Let_def split: prod.splits)

lemma bar_ok_observe [keeps]:
  assumes "bar_ok b" "observe b s = Inr b'"
  shows "bar_ok b'"
proof -
  note o = observe_Inr [OF assms(2)]
  have "col_ok (Some (b_native_open b'), Some (b_native_high b'), Some (b_native_low b'), Some (b_native_close b'))"
    using assms(1) by (auto simp: bar_ok_def o le_max_iff_disj min_le_iff_disj)
  moreover have "1 \<le> unat (b_samples b')"
    using assms(1) by (simp add: bar_ok_def o unat_saturating_add_u32)
  ultimately show ?thesis
    using assms(1) by (simp add: bar_ok_def o keeps)
qed

section \<open>Properties\<close>

lemma observe_all_ok: "bar_ok b \<Longrightarrow> observe_all b ss = Inr b' \<Longrightarrow> bar_ok b'"
  by (induction ss arbitrary: b) (auto split: sum.splits intro: keeps)

lemma observe_all_frame:
  "observe_all b ss = Inr b' \<Longrightarrow>
     b_instrument b' = b_instrument b \<and> b_bucket_ts b' = b_bucket_ts b
     \<and> b_first_recv_ts b' = b_first_recv_ts b \<and> b_native_open b' = b_native_open b"
  by (induction ss arbitrary: b) (auto split: sum.splits simp: observe_Inr)

lemma enrich_InrD:
  assumes "enrich mul raw meta price_usd = Ret (Inr s)"
  shows "raw_instrument raw = meta_id meta"
    "s_price_used s = (case map_option quote_price (raw_price_hint raw) of Some p \<Rightarrow> Some p | None \<Rightarrow> price_usd)"
    "to_coins mul (raw_unit raw) (raw_value raw) (meta_contract_multiplier meta) = Ret (s_oi_coins s)"
    "to_usd mul (raw_unit raw) (raw_value raw) (meta_contract_multiplier meta) (s_price_used s) = Ret (s_oi_usd s)"
    "s_instrument s = raw_instrument raw" "s_bucket_ts s = raw_bucket_ts raw"
    "s_recv_ts s = raw_recv_ts raw" "s_native_value s = raw_value raw" "s_native_unit s = raw_unit raw"
  using assms by (auto simp: enrich_def Let_def bind_rust_Ret_iff split: if_splits)

lemma to_usd_via_coins:
  assumes "u \<noteq> Usd" "to_coins mul u v m = Ret (Some c)"
  shows "to_usd mul u v m (Some p) = map_rust Some (mul c p)"
  using assms by (cases u) (auto simp: map_rust_Ret_iff split: option.splits)

text \<open>
  C7. Folding \<open>observe\<close> over the samples of one instrument and one minute produces exactly
  the bar of the specification: open is the first value, high and low the maximum and
  minimum, close the last, the coins and USD columns the same over the priced samples only,
  and the sample count saturates at the top of \<open>u32\<close>.
\<close>

theorem fold_is_ohlc_bar:
  assumes "same_bucket i t (s # ss)"
  shows "observe_all (start_from_sample s) ss = Inr (bar_spec (s # ss))"
  using observe_all_bar_spec [OF assms, of "[]"] by (simp add: start_bar_spec)

definition ex_sample :: "int \<Rightarrow> int option \<Rightarrow> timestamp \<Rightarrow> int oi_sample" where
  "ex_sample v c r =
     \<lparr>s_instrument = new_instrument Okx ''BTC-USDT-SWAP'', s_bucket_ts = 0, s_recv_ts = r,
      s_native_value = v, s_native_unit = Contracts, s_oi_coins = c, s_oi_usd = None,
      s_price_used = None\<rparr>"

theorem fold_is_ohlc_bar_witness:
  "observe_all (start_from_sample (ex_sample 100 None 1)) [ex_sample 105 (Some 11) 2, ex_sample 95 (Some 9) 3]
     = Inr (bar_spec [ex_sample 100 None 1, ex_sample 105 (Some 11) 2, ex_sample 95 (Some 9) 3])"
  by (rule fold_is_ohlc_bar [where i = "new_instrument Okx ''BTC-USDT-SWAP''" and t = 0])
    (simp add: same_bucket_def ex_sample_def)

text \<open>
  \<open>observe\<close> rejects exactly the samples of another instrument or another minute, and
  accepting one never changes the identity of the bar, its opening value or the receive
  time of its first sample.
\<close>

theorem observe_accepts_only_own_bucket:
  "(\<exists>e. observe b s = Inl e) = (s_instrument s \<noteq> b_instrument b \<or> s_bucket_ts s \<noteq> b_bucket_ts b)
   \<and> (\<forall>b'. observe b s = Inr b' \<longrightarrow>
        b_instrument b' = b_instrument b \<and> b_bucket_ts b' = b_bucket_ts b
        \<and> b_first_recv_ts b' = b_first_recv_ts b \<and> b_native_open b' = b_native_open b
        \<and> b_native_close b' = s_native_value s \<and> b_last_recv_ts b' = s_recv_ts s)"
  using observe_Inr_iff [of b s] by (cases "observe b s") (auto simp: observe_Inr)

theorem observe_accepts_only_own_bucket_witness:
  "\<exists>b'. observe (start_from_sample (ex_sample 100 None 1)) (ex_sample 7 None 2) = Inr b'
       \<and> b_native_open b' = 100 \<and> b_native_close b' = 7"
proof -
  have "\<not> (\<exists>e. observe (start_from_sample (ex_sample 100 None 1)) (ex_sample 7 None 2) = Inl e)"
    using observe_accepts_only_own_bucket [of "start_from_sample (ex_sample 100 None 1)" "ex_sample 7 None 2"]
    by (simp add: start_from_sample_def ex_sample_def)
  then obtain b' where b': "observe (start_from_sample (ex_sample 100 None 1)) (ex_sample 7 None 2) = Inr b'"
    by (cases "observe (start_from_sample (ex_sample 100 None 1)) (ex_sample 7 None 2)") auto
  with observe_accepts_only_own_bucket [of "start_from_sample (ex_sample 100 None 1)" "ex_sample 7 None 2"]
  show ?thesis by (auto simp: start_from_sample_def ex_sample_def)
qed

text \<open>
  Every bar reachable by folding samples is well formed: in the native column and in
  each priced column low bounds open and close from below and high from above, a priced
  column is either wholly absent or wholly present, and at least one sample is counted.
\<close>

theorem reachable_bar_ok:
  assumes "observe_all (start_from_sample s) ss = Inr b"
  shows "bar_ok b"
  using observe_all_ok [OF bar_ok_start assms] .

theorem reachable_bar_ok_witness:
  "bar_ok (bar_spec [ex_sample 100 None 1, ex_sample 105 (Some 11) 2])"
proof (rule reachable_bar_ok)
  show "observe_all (start_from_sample (ex_sample 100 None 1)) [ex_sample 105 (Some 11) 2]
      = Inr (bar_spec [ex_sample 100 None 1, ex_sample 105 (Some 11) 2])"
    using observe_all_bar_spec [of "new_instrument Okx ''BTC-USDT-SWAP''" 0 "ex_sample 100 None 1" "[ex_sample 105 (Some 11) 2]" "[]"]
    by (simp add: start_bar_spec same_bucket_def ex_sample_def)
qed

text \<open>
  A sample enriched from a coins or contracts reading that has both a coin amount and a
  price has as USD amount the product of the two; the price is the reading's own hint when
  it carries one, and the supplied price otherwise.
\<close>

theorem enrich_usd_is_coins_times_price:
  assumes "enrich mul raw meta price_usd = Ret (Inr s)"
    and "raw_unit raw \<noteq> Usd" "s_oi_coins s = Some c" "s_price_used s = Some p"
  shows "\<exists>u. mul c p = Ret u \<and> s_oi_usd s = Some u
           \<and> (case raw_price_hint raw of Some q \<Rightarrow> p = quote_price q | None \<Rightarrow> price_usd = Some p)"
proof -
  note e = enrich_InrD [OF assms(1)]
  have "to_usd mul (raw_unit raw) (raw_value raw) (meta_contract_multiplier meta) (Some p)
      = map_rust Some (mul c p)"
    using e(3) assms(2,3) by (intro to_usd_via_coins) auto
  with e(4) assms(4) have "map_rust Some (mul c p) = Ret (s_oi_usd s)" by simp
  moreover have "case raw_price_hint raw of Some q \<Rightarrow> p = quote_price q | None \<Rightarrow> price_usd = Some p"
    using e(2) assms(4) by (auto split: option.splits)
  ultimately show ?thesis by (auto simp: map_rust_Ret_iff)
qed

definition ex_meta :: "int instrument_meta" where
  "ex_meta = \<lparr>meta_id = new_instrument Okx ''BTC-USDT-SWAP'', meta_base_asset = ''BTC'',
     meta_quote_asset = ''USDT'', meta_is_perpetual = True, meta_native_unit = Contracts,
     meta_contract_multiplier = Some 10, meta_price_tick = None, meta_qty_step = None, meta_active = True\<rparr>"

definition ex_raw :: "int raw_oi" where
  "ex_raw = \<lparr>raw_instrument = new_instrument Okx ''BTC-USDT-SWAP'', raw_value = 1000,
     raw_unit = Contracts, raw_bucket_ts = 0, raw_recv_ts = 5, raw_price_hint = None\<rparr>"

theorem enrich_usd_is_coins_times_price_witness:
  "\<exists>s. enrich (\<lambda>a b. Ret (a * b)) ex_raw ex_meta (Some 50) = Ret (Inr s)
     \<and> (\<exists>u. Ret ((10000 :: int) * 50) = Ret u \<and> s_oi_usd s = Some u)"
proof -
  obtain s where s: "enrich (\<lambda>a b. Ret (a * b)) ex_raw ex_meta (Some 50) = Ret (Inr s)"
    and f: "s_oi_coins s = Some 10000" "s_price_used s = Some 50"
    by (simp add: enrich_def ex_raw_def ex_meta_def)
  have "\<exists>u. Ret ((10000 :: int) * 50) = Ret u \<and> s_oi_usd s = Some u
      \<and> (case raw_price_hint ex_raw of Some q \<Rightarrow> 50 = quote_price q | None \<Rightarrow> Some (50 :: int) = Some 50)"
    using s f by (intro enrich_usd_is_coins_times_price [where mul = "\<lambda>a b. Ret (a * b)"]) (simp_all add: ex_raw_def)
  with s show ?thesis by blast
qed

end
