(* ===== verification/Aggregator.thy ===== *)
theory Aggregator
  imports Bars "HOL-Library.Multiset"
begin

text \<open>
  \<open>oi-collector/src/aggregator.rs\<close>: the per-instrument map of open bars, with \<open>observe\<close>,
  \<open>current\<close>, \<open>flush_through\<close> and \<open>flush_all\<close>. Each map operation is atomic, as the
  concurrent map guarantees per entry; a flush is the two-phase loop of the code (collect
  the keys, then remove them one by one), modelled both run at once and interleaved with
  concurrent observers.
\<close>

section \<open>Operations\<close>

type_synonym 'd aggregator = "(instrument_id, 'd oi_snapshot) dashmap"

definition agg_observe :: "('d::linorder) aggregator \<Rightarrow> 'd oi_sample \<Rightarrow> 'd aggregator \<times> 'd oi_snapshot" where
  "agg_observe m s =
     (let i = s_instrument s;
          bucket_ts = s_bucket_ts s;
          (m1, b) = (case dm_get m i of
                       Some b \<Rightarrow> (m, b)
                     | None \<Rightarrow> (dm_insert i (start_from_sample s) m, start_from_sample s))
      in if b_bucket_ts b = bucket_ts
         then if b_samples b = 1 \<and> b_last_recv_ts b = s_recv_ts s then (m1, b)
              else (case observe b s of
                      Inl e \<Rightarrow> (m1, b)
                    | Inr b' \<Rightarrow> (dm_insert i b' m1, b'))
         else (dm_insert i (start_from_sample s) m1, start_from_sample s))"

definition agg_current :: "'d aggregator \<Rightarrow> instrument_id \<Rightarrow> 'd oi_snapshot option" where
  "agg_current m i = dm_get m i"

definition flush_keys :: "'d aggregator \<Rightarrow> timestamp \<Rightarrow> instrument_id list" where
  "flush_keys m up_to = map fst (filter (\<lambda>(k, b). b_bucket_ts b \<le> up_to) m)"

fun flush_remove :: "'d aggregator \<Rightarrow> instrument_id list \<Rightarrow> 'd aggregator \<times> 'd oi_snapshot list" where
  "flush_remove m [] = (m, [])"
| "flush_remove m (k # ks) =
     (case dm_get m k of
        Some b \<Rightarrow> (let (m', out) = flush_remove (dm_remove k m) ks in (m', b # out))
      | None \<Rightarrow> flush_remove m ks)"

definition flush_through :: "'d aggregator \<Rightarrow> timestamp \<Rightarrow> 'd aggregator \<times> 'd oi_snapshot list" where
  "flush_through m up_to = flush_remove m (flush_keys m up_to)"

definition flush_all :: "'d aggregator \<Rightarrow> 'd aggregator \<times> 'd oi_snapshot list" where
  "flush_all m = flush_remove m (dm_keys m)"

definition agg_len :: "'d aggregator \<Rightarrow> nat" where
  "agg_len m = length m"

definition agg_is_empty :: "'d aggregator \<Rightarrow> bool" where
  "agg_is_empty m \<longleftrightarrow> m = []"

text \<open>Observing a sequence of samples, keeping only the map.\<close>

definition agg_run :: "('d::linorder) aggregator \<Rightarrow> 'd oi_sample list \<Rightarrow> 'd aggregator" where
  "agg_run m ss = fold (\<lambda>s m. fst (agg_observe m s)) ss m"

section \<open>Invariant\<close>

definition agg_ok :: "('d::linorder) aggregator \<Rightarrow> bool" where
  "agg_ok m \<longleftrightarrow> dm_ok m \<and> (\<forall>i b. dm_get m i = Some b \<longrightarrow> b_instrument b = i \<and> bar_ok b)"

lemma agg_ok_Nil [simp]: "agg_ok []"
  by (simp add: agg_ok_def)

lemma agg_ok_insert: "agg_ok m \<Longrightarrow> b_instrument b = i \<Longrightarrow> bar_ok b \<Longrightarrow> agg_ok (dm_insert i b m)"
  by (auto simp: agg_ok_def dm.get_insert dm.ok_insert)

lemma agg_ok_remove: "agg_ok m \<Longrightarrow> agg_ok (dm_remove i m)"
  by (auto simp: agg_ok_def dm.get_remove dm.ok_remove split: if_splits)

lemma start_simps [simp]:
  "b_instrument (start_from_sample s) = s_instrument s"
  "b_bucket_ts (start_from_sample s) = s_bucket_ts s"
  "b_samples (start_from_sample s) = 1"
  "b_last_recv_ts (start_from_sample s) = s_recv_ts s"
  "b_native_open (start_from_sample s) = s_native_value s"
  "b_native_high (start_from_sample s) = s_native_value s"
  "b_native_close (start_from_sample s) = s_native_value s"
  by (simp_all add: start_from_sample_def)

text \<open>The four outcomes of \<open>observe\<close> in terms of the bar the map held.\<close>

lemma agg_observe_vacant:
  "dm_get m (s_instrument s) = None \<Longrightarrow>
     agg_observe m s = (dm_insert (s_instrument s) (start_from_sample s) m, start_from_sample s)"
  by (simp add: agg_observe_def)

lemma agg_observe_duplicate:
  "dm_get m (s_instrument s) = Some b \<Longrightarrow> b_bucket_ts b = s_bucket_ts s \<Longrightarrow>
     b_samples b = 1 \<Longrightarrow> b_last_recv_ts b = s_recv_ts s \<Longrightarrow> agg_observe m s = (m, b)"
  by (simp add: agg_observe_def)

lemma agg_observe_fold:
  assumes "dm_get m (s_instrument s) = Some b" "b_bucket_ts b = s_bucket_ts s"
    and "b_instrument b = s_instrument s" "\<not> (b_samples b = 1 \<and> b_last_recv_ts b = s_recv_ts s)"
  obtains b' where "observe b s = Inr b'" "agg_observe m s = (dm_insert (s_instrument s) b' m, b')"
proof -
  obtain b' where "observe b s = Inr b'" using observe_Inr_iff [of b s] assms(2,3) by auto
  with assms show ?thesis by (intro that [of b']) (auto simp: agg_observe_def)
qed

lemma agg_observe_roll:
  "dm_get m (s_instrument s) = Some b \<Longrightarrow> b_bucket_ts b \<noteq> s_bucket_ts s \<Longrightarrow>
     agg_observe m s = (dm_insert (s_instrument s) (start_from_sample s) m, start_from_sample s)"
  by (simp add: agg_observe_def)

lemma agg_observe_cases:
  assumes "agg_ok m"
  obtains (vacant) "dm_get m (s_instrument s) = None"
      "agg_observe m s = (dm_insert (s_instrument s) (start_from_sample s) m, start_from_sample s)"
  | (duplicate) b where "dm_get m (s_instrument s) = Some b" "b_bucket_ts b = s_bucket_ts s"
      "b_samples b = 1" "b_last_recv_ts b = s_recv_ts s" "agg_observe m s = (m, b)"
  | (fold) b b' where "dm_get m (s_instrument s) = Some b" "b_bucket_ts b = s_bucket_ts s"
      "\<not> (b_samples b = 1 \<and> b_last_recv_ts b = s_recv_ts s)"
      "observe b s = Inr b'" "agg_observe m s = (dm_insert (s_instrument s) b' m, b')"
  | (roll) b where "dm_get m (s_instrument s) = Some b" "b_bucket_ts b \<noteq> s_bucket_ts s"
      "agg_observe m s = (dm_insert (s_instrument s) (start_from_sample s) m, start_from_sample s)"
proof (cases "dm_get m (s_instrument s)")
  case None
  then show ?thesis by (intro vacant) (auto simp: agg_observe_vacant)
next
  case (Some b)
  with assms have i: "b_instrument b = s_instrument s" by (auto simp: agg_ok_def)
  show ?thesis
  proof (cases "b_bucket_ts b = s_bucket_ts s")
    case True
    show ?thesis
    proof (cases "b_samples b = 1 \<and> b_last_recv_ts b = s_recv_ts s")
      case dup: True
      with Some True show ?thesis by (intro duplicate) (auto simp: agg_observe_duplicate)
    next
      case False
      from agg_observe_fold [OF Some True i False] show ?thesis
        using fold [OF Some True False] by blast
    qed
  next
    case False
    with Some show ?thesis by (intro roll) (auto simp: agg_observe_roll)
  qed
qed

lemma agg_ok_observe [keeps]:
  assumes "agg_ok m"
  shows "agg_ok (fst (agg_observe m s))"
  using assms
proof (cases rule: agg_observe_cases [where s = s])
  case (fold b b')
  from assms fold(1) have b: "b_instrument b = s_instrument s" "bar_ok b"
    by (auto simp: agg_ok_def)
  have "agg_ok (dm_insert (s_instrument s) b' m)"
    using assms bar_ok_observe [OF b(2) fold(4)] b(1) observe_Inr(3) [OF fold(4)]
    by (intro agg_ok_insert) simp_all
  then show ?thesis by (simp only: fold(5) fst_conv)
qed (simp_all add: assms agg_ok_insert bar_ok_start)

lemma agg_ok_run [keeps]: "agg_ok m \<Longrightarrow> agg_ok (agg_run m ss)"
  unfolding agg_run_def by (induction ss arbitrary: m) (simp_all add: agg_ok_observe)

lemma agg_ok_flush_remove [keeps]: "agg_ok m \<Longrightarrow> agg_ok (fst (flush_remove m ks))"
  by (induction m ks rule: flush_remove.induct)
    (auto simp: agg_ok_remove split: option.splits prod.splits)

lemma agg_ok_dm_ok: "agg_ok m \<Longrightarrow> dm_ok m"
  by (simp add: agg_ok_def)

lemma agg_observe_returns_current:
  assumes "agg_ok m"
  shows "dm_get (fst (agg_observe m s)) (s_instrument s) = Some (snd (agg_observe m s))"
  by (cases rule: agg_observe_cases [OF assms, of s])
    (simp_all add: dm.get_insert [OF agg_ok_dm_ok [OF assms]])

lemma agg_observe_other:
  assumes "agg_ok m" "i \<noteq> s_instrument s"
  shows "dm_get (fst (agg_observe m s)) i = dm_get m i"
  by (cases rule: agg_observe_cases [OF assms(1), of s])
    (simp_all add: dm.get_insert [OF agg_ok_dm_ok [OF assms(1)]] assms(2))

section \<open>Flushing\<close>

lemma flush_remove_get:
  assumes "dm_ok m"
  shows "dm_get (fst (flush_remove m ks)) i = (if i \<in> set ks then None else dm_get m i)"
  using assms
  by (induction m ks rule: flush_remove.induct)
    (auto simp: dm.get_remove dm.ok_remove split: option.splits prod.splits)

lemma flush_remove_out:
  assumes "dm_ok m" "distinct ks" "\<forall>k \<in> set ks. dm_get m k \<noteq> None"
  shows "snd (flush_remove m ks) = map (\<lambda>k. the (dm_get m k)) ks"
  using assms
proof (induction m ks rule: flush_remove.induct)
  case (2 m k ks)
  then obtain b where b: "dm_get m k = Some b" by auto
  have "snd (flush_remove (dm_remove k m) ks) = map (\<lambda>j. the (dm_get (dm_remove k m) j)) ks"
    using 2 b by (intro "2.IH"(2) [OF b]) (auto simp: dm.ok_remove dm.get_remove)
  also have "\<dots> = map (\<lambda>j. the (dm_get m j)) ks"
    using "2.prems" by (intro map_cong) (auto simp: dm.get_remove)
  finally show ?case using b by (auto split: prod.splits)
qed simp

lemma in_flush_keys:
  assumes "dm_ok m"
  shows "i \<in> set (flush_keys m t) \<longleftrightarrow> (\<exists>b. dm_get m i = Some b \<and> b_bucket_ts b \<le> t)"
  using dm_get_iff [OF assms] by (force simp: flush_keys_def)

lemma distinct_flush_keys: "dm_ok m \<Longrightarrow> distinct (flush_keys m t)"
  unfolding flush_keys_def dm_ok_def by (induction m) auto

lemma flush_through_get:
  assumes "dm_ok m"
  shows "dm_get (fst (flush_through m t)) i =
    (case dm_get m i of Some b \<Rightarrow> if b_bucket_ts b \<le> t then None else Some b | None \<Rightarrow> None)"
  using assms by (auto simp: flush_through_def flush_remove_get in_flush_keys split: option.splits)

lemma flush_through_out:
  assumes "dm_ok m"
  shows "snd (flush_through m t) = map snd (filter (\<lambda>(k, b). b_bucket_ts b \<le> t) m)"
proof -
  have "snd (flush_through m t) = map (\<lambda>k. the (dm_get m k)) (flush_keys m t)"
    unfolding flush_through_def using assms
    by (intro flush_remove_out) (auto simp: distinct_flush_keys in_flush_keys)
  also have "\<dots> = map snd (filter (\<lambda>(k, b). b_bucket_ts b \<le> t) m)"
    using assms by (auto simp: flush_keys_def dm_get_entry)
  finally show ?thesis .
qed

lemma flush_all_out:
  assumes "dm_ok m"
  shows "flush_all m = ([], map snd m)"
proof -
  have out: "snd (flush_all m) = map snd m"
    unfolding flush_all_def using assms
    by (subst flush_remove_out)
      (auto simp: dm.distinct_keys dm.set_keys [OF assms, unfolded not_None_eq],
       auto simp: dm_keys_def dm_get_entry)
  have "dm_get (fst (flush_all m)) i = None" for i
    using assms dm.set_keys [OF assms, of i] by (auto simp: flush_all_def flush_remove_get)
  from this [of "fst (hd (fst (flush_all m)))"] have "fst (flush_all m) = []"
    by (cases "fst (flush_all m)") (auto simp: dm_get_def)
  with out show ?thesis by (simp add: prod_eq_iff)
qed

section \<open>Abstract specification: the samples behind every open bar\<close>

type_synonym 'd agg_spec = "instrument_id \<Rightarrow> 'd oi_sample list"

definition spec_observe :: "'d agg_spec \<Rightarrow> 'd oi_sample \<Rightarrow> 'd agg_spec" where
  "spec_observe A s =
     (let i = s_instrument s; old = A i in
      A(i := if old = [] \<or> s_bucket_ts (hd old) \<noteq> s_bucket_ts s then [s]
             else if length old = 1 \<and> s_recv_ts (last old) = s_recv_ts s then old
             else old @ [s]))"

definition spec_flush :: "'d agg_spec \<Rightarrow> timestamp \<Rightarrow> 'd agg_spec" where
  "spec_flush A t = (\<lambda>i. if A i \<noteq> [] \<and> s_bucket_ts (hd (A i)) \<le> t then [] else A i)"

definition agg_rel :: "('d::linorder) agg_spec \<Rightarrow> 'd aggregator \<Rightarrow> bool" where
  "agg_rel A m \<longleftrightarrow> agg_ok m \<and>
     (\<forall>i. dm_get m i = (if A i = [] then None else Some (bar_spec (A i)))
        \<and> (A i \<noteq> [] \<longrightarrow> same_bucket i (s_bucket_ts (hd (A i))) (A i)))"

lemma agg_rel_empty [simp]: "agg_rel (\<lambda>_. []) []"
  by (simp add: agg_rel_def)

lemma bar_spec_fields:
  "b_instrument (bar_spec ss) = s_instrument (hd ss)"
  "b_bucket_ts (bar_spec ss) = s_bucket_ts (hd ss)"
  "b_last_recv_ts (bar_spec ss) = s_recv_ts (last ss)"
  "b_samples (bar_spec ss) = of_nat (min (length ss) (2 ^ 32 - 1))"
  by (simp_all add: bar_spec_def Let_def split: prod.splits)

lemma bar_spec_one_sample:
  assumes "ss \<noteq> []"
  shows "b_samples (bar_spec ss) = 1 \<longleftrightarrow> length ss = 1"
proof
  assume "b_samples (bar_spec ss) = 1"
  then have "unat (of_nat (min (length ss) (2 ^ 32 - 1)) :: u32) = 1"
    by (simp add: bar_spec_fields del: of_nat_min)
  then have "min (length ss) (2 ^ 32 - 1) = 1"
    by (subst (asm) unat_of_nat_u32) (simp_all add: min_less_iff_disj)
  then show "length ss = 1" by (simp add: min_def split: if_splits)
qed (simp add: bar_spec_fields)

lemma agg_rel_observe:
  assumes "agg_rel A m"
  shows "agg_rel (spec_observe A s) (fst (agg_observe m s))"
proof -
  let ?i = "s_instrument s"
  have ok: "agg_ok m" and dm: "dm_ok m" using assms by (auto simp: agg_rel_def agg_ok_def)
  have get: "dm_get m ?i = (if A ?i = [] then None else Some (bar_spec (A ?i)))" using assms by (simp add: agg_rel_def)
  have sb: "A ?i \<noteq> [] \<Longrightarrow> same_bucket ?i (s_bucket_ts (hd (A ?i))) (A ?i)" using assms by (simp add: agg_rel_def)
  have hd: "A ?i \<noteq> [] \<Longrightarrow> s_instrument (hd (A ?i)) = ?i" using sb by (simp add: same_bucket_def)
  have new: "spec_observe A s ?i \<noteq> [] \<and> dm_get (fst (agg_observe m s)) ?i = Some (bar_spec (spec_observe A s ?i))
      \<and> same_bucket ?i (s_bucket_ts (hd (spec_observe A s ?i))) (spec_observe A s ?i)"
    using ok
  proof (cases rule: agg_observe_cases [where s = s])
    case vacant
    with get have "A ?i = []" by (simp split: if_splits)
    with vacant show ?thesis
      by (simp add: spec_observe_def Let_def dm.get_insert [OF dm] start_bar_spec same_bucket_def)
  next
    case (duplicate b)
    with get have ne: "A ?i \<noteq> []" and b: "b = bar_spec (A ?i)" by (auto split: if_splits)
    with duplicate have "spec_observe A s ?i = A ?i"
      using bar_spec_one_sample [OF ne] by (simp add: spec_observe_def Let_def bar_spec_fields)
    with duplicate b ne sb show ?thesis by simp
  next
    case (fold b b')
    with get have ne: "A ?i \<noteq> []" and b: "b = bar_spec (A ?i)" by (auto split: if_splits)
    with fold have spec: "spec_observe A s ?i = A ?i @ [s]"
      using bar_spec_one_sample [OF ne] by (auto simp: spec_observe_def Let_def bar_spec_fields)
    have "observe b s = Inr (bar_spec (A ?i @ [s]))"
      using observe_bar_spec [OF ne] fold(2) hd [OF ne] by (simp add: b bar_spec_fields)
    with fold spec ne sb show ?thesis
      by (simp add: dm.get_insert [OF dm] same_bucket_def b bar_spec_fields)
  next
    case (roll b)
    with get have ne: "A ?i \<noteq> []" and b: "b = bar_spec (A ?i)" by (auto split: if_splits)
    with roll show ?thesis
      by (simp add: spec_observe_def Let_def bar_spec_fields dm.get_insert [OF dm] start_bar_spec same_bucket_def)
  qed
  have other: "j \<noteq> ?i \<Longrightarrow> spec_observe A s j = A j \<and> dm_get (fst (agg_observe m s)) j = dm_get m j" for j
    using ok by (simp add: spec_observe_def Let_def agg_observe_other)
  show ?thesis
    unfolding agg_rel_def
  proof (intro conjI allI)
    show "agg_ok (fst (agg_observe m s))" by (rule agg_ok_observe [OF ok])
    fix j
    show "dm_get (fst (agg_observe m s)) j =
        (if spec_observe A s j = [] then None else Some (bar_spec (spec_observe A s j)))"
      using new other [of j] assms by (cases "j = ?i") (simp_all add: agg_rel_def)
    show "spec_observe A s j \<noteq> [] \<longrightarrow> same_bucket j (s_bucket_ts (hd (spec_observe A s j))) (spec_observe A s j)"
      using new other [of j] assms by (cases "j = ?i") (simp_all add: agg_rel_def)
  qed
qed

lemma agg_rel_run: "agg_rel A m \<Longrightarrow> agg_rel (fold (\<lambda>s A. spec_observe A s) ss A) (agg_run m ss)"
  unfolding agg_run_def by (induction ss arbitrary: A m) (simp_all add: agg_rel_observe)

lemma agg_rel_flush:
  assumes "agg_rel A m"
  shows "agg_rel (spec_flush A t) (fst (flush_through m t))"
proof -
  have dm: "dm_ok m" and ok: "agg_ok m" using assms by (auto simp: agg_rel_def agg_ok_def)
  have "agg_ok (fst (flush_through m t))"
    unfolding flush_through_def by (rule agg_ok_flush_remove [OF ok])
  with assms show ?thesis
    by (auto simp: agg_rel_def flush_through_get [OF dm] spec_flush_def bar_spec_fields)
qed

section \<open>A flush interleaved with observers\<close>

text \<open>
  The flusher holds the keys it still has to remove and the bars it has taken; between two
  removals any observer may run.
\<close>

record 'd flushing =
  fl_map :: "'d aggregator"
  fl_todo :: "instrument_id list"
  fl_out :: "'d oi_snapshot list"

datatype 'd flush_event = Observed "'d oi_sample" | RemoveNext

fun flush_event_step :: "('d::linorder) flushing \<Rightarrow> 'd flush_event \<Rightarrow> 'd flushing" where
  "flush_event_step st (Observed s) = st\<lparr>fl_map := fst (agg_observe (fl_map st) s)\<rparr>"
| "flush_event_step st RemoveNext =
     (case fl_todo st of
        [] \<Rightarrow> st
      | k # ks \<Rightarrow>
          (case dm_get (fl_map st) k of
             Some b \<Rightarrow> \<lparr>fl_map = dm_remove k (fl_map st), fl_todo = ks, fl_out = fl_out st @ [b]\<rparr>
           | None \<Rightarrow> st\<lparr>fl_todo := ks\<rparr>))"

definition begin_flush :: "'d aggregator \<Rightarrow> timestamp \<Rightarrow> 'd flushing" where
  "begin_flush m up_to = \<lparr>fl_map = m, fl_todo = flush_keys m up_to, fl_out = []\<rparr>"

definition run_flush :: "('d::linorder) flushing \<Rightarrow> 'd flush_event list \<Rightarrow> 'd flushing" where
  "run_flush st es = fold (\<lambda>e st. flush_event_step st e) es st"

definition flush_inv :: "instrument_id list \<Rightarrow> (timestamp \<Rightarrow> bool) \<Rightarrow> ('d::linorder) flushing \<Rightarrow> bool" where
  "flush_inv ks P st \<longleftrightarrow>
     agg_ok (fl_map st)
     \<and> (\<forall>k \<in> set (fl_todo st). \<exists>b. dm_get (fl_map st) k = Some b \<and> P (b_bucket_ts b))
     \<and> (\<forall>b \<in> set (fl_out st). P (b_bucket_ts b))
     \<and> map b_instrument (fl_out st) @ fl_todo st = ks"

definition event_ok :: "(timestamp \<Rightarrow> bool) \<Rightarrow> 'd flush_event \<Rightarrow> bool" where
  "event_ok P e \<longleftrightarrow> (case e of Observed s \<Rightarrow> P (s_bucket_ts s) | RemoveNext \<Rightarrow> True)"

lemma agg_observe_bucket:
  assumes "agg_ok m"
  shows "b_bucket_ts (snd (agg_observe m s)) = s_bucket_ts s"
  using assms by (cases rule: agg_observe_cases [where s = s]) (simp_all add: observe_Inr)

lemma flush_inv_step [keeps]:
  assumes inv: "flush_inv ks P st" and ev: "event_ok P e" and dist: "distinct ks"
  shows "flush_inv ks P (flush_event_step st e)"
proof (cases e)
  case (Observed s)
  have ok: "agg_ok (fl_map st)" using inv by (simp add: flush_inv_def)
  have "\<exists>b. dm_get (fst (agg_observe (fl_map st) s)) k = Some b \<and> P (b_bucket_ts b)"
    if "k \<in> set (fl_todo st)" for k
  proof (cases "k = s_instrument s")
    case True
    then show ?thesis
      using agg_observe_returns_current [OF ok, of s] agg_observe_bucket [OF ok, of s] ev Observed
      by (simp add: event_ok_def)
  next
    case False
    then show ?thesis using that inv by (simp add: agg_observe_other [OF ok] flush_inv_def)
  qed
  with inv Observed show ?thesis by (simp add: flush_inv_def agg_ok_observe)
next
  case RemoveNext
  show ?thesis
  proof (cases "fl_todo st")
    case Nil
    with inv RemoveNext show ?thesis by simp
  next
    case (Cons k todo)
    with inv obtain b where b: "dm_get (fl_map st) k = Some b" "P (b_bucket_ts b)"
      by (auto simp: flush_inv_def)
    have ok: "agg_ok (fl_map st)" and dm: "dm_ok (fl_map st)"
      using inv by (auto simp: flush_inv_def agg_ok_def)
    have "k \<notin> set todo" using inv dist Cons by (auto simp: flush_inv_def)
    moreover have "b_instrument b = k" using ok b by (simp add: agg_ok_def)
    ultimately show ?thesis
      using inv b RemoveNext Cons
      by (auto simp: flush_inv_def agg_ok_remove dm.get_remove [OF dm])
  qed
qed

lemma flush_inv_run:
  assumes "flush_inv ks P st" "list_all (event_ok P) es" "distinct ks"
  shows "flush_inv ks P (run_flush st es)"
  using assms(1,2) unfolding run_flush_def
proof (induction es arbitrary: st)
  case (Cons e es)
  then have "flush_inv ks P (flush_event_step st e)" by (intro flush_inv_step assms(3)) auto
  with Cons show ?case by simp
qed simp

lemma flush_inv_begin:
  assumes "agg_ok m" "\<And>t. t \<le> up_to \<Longrightarrow> P t"
  shows "flush_inv (flush_keys m up_to) P (begin_flush m up_to)"
  using assms by (auto simp: flush_inv_def begin_flush_def in_flush_keys agg_ok_def)

lemma run_flush_alone:
  "run_flush \<lparr>fl_map = m, fl_todo = ks, fl_out = out\<rparr> (replicate (length ks) RemoveNext)
     = \<lparr>fl_map = fst (flush_remove m ks), fl_todo = [], fl_out = out @ snd (flush_remove m ks)\<rparr>"
  unfolding run_flush_def
  by (induction m ks arbitrary: out rule: flush_remove.induct) (auto split: option.splits prod.splits)

section \<open>Properties\<close>

datatype 'd agg_op = OpObserve "'d oi_sample" | OpFlush timestamp

fun agg_op_step :: "('d::linorder) aggregator \<Rightarrow> 'd agg_op \<Rightarrow> 'd aggregator" where
  "agg_op_step m (OpObserve s) = fst (agg_observe m s)"
| "agg_op_step m (OpFlush t) = fst (flush_through m t)"

fun spec_op_step :: "'d agg_spec \<Rightarrow> 'd agg_op \<Rightarrow> 'd agg_spec" where
  "spec_op_step A (OpObserve s) = spec_observe A s"
| "spec_op_step A (OpFlush t) = spec_flush A t"

lemma agg_rel_ops:
  "agg_rel A m \<Longrightarrow> agg_rel (fold (\<lambda>x A. spec_op_step A x) ops A) (fold (\<lambda>x m. agg_op_step m x) ops m)"
proof (induction ops arbitrary: A m)
  case (Cons x ops)
  then have "agg_rel (spec_op_step A x) (agg_op_step m x)"
    by (cases x) (simp_all add: agg_rel_observe agg_rel_flush)
  with Cons show ?case by simp
qed simp

lemma spec_observe_run:
  assumes "same_bucket i t (s # ss)" "pre = [] \<or> s_recv_ts (hd pre) \<noteq> s_recv_ts s" "A i = s # pre"
  shows "fold (\<lambda>s A. spec_observe A s) ss A i =
     s # (if pre = [] then dropWhile (\<lambda>x. s_recv_ts x = s_recv_ts s) ss else pre @ ss)"
  using assms
proof (induction ss arbitrary: pre A)
  case (Cons x ss)
  have x: "s_instrument x = i" "s_bucket_ts x = s_bucket_ts s" and sb: "same_bucket i t (s # ss)"
    using Cons.prems(1) by (auto simp: same_bucket_def)
  show ?case
  proof (cases "pre = [] \<and> s_recv_ts x = s_recv_ts s")
    case True
    then have "spec_observe A x i = s # []" using Cons.prems(3) x by (simp add: spec_observe_def Let_def)
    from Cons.IH [of "[]" "spec_observe A x"] sb this True show ?thesis by simp
  next
    case False
    then have A: "spec_observe A x i = s # (pre @ [x])" using Cons.prems(3) x
      by (auto simp: spec_observe_def Let_def)
    have "pre @ [x] = [] \<or> s_recv_ts (hd (pre @ [x])) \<noteq> s_recv_ts s"
      using False Cons.prems(2) by (cases pre) auto
    from Cons.IH [of "pre @ [x]" "spec_observe A x", OF sb this A] False show ?thesis by auto
  qed
qed simp

text \<open>
  C6. Refinement: after any sequence of observations and flushes the aggregator holds, for
  every instrument, exactly the bar of the samples the abstract specification attributes to
  its open minute, and no bar where there are none.
\<close>

theorem aggregator_refines_sample_lists:
  "agg_rel (fold (\<lambda>x A. spec_op_step A x) ops (\<lambda>_. [])) (fold (\<lambda>x m. agg_op_step m x) ops [])"
  by (rule agg_rel_ops) simp

text \<open>
  The samples of one instrument and minute, observed in sequence into an aggregator with
  no bar for it, leave the OHLC bar of all of them except those that directly follow the
  first with the receive time of the first, which are dropped.
\<close>

theorem same_minute_samples_fold_into_one_bar:
  assumes "same_bucket i t (s # ss)"
  shows "agg_current (agg_run [] (s # ss)) i =
           Some (bar_spec (s # dropWhile (\<lambda>x. s_recv_ts x = s_recv_ts s) ss))"
proof -
  let ?A = "fold (\<lambda>s A. spec_observe A s) (s # ss) (\<lambda>_. [])"
  have si: "s_instrument s = i" using assms by (simp add: same_bucket_def)
  then have "spec_observe (\<lambda>_. []) s i = [s]" by (simp add: spec_observe_def Let_def)
  then have "?A i = s # dropWhile (\<lambda>x. s_recv_ts x = s_recv_ts s) ss"
    using spec_observe_run [OF assms, of "[]" "spec_observe (\<lambda>_. []) s"] by simp
  moreover have "agg_rel ?A (agg_run [] (s # ss))" by (rule agg_rel_run) simp
  ultimately show ?thesis by (simp add: agg_rel_def agg_current_def)
qed

theorem same_minute_samples_fold_into_one_bar_witness:
  "agg_current (agg_run [] [ex_sample 100 None 1, ex_sample 105 None 1, ex_sample 95 None 2])
      (new_instrument Okx ''BTC-USDT-SWAP'')
     = Some (bar_spec [ex_sample 100 None 1, ex_sample 95 None 2])"
  using same_minute_samples_fold_into_one_bar
    [of "new_instrument Okx ''BTC-USDT-SWAP''" 0 "ex_sample 100 None 1" "[ex_sample 105 None 1, ex_sample 95 None 2]"]
  by (simp add: same_bucket_def ex_sample_def)

text \<open>
  A flush removes exactly the bars of minutes at or before the limit and returns each of
  them once; every later bar stays as it was.
\<close>

theorem flush_partitions_the_bars:
  assumes "agg_ok m" and "flush_through m up_to = (m', out)"
  shows "mset (map snd m) = mset out + mset (map snd m')
    \<and> (\<forall>b \<in> set out. b_bucket_ts b \<le> up_to)
    \<and> (\<forall>i. agg_current m' i =
          (case agg_current m i of Some b \<Rightarrow> if b_bucket_ts b \<le> up_to then None else Some b | None \<Rightarrow> None))"
proof -
  have dm: "dm_ok m" and dm': "dm_ok m'"
    using assms agg_ok_flush_remove [of m "flush_keys m up_to"] by (auto simp: agg_ok_def flush_through_def)
  have get: "dm_get m' i = (case dm_get m i of Some b \<Rightarrow> if b_bucket_ts b \<le> up_to then None else Some b | None \<Rightarrow> None)" for i
    using flush_through_get [OF dm, of up_to i] assms(2) by simp
  let ?P = "\<lambda>(k, b). b_bucket_ts b \<le> up_to"
  have "set m' = set (filter (\<lambda>x. \<not> ?P x) m)"
  proof -
    have "(k, b) \<in> set m' \<longleftrightarrow> (k, b) \<in> set m \<and> \<not> b_bucket_ts b \<le> up_to" for k b
      using get [of k] dm_get_iff [OF dm, of k b] dm_get_iff [OF dm', of k b]
      by (cases "dm_get m k") (auto split: if_splits)
    then show ?thesis by auto
  qed
  moreover have "distinct m'" "distinct (filter (\<lambda>x. \<not> ?P x) m)"
    using dm dm' by (auto simp: dm_ok_def distinct_map)
  ultimately have rest: "mset m' = mset (filter (\<lambda>x. \<not> ?P x) m)"
    by (metis set_eq_iff_mset_eq_distinct)
  have out: "out = map snd (filter ?P m)" using flush_through_out [OF dm, of up_to] assms(2) by simp
  have split: "mset m = mset (filter ?P m) + mset (filter (\<lambda>x. \<not> ?P x) m)"
    unfolding mset_filter by (rule multiset_partition)
  have "mset (map snd m) = mset out + mset (map snd m')"
    unfolding out mset_map rest split image_mset_union by (rule refl)
  moreover have "\<forall>b \<in> set out. b_bucket_ts b \<le> up_to" by (auto simp: out)
  ultimately show ?thesis using get by (simp add: agg_current_def)
qed

theorem flush_partitions_the_bars_witness:
  "mset (map snd (agg_run [] [ex_sample 100 None 1]))
     = mset (map snd (agg_run [] [ex_sample 100 None 1])) + mset (map snd ([] :: int aggregator))"
proof -
  have "flush_through (agg_run [] [ex_sample 100 None 1]) 0
      = ([], map snd (agg_run [] [ex_sample 100 None 1]))"
    by (simp add: agg_run_def agg_observe_vacant dm_insert_def flush_through_def flush_keys_def
        dm_get_def dm_remove_def ex_sample_def)
  from flush_partitions_the_bars [OF agg_ok_run [OF agg_ok_Nil] this] show ?thesis by simp
qed

text \<open>
  A sample of another minute than the open bar's replaces the bar, whichever of the two
  minutes is the later one: the bar observed so far is gone and the new bar counts one sample.
\<close>

theorem other_minute_replaces_open_bar:
  assumes "agg_ok m" "agg_current m (s_instrument s) = Some b" "b_bucket_ts b \<noteq> s_bucket_ts s"
  shows "agg_current (fst (agg_observe m s)) (s_instrument s) = Some (bar_spec [s])"
  using assms
  by (simp add: agg_current_def agg_observe_roll dm.get_insert [OF agg_ok_dm_ok] start_bar_spec)

theorem other_minute_replaces_open_bar_witness:
  "agg_current (fst (agg_observe (agg_run [] [(ex_sample 100 None 1)\<lparr>s_bucket_ts := minutes 1\<rparr>]) (ex_sample 7 None 2)))
      (new_instrument Okx ''BTC-USDT-SWAP'') = Some (bar_spec [ex_sample 7 None 2])"
proof -
  let ?m = "agg_run [] [(ex_sample 100 None 1)\<lparr>s_bucket_ts := minutes 1\<rparr>]"
  have "agg_current ?m (s_instrument (ex_sample 7 None 2))
      = Some (start_from_sample ((ex_sample 100 None 1)\<lparr>s_bucket_ts := minutes 1\<rparr>))"
    by (simp add: agg_run_def agg_observe_vacant agg_current_def dm_insert_def dm_get_def ex_sample_def)
  from other_minute_replaces_open_bar [OF agg_ok_run [OF agg_ok_Nil] this] show ?thesis
    by (simp add: minutes_def ex_sample_def)
qed



text \<open>
  A sample of a later minute that arrives between the two phases of a flush makes the
  flush take the bar of that still open minute: here the bar of minute one leaves in a flush
  through minute zero, and the bar of minute zero is lost.
\<close>

theorem flush_can_take_the_open_minute:
  "let st = run_flush (begin_flush (agg_run [] [ex_sample 100 None 1]) 0)
              [Observed ((ex_sample 7 None 2)\<lparr>s_bucket_ts := minutes 1\<rparr>), RemoveNext]
   in map b_bucket_ts (fl_out st) = [minutes 1] \<and> fl_map st = []"
  by (simp add: run_flush_def begin_flush_def agg_run_def agg_observe_vacant flush_keys_def
      agg_observe_def dm_insert_def dm_get_def dm_remove_def ex_sample_def minutes_def Let_def)

end
