(* ===== verification/Scheduler.thy ===== *)
theory Scheduler
  imports Timestamps
begin

text \<open>
  \<open>oi-collector/src/scheduler.rs\<close>: the minute scheduler. \<open>plan\<close> is the pure decision;
  \<open>next_tick\<close> is one call of \<open>next\<close> at the clock reading \<open>now\<close>, returning the new state,
  the tick and the time slept; \<open>ticks\<close> is the collector loop, whose iteration \<open>i\<close> works for
  the \<open>i\<close>-th duration of a list after its tick.
\<close>

section \<open>Operations\<close>

record minute_tick =
  tick_bucket_ts :: timestamp
  tick_late :: bool

record minute_scheduler =
  sched_offset :: duration
  sched_last_bucket :: "timestamp option"

text \<open>\<open>as_secs() as i64\<close> drops the sub-second part and wraps at \<open>i64\<close>.\<close>

definition new_scheduler :: "duration \<Rightarrow> minute_scheduler" where
  "new_scheduler offset =
     (let secs = (offset div 1000000000) mod 2 ^ 64
      in \<lparr>sched_offset = seconds (if secs < 2 ^ 63 then secs else secs - 2 ^ 64),
          sched_last_bucket = None\<rparr>)"

definition floor_minute :: "timestamp \<Rightarrow> timestamp" where
  "floor_minute ts = ts - seconds (ts_second ts) - ts_nanosecond ts"

definition plan :: "timestamp option \<Rightarrow> timestamp \<Rightarrow> duration \<Rightarrow> timestamp \<times> duration" where
  "plan last_bucket now offset =
     (let target = (case last_bucket of
                      Some b \<Rightarrow> b + minutes 1
                    | None \<Rightarrow> floor_minute now - minutes 1);
          deadline = target + minutes 1 + offset;
          wait = deadline - now
      in (target, wait))"

definition next_tick :: "minute_scheduler \<Rightarrow> timestamp \<Rightarrow> minute_scheduler \<times> minute_tick \<times> duration" where
  "next_tick sched now =
     (let (target, wait) = plan (sched_last_bucket sched) now (sched_offset sched);
          late = (wait \<le> 0 \<and> sched_last_bucket sched \<noteq> None);
          slept = (if wait > 0 then max (wait div 1000000) 0 * 1000000 else 0)
      in (sched\<lparr>sched_last_bucket := Some target\<rparr>,
          \<lparr>tick_bucket_ts = target, tick_late = late\<rparr>,
          slept))"

fun ticks :: "minute_scheduler \<Rightarrow> timestamp \<Rightarrow> duration list \<Rightarrow> minute_tick list" where
  "ticks sched now [] = []"
| "ticks sched now (work # works) =
     (let (sched', tick, slept) = next_tick sched now
      in tick # ticks sched' (now + slept + work) works)"

text \<open>The scheduler state and the clock after the iterations of \<open>ticks\<close>.\<close>

fun after_ticks :: "minute_scheduler \<Rightarrow> timestamp \<Rightarrow> duration list \<Rightarrow> minute_scheduler \<times> timestamp" where
  "after_ticks sched now [] = (sched, now)"
| "after_ticks sched now (work # works) =
     (let (sched', tick, slept) = next_tick sched now
      in after_ticks sched' (now + slept + work) works)"

text \<open>How far the clock is past the deadline of the next bucket (negative: time to wait).\<close>

definition behind :: "minute_scheduler \<Rightarrow> timestamp \<Rightarrow> duration" where
  "behind sched now = - snd (plan (sched_last_bucket sched) now (sched_offset sched))"

section \<open>One call\<close>

lemma floor_minute_eq: "floor_minute = floor_to_minute"
  by (rule ext) (simp add: floor_minute_def floor_to_minute_def)

definition first_bucket :: "minute_scheduler \<Rightarrow> timestamp \<Rightarrow> timestamp" where
  "first_bucket sched now = fst (plan (sched_last_bucket sched) now (sched_offset sched))"

lemma next_tick_simps:
  "sched_last_bucket (fst (next_tick sched now)) = Some (first_bucket sched now)"
  "sched_offset (fst (next_tick sched now)) = sched_offset sched"
  "tick_bucket_ts (fst (snd (next_tick sched now))) = first_bucket sched now"
  "tick_late (fst (snd (next_tick sched now))) \<longleftrightarrow> 0 \<le> behind sched now \<and> sched_last_bucket sched \<noteq> None"
  by (simp_all add: next_tick_def first_bucket_def behind_def plan_def Let_def)

lemma plan_Some: "plan (Some b) now offset = (b + minutes 1, b + minutes 2 + offset - now)"
  by (simp add: plan_def minutes_def Let_def)

lemma slept_bounds:
  assumes "\<not> 0 \<le> behind sched now"
  shows "snd (snd (next_tick sched now)) \<le> - behind sched now"
    and "- behind sched now < snd (snd (next_tick sched now)) + 1000000"
proof -
  obtain target wait where p: "plan (sched_last_bucket sched) now (sched_offset sched) = (target, wait)"
    by (cases "plan (sched_last_bucket sched) now (sched_offset sched)")
  with assms have w: "0 < wait" "behind sched now = - wait" by (simp_all add: behind_def)
  then have "snd (snd (next_tick sched now)) = wait div 1000000 * 1000000"
    by (simp add: next_tick_def p max_def pos_imp_zdiv_nonneg_iff)
  then show "snd (snd (next_tick sched now)) \<le> - behind sched now"
    "- behind sched now < snd (snd (next_tick sched now)) + 1000000"
    using w by simp_all
qed

lemma no_sleep_when_behind: "0 \<le> behind sched now \<Longrightarrow> snd (snd (next_tick sched now)) = 0"
  by (auto simp: next_tick_def behind_def split: prod.splits)

text \<open>Each call moves the next deadline one minute on.\<close>

lemma behind_next:
  "behind (fst (next_tick sched now)) now' =
     behind sched now + (now' - now) - minutes 1"
  by (simp add: behind_def next_tick_simps plan_Some first_bucket_def)
    (simp add: plan_def Let_def minutes_def)

lemma lag_step:
  assumes "0 \<le> work"
  shows "max 0 (behind (fst (next_tick sched now)) (now + snd (snd (next_tick sched now)) + work))
    \<le> max 0 (max 0 (behind sched now) + work - minutes 1)"
proof (cases "0 \<le> behind sched now")
  case True
  then show ?thesis by (simp add: behind_next no_sleep_when_behind)
next
  case False
  with slept_bounds(1) [OF False] show ?thesis by (simp add: behind_next)
qed

section \<open>The loop\<close>

lemma ticks_buckets:
  assumes "sched_last_bucket sched = Some b"
  shows "map tick_bucket_ts (ticks sched now works) = map (\<lambda>k. b + minutes (int k + 1)) [0..<length works]"
  using assms
proof (induction works arbitrary: sched now b)
  case (Cons w works)
  obtain sched' tick slept where n: "next_tick sched now = (sched', tick, slept)"
    by (cases "next_tick sched now")
  have t: "tick_bucket_ts tick = b + minutes 1" "sched_last_bucket sched' = Some (b + minutes 1)"
    using next_tick_simps [of sched now] Cons.prems by (simp_all add: n first_bucket_def plan_Some)
  have "map tick_bucket_ts (ticks sched' (now + slept + w) works)
      = map (\<lambda>k. b + minutes (int (Suc k) + 1)) [0..<length works]"
    using Cons.IH [OF t(2)] by (simp add: minutes_def algebra_simps)
  then show ?case using t(1) by (simp add: n map_upt_Suc del: upt_Suc)
qed simp

lemma ticks_buckets_first:
  "map tick_bucket_ts (ticks sched now works) =
     map (\<lambda>k. first_bucket sched now + minutes (int k)) [0..<length works]"
proof (cases works)
  case (Cons w ws)
  obtain sched' tick slept where n: "next_tick sched now = (sched', tick, slept)"
    by (cases "next_tick sched now")
  have t: "tick_bucket_ts tick = first_bucket sched now" "sched_last_bucket sched' = Some (first_bucket sched now)"
    using next_tick_simps [of sched now] by (simp_all add: n)
  have "map tick_bucket_ts (ticks sched' (now + slept + w) ws)
      = map (\<lambda>k. first_bucket sched now + minutes (int (Suc k))) [0..<length ws]"
    using ticks_buckets [OF t(2)] by (simp add: add.commute)
  then show ?thesis using t(1) Cons by (simp add: n map_upt_Suc minutes_def del: upt_Suc)
qed simp

lemma max_0_diff: "(0 :: int) \<le> p \<Longrightarrow> max 0 a - p \<le> max 0 (a - p)"
  by auto

lemma max_0_drained: "(0 :: int) \<le> p \<Longrightarrow> a \<le> p \<Longrightarrow> max 0 (max 0 a - p) = 0"
  by auto

lemma lag_after:
  assumes "\<forall>w \<in> set works. 0 \<le> w \<and> w \<le> minutes 1 - d" "0 \<le> d"
  shows "(case after_ticks sched now works of (sched', now') \<Rightarrow> max 0 (behind sched' now'))
    \<le> max 0 (max 0 (behind sched now) - int (length works) * d)"
  using assms(1)
proof (induction works arbitrary: sched now)
  case (Cons w works)
  obtain sched' tick slept where n: "next_tick sched now = (sched', tick, slept)"
    by (cases "next_tick sched now")
  let ?l = "max 0 (behind sched' (now + slept + w))"
  have "?l \<le> max 0 (max 0 (behind sched now) + w - minutes 1)"
    using lag_step [of w sched now] Cons.prems by (simp add: n)
  also have "\<dots> \<le> max 0 (max 0 (behind sched now) - d)" using Cons.prems by auto
  finally have l: "?l \<le> max 0 (max 0 (behind sched now) - d)" .
  have "(case after_ticks sched' (now + slept + w) works of (s, t) \<Rightarrow> max 0 (behind s t))
      \<le> max 0 (?l - int (length works) * d)"
    using Cons.prems by (intro Cons.IH) auto
  also have "\<dots> \<le> max 0 (max 0 (behind sched now) - int (length (w # works)) * d)"
  proof -
    have "?l - int (length works) * d \<le> max 0 (max 0 (behind sched now) - d) - int (length works) * d"
      using l by simp
    also have "\<dots> \<le> max 0 (max 0 (behind sched now) - d - int (length works) * d)"
      by (rule max_0_diff) (simp add: assms(2))
    also have "max 0 (behind sched now) - d - int (length works) * d
        = max 0 (behind sched now) - int (length (w # works)) * d" by (simp add: algebra_simps)
    finally show ?thesis by simp
  qed
  finally show ?case by (simp add: n)
qed simp

section \<open>Properties\<close>

text \<open>
  C24. Whatever the clock reads and however long each iteration works, a fresh scheduler
  started at \<open>now\<close> yields the minutes from the last closed one on, each exactly once and in
  order: no minute is skipped or repeated.
\<close>

theorem no_minute_skipped:
  "map tick_bucket_ts (ticks (new_scheduler offset) now works) =
     map (\<lambda>k. floor_to_minute now - minutes 1 + minutes (int k)) [0..<length works]"
  by (simp add: ticks_buckets_first first_bucket_def new_scheduler_def plan_def Let_def floor_minute_eq)

text \<open>
  Recovery: if every iteration works at most a minute less \<open>d\<close>, the backlog shrinks by at
  least \<open>d\<close> per iteration until it is gone, and stays gone.
\<close>

theorem backlog_drains:
  assumes "\<forall>w \<in> set works. 0 \<le> w \<and> w \<le> minutes 1 - d" "0 \<le> d"
    and "behind sched now \<le> int (length works) * d"
    and "after_ticks sched now works = (sched', now')"
  shows "behind sched' now' \<le> 0"
proof -
  have "max 0 (behind sched' now') \<le> max 0 (max 0 (behind sched now) - int (length works) * d)"
    using lag_after [OF assms(1,2), of sched now] assms(4) by simp
  also have "\<dots> = 0"
    by (rule max_0_drained) (simp_all add: assms(2,3))
  finally show ?thesis by simp
qed

theorem backlog_drains_witness:
  "behind \<lparr>sched_offset = seconds 2, sched_last_bucket = Some (minutes 2)\<rparr> (minutes 3 + seconds 45) \<le> 0"
proof (rule backlog_drains)
  let ?s = "\<lparr>sched_offset = seconds 2, sched_last_bucket = Some 0\<rparr>"
  show "\<forall>w \<in> set [seconds 20, seconds 5]. 0 \<le> w \<and> w \<le> minutes 1 - seconds 40"
    by (simp add: seconds_def minutes_def)
  show "0 \<le> seconds 40" by (simp add: seconds_def)
  show "behind ?s (minutes 3 + seconds 20) \<le> int (length [seconds 20, seconds 5]) * seconds 40"
    by (simp add: behind_def plan_Some seconds_def minutes_def)
  show "after_ticks ?s (minutes 3 + seconds 20) [seconds 20, seconds 5]
      = (\<lparr>sched_offset = seconds 2, sched_last_bucket = Some (minutes 2)\<rparr>, minutes 3 + seconds 45)"
    by (simp add: next_tick_def plan_Some seconds_def minutes_def)
qed

text \<open>
  A tick that had to wait fires at its deadline or less than a millisecond before it, and
  is not late; a tick past its deadline fires at once, and is reported late unless it is the
  first.
\<close>

theorem tick_fires_at_deadline:
  assumes "next_tick sched now = (sched', tick, slept)"
    and "deadline = tick_bucket_ts tick + minutes 1 + sched_offset sched"
  shows "if now < deadline
         then now + slept \<le> deadline \<and> deadline < now + slept + 1000000 \<and> \<not> tick_late tick
         else slept = 0 \<and> (tick_late tick \<longleftrightarrow> sched_last_bucket sched \<noteq> None)"
proof -
  have d: "behind sched now = now - deadline"
    using next_tick_simps(3) [of sched now] assms
    by (simp add: behind_def first_bucket_def plan_def Let_def)
  have t: "tick_late tick \<longleftrightarrow> 0 \<le> behind sched now \<and> sched_last_bucket sched \<noteq> None"
    using next_tick_simps(4) [of sched now] assms(1) by simp
  show ?thesis
  proof (cases "now < deadline")
    case True
    then have "\<not> 0 \<le> behind sched now" by (simp add: d)
    from slept_bounds [OF this] this t show ?thesis using assms(1) True by (simp add: d)
  next
    case False
    then show ?thesis using no_sleep_when_behind [of sched now] assms(1) t by (simp add: d)
  qed
qed

theorem tick_fires_at_deadline_witness:
  "65 + (116 :: int) \<le> 182 \<and> minutes 3 + seconds 2 < minutes 1 + seconds 65 + seconds 57 + 1000000"
proof -
  have "next_tick \<lparr>sched_offset = seconds 2, sched_last_bucket = Some (minutes 1)\<rparr> (minutes 1 + seconds 65)
      = (\<lparr>sched_offset = seconds 2, sched_last_bucket = Some (minutes 2)\<rparr>,
         \<lparr>tick_bucket_ts = minutes 2, tick_late = False\<rparr>, seconds 57)"
    by (simp add: next_tick_def plan_Some seconds_def minutes_def)
  from tick_fires_at_deadline [OF this, of "minutes 3 + seconds 2"] show ?thesis
    by (simp add: minutes_def seconds_def)
qed

end
