(* ===== verification/Price_Provider.thy ===== *)
theory Price_Provider
  imports Core_Types "HOL-Library.Multiset"
begin

text \<open>
  \<open>oi-collector/src/price_provider.rs\<close>: the in-memory price cache and the cross-exchange
  fallback. \<open>scan_pass\<close> is the nested loop over \<open>Exchange::all()\<close> and the entries of one
  base asset; its specification is the first eligible entry of the entries sorted by
  exchange, and \<open>price_usd_with_fallback\<close> is specified from it.
\<close>

section \<open>State and operations\<close>

datatype provenance = Native | Fallback exchange bool

record index_entry =
  ie_id :: instrument_id
  ie_quote_canonical :: string

record 'd price_provider =
  pp_prices :: "(instrument_id, 'd \<times> timestamp) dashmap"
  pp_by_base :: "(string, index_entry list) dashmap"
  pp_tolerance :: duration

definition with_tolerance :: "duration \<Rightarrow> 'd price_provider" where
  "with_tolerance tolerance = \<lparr>pp_prices = [], pp_by_base = [], pp_tolerance = tolerance\<rparr>"

definition canonical_base :: "string \<Rightarrow> string" where
  "canonical_base asset = (if to_ascii_uppercase asset = ''XBT'' then ''BTC'' else asset)"

definition canonical_quote :: "string \<Rightarrow> string" where
  "canonical_quote q =
     (if to_ascii_uppercase q \<in> {''USDT'', ''USDC'', ''BUSD'', ''FDUSD'', ''USD'', ''TUSD'', ''DAI''}
      then ''USD-PEG'' else q)"

fun ingest :: "'d price_provider \<Rightarrow> 'd price_quote list \<Rightarrow> 'd price_provider" where
  "ingest pp [] = pp"
| "ingest pp (q # qs) =
     ingest (pp\<lparr>pp_prices := dm_insert (quote_instrument q) (quote_price q, quote_ts q) (pp_prices pp)\<rparr>) qs"

definition register_instrument :: "'d price_provider \<Rightarrow> instrument_id \<Rightarrow> string \<Rightarrow> string \<Rightarrow> 'd price_provider" where
  "register_instrument pp instrument base_asset quote_asset =
     (let base = canonical_base base_asset;
          quot = canonical_quote quote_asset;
          bucket = (case dm_get (pp_by_base pp) base of Some b \<Rightarrow> b | None \<Rightarrow> []);
          bucket' = (if \<exists>e \<in> set bucket. ie_id e = instrument then bucket
                     else bucket @ [\<lparr>ie_id = instrument, ie_quote_canonical = quot\<rparr>])
      in pp\<lparr>pp_by_base := dm_insert base bucket' (pp_by_base pp)\<rparr>)"

definition fresh :: "'d price_provider \<Rightarrow> instrument_id \<Rightarrow> timestamp \<Rightarrow> 'd option" where
  "fresh pp instrument near =
     (case dm_get (pp_prices pp) instrument of
        None \<Rightarrow> None
      | Some (price, ts) \<Rightarrow> if \<bar>near - ts\<bar> \<le> pp_tolerance pp then Some price else None)"

text \<open>\<open>price_usd\<close> of the trait \<open>PriceProvider\<close>.\<close>

definition price_usd :: "'d price_provider \<Rightarrow> instrument_id \<Rightarrow> timestamp \<Rightarrow> 'd option" where
  "price_usd pp instrument near = fresh pp instrument near"

text \<open>The inner loop of \<open>scan_pass\<close>, over the entries of one exchange.\<close>

fun scan_entries ::
  "'d price_provider \<Rightarrow> exchange \<Rightarrow> instrument_id \<Rightarrow> timestamp \<Rightarrow> string option \<Rightarrow> index_entry list
     \<Rightarrow> ('d \<times> provenance) option" where
  "scan_entries pp ex target near req [] = None"
| "scan_entries pp ex target near req (e # es) =
     (if ie_id e = target then scan_entries pp ex target near req es
      else if (case req of Some q \<Rightarrow> ie_quote_canonical e \<noteq> q | None \<Rightarrow> False)
      then scan_entries pp ex target near req es
      else (case fresh pp (ie_id e) near of
              Some p \<Rightarrow> Some (p, Fallback ex (req \<noteq> None))
            | None \<Rightarrow> scan_entries pp ex target near req es))"

fun scan_exchanges ::
  "'d price_provider \<Rightarrow> index_entry list \<Rightarrow> instrument_id \<Rightarrow> timestamp \<Rightarrow> string option \<Rightarrow> exchange list
     \<Rightarrow> ('d \<times> provenance) option" where
  "scan_exchanges pp entries target near req [] = None"
| "scan_exchanges pp entries target near req (ex # exs) =
     (case scan_entries pp ex target near req (filter (\<lambda>e. id_exchange (ie_id e) = ex) entries) of
        Some r \<Rightarrow> Some r
      | None \<Rightarrow> scan_exchanges pp entries target near req exs)"

definition scan_pass ::
  "'d price_provider \<Rightarrow> index_entry list \<Rightarrow> instrument_id \<Rightarrow> timestamp \<Rightarrow> string option \<Rightarrow> ('d \<times> provenance) option" where
  "scan_pass pp entries target near req = scan_exchanges pp entries target near req all_exchanges"

definition price_usd_with_fallback ::
  "'d price_provider \<Rightarrow> instrument_id \<Rightarrow> string \<Rightarrow> string \<Rightarrow> timestamp \<Rightarrow> ('d \<times> provenance) option" where
  "price_usd_with_fallback pp instrument base_asset quote_asset near =
     (case fresh pp instrument near of
        Some p \<Rightarrow> Some (p, Native)
      | None \<Rightarrow>
          (let canonical = canonical_base base_asset;
               target_quote = canonical_quote quote_asset
           in case dm_get (pp_by_base pp) canonical of
                None \<Rightarrow> None
              | Some entries \<Rightarrow>
                  (case scan_pass pp entries instrument near (Some target_quote) of
                     Some found \<Rightarrow> Some found
                   | None \<Rightarrow> scan_pass pp entries instrument near None)))"

section \<open>The nested loop is a search in exchange order\<close>

text \<open>An entry the pass may use: not the target itself, of the required quote, and fresh.\<close>

definition eligible ::
  "'d price_provider \<Rightarrow> instrument_id \<Rightarrow> timestamp \<Rightarrow> string option \<Rightarrow> index_entry \<Rightarrow> bool" where
  "eligible pp target near req e \<longleftrightarrow>
     ie_id e \<noteq> target \<and> (\<forall>q. req = Some q \<longrightarrow> ie_quote_canonical e = q) \<and> fresh pp (ie_id e) near \<noteq> None"

definition entry_exchange :: "index_entry \<Rightarrow> exchange" where
  "entry_exchange e = id_exchange (ie_id e)"

definition donor_result ::
  "'d price_provider \<Rightarrow> timestamp \<Rightarrow> string option \<Rightarrow> index_entry \<Rightarrow> 'd \<times> provenance" where
  "donor_result pp near req e = (the (fresh pp (ie_id e) near), Fallback (entry_exchange e) (req \<noteq> None))"

definition scan_spec ::
  "'d price_provider \<Rightarrow> index_entry list \<Rightarrow> instrument_id \<Rightarrow> timestamp \<Rightarrow> string option \<Rightarrow> ('d \<times> provenance) option" where
  "scan_spec pp entries target near req =
     map_option (donor_result pp near req)
       (find (eligible pp target near req) (sort_key entry_exchange entries))"

lemma scan_entries_find:
  assumes "\<forall>e \<in> set es. entry_exchange e = ex"
  shows "scan_entries pp ex target near req es =
     map_option (donor_result pp near req) (find (eligible pp target near req) es)"
  using assms
  by (induction es) (auto simp: eligible_def donor_result_def split: option.splits)

lemma find_append: "find P (xs @ ys) = (case find P xs of Some x \<Rightarrow> Some x | None \<Rightarrow> find P ys)"
  by (induction xs) auto

lemma scan_exchanges_find:
  "scan_exchanges pp entries target near req exs =
     map_option (donor_result pp near req)
       (find (eligible pp target near req) (concat (map (\<lambda>ex. filter (\<lambda>e. entry_exchange e = ex) entries) exs)))"
proof (induction exs)
  case (Cons ex exs)
  have "scan_entries pp ex target near req (filter (\<lambda>e. id_exchange (ie_id e) = ex) entries)
      = map_option (donor_result pp near req)
          (find (eligible pp target near req) (filter (\<lambda>e. entry_exchange e = ex) entries))"
    by (subst scan_entries_find) (auto simp: entry_exchange_def)
  with Cons show ?case by (simp add: find_append split: option.splits)
qed simp

text \<open>Grouping by the exchanges in order is a stable sort.\<close>

lemma group_mset:
  assumes "distinct ks" "\<forall>x \<in> set xs. f x \<in> set ks"
  shows "mset (concat (map (\<lambda>k. filter (\<lambda>x. f x = k) xs) ks)) = mset xs"
  using assms(2)
proof (induction xs)
  case Nil
  then show ?case by (induction ks) auto
next
  case (Cons x xs)
  have split: "mset (concat (map (\<lambda>k. filter (\<lambda>y. f y = k) (x # xs)) ks'))
      = mset (concat (map (\<lambda>k. filter (\<lambda>y. f y = k) xs) ks')) + (if f x \<in> set ks' then {#x#} else {#})"
    if "distinct ks'" for ks'
    using that by (induction ks') auto
  from Cons split [OF assms(1)] show ?case by simp
qed

lemma sorted_one_group: "sorted (map f (filter (\<lambda>x. f x = k) xs))"
  by (induction xs) auto

lemma group_sorted:
  assumes "sorted ks"
  shows "sorted (map f (concat (map (\<lambda>k. filter (\<lambda>x. f x = k) xs) ks)))"
  using assms by (induction ks) (auto simp: sorted_append sorted_one_group)

lemma group_filter:
  assumes "distinct ks"
  shows "filter (\<lambda>x. f x = k) (concat (map (\<lambda>k. filter (\<lambda>x. f x = k) xs) ks))
    = (if k \<in> set ks then filter (\<lambda>x. f x = k) xs else [])"
  using assms
proof (induction ks)
  case (Cons k' ks)
  have "filter (\<lambda>x. f x = k) (filter (\<lambda>x. f x = k') xs) = (if k = k' then filter (\<lambda>x. f x = k) xs else [])"
    by (auto simp: filter_empty_conv intro: filter_cong)
  with Cons show ?case by auto
qed simp

lemma group_is_stable_sort:
  fixes f :: "'a \<Rightarrow> 'k::linorder"
  assumes "sorted ks" "distinct ks" "\<forall>x \<in> set xs. f x \<in> set ks"
  shows "concat (map (\<lambda>k. filter (\<lambda>x. f x = k) xs) ks) = sort_key f xs"
proof -
  let ?g = "concat (map (\<lambda>k. filter (\<lambda>x. f x = k) xs) ks)"
  have grp: "filter (\<lambda>y. f x = f y) ?g = filter (\<lambda>y. f x = f y) xs" if "x \<in> set ?g" for x
  proof -
    have "f x \<in> set ks" using that by auto
    with group_filter [OF assms(2), of f "f x" xs] show ?thesis by (simp add: eq_commute)
  qed
  show ?thesis
    by (rule properties_for_sort_key [symmetric, OF group_mset [OF assms(2,3)] grp group_sorted [OF assms(1)]])
qed

lemma scan_pass_spec: "scan_pass pp entries target near req = scan_spec pp entries target near req"
  unfolding scan_pass_def scan_spec_def scan_exchanges_find
  by (subst group_is_stable_sort) (simp_all add: all_exchanges_sorted)

lemma find_sort_key_least:
  fixes f :: "'a \<Rightarrow> 'k::linorder"
  assumes "find P (sort_key f xs) = Some x"
  shows "x \<in> set xs" "P x" "\<And>y. y \<in> set xs \<Longrightarrow> P y \<Longrightarrow> f x \<le> f y"
proof -
  obtain i where i: "i < length (sort_key f xs)" "P (sort_key f xs ! i)" "x = sort_key f xs ! i"
    and before: "\<forall>j < i. \<not> P (sort_key f xs ! j)"
    using assms by (auto simp: find_Some_iff)
  then show "x \<in> set xs" "P x" using nth_mem [OF i(1)] by auto
  fix y assume "y \<in> set xs" "P y"
  then obtain j where j: "j < length (sort_key f xs)" "y = sort_key f xs ! j"
    by (metis in_set_conv_nth set_sort)
  with before \<open>P y\<close> have "i \<le> j" by (meson not_le)
  then have "map f (sort_key f xs) ! i \<le> map f (sort_key f xs) ! j"
    using j(1) by (intro sorted_nth_mono sorted_sort_key) simp_all
  then show "f x \<le> f y" using i j by simp
qed

lemma scan_pass_Some:
  assumes "scan_pass pp entries target near req = Some (p, prov)"
  obtains e where "e \<in> set entries" "eligible pp target near req e"
    "fresh pp (ie_id e) near = Some p" "prov = Fallback (entry_exchange e) (req \<noteq> None)"
    "\<And>e'. e' \<in> set entries \<Longrightarrow> eligible pp target near req e' \<Longrightarrow> entry_exchange e \<le> entry_exchange e'"
proof -
  from assms obtain e where e: "find (eligible pp target near req) (sort_key entry_exchange entries) = Some e"
    and r: "donor_result pp near req e = (p, prov)"
    by (auto simp: scan_pass_spec scan_spec_def)
  note l = find_sort_key_least [OF e]
  show thesis
    using l r by (intro that [of e]) (auto simp: donor_result_def eligible_def)
qed

lemma scan_pass_None:
  "scan_pass pp entries target near req = None \<longleftrightarrow> (\<forall>e \<in> set entries. \<not> eligible pp target near req e)"
  by (auto simp: scan_pass_spec scan_spec_def find_None_iff)

lemma eligible_weaken: "eligible pp target near req e \<Longrightarrow> eligible pp target near None e"
  by (simp add: eligible_def)

lemma fallback_None:
  "price_usd_with_fallback pp i base qt near = None \<longleftrightarrow>
     fresh pp i near = None \<and>
     (\<forall>entries. dm_get (pp_by_base pp) (canonical_base base) = Some entries \<longrightarrow>
        (\<forall>e \<in> set entries. \<not> eligible pp i near None e))"
proof -
  have "scan_pass pp es i near None \<noteq> None" if "scan_pass pp es i near (Some q) = Some r" for es q r
  proof
    assume "scan_pass pp es i near None = None"
    then have "scan_pass pp es i near (Some q) = None"
      unfolding scan_pass_None by (blast dest: eligible_weaken)
    with that show False by simp
  qed
  note strict = this
  show ?thesis
  proof (cases "dm_get (pp_by_base pp) (canonical_base base)")
    case None
    then show ?thesis by (simp add: price_usd_with_fallback_def Let_def split: option.split)
  next
    case (Some es)
    with strict [of es "canonical_quote qt"] show ?thesis
      by (cases "scan_pass pp es i near (Some (canonical_quote qt))")
        (simp_all add: price_usd_with_fallback_def scan_pass_None [symmetric] split: option.split)
  qed
qed

section \<open>Registration and ingestion\<close>

definition index_ok :: "'d price_provider \<Rightarrow> bool" where
  "index_ok pp \<longleftrightarrow> dm_ok (pp_prices pp) \<and> dm_ok (pp_by_base pp)
     \<and> (\<forall>b es. dm_get (pp_by_base pp) b = Some es \<longrightarrow> distinct (map ie_id es))"

lemma index_ok_empty [simp]: "index_ok (with_tolerance t)"
  by (simp add: index_ok_def with_tolerance_def)

lemma index_ok_register [keeps]: "index_ok pp \<Longrightarrow> index_ok (register_instrument pp j b q)"
  by (auto simp: index_ok_def register_instrument_def Let_def dm.ok_insert dm.get_insert
      split: option.splits if_splits)

lemma index_ok_ingest [keeps]: "index_ok pp \<Longrightarrow> index_ok (ingest pp qs)"
  by (induction pp qs rule: ingest.induct) (auto simp: index_ok_def dm.ok_insert)

lemma register_prices [simp]: "pp_prices (register_instrument pp j b q) = pp_prices pp"
  by (simp add: register_instrument_def Let_def)

lemma register_tolerance [simp]: "pp_tolerance (register_instrument pp j b q) = pp_tolerance pp"
  by (simp add: register_instrument_def Let_def)

lemma fresh_register [simp]: "fresh (register_instrument pp j b q) i near = fresh pp i near"
  by (simp add: fresh_def split: option.split)

lemma registered:
  assumes "index_ok pp"
  shows "\<exists>es. dm_get (pp_by_base (register_instrument pp j b q)) (canonical_base b) = Some es
    \<and> (\<exists>e \<in> set es. ie_id e = j)"
  using assms by (auto simp: register_instrument_def Let_def index_ok_def dm.get_insert)

lemma dm_get_ingest:
  "dm_ok (pp_prices pp) \<Longrightarrow> dm_get (pp_prices (ingest pp qs)) i =
     (case find (\<lambda>q. quote_instrument q = i) (rev qs) of
        Some q \<Rightarrow> Some (quote_price q, quote_ts q) | None \<Rightarrow> dm_get (pp_prices pp) i)"
proof (induction pp qs rule: ingest.induct)
  case (2 pp q qs)
  then show ?case
    by (auto simp: dm.ok_insert dm.get_insert find_append split: option.splits)
qed simp

section \<open>Properties\<close>

text \<open>
  The nested loops of \<open>scan_pass\<close> return the first eligible entry in the stable order by
  exchange: donors are tried in the order of \<open>Exchange::all()\<close>, and within one exchange in
  the order of registration.
\<close>

theorem scan_pass_is_search_in_exchange_order:
  "scan_pass pp entries target near req =
     map_option (donor_result pp near req)
       (find (eligible pp target near req) (sort_key entry_exchange entries))"
  by (simp only: scan_pass_spec scan_spec_def)

text \<open>
  C37. A borrowed price comes from a registered instrument of the same canonical base, not the
  target itself, with a fresh quote, and no eligible donor of an earlier exchange exists; a
  strict match has the target's canonical quote, and a loose one is used only when no donor of
  the target's quote family is fresh.
\<close>

theorem borrowed_price_is_from_best_donor:
  assumes "price_usd_with_fallback pp i base qt near = Some (p, Fallback ex strict)"
  shows "fresh pp i near = None \<and>
    (\<exists>entries e. dm_get (pp_by_base pp) (canonical_base base) = Some entries \<and> e \<in> set entries
      \<and> ie_id e \<noteq> i \<and> id_exchange (ie_id e) = ex \<and> fresh pp (ie_id e) near = Some p
      \<and> (strict \<longrightarrow> ie_quote_canonical e = canonical_quote qt)
      \<and> (\<forall>e' \<in> set entries. eligible pp i near (if strict then Some (canonical_quote qt) else None) e'
            \<longrightarrow> ex \<le> entry_exchange e')
      \<and> (\<not> strict \<longrightarrow> (\<forall>e' \<in> set entries. \<not> eligible pp i near (Some (canonical_quote qt)) e')))"
proof -
  from assms obtain entries where es: "dm_get (pp_by_base pp) (canonical_base base) = Some entries"
    and n: "fresh pp i near = None"
    and scan: "scan_pass pp entries i near (Some (canonical_quote qt)) = Some (p, Fallback ex strict)
      \<or> scan_pass pp entries i near (Some (canonical_quote qt)) = None
         \<and> scan_pass pp entries i near None = Some (p, Fallback ex strict)"
    by (auto simp: price_usd_with_fallback_def Let_def split: option.splits)
  from scan show ?thesis
  proof
    assume "scan_pass pp entries i near (Some (canonical_quote qt)) = Some (p, Fallback ex strict)"
    then show ?thesis
      by (rule scan_pass_Some) (use es n in \<open>auto simp: eligible_def entry_exchange_def\<close>)
  next
    assume loose: "scan_pass pp entries i near (Some (canonical_quote qt)) = None
      \<and> scan_pass pp entries i near None = Some (p, Fallback ex strict)"
    then have none: "\<forall>e \<in> set entries. \<not> eligible pp i near (Some (canonical_quote qt)) e"
      by (simp add: scan_pass_None)
    from loose have "scan_pass pp entries i near None = Some (p, Fallback ex strict)" ..
    then show ?thesis
    proof (rule scan_pass_Some)
      fix e
      assume e: "e \<in> set entries" "eligible pp i near None e" "fresh pp (ie_id e) near = Some p"
        "Fallback ex strict = Fallback (entry_exchange e) (None \<noteq> None)"
        "\<And>e'. e' \<in> set entries \<Longrightarrow> eligible pp i near None e' \<Longrightarrow> entry_exchange e \<le> entry_exchange e'"
      then have "ie_id e \<noteq> i" "ex = id_exchange (ie_id e)" "\<not> strict"
        by (auto simp: eligible_def entry_exchange_def)
      with es n none e show ?thesis by (auto simp: entry_exchange_def)
    qed
  qed
qed

definition ex_provider :: "int price_provider" where
  "ex_provider =
     ingest (register_instrument (register_instrument (with_tolerance (minutes 5))
        (new_instrument Mexc ''BTC_USDT'') ''BTC'' ''USDT'')
        (new_instrument KuCoin ''XBTUSDTM'') ''XBT'' ''USDC'')
       [\<lparr>quote_instrument = new_instrument KuCoin ''XBTUSDTM'', quote_price = 64995,
         quote_source = Mark, quote_ts = 0\<rparr>]"

lemma ex_provider_result:
  "price_usd_with_fallback ex_provider (new_instrument Mexc ''BTC_USDT'') ''BTC'' ''USDT'' (minutes 1)
     = Some (64995, Fallback KuCoin True)"
  by code_simp

theorem borrowed_price_is_from_best_donor_witness:
  "fresh ex_provider (new_instrument Mexc ''BTC_USDT'') (minutes 1) = None"
  using borrowed_price_is_from_best_donor [OF ex_provider_result] by (rule conjunct1)

text \<open>
  Completeness: no price is found exactly when the instrument's own quote is missing or
  stale and no other registered instrument of its canonical base has a fresh one.
\<close>

theorem no_price_iff_no_fresh_source:
  "price_usd_with_fallback pp i base qt near = None \<longleftrightarrow>
     fresh pp i near = None \<and>
     (\<forall>entries. dm_get (pp_by_base pp) (canonical_base base) = Some entries \<longrightarrow>
        (\<forall>e \<in> set entries. ie_id e = i \<or> fresh pp (ie_id e) near = None))"
  unfolding fallback_None by (auto simp: eligible_def)

theorem no_price_iff_no_fresh_source_witness:
  "price_usd_with_fallback ex_provider (new_instrument Mexc ''BTC_USDT'') ''BTC'' ''USDT'' (minutes 6) = None"
proof -
  have "fresh ex_provider (new_instrument Mexc ''BTC_USDT'') (minutes 6) = None" by code_simp
  moreover have "dm_get (pp_by_base ex_provider) (canonical_base ''BTC'') =
      Some [\<lparr>ie_id = new_instrument Mexc ''BTC_USDT'', ie_quote_canonical = ''USD-PEG''\<rparr>,
            \<lparr>ie_id = new_instrument KuCoin ''XBTUSDTM'', ie_quote_canonical = ''USD-PEG''\<rparr>]" by code_simp
  moreover have "fresh ex_provider (new_instrument KuCoin ''XBTUSDTM'') (minutes 6) = None" by code_simp
  ultimately show ?thesis by (simp add: no_price_iff_no_fresh_source)
qed

text \<open>
  Every price returned, native or borrowed, was quoted within the tolerance of the
  requested time, on either side of it.
\<close>

theorem returned_price_is_within_tolerance:
  assumes "price_usd_with_fallback pp i base qt near = Some (p, prov)"
  shows "\<exists>j ts. dm_get (pp_prices pp) j = Some (p, ts) \<and> \<bar>near - ts\<bar> \<le> pp_tolerance pp
     \<and> (prov = Native \<longrightarrow> j = i)"
proof -
  have fr: "fresh pp j near = Some p \<Longrightarrow> \<exists>ts. dm_get (pp_prices pp) j = Some (p, ts) \<and> \<bar>near - ts\<bar> \<le> pp_tolerance pp" for j
    by (auto simp: fresh_def split: option.splits if_splits)
  show ?thesis
  proof (cases "fresh pp i near")
    case (Some p')
    with assms fr [of i] show ?thesis by (auto simp: price_usd_with_fallback_def)
  next
    case None
    with assms obtain entries req where "scan_pass pp entries i near req = Some (p, prov)"
      by (auto simp: price_usd_with_fallback_def Let_def split: option.splits)
    then show ?thesis by (rule scan_pass_Some) (use fr in blast)
  qed
qed

theorem returned_price_is_within_tolerance_witness:
  "\<exists>j ts. dm_get (pp_prices ex_provider) j = Some (64995, ts) \<and> \<bar>minutes 1 - ts\<bar> \<le> pp_tolerance ex_provider"
  using returned_price_is_within_tolerance [OF ex_provider_result] by blast

end
