(* ===== verification/Lease.thy ===== *)
theory Lease
  imports Prelude
begin

text \<open>
  \<open>oi-replication/src/failover.rs\<close>: the Redis lease that elects the writing collector.

  Redis is outside the repository; of it the model states what the two commands the code
  sends do to one key with an expiry (\<open>SET NX PX\<close>, and the script \<open>REFRESH_IF_OWNED\<close>, whose
  text is in the source). A cluster is the key, the clock and every node's flag; between the
  execution of a node's command and the store of its result anything may happen, and a
  reply, or the command itself, may be lost. Times are in milliseconds. A node is named by
  its \<open>node_id\<close>; two nodes are never configured with the same one.
\<close>

section \<open>Configuration and handle\<close>

record lease_config =
  lc_redis_url :: string
  lc_node_id :: string
  lc_key :: string
  lc_ttl :: int
  lc_refresh_interval :: int

definition new_lease_config :: "string \<Rightarrow> string \<Rightarrow> lease_config" where
  "new_lease_config uuid redis_url =
     \<lparr>lc_redis_url = redis_url, lc_node_id = uuid, lc_key = ''oi:lease:writer'',
      lc_ttl = 15000, lc_refresh_interval = 5000\<rparr>"

definition with_node_id :: "lease_config \<Rightarrow> string \<Rightarrow> lease_config" where
  "with_node_id lc i = lc\<lparr>lc_node_id := i\<rparr>"

section \<open>The key in Redis\<close>

type_synonym redis_key = "(string \<times> int) option"

definition key_value :: "redis_key \<Rightarrow> int \<Rightarrow> string option" where
  "key_value k now = (case k of Some (v, expires) \<Rightarrow> if now < expires then Some v else None | None \<Rightarrow> None)"

datatype failover_error = Redis_Error

definition set_nx_px :: "string \<Rightarrow> int \<Rightarrow> int \<Rightarrow> redis_key \<Rightarrow> redis_key \<times> (failover_error + string option)" where
  "set_nx_px v ttl_ms now k =
     (if ttl_ms \<le> 0 then (k, Inl Redis_Error)
      else if key_value k now = None then (Some (v, now + ttl_ms), Inr (Some ''OK''))
      else (k, Inr None))"

definition refresh_if_owned :: "string \<Rightarrow> int \<Rightarrow> int \<Rightarrow> redis_key \<Rightarrow> redis_key \<times> int" where
  "refresh_if_owned v ttl_ms now k =
     (if key_value k now = Some v then (Some (v, now + ttl_ms), 1) else (k, 0))"

section \<open>One iteration of the supervisor\<close>

definition lease_tick ::
  "lease_config \<Rightarrow> redis_key \<Rightarrow> int \<Rightarrow> bool \<Rightarrow> redis_key \<times> (failover_error + bool)" where
  "lease_tick cfg k now currently_leader =
     (if currently_leader
      then (let (k', refreshed) = refresh_if_owned (lc_node_id cfg) (lc_ttl cfg) now k
            in (k', Inr (refreshed = 1)))
      else (let (k', acquired) = set_nx_px (lc_node_id cfg) (lc_ttl cfg) now k
            in (k', case acquired of Inl e \<Rightarrow> Inl e | Inr a \<Rightarrow> Inr (a \<noteq> None))))"

text \<open>What \<open>run_loop\<close> stores in the flag after a tick.\<close>

fun run_loop_store :: "bool \<Rightarrow> failover_error + bool \<Rightarrow> bool" where
  "run_loop_store held (Inr new_state) = (if new_state \<noteq> held then new_state else held)"
| "run_loop_store held (Inl e) = (if held then False else held)"

section \<open>The cluster\<close>

text \<open>
  \<open>ls_grant n\<close> is ghost state: when Redis last executed a command of \<open>n\<close> that left \<open>n\<close> the
  owner of the key.
\<close>

record lease_sys =
  ls_now :: int
  ls_key :: redis_key
  ls_leader :: "string \<Rightarrow> bool"
  ls_reply :: "string \<Rightarrow> (failover_error + bool) option"
  ls_grant :: "string \<Rightarrow> int"

datatype link = Up | LostReply | Down

definition lease_init :: lease_sys where
  "lease_init = \<lparr>ls_now = 0, ls_key = None, ls_leader = (\<lambda>_. False), ls_reply = (\<lambda>_. None), ls_grant = (\<lambda>_. 0)\<rparr>"

text \<open>
  Node \<open>n\<close> executes its tick over a link: the command reaches Redis unless the link is down,
  and its result comes back only if the link is up.
\<close>

definition exec_tick :: "(string \<Rightarrow> lease_config) \<Rightarrow> string \<Rightarrow> link \<Rightarrow> lease_sys \<Rightarrow> lease_sys" where
  "exec_tick cfg n l s =
     (let (k, res) = lease_tick (cfg n) (ls_key s) (ls_now s) (ls_leader s n) in
      case l of
        Down \<Rightarrow> s\<lparr>ls_reply := (ls_reply s)(n \<mapsto> Inl Redis_Error)\<rparr>
      | Up \<Rightarrow> s\<lparr>ls_key := k, ls_reply := (ls_reply s)(n \<mapsto> res),
               ls_grant := (if res = Inr True then (ls_grant s)(n := ls_now s) else ls_grant s)\<rparr>
      | LostReply \<Rightarrow> s\<lparr>ls_key := k, ls_reply := (ls_reply s)(n \<mapsto> Inl Redis_Error),
               ls_grant := (if res = Inr True then (ls_grant s)(n := ls_now s) else ls_grant s)\<rparr>)"

definition store_reply :: "string \<Rightarrow> failover_error + bool \<Rightarrow> lease_sys \<Rightarrow> lease_sys" where
  "store_reply n r s =
     s\<lparr>ls_leader := (ls_leader s)(n := run_loop_store (ls_leader s n) r), ls_reply := (ls_reply s)(n := None)\<rparr>"

inductive lease_step :: "(string \<Rightarrow> lease_config) \<Rightarrow> lease_sys \<Rightarrow> lease_sys \<Rightarrow> bool" for cfg where
  pass: "0 \<le> d \<Longrightarrow> lease_step cfg s (s\<lparr>ls_now := ls_now s + d\<rparr>)"
| exec: "ls_reply s n = None \<Longrightarrow> lease_step cfg s (exec_tick cfg n l s)"
| store: "ls_reply s n = Some r \<Longrightarrow> lease_step cfg s (store_reply n r s)"

inductive lease_reachable :: "(string \<Rightarrow> lease_config) \<Rightarrow> lease_sys \<Rightarrow> bool" for cfg where
  start: "lease_reachable cfg lease_init"
| step: "lease_reachable cfg s \<Longrightarrow> lease_step cfg s t \<Longrightarrow> lease_reachable cfg t"

inductive_cases lease_stepE: "lease_step cfg s t"

section \<open>Invariant\<close>

text \<open>A node claims the lease when its flag is set or a granting reply is on its way.\<close>

definition claims :: "lease_sys \<Rightarrow> string \<Rightarrow> bool" where
  "claims s n \<longleftrightarrow> ls_leader s n \<or> ls_reply s n = Some (Inr True)"

text \<open>While a claim is younger than its lease, the key is the claimant's.\<close>

definition lease_inv :: "(string \<Rightarrow> lease_config) \<Rightarrow> lease_sys \<Rightarrow> bool" where
  "lease_inv cfg s \<longleftrightarrow>
     (\<forall>n. claims s n \<longrightarrow> ls_now s < ls_grant s n + lc_ttl (cfg n) \<longrightarrow>
        ls_key s = Some (n, ls_grant s n + lc_ttl (cfg n)))"

definition named :: "(string \<Rightarrow> lease_config) \<Rightarrow> bool" where
  "named cfg \<longleftrightarrow> (\<forall>n. lc_node_id (cfg n) = n)"

lemma lease_tick_granted:
  "lease_tick c k now held = (k', Inr True) \<Longrightarrow> k' = Some (lc_node_id c, now + lc_ttl c)"
  by (auto simp: lease_tick_def set_nx_px_def refresh_if_owned_def split: if_splits sum.splits prod.splits)

lemma lease_tick_refused:
  "lease_tick c k now held = (k', r) \<Longrightarrow> r \<noteq> Inr True \<Longrightarrow> k' = k"
  by (auto simp: lease_tick_def set_nx_px_def refresh_if_owned_def split: if_splits sum.splits prod.splits)

text \<open>A tick of another node never disturbs a live key.\<close>

lemma lease_tick_live:
  assumes "lease_tick c k now held = (k', r)" "key_value k now = Some v" "v \<noteq> lc_node_id c"
  shows "k' = k" "r \<noteq> Inr True"
  using assms
  by (auto simp: lease_tick_def set_nx_px_def refresh_if_owned_def split: if_splits sum.splits prod.splits)

lemma lease_inv_exec:
  assumes "named cfg" "lease_inv cfg s" "ls_reply s n = None"
  shows "lease_inv cfg (exec_tick cfg n l s)"
proof (cases "l = Down")
  case True
  with assms show ?thesis by (auto simp: lease_inv_def claims_def exec_tick_def split: prod.splits)
next
  case False
  obtain k r where t: "lease_tick (cfg n) (ls_key s) (ls_now s) (ls_leader s n) = (k, r)"
    by (cases "lease_tick (cfg n) (ls_key s) (ls_now s) (ls_leader s n)")
  have id: "lc_node_id (cfg n) = n" using assms(1) by (simp add: named_def)
  let ?s = "exec_tick cfg n l s"
  have key: "ls_key ?s = k" and now: "ls_now ?s = ls_now s" and lead: "ls_leader ?s = ls_leader s"
    using False by (cases l; simp add: exec_tick_def t)+
  show ?thesis
    unfolding lease_inv_def
  proof (intro allI impI)
    fix m
    assume c: "claims ?s m" and w: "ls_now ?s < ls_grant ?s m + lc_ttl (cfg m)"
    show "ls_key ?s = Some (m, ls_grant ?s m + lc_ttl (cfg m))"
    proof (cases "m = n \<and> r = Inr True")
      case True
      then have "ls_grant ?s m = ls_now s" using False by (cases l) (simp_all add: exec_tick_def t)
      with True t lease_tick_granted [of "cfg n" "ls_key s" "ls_now s" "ls_leader s n" k] show ?thesis
        by (simp add: key id)
    next
      case ne: False
      have gr: "ls_grant ?s m = ls_grant s m"
        using False ne by (cases l) (auto simp: exec_tick_def t)
      have "claims s m"
        using c ne False by (cases l) (auto simp: claims_def exec_tick_def t split: if_splits)
      with assms(2) w have k0: "ls_key s = Some (m, ls_grant s m + lc_ttl (cfg m))"
        by (auto simp: lease_inv_def gr now)
      have "k = ls_key s"
      proof (cases "m = n")
        case True
        with ne t show ?thesis by (intro lease_tick_refused [of "cfg n"]) auto
      next
        case False
        have "key_value (ls_key s) (ls_now s) = Some m" using k0 w by (simp add: key_value_def gr now)
        with False t id show ?thesis by (intro lease_tick_live(1) [of "cfg n"]) auto
      qed
      with k0 show ?thesis by (simp add: key gr)
    qed
  qed
qed

lemma lease_inv_step:
  assumes "named cfg" "lease_inv cfg s" "lease_step cfg s t"
  shows "lease_inv cfg t"
  using assms(3)
proof (cases rule: lease_step.cases)
  case (pass d)
  with assms(2) show ?thesis by (auto simp: lease_inv_def claims_def)
next
  case (exec n l)
  with assms(1,2) show ?thesis by (simp add: lease_inv_exec)
next
  case (store n r)
  have "claims t m \<Longrightarrow> claims s m" for m
    using store by (cases r) (auto simp: claims_def store_reply_def split: if_splits)
  with assms(2) store show ?thesis by (simp add: lease_inv_def store_reply_def)
qed

lemma lease_reachable_inv:
  assumes "named cfg" "lease_reachable cfg s"
  shows "lease_inv cfg s"
  using assms(2)
proof (induction rule: lease_reachable.induct)
  case start
  show ?case by (simp add: lease_inv_def claims_def lease_init_def)
next
  case (step s t)
  with assms(1) show ?case by (blast intro: lease_inv_step)
qed

lemma lease_run: "lease_reachable cfg s \<Longrightarrow> rtranclp (lease_step cfg) s t \<Longrightarrow> lease_reachable cfg t"
  by (rotate_tac, induction rule: rtranclp_induct) (auto intro: lease_reachable.step)


lemma lease_run_inv: "named cfg \<Longrightarrow> lease_reachable cfg s \<Longrightarrow> rtranclp (lease_step cfg) s t \<Longrightarrow> lease_inv cfg t"
  by (blast intro: lease_reachable_inv lease_run)

section \<open>One writer\<close>

definition in_term :: "(string \<Rightarrow> lease_config) \<Rightarrow> lease_sys \<Rightarrow> string \<Rightarrow> bool" where
  "in_term cfg s n \<longleftrightarrow> claims s n \<and> ls_now s < ls_grant s n + lc_ttl (cfg n)"

text \<open>A cluster whose nodes run the default configuration under their own names.\<close>

definition default_cluster :: "string \<Rightarrow> lease_config" where
  "default_cluster n = with_node_id (new_lease_config ''uuid'' ''redis://localhost'') n"

lemma named_default_cluster: "named default_cluster"
  by (simp add: named_def default_cluster_def with_node_id_def)

lemma default_cluster_ttl [simp]: "lc_ttl (default_cluster n) = 15000"
  by (simp add: default_cluster_def with_node_id_def new_lease_config_def)

lemma default_cluster_id [simp]: "lc_node_id (default_cluster n) = n"
  by (simp add: default_cluster_def with_node_id_def)

text \<open>The first acquisition of a node, with and without its reply.\<close>

definition won :: "string \<Rightarrow> lease_sys" where
  "won n = store_reply n (Inr True) (exec_tick default_cluster n Up lease_init)"

definition lost :: "string \<Rightarrow> lease_sys" where
  "lost n = store_reply n (Inl Redis_Error) (exec_tick default_cluster n LostReply lease_init)"

lemmas lease_run_defs =
  exec_tick_def lease_tick_def set_nx_px_def refresh_if_owned_def key_value_def store_reply_def lease_init_def

lemma reachable_won: "lease_reachable default_cluster (won n)"
proof -
  let ?e = "exec_tick default_cluster n Up lease_init"
  have "lease_step default_cluster lease_init ?e"
    by (rule lease_step.exec) (simp add: lease_init_def)
  then have "lease_reachable default_cluster ?e"
    by (rule lease_reachable.step [OF lease_reachable.start])
  moreover have "lease_step default_cluster ?e (store_reply n (Inr True) ?e)"
    by (rule lease_step.store) (simp add: lease_run_defs)
  ultimately show ?thesis unfolding won_def by (rule lease_reachable.step)
qed

lemma reachable_lost: "lease_reachable default_cluster (lost n)"
proof -
  let ?e = "exec_tick default_cluster n LostReply lease_init"
  have "lease_step default_cluster lease_init ?e"
    by (rule lease_step.exec) (simp add: lease_init_def)
  then have "lease_reachable default_cluster ?e"
    by (rule lease_reachable.step [OF lease_reachable.start])
  moreover have "lease_step default_cluster ?e (store_reply n (Inl Redis_Error) ?e)"
    by (rule lease_step.store) (simp add: lease_run_defs)
  ultimately show ?thesis unfolding lost_def by (rule lease_reachable.step)
qed

lemma won_fields [simp]:
  "ls_now (won n) = 0" "ls_key (won n) = Some (n, 15000)" "ls_leader (won n) = (\<lambda>m. m = n)"
  "ls_reply (won n) = (\<lambda>_. None)" "ls_grant (won n) = (\<lambda>_. 0)"
  by (auto simp: won_def lease_run_defs fun_eq_iff)

lemma lost_fields [simp]:
  "ls_now (lost n) = 0" "ls_key (lost n) = Some (n, 15000)" "ls_leader (lost n) = (\<lambda>_. False)"
  "ls_reply (lost n) = (\<lambda>_. None)" "ls_grant (lost n) = (\<lambda>_. 0)"
  by (auto simp: lost_def lease_run_defs fun_eq_iff)

text \<open>
  C8. Leases exclude each other: in every reachable state of a cluster whose nodes have
  distinct identifiers, at most one node holds (or is about to be told that it holds) a
  lease that was granted or refreshed less than its TTL ago, whatever commands and replies
  were lost or delayed on the way.
\<close>

theorem at_most_one_unexpired_leader:
  assumes "named cfg" "lease_reachable cfg s" "in_term cfg s m" "in_term cfg s n"
  shows "m = n"
proof -
  have own: "ls_key s = Some (k, ls_grant s k + lc_ttl (cfg k))" if "in_term cfg s k" for k
    using lease_reachable_inv [OF assms(1,2)] that by (auto simp: lease_inv_def in_term_def)
  show ?thesis using own [OF assms(3)] own [OF assms(4)] by simp
qed

theorem at_most_one_unexpired_leader_witness:
  "in_term default_cluster (won ''a'') ''a'' \<and>
   (\<forall>n. \<not> (n \<noteq> ''a'' \<and> in_term default_cluster (won ''a'') n))"
proof -
  have a: "in_term default_cluster (won ''a'') ''a''" by (simp add: in_term_def claims_def)
  then show ?thesis
    using at_most_one_unexpired_leader [OF named_default_cluster reachable_won a] by blast
qed

text \<open>
  The flag outlives the lease: two nodes can report \<open>is_leader\<close> at once. A leader whose
  next tick is delayed beyond the TTL (a paused process, a stalled connection) keeps its
  flag, because only its own tick clears it, while a second node acquires the expired key.
\<close>

theorem two_flags_can_be_set:
  "\<exists>s. lease_reachable default_cluster s \<and> ls_leader s ''a'' \<and> ls_leader s ''b''"
proof -
  let ?p = "(won ''a'')\<lparr>ls_now := ls_now (won ''a'') + 15000\<rparr>"
  let ?e = "exec_tick default_cluster ''b'' Up ?p"
  have p: "lease_reachable default_cluster ?p"
    by (rule lease_reachable.step [OF reachable_won lease_step.pass]) simp
  have e: "lease_reachable default_cluster ?e"
    by (rule lease_reachable.step [OF p lease_step.exec]) simp
  have "ls_reply ?e ''b'' = Some (Inr True)"
    by (simp add: exec_tick_def lease_tick_def set_nx_px_def key_value_def)
  with e have "lease_reachable default_cluster (store_reply ''b'' (Inr True) ?e)"
    by (blast intro: lease_reachable.step lease_step.store)
  moreover have "ls_leader (store_reply ''b'' (Inr True) ?e) n" if "n = ''a'' \<or> n = ''b''" for n
    using that by (auto simp: store_reply_def exec_tick_def lease_tick_def set_nx_px_def key_value_def)
  ultimately show ?thesis by blast
qed

section \<open>Demotion and promotion\<close>

text \<open>
  A leader that has lost its key steps down and leaves the key alone: when the key has
  expired or names another node, the refresh changes nothing in Redis and reports False, so
  the flag is cleared; on an error the flag is cleared as well.
\<close>

theorem lost_lease_demotes:
  assumes "key_value k now \<noteq> Some (lc_node_id c)"
  shows "lease_tick c k now True = (k, Inr False) \<and>
         \<not> run_loop_store True (snd (lease_tick c k now True)) \<and> \<not> run_loop_store held (Inl e)"
  using assms by (auto simp: lease_tick_def refresh_if_owned_def)

theorem lost_lease_demotes_witness:
  "lease_tick (default_cluster ''a'') (Some (''b'', 20000)) 16000 True = (Some (''b'', 20000), Inr False)"
  using lost_lease_demotes [of "Some (''b'', 20000)" 16000 "default_cluster ''a''"]
  by (simp add: key_value_def)

lemma lease_step_now: "lease_step cfg s t \<Longrightarrow> ls_now s \<le> ls_now t"
  by (erule lease_step.cases) (auto simp: exec_tick_def store_reply_def split: link.splits prod.splits)

lemma lease_run_now: "rtranclp (lease_step cfg) s t \<Longrightarrow> ls_now s \<le> ls_now t"
  by (induction rule: rtranclp_induct) (auto dest: lease_step_now)

lemma unclaimed_step:
  assumes "lease_step cfg s t" "\<forall>n. \<not> claims s n" "ls_key s = Some (v, e)" "ls_now t < e"
  shows "(\<forall>n. \<not> claims t n) \<and> ls_key t = Some (v, e)"
  using assms(1)
proof (cases rule: lease_step.cases)
  case (pass d)
  with assms show ?thesis by (simp add: claims_def)
next
  case (exec n l)
  with assms have "ls_now s < e"
    by (cases l) (auto simp: exec_tick_def split: prod.splits)
  moreover have "\<not> ls_leader s m" "ls_reply s m \<noteq> Some (Inr True)" for m
    using assms(2) by (auto simp: claims_def)
  ultimately have "lease_tick (cfg n) (ls_key s) (ls_now s) (ls_leader s n) =
      (ls_key s, if lc_ttl (cfg n) \<le> 0 then Inl Redis_Error else Inr False)"
    using assms(3) by (simp add: lease_tick_def set_nx_px_def key_value_def)
  with assms exec show ?thesis by (cases l) (auto simp: exec_tick_def claims_def)
next
  case (store n r)
  with assms(2) have "r \<noteq> Inr True" "\<not> ls_leader s n" by (auto simp: claims_def)
  with store assms show ?thesis
    by (cases r) (auto simp: store_reply_def claims_def split: if_splits)
qed

text \<open>
  A cluster that loses the flag but not the key has no writer until the key expires: in
  a state where no node claims the lease while the key is still stored (the reply to an
  acquisition or to a refresh was lost, so its node demoted itself), no run reaches a leader
  before the key's expiry; the demoted node is shut out by its own key as well.
\<close>

theorem no_leader_until_stale_key_expires:
  assumes "rtranclp (lease_step cfg) s t"
    and "\<forall>n. \<not> claims s n" "ls_key s = Some (v, e)" "ls_now t < e"
  shows "\<not> ls_leader t n"
proof -
  have "(\<forall>n. \<not> claims t n) \<and> ls_key t = Some (v, e)"
    using assms(1,4)
  proof (induction rule: rtranclp_induct)
    case base
    with assms(2,3) show ?case by simp
  next
    case (step y z)
    then have "ls_now y < e" using lease_step_now [OF step(2)] by simp
    with step show ?case by (blast dest: unclaimed_step)
  qed
  then show ?thesis by (simp add: claims_def)
qed

theorem no_leader_until_stale_key_expires_witness:
  "lease_reachable default_cluster (lost ''a'') \<and>
   \<not> ls_leader (exec_tick default_cluster ''a'' Up ((lost ''a'')\<lparr>ls_now := 14999\<rparr>)) ''a''"
proof -
  have "lease_step default_cluster (lost ''a'') ((lost ''a'')\<lparr>ls_now := ls_now (lost ''a'') + 14999\<rparr>)"
    by (rule lease_step.pass) simp
  moreover have "lease_step default_cluster ((lost ''a'')\<lparr>ls_now := 14999\<rparr>)
      (exec_tick default_cluster ''a'' Up ((lost ''a'')\<lparr>ls_now := 14999\<rparr>))"
    by (rule lease_step.exec) simp
  ultimately have run: "rtranclp (lease_step default_cluster) (lost ''a'')
      (exec_tick default_cluster ''a'' Up ((lost ''a'')\<lparr>ls_now := 14999\<rparr>))"
    by (auto intro: rtranclp.intros)
  have "\<not> ls_leader (exec_tick default_cluster ''a'' Up ((lost ''a'')\<lparr>ls_now := 14999\<rparr>)) ''a''"
    by (rule no_leader_until_stale_key_expires [OF run])
      (auto simp: claims_def exec_tick_def lease_tick_def set_nx_px_def key_value_def)
  with reachable_lost show ?thesis by blast
qed

text \<open>
  Failover: once the key has expired, the first follower whose tick reaches Redis owns
  it for its full TTL, and storing the reply sets its flag.
\<close>

theorem expired_key_elects_first_follower:
  assumes "key_value (ls_key s) (ls_now s) = None" "\<not> ls_leader s n" "0 < lc_ttl (cfg n)"
  shows "let s' = exec_tick cfg n Up s in
      ls_reply s' n = Some (Inr True) \<and>
      ls_key s' = Some (lc_node_id (cfg n), ls_now s + lc_ttl (cfg n)) \<and>
      ls_leader (store_reply n (Inr True) s') n"
  using assms by (simp add: exec_tick_def lease_tick_def set_nx_px_def store_reply_def)

theorem expired_key_elects_first_follower_witness:
  "let s' = exec_tick default_cluster ''b'' Up ((won ''a'')\<lparr>ls_now := 15000\<rparr>) in
      ls_reply s' ''b'' = Some (Inr True) \<and> ls_key s' = Some (''b'', 30000) \<and>
      ls_leader (store_reply ''b'' (Inr True) s') ''b''"
  using expired_key_elects_first_follower [of "(won ''a'')\<lparr>ls_now := 15000\<rparr>" "''b''" default_cluster]
  by (simp add: key_value_def)

end
