(* ===== verification/Repository.thy ===== *)
theory Repository
  imports Bars
begin

text \<open>
  \<open>oi-core/src/traits.rs\<close> (\<open>OiRepository\<close>) and \<open>oi-storage/src/leader_gated.rs\<close>. A trait
  object is the record of its methods over the state \<open>'s\<close> of everything behind it; a write
  returns the new state with its result, a read leaves the state alone. The defaulted
  funding methods of the trait are \<open>without_funding\<close>.
\<close>

section \<open>Fallible operations on a state\<close>

type_synonym ('s, 'a) io = "'s \<Rightarrow> 's \<times> (core_error + 'a)"

definition and_then :: "('s, 'a) io \<Rightarrow> ('a \<Rightarrow> ('s, 'b) io) \<Rightarrow> ('s, 'b) io" where
  "and_then p f s = (case p s of (s', Inl e) \<Rightarrow> (s', Inl e) | (s', Inr a) \<Rightarrow> f a s')"

lemma and_then_Inr [simp]: "p s = (s', Inr a) \<Longrightarrow> and_then p f s = f a s'"
  by (simp add: and_then_def)

lemma and_then_Inl [simp]: "p s = (s', Inl e) \<Longrightarrow> and_then p f s = (s', Inl e)"
  by (simp add: and_then_def)

lemma and_then_cases:
  assumes "and_then p f s = (t, r)"
  obtains (fails) e where "p s = (t, Inl e)" "r = Inl e"
  | (goes) s' a where "p s = (s', Inr a)" "f a s' = (t, r)"
  using assms by (auto simp: and_then_def split: prod.splits sum.splits)

section \<open>The trait\<close>

record ('s, 'd) oi_repository =
  upsert_snapshots :: "'d oi_snapshot list \<Rightarrow> ('s, unit) io"
  upsert_instruments :: "'d instrument_meta list \<Rightarrow> ('s, unit) io"
  range_snapshots :: "instrument_id \<Rightarrow> timestamp \<Rightarrow> timestamp \<Rightarrow> 's \<Rightarrow> core_error + 'd oi_snapshot list"
  latest_snapshot :: "instrument_id \<Rightarrow> 's \<Rightarrow> core_error + 'd oi_snapshot option"
  upsert_funding :: "'d funding_bar list \<Rightarrow> ('s, unit) io"
  funding_range :: "instrument_id \<Rightarrow> timestamp \<Rightarrow> timestamp \<Rightarrow> 's \<Rightarrow> core_error + 'd funding_bar list"
  latest_funding :: "instrument_id \<Rightarrow> 's \<Rightarrow> core_error + 'd funding_bar option"
  upsert_funding_events :: "'d funding_event list \<Rightarrow> ('s, unit) io"
  funding_events_range :: "instrument_id \<Rightarrow> timestamp \<Rightarrow> timestamp \<Rightarrow> 's \<Rightarrow> core_error + 'd funding_event list"
  latest_funding_event :: "instrument_id \<Rightarrow> 's \<Rightarrow> core_error + 'd funding_event option"

text \<open>A repository that defines only the four mandatory methods.\<close>

definition without_funding :: "('s, 'd) oi_repository \<Rightarrow> ('s, 'd) oi_repository" where
  "without_funding r =
     r\<lparr>upsert_funding := (\<lambda>_ s. (s, Inr ())),
       funding_range := (\<lambda>_ _ _ _. Inr []),
       latest_funding := (\<lambda>_ _. Inr None),
       upsert_funding_events := (\<lambda>_ s. (s, Inr ())),
       funding_events_range := (\<lambda>_ _ _ _. Inr []),
       latest_funding_event := (\<lambda>_ _. Inr None)\<rparr>"

section \<open>The leader gate\<close>

type_synonym 's leader_gate = "'s \<Rightarrow> bool"

definition not_leader :: core_error where
  "not_leader = Storage ''not leader''"

definition leader_gated :: "('s, 'd) oi_repository \<Rightarrow> 's leader_gate \<Rightarrow> ('s, 'd) oi_repository" where
  "leader_gated inner is_leader =
     \<lparr>upsert_snapshots = (\<lambda>snaps s.
        if is_leader s then upsert_snapshots inner snaps s else (s, Inl not_leader)),
      upsert_instruments = upsert_instruments inner,
      range_snapshots = range_snapshots inner,
      latest_snapshot = latest_snapshot inner,
      upsert_funding = (\<lambda>bars s.
        if is_leader s then upsert_funding inner bars s else (s, Inl not_leader)),
      funding_range = funding_range inner,
      latest_funding = latest_funding inner,
      upsert_funding_events = (\<lambda>events s.
        if is_leader s then upsert_funding_events inner events s else (s, Inl not_leader)),
      funding_events_range = funding_events_range inner,
      latest_funding_event = latest_funding_event inner\<rparr>"

lemma leader_gated_leader [simp]:
  assumes "is_leader s"
  shows "upsert_snapshots (leader_gated inner is_leader) snaps s = upsert_snapshots inner snaps s"
    "upsert_funding (leader_gated inner is_leader) bars s = upsert_funding inner bars s"
    "upsert_funding_events (leader_gated inner is_leader) events s = upsert_funding_events inner events s"
  using assms by (simp_all add: leader_gated_def)

lemma leader_gated_follower [simp]:
  assumes "\<not> is_leader s"
  shows "upsert_snapshots (leader_gated inner is_leader) snaps s = (s, Inl not_leader)"
    "upsert_funding (leader_gated inner is_leader) bars s = (s, Inl not_leader)"
    "upsert_funding_events (leader_gated inner is_leader) events s = (s, Inl not_leader)"
  using assms by (simp_all add: leader_gated_def)

text \<open>The phrase \<open>runner.rs\<close> looks for to tell a follower from a broken store.\<close>

lemma not_leader_text: "contains (show_core_error not_leader) ''not leader''"
  using contains_append [of "''storage error: ''" "''not leader''" "[]"] by (simp add: not_leader_def)

section \<open>What a durable store promises\<close>

text \<open>
  The contract the write path relies on: an acknowledged batch is stored, and no write
  forgets a stored batch. \<open>stored s b\<close> is any observation of the state.
\<close>

definition acks_are_durable :: "('d oi_snapshot list \<Rightarrow> ('s, unit) io) \<Rightarrow> ('s \<Rightarrow> 'd oi_snapshot list \<Rightarrow> bool) \<Rightarrow> bool" where
  "acks_are_durable upsert stored \<longleftrightarrow>
     (\<forall>b s s'. upsert b s = (s', Inr ()) \<longrightarrow> stored s' b) \<and>
     (\<forall>b b' s s' r. upsert b s = (s', r) \<longrightarrow> stored s b' \<longrightarrow> stored s' b')"

lemma acks_are_durableD:
  assumes "acks_are_durable upsert stored"
  shows "upsert b s = (s', Inr ()) \<Longrightarrow> stored s' b"
    and "upsert b s = (s', r) \<Longrightarrow> stored s b' \<Longrightarrow> stored s' b'"
  using assms unfolding acks_are_durable_def by blast+

lemma acks_are_durableI:
  assumes "\<And>b s s'. upsert b s = (s', Inr ()) \<Longrightarrow> stored s' b"
    and "\<And>b b' s s' r. upsert b s = (s', r) \<Longrightarrow> stored s b' \<Longrightarrow> stored s' b'"
  shows "acks_are_durable upsert stored"
  using assms unfolding acks_are_durable_def by blast

lemma acks_are_durable_gated:
  "acks_are_durable (upsert_snapshots inner) stored \<Longrightarrow>
   acks_are_durable (upsert_snapshots (leader_gated inner is_leader)) stored"
  by (auto simp: acks_are_durable_def leader_gated_def)

end
