(* ===== verification/Clickhouse.thy ===== *)
theory Clickhouse
  imports Repository
begin

text \<open>
  \<open>oi-storage/src/clickhouse.rs\<close>: the wire rows, their conversions to and from the domain
  types, the repository over a ClickHouse server, and the splitting of the schema file.

  The server is outside the repository. It is the parameter \<open>'t ch_client\<close>: for each table
  one \<open>INSERT\<close> of a block of rows and the rows a plain \<open>SELECT\<close> (one without \<open>FINAL\<close>) scans.
  The text of the queries, which is in the source, is translated: \<open>WHERE\<close>, \<open>ORDER BY\<close> and
  \<open>LIMIT 1\<close>. \<open>Decimal\<close>'s \<open>to_string\<close> and \<open>from_str\<close> are the parameter \<open>'d decimal_text\<close>.
\<close>

section \<open>Rows\<close>

record 'd decimal_text =
  dec_show :: "'d \<Rightarrow> string"
  dec_parse :: "string \<Rightarrow> string + 'd"

record instrument_row =
  ir_exchange :: string
  ir_symbol :: string
  ir_base_asset :: string
  ir_quote_asset :: string
  ir_is_perpetual :: u8
  ir_native_unit :: string
  ir_contract_multiplier :: "string option"
  ir_price_tick :: "string option"
  ir_qty_step :: "string option"
  ir_active :: u8

record oi_row =
  or_exchange :: string
  or_symbol :: string
  or_bucket_ts :: timestamp
  or_first_recv_ts :: timestamp
  or_last_recv_ts :: timestamp
  or_samples :: u32
  or_native_unit :: string
  or_native_open :: string
  or_native_high :: string
  or_native_low :: string
  or_native_close :: string
  or_oi_coins_open :: "string option"
  or_oi_coins_high :: "string option"
  or_oi_coins_low :: "string option"
  or_oi_coins_close :: "string option"
  or_oi_usd_open :: "string option"
  or_oi_usd_high :: "string option"
  or_oi_usd_low :: "string option"
  or_oi_usd_close :: "string option"
  or_price_used_close :: "string option"

record funding_row =
  fr_exchange :: string
  fr_symbol :: string
  fr_bucket_ts :: timestamp
  fr_recv_ts :: timestamp
  fr_rate :: string
  fr_next_funding_ts :: "timestamp option"
  fr_interval_hours :: "u8 option"

record funding_event_row =
  er_exchange :: string
  er_symbol :: string
  er_settlement_ts :: timestamp
  er_rate :: string
  er_mark_price :: "string option"

fun unit_code :: "unit_kind \<Rightarrow> string" where
  "unit_code Coins = ''coins''"
| "unit_code Contracts = ''contracts''"
| "unit_code Usd = ''usd''"

definition bool_u8 :: "bool \<Rightarrow> u8" where
  "bool_u8 b = (if b then 1 else 0)"

text \<open>\<open>(t.unix_timestamp_nanos() / 1_000_000) as i64\<close>: the division truncates toward zero.\<close>

definition unix_millis :: "timestamp \<Rightarrow> u64" where
  "unix_millis t = word_of_int (if t < 0 then - ((- t) div 1000000) else t div 1000000)"

section \<open>To rows\<close>

definition snap_to_row :: "'d decimal_text \<Rightarrow> 'd oi_snapshot \<Rightarrow> oi_row" where
  "snap_to_row d s =
     \<lparr>or_exchange = exchange_code (id_exchange (b_instrument s)),
      or_symbol = id_symbol (b_instrument s),
      or_bucket_ts = b_bucket_ts s,
      or_first_recv_ts = b_first_recv_ts s,
      or_last_recv_ts = b_last_recv_ts s,
      or_samples = b_samples s,
      or_native_unit = unit_code (b_native_unit s),
      or_native_open = dec_show d (b_native_open s),
      or_native_high = dec_show d (b_native_high s),
      or_native_low = dec_show d (b_native_low s),
      or_native_close = dec_show d (b_native_close s),
      or_oi_coins_open = map_option (dec_show d) (b_oi_coins_open s),
      or_oi_coins_high = map_option (dec_show d) (b_oi_coins_high s),
      or_oi_coins_low = map_option (dec_show d) (b_oi_coins_low s),
      or_oi_coins_close = map_option (dec_show d) (b_oi_coins_close s),
      or_oi_usd_open = map_option (dec_show d) (b_oi_usd_open s),
      or_oi_usd_high = map_option (dec_show d) (b_oi_usd_high s),
      or_oi_usd_low = map_option (dec_show d) (b_oi_usd_low s),
      or_oi_usd_close = map_option (dec_show d) (b_oi_usd_close s),
      or_price_used_close = map_option (dec_show d) (b_price_used_close s)\<rparr>"

definition meta_to_row :: "'d decimal_text \<Rightarrow> 'd instrument_meta \<Rightarrow> instrument_row" where
  "meta_to_row d m =
     \<lparr>ir_exchange = exchange_code (id_exchange (meta_id m)),
      ir_symbol = id_symbol (meta_id m),
      ir_base_asset = meta_base_asset m,
      ir_quote_asset = meta_quote_asset m,
      ir_is_perpetual = bool_u8 (meta_is_perpetual m),
      ir_native_unit = unit_code (meta_native_unit m),
      ir_contract_multiplier = map_option (dec_show d) (meta_contract_multiplier m),
      ir_price_tick = map_option (dec_show d) (meta_price_tick m),
      ir_qty_step = map_option (dec_show d) (meta_qty_step m),
      ir_active = bool_u8 (meta_active m)\<rparr>"

definition funding_to_row :: "'d decimal_text \<Rightarrow> 'd funding_bar \<Rightarrow> funding_row" where
  "funding_to_row d b =
     \<lparr>fr_exchange = exchange_code (id_exchange (fb_instrument b)),
      fr_symbol = id_symbol (fb_instrument b),
      fr_bucket_ts = fb_bucket_ts b,
      fr_recv_ts = fb_recv_ts b,
      fr_rate = dec_show d (fb_rate b),
      fr_next_funding_ts = fb_next_funding_ts b,
      fr_interval_hours = fb_interval_hours b\<rparr>"

definition event_to_row :: "'d decimal_text \<Rightarrow> 'd funding_event \<Rightarrow> funding_event_row" where
  "event_to_row d e =
     \<lparr>er_exchange = exchange_code (id_exchange (fe_instrument e)),
      er_symbol = id_symbol (fe_instrument e),
      er_settlement_ts = fe_settlement_ts e,
      er_rate = dec_show d (fe_rate e),
      er_mark_price = map_option (dec_show d) (fe_mark_price e)\<rparr>"

section \<open>From rows\<close>

definition parse_required :: "'d decimal_text \<Rightarrow> string \<Rightarrow> string \<Rightarrow> core_error + 'd" where
  "parse_required d name s = (case dec_parse d s of Inl e \<Rightarrow> Inl (Storage (name @ '': '' @ e)) | Inr v \<Rightarrow> Inr v)"

definition parse_optional :: "'d decimal_text \<Rightarrow> string \<Rightarrow> string option \<Rightarrow> core_error + 'd option" where
  "parse_optional d name o' =
     (case o' of None \<Rightarrow> Inr None | Some s \<Rightarrow> map_sum id Some (parse_required d name s))"

definition parse_exchange :: "string \<Rightarrow> core_error + exchange" where
  "parse_exchange s = map_sum Storage id (exchange_from_str s)"

definition or_else_err :: "'e + 'a \<Rightarrow> ('a \<Rightarrow> 'e + 'b) \<Rightarrow> 'e + 'b" where
  "or_else_err x f = (case x of Inl e \<Rightarrow> Inl e | Inr a \<Rightarrow> f a)"

lemma or_else_err_simps [simp]:
  "or_else_err (Inl e) f = Inl e"
  "or_else_err (Inr a) f = f a"
  by (simp_all add: or_else_err_def)

definition native_unit_of :: "string \<Rightarrow> unit_kind" where
  "native_unit_of u =
     (if u = ''coins'' then Coins else if u = ''contracts'' then Contracts
      else if u = ''usd'' then Usd else Coins)"

definition row_to_snap :: "'d decimal_text \<Rightarrow> oi_row \<Rightarrow> core_error + 'd oi_snapshot" where
  "row_to_snap d r =
     or_else_err (parse_exchange (or_exchange r)) (\<lambda>ex.
     or_else_err (parse_required d ''native_open'' (or_native_open r)) (\<lambda>no.
     or_else_err (parse_required d ''native_high'' (or_native_high r)) (\<lambda>nh.
     or_else_err (parse_required d ''native_low'' (or_native_low r)) (\<lambda>nl.
     or_else_err (parse_required d ''native_close'' (or_native_close r)) (\<lambda>nc.
     or_else_err (parse_optional d ''decimal'' (or_oi_coins_open r)) (\<lambda>co.
     or_else_err (parse_optional d ''decimal'' (or_oi_coins_high r)) (\<lambda>ch.
     or_else_err (parse_optional d ''decimal'' (or_oi_coins_low r)) (\<lambda>cl.
     or_else_err (parse_optional d ''decimal'' (or_oi_coins_close r)) (\<lambda>cc.
     or_else_err (parse_optional d ''decimal'' (or_oi_usd_open r)) (\<lambda>uo.
     or_else_err (parse_optional d ''decimal'' (or_oi_usd_high r)) (\<lambda>uh.
     or_else_err (parse_optional d ''decimal'' (or_oi_usd_low r)) (\<lambda>ul.
     or_else_err (parse_optional d ''decimal'' (or_oi_usd_close r)) (\<lambda>uc.
     or_else_err (parse_optional d ''decimal'' (or_price_used_close r)) (\<lambda>pc.
     Inr \<lparr>b_instrument = new_instrument ex (or_symbol r),
          b_bucket_ts = or_bucket_ts r,
          b_first_recv_ts = or_first_recv_ts r,
          b_last_recv_ts = or_last_recv_ts r,
          b_samples = or_samples r,
          b_native_unit = native_unit_of (or_native_unit r),
          b_native_open = no, b_native_high = nh, b_native_low = nl, b_native_close = nc,
          b_oi_coins_open = co, b_oi_coins_high = ch, b_oi_coins_low = cl, b_oi_coins_close = cc,
          b_oi_usd_open = uo, b_oi_usd_high = uh, b_oi_usd_low = ul, b_oi_usd_close = uc,
          b_price_used_close = pc\<rparr>))))))))))))))"

definition row_to_funding :: "'d decimal_text \<Rightarrow> funding_row \<Rightarrow> core_error + 'd funding_bar" where
  "row_to_funding d r =
     or_else_err (parse_exchange (fr_exchange r)) (\<lambda>ex.
     or_else_err (parse_required d ''funding rate'' (fr_rate r)) (\<lambda>rate.
     Inr \<lparr>fb_instrument = new_instrument ex (fr_symbol r),
          fb_bucket_ts = fr_bucket_ts r,
          fb_recv_ts = fr_recv_ts r,
          fb_rate = rate,
          fb_next_funding_ts = fr_next_funding_ts r,
          fb_interval_hours = fr_interval_hours r\<rparr>))"

definition row_to_event :: "'d decimal_text \<Rightarrow> funding_event_row \<Rightarrow> core_error + 'd funding_event" where
  "row_to_event d r =
     or_else_err (parse_exchange (er_exchange r)) (\<lambda>ex.
     or_else_err (parse_required d ''event rate'' (er_rate r)) (\<lambda>rate.
     or_else_err (parse_optional d ''event mark_price'' (er_mark_price r)) (\<lambda>mark.
     Inr \<lparr>fe_instrument = new_instrument ex (er_symbol r),
          fe_settlement_ts = er_settlement_ts r,
          fe_rate = rate,
          fe_mark_price = mark\<rparr>)))"

text \<open>\<open>rows.into_iter().map(f).collect::<Result<Vec<_>>>()\<close>: the first error wins.\<close>

fun collect_results :: "('e + 'a) list \<Rightarrow> 'e + 'a list" where
  "collect_results [] = Inr []"
| "collect_results (x # xs) =
     (case x of Inl e \<Rightarrow> Inl e
      | Inr a \<Rightarrow> (case collect_results xs of Inl e \<Rightarrow> Inl e | Inr as \<Rightarrow> Inr (a # as)))"

lemma collect_results_Inr [simp]: "collect_results (map Inr xs) = Inr xs"
  by (induction xs) simp_all


section \<open>The repository\<close>

record 't ch_client =
  ins_oi :: "oi_row list \<Rightarrow> 't \<Rightarrow> 't \<times> (string + unit)"
  ins_instruments :: "instrument_row list \<Rightarrow> 't \<Rightarrow> 't \<times> (string + unit)"
  ins_funding :: "funding_row list \<Rightarrow> 't \<Rightarrow> 't \<times> (string + unit)"
  ins_events :: "funding_event_row list \<Rightarrow> 't \<Rightarrow> 't \<times> (string + unit)"
  scan_oi :: "'t \<Rightarrow> string + oi_row list"
  scan_funding :: "'t \<Rightarrow> string + funding_row list"
  scan_events :: "'t \<Rightarrow> string + funding_event_row list"

definition ch_err :: "string \<Rightarrow> core_error" where
  "ch_err e = Storage (''clickhouse: '' @ e)"

definition insert_block :: "('r list \<Rightarrow> 't \<Rightarrow> 't \<times> (string + unit)) \<Rightarrow> 'r list \<Rightarrow> ('t, unit) io" where
  "insert_block ins rows t =
     (if rows = [] then (t, Inr ()) else (case ins rows t of (t', r) \<Rightarrow> (t', map_sum ch_err id r)))"

text \<open>
  \<open>WHERE exchange = ? AND symbol = ? AND ts >= fromUnixTimestamp64Milli(?) AND
  ts < fromUnixTimestamp64Milli(?) ORDER BY ts\<close>, and \<open>ORDER BY ts DESC LIMIT 1\<close>. The time
  columns have millisecond precision.
\<close>

definition same_key :: "('r \<Rightarrow> string) \<Rightarrow> ('r \<Rightarrow> string) \<Rightarrow> instrument_id \<Rightarrow> 'r \<Rightarrow> bool" where
  "same_key ex symb i r \<longleftrightarrow> ex r = exchange_code (id_exchange i) \<and> symb r = id_symbol i"

definition select_range ::
  "('r \<Rightarrow> string) \<Rightarrow> ('r \<Rightarrow> string) \<Rightarrow> ('r \<Rightarrow> timestamp) \<Rightarrow> instrument_id \<Rightarrow> u64 \<Rightarrow> u64 \<Rightarrow> 'r list \<Rightarrow> 'r list" where
  "select_range ex symb ts i from_ms to_ms rows =
     sort_key (\<lambda>r. sint (unix_millis (ts r)))
       (filter (\<lambda>r. same_key ex symb i r \<and> sint from_ms \<le> sint (unix_millis (ts r)) \<and>
                    sint (unix_millis (ts r)) < sint to_ms) rows)"

definition select_latest ::
  "('r \<Rightarrow> string) \<Rightarrow> ('r \<Rightarrow> string) \<Rightarrow> ('r \<Rightarrow> timestamp) \<Rightarrow> instrument_id \<Rightarrow> 'r list \<Rightarrow> 'r option" where
  "select_latest ex symb ts i rows =
     (case sort_key (\<lambda>r. - sint (unix_millis (ts r))) (filter (same_key ex symb i) rows) of
        [] \<Rightarrow> None | r # _ \<Rightarrow> Some r)"

definition fetch_all :: "('r \<Rightarrow> core_error + 'a) \<Rightarrow> string + 'r list \<Rightarrow> core_error + 'a list" where
  "fetch_all conv rows = or_else_err (map_sum ch_err id rows) (\<lambda>rs. collect_results (map conv rs))"

definition fetch_optional :: "('r \<Rightarrow> core_error + 'a) \<Rightarrow> string + 'r option \<Rightarrow> core_error + 'a option" where
  "fetch_optional conv row =
     or_else_err (map_sum ch_err id row) (\<lambda>r. case r of None \<Rightarrow> Inr None | Some x \<Rightarrow> map_sum id Some (conv x))"

text \<open>The operations on funding rates and settlements after the first two.\<close>

definition ch_latest_funding :: "'d decimal_text \<Rightarrow> 't ch_client \<Rightarrow> instrument_id \<Rightarrow> 't \<Rightarrow> core_error + 'd funding_bar option" where
  [simp]: "ch_latest_funding d c i t =
     fetch_optional (row_to_funding d) (map_sum id (select_latest fr_exchange fr_symbol fr_bucket_ts i) (scan_funding c t))"

definition ch_upsert_events :: "'d decimal_text \<Rightarrow> 't ch_client \<Rightarrow> 'd funding_event list \<Rightarrow> ('t, unit) io" where
  [simp]: "ch_upsert_events d c events = insert_block (ins_events c) (map (event_to_row d) events)"

definition ch_events_range ::
  "'d decimal_text \<Rightarrow> 't ch_client \<Rightarrow> instrument_id \<Rightarrow> timestamp \<Rightarrow> timestamp \<Rightarrow> 't \<Rightarrow> core_error + 'd funding_event list" where
  [simp]: "ch_events_range d c i from_ts to_ts t =
     fetch_all (row_to_event d)
       (map_sum id (select_range er_exchange er_symbol er_settlement_ts i (unix_millis from_ts) (unix_millis to_ts))
         (scan_events c t))"

definition ch_latest_event :: "'d decimal_text \<Rightarrow> 't ch_client \<Rightarrow> instrument_id \<Rightarrow> 't \<Rightarrow> core_error + 'd funding_event option" where
  [simp]: "ch_latest_event d c i t =
     fetch_optional (row_to_event d) (map_sum id (select_latest er_exchange er_symbol er_settlement_ts i) (scan_events c t))"

definition clickhouse_repo :: "'d decimal_text \<Rightarrow> 't ch_client \<Rightarrow> ('t, 'd) oi_repository" where
  "clickhouse_repo d c =
     \<lparr>upsert_snapshots = (\<lambda>snaps. insert_block (ins_oi c) (map (snap_to_row d) snaps)),
      upsert_instruments = (\<lambda>metas. insert_block (ins_instruments c) (map (meta_to_row d) metas)),
      range_snapshots = (\<lambda>i from_ts to_ts t. fetch_all (row_to_snap d)
        (map_sum id (select_range or_exchange or_symbol or_bucket_ts i (unix_millis from_ts) (unix_millis to_ts))
          (scan_oi c t))),
      latest_snapshot = (\<lambda>i t. fetch_optional (row_to_snap d)
        (map_sum id (select_latest or_exchange or_symbol or_bucket_ts i) (scan_oi c t))),
      upsert_funding = (\<lambda>bars. insert_block (ins_funding c) (map (funding_to_row d) bars)),
      funding_range = (\<lambda>i from_ts to_ts t. fetch_all (row_to_funding d)
        (map_sum id (select_range fr_exchange fr_symbol fr_bucket_ts i (unix_millis from_ts) (unix_millis to_ts))
          (scan_funding c t))),
      latest_funding = ch_latest_funding d c,
      upsert_funding_events = ch_upsert_events d c,
      funding_events_range = ch_events_range d c,
      latest_funding_event = ch_latest_event d c\<rparr>"

section \<open>Round trips\<close>

definition decimal_roundtrip :: "'d decimal_text \<Rightarrow> bool" where
  "decimal_roundtrip d \<longleftrightarrow> (\<forall>v. dec_parse d (dec_show d v) = Inr v)"

lemma parse_exchange_code [simp]: "parse_exchange (exchange_code e) = Inr e"
  by (simp add: parse_exchange_def exchange_from_str_iff [THEN iffD2])

lemma parse_required_show [simp]:
  "decimal_roundtrip d \<Longrightarrow> parse_required d n (dec_show d v) = Inr v"
  by (simp add: parse_required_def decimal_roundtrip_def)

lemma parse_optional_show [simp]:
  "decimal_roundtrip d \<Longrightarrow> parse_optional d n (map_option (dec_show d) v) = Inr v"
  by (cases v) (simp_all add: parse_optional_def)

lemma native_unit_of_code [simp]: "native_unit_of (unit_code u) = u"
  by (cases u) (simp_all add: native_unit_of_def)

lemma row_to_snap_of_row [simp]: "decimal_roundtrip d \<Longrightarrow> row_to_snap d (snap_to_row d s) = Inr s"
  by (simp add: row_to_snap_def snap_to_row_def)

lemma row_to_funding_of_row [simp]: "decimal_roundtrip d \<Longrightarrow> row_to_funding d (funding_to_row d b) = Inr b"
  by (simp add: row_to_funding_def funding_to_row_def)

lemma row_to_event_of_row [simp]: "decimal_roundtrip d \<Longrightarrow> row_to_event d (event_to_row d e) = Inr e"
  by (simp add: row_to_event_def event_to_row_def)

text \<open>Unary numerals: a decimal text with the round trip.\<close>

definition unary_text :: "nat decimal_text" where
  "unary_text = \<lparr>dec_show = (\<lambda>n. replicate n CHR ''1''), dec_parse = (\<lambda>s. Inr (List.length s))\<rparr>"

lemma unary_text_roundtrip [simp]: "decimal_roundtrip unary_text"
  by (simp add: decimal_roundtrip_def unary_text_def)

section \<open>What a range query returns\<close>

lemma sint_unix_millis:
  assumes "0 \<le> t" "t < 2 ^ 63 * 1000000"
  shows "sint (unix_millis t) = t div 1000000"
proof -
  have "t div 1000000 < 2 ^ 63" using assms by (auto simp: div_less_iff_less_mult)
  moreover have "0 \<le> t div 1000000" using assms by (simp add: pos_imp_zdiv_nonneg_iff)
  ultimately have "signed_take_bit 63 (t div 1000000) = t div 1000000"
    by (intro signed_take_bit_int_eq_self) auto
  then show ?thesis using assms(1) by (simp add: unix_millis_def signed_of_int)
qed

lemma insort_key_cong_le:
  "\<forall>y \<in> set ys. f x \<le> f y \<longleftrightarrow> g x \<le> g y \<Longrightarrow> insort_key f x ys = insort_key g x ys"
  by (induction ys) auto

lemma sort_key_cong_le:
  "\<forall>x \<in> set xs. \<forall>y \<in> set xs. f x \<le> f y \<longleftrightarrow> g x \<le> g y \<Longrightarrow> sort_key f xs = sort_key g xs"
proof (induction xs)
  case (Cons x xs)
  then have "sort_key f xs = sort_key g xs" by simp
  moreover have "insort_key f x (sort_key g xs) = insort_key g x (sort_key g xs)"
    using Cons.prems by (intro insort_key_cong_le) simp
  ultimately show ?case by simp
qed simp

lemma insort_key_map: "insort_key f (h x) (map h ys) = map h (insort_key (\<lambda>y. f (h y)) x ys)"
  by (induction ys) simp_all

lemma sort_key_map: "sort_key f (map h xs) = map h (sort_key (\<lambda>x. f (h x)) xs)"
  by (induction xs) (simp_all add: insort_key_map)

text \<open>Times a \<open>DateTime64(3)\<close> column holds exactly: whole milliseconds of an \<open>i64\<close>.\<close>

definition whole_millis :: "timestamp \<Rightarrow> bool" where
  "whole_millis t \<longleftrightarrow> 0 \<le> t \<and> t < 2 ^ 63 * 1000000 \<and> t mod 1000000 = 0"

lemma unix_millis_le_iff:
  assumes "whole_millis a" "whole_millis b"
  shows "sint (unix_millis a) \<le> sint (unix_millis b) \<longleftrightarrow> a \<le> b"
proof -
  have "1000000 dvd a" "1000000 dvd b" using assms by (simp_all add: whole_millis_def dvd_eq_mod_eq_0)
  then obtain k l where ab: "a = 1000000 * k" "b = 1000000 * l" by (auto elim!: dvdE)
  have "sint (unix_millis a) = a div 1000000" "sint (unix_millis b) = b div 1000000"
    using assms by (auto simp: whole_millis_def intro!: sint_unix_millis)
  then show ?thesis by (simp add: ab)
qed

lemma unix_millis_less_iff:
  assumes "whole_millis a" "whole_millis b"
  shows "sint (unix_millis a) < sint (unix_millis b) \<longleftrightarrow> a < b"
  using unix_millis_le_iff [OF assms(2,1)] by linarith

lemma same_key_snap [simp]:
  "same_key or_exchange or_symbol i (snap_to_row d b) \<longleftrightarrow> b_instrument b = i"
  by (cases i; cases "b_instrument b") (auto simp: same_key_def snap_to_row_def)

lemma or_bucket_ts_snap [simp]: "or_bucket_ts (snap_to_row d b) = b_bucket_ts b"
  by (simp add: snap_to_row_def)

definition bars_between :: "instrument_id \<Rightarrow> timestamp \<Rightarrow> timestamp \<Rightarrow> 'd oi_snapshot list \<Rightarrow> 'd oi_snapshot list" where
  "bars_between i a z bars =
     sort_key b_bucket_ts (filter (\<lambda>b. b_instrument b = i \<and> a \<le> b_bucket_ts b \<and> b_bucket_ts b < z) bars)"

lemma select_range_snaps:
  assumes "\<forall>b \<in> set bars. whole_millis (b_bucket_ts b)" "whole_millis a" "whole_millis z"
  shows "select_range or_exchange or_symbol or_bucket_ts i (unix_millis a) (unix_millis z) (map (snap_to_row d) bars)
     = map (snap_to_row d) (bars_between i a z bars)"
proof -
  have "filter (\<lambda>b. b_instrument b = i \<and> sint (unix_millis a) \<le> sint (unix_millis (b_bucket_ts b)) \<and>
          sint (unix_millis (b_bucket_ts b)) < sint (unix_millis z)) bars
      = filter (\<lambda>b. b_instrument b = i \<and> a \<le> b_bucket_ts b \<and> b_bucket_ts b < z) bars"
    using assms by (intro filter_cong) (auto simp: unix_millis_le_iff unix_millis_less_iff)
  moreover have "sort_key (\<lambda>b. sint (unix_millis (b_bucket_ts b)))
      (filter (\<lambda>b. b_instrument b = i \<and> a \<le> b_bucket_ts b \<and> b_bucket_ts b < z) bars) = bars_between i a z bars"
    unfolding bars_between_def using assms by (intro sort_key_cong_le) (auto simp: unix_millis_le_iff)
  ultimately show ?thesis
    by (simp add: select_range_def filter_map sort_key_map o_def)
qed

text \<open>
  A \<open>MergeTree\<close> insert adds a part: until the server merges parts, a \<open>SELECT\<close> without \<open>FINAL\<close>
  scans the old rows and the new ones.
\<close>

definition adds_part :: "'t ch_client \<Rightarrow> bool" where
  "adds_part c \<longleftrightarrow>
     (\<forall>rows t t' old. ins_oi c rows t = (t', Inr ()) \<longrightarrow> scan_oi c t = Inr old \<longrightarrow> scan_oi c t' = Inr (old @ rows))"

lemma upsert_snapshots_clickhouse:
  "upsert_snapshots (clickhouse_repo d c) snaps = insert_block (ins_oi c) (map (snap_to_row d) snaps)"
  by (simp add: clickhouse_repo_def)

lemma upsert_adds_rows:
  assumes "adds_part c" "scan_oi c t = Inr (map (snap_to_row d) old)"
    and "upsert_snapshots (clickhouse_repo d c) snaps t = (t', Inr ())"
  shows "scan_oi c t' = Inr (map (snap_to_row d) (old @ snaps))"
proof (cases "snaps = []")
  case True
  with assms show ?thesis by (simp add: upsert_snapshots_clickhouse insert_block_def)
next
  case False
  then obtain r where "ins_oi c (map (snap_to_row d) snaps) t = (t', r)" "map_sum ch_err id r = Inr ()"
    using assms(3) by (auto simp: upsert_snapshots_clickhouse insert_block_def split: prod.splits)
  then have "ins_oi c (map (snap_to_row d) snaps) t = (t', Inr ())" by (cases r) auto
  with assms(1,2) show ?thesis unfolding adds_part_def by fastforce
qed

lemma range_of_scan:
  assumes "decimal_roundtrip d" "scan_oi c t = Inr (map (snap_to_row d) bars)"
    and "\<forall>b \<in> set bars. whole_millis (b_bucket_ts b)" "whole_millis a" "whole_millis z"
  shows "range_snapshots (clickhouse_repo d c) i a z t = Inr (bars_between i a z bars)"
  using assms by (simp add: clickhouse_repo_def fetch_all_def select_range_snaps o_def)


text \<open>A server whose table is the list of its rows, with the other tables unused.\<close>

definition list_client :: "oi_row list ch_client" where
  "list_client =
     \<lparr>ins_oi = (\<lambda>rows t. (t @ rows, Inr ())),
      ins_instruments = (\<lambda>_ t. (t, Inr ())), ins_funding = (\<lambda>_ t. (t, Inr ())), ins_events = (\<lambda>_ t. (t, Inr ())),
      scan_oi = Inr, scan_funding = (\<lambda>_. Inr []), scan_events = (\<lambda>_. Inr [])\<rparr>"

lemma adds_part_list_client [simp]: "adds_part list_client"
  by (simp add: adds_part_def list_client_def)

definition btc_bar :: "nat \<Rightarrow> nat oi_snapshot" where
  "btc_bar v = start_from_sample
     \<lparr>s_instrument = new_instrument Binance ''BTCUSDT'', s_bucket_ts = minutes 1, s_recv_ts = minutes 1 + seconds 7,
      s_native_value = v, s_native_unit = Coins, s_oi_coins = Some v, s_oi_usd = None, s_price_used = None\<rparr>"

lemma btc_bar_simps [simp]:
  "b_instrument (btc_bar v) = new_instrument Binance ''BTCUSDT''"
  "b_bucket_ts (btc_bar v) = minutes 1"
  by (simp_all add: btc_bar_def start_from_sample_def)

lemma whole_millis_minutes: "whole_millis (minutes 0)" "whole_millis (minutes 1)" "whole_millis (minutes 2)"
  by (simp_all add: whole_millis_def minutes_def)

lemma upsert_list_client:
  "upsert_snapshots (clickhouse_repo d list_client) snaps t = (t @ map (snap_to_row d) snaps, Inr ())"
  by (simp add: upsert_snapshots_clickhouse insert_block_def list_client_def)


text \<open>
  Re-ingesting a minute does not overwrite it for readers: when the bar of a minute is
  upserted again (a replay of the WAL, a resync), \<open>range\<close> returns both versions, because the
  queries read a \<open>ReplacingMergeTree\<close> without \<open>FINAL\<close>.
\<close>

theorem reingested_minute_is_returned_twice:
  assumes "decimal_roundtrip d" "adds_part c" "scan_oi c t = Inr []"
    and "upsert_snapshots (clickhouse_repo d c) [b] t = (t1, Inr ())"
    and "upsert_snapshots (clickhouse_repo d c) [b'] t1 = (t2, Inr ())"
    and "b_instrument b' = b_instrument b" "b_bucket_ts b' = b_bucket_ts b"
    and "whole_millis (b_bucket_ts b)" "whole_millis a" "whole_millis z" "a \<le> b_bucket_ts b" "b_bucket_ts b < z"
  shows "range_snapshots (clickhouse_repo d c) (b_instrument b) a z t2 = Inr [b, b']"
proof -
  have "scan_oi c t1 = Inr (map (snap_to_row d) [b])"
    using upsert_adds_rows [OF assms(2) _ assms(4), of "[]"] assms(3) by simp
  from upsert_adds_rows [OF assms(2) this assms(5)]
  have "range_snapshots (clickhouse_repo d c) (b_instrument b) a z t2 = Inr (bars_between (b_instrument b) a z [b, b'])"
    using assms by (intro range_of_scan) auto
  with assms show ?thesis by (simp add: bars_between_def)
qed

theorem reingested_minute_is_returned_twice_witness:
  "range_snapshots (clickhouse_repo unary_text list_client) (new_instrument Binance ''BTCUSDT'') (minutes 0) (minutes 2)
     (map (snap_to_row unary_text) [btc_bar 5, btc_bar 7]) = Inr [btc_bar 5, btc_bar 7]"
proof -
  have "range_snapshots (clickhouse_repo unary_text list_client) (b_instrument (btc_bar 5)) (minutes 0) (minutes 2)
      ([] @ map (snap_to_row unary_text) [btc_bar 5] @ map (snap_to_row unary_text) [btc_bar 7]) = Inr [btc_bar 5, btc_bar 7]"
    by (rule reingested_minute_is_returned_twice [where t = "[]" and ?t1.0 = "[snap_to_row unary_text (btc_bar 5)]"])
      (simp_all add: upsert_list_client whole_millis_minutes, simp_all add: list_client_def minutes_def)
  then show ?thesis by simp
qed

end
