(* ===== verification/Schema_Sql.thy ===== *)
theory Schema_Sql
  imports Text
begin

text \<open>
  \<open>split_sql\<close> of \<open>oi-storage/src/clickhouse.rs\<close>: the splitting of the schema file into
  statements, and the standard-library functions it uses (\<open>lines\<close>, \<open>find\<close>, \<open>trim\<close>; the
  white space of the latter is the ASCII one).
\<close>

definition newline :: char where
  "newline = CHR 0x0A"

definition strip_cr :: "string \<Rightarrow> string" where
  "strip_cr l = (if l \<noteq> [] \<and> last l = CHR 0x0D then butlast l else l)"

definition lines :: "string \<Rightarrow> string list" where
  "lines s = (let ls = split_on newline s in map strip_cr (if last ls = [] then butlast ls else ls))"

text \<open>The line up to the first \<open>--\<close>, or all of it.\<close>

fun code_of_line :: "string \<Rightarrow> string" where
  "code_of_line (c # c' # cs) = (if c = CHR ''-'' \<and> c' = CHR ''-'' then [] else c # code_of_line (c' # cs))"
| "code_of_line cs = cs"

definition is_space :: "char \<Rightarrow> bool" where
  "is_space c \<longleftrightarrow> c \<in> {CHR '' '', CHR 0x09, CHR 0x0A, CHR 0x0B, CHR 0x0C, CHR 0x0D}"

definition trim :: "string \<Rightarrow> string" where
  "trim s = rev (dropWhile is_space (rev (dropWhile is_space s)))"

definition split_sql :: "string \<Rightarrow> string list" where
  "split_sql sql =
     (let stripped = concat (map (\<lambda>line. code_of_line line @ [newline]) (lines sql))
      in filter (\<lambda>s. s \<noteq> []) (map trim (split_on CHR '';'' stripped)))"

section \<open>Statements are free of separators and comments\<close>

definition no_comment :: "string \<Rightarrow> bool" where
  "no_comment s \<longleftrightarrow> successively (\<lambda>a b. \<not> (a = CHR ''-'' \<and> b = CHR ''-'')) s"

lemma no_comment_infix: "no_comment (a @ x @ b) \<Longrightarrow> no_comment x"
  by (simp add: no_comment_def successively_append_iff)

lemma contains_dashes_iff: "contains s ''--'' \<longleftrightarrow> \<not> no_comment s"
proof (induction s rule: code_of_line.induct)
  case (1 c c' cs)
  then show ?case
    by (auto simp: no_comment_def starts_with_def)
qed (simp_all add: no_comment_def starts_with_def)

lemma no_comment_code_of_line: "no_comment (code_of_line l)"
proof (induction l rule: code_of_line.induct)
  case (1 c c' cs)
  then show ?case
    by (cases cs) (auto simp: no_comment_def successively_Cons)
qed (simp_all add: no_comment_def)

lemma no_comment_lines: "no_comment (concat (map (\<lambda>l. code_of_line l @ [newline]) ls))"
proof (induction ls)
  case Nil
  then show ?case by (simp add: no_comment_def)
next
  case (Cons l ls)
  then show ?case
    using no_comment_code_of_line [of l]
    by (simp add: no_comment_def successively_append_iff successively_Cons newline_def)
qed

lemma split_on_head: "split_on c s = h # t \<Longrightarrow> \<exists>b. s = h @ b"
  by (induction s arbitrary: h t) (auto split: if_splits list.splits)

lemma split_on_infix: "x \<in> set (split_on c s) \<Longrightarrow> \<exists>a b. s = a @ x @ b"
proof (induction s arbitrary: x)
  case (Cons d s)
  obtain h t where ht: "split_on c s = h # t" by (cases "split_on c s") auto
  have inner: "\<exists>a b. d # s = a @ x @ b" if "x \<in> set (split_on c s)"
    using Cons.IH [OF that] by (metis append_Cons)
  have head: "\<exists>b. d # s = (d # h) @ b" using split_on_head [OF ht] by auto
  show ?case
  proof (cases "x \<in> set (split_on c s)")
    case False
    with Cons.prems ht have "x = [] \<or> x = d # h" by (auto split: if_splits)
    with head show ?thesis by (metis append_Nil)
  qed (rule inner)
qed simp

lemma split_on_clean: "x \<in> set (split_on c s) \<Longrightarrow> c \<notin> set x"
  by (induction s arbitrary: x) (auto split: if_splits list.splits)

lemma trim_infix: "\<exists>a b. s = a @ trim s @ b"
proof -
  have "s = takeWhile is_space s @ dropWhile is_space s" by simp
  moreover have "dropWhile is_space s = trim s @ rev (takeWhile is_space (rev (dropWhile is_space s)))"
    unfolding trim_def by (metis rev_append rev_rev_ident takeWhile_dropWhile_id)
  ultimately show ?thesis by metis
qed

lemma trim_ends:
  assumes "trim s \<noteq> []"
  shows "\<not> is_space (hd (trim s))" "\<not> is_space (last (trim s))"
proof -
  let ?d = "dropWhile is_space s"
  have "?d \<noteq> []"
  proof
    assume "?d = []"
    then have "trim s = []" unfolding trim_def by (simp only: rev.simps dropWhile.simps)
    with assms show False ..
  qed
  then have hd: "\<not> is_space (hd ?d)" by (rule hd_dropWhile)
  obtain b where d: "?d = trim s @ b"
    unfolding trim_def by (metis rev_append rev_rev_ident takeWhile_dropWhile_id)
  with assms have "hd (trim s) = hd ?d" by (metis hd_append2)
  with hd show "\<not> is_space (hd (trim s))" by simp
  have "dropWhile is_space (rev ?d) \<noteq> []" using assms unfolding trim_def by (metis rev.simps(1))
  then have "\<not> is_space (hd (dropWhile is_space (rev ?d)))" by (rule hd_dropWhile)
  then show "\<not> is_space (last (trim s))" by (simp add: trim_def last_rev)
qed

text \<open>
  The statements sent to the server are whole: every statement \<open>split_sql\<close> returns is
  non-empty, starts and ends with a visible character, and contains neither a semicolon nor
  a \<open>--\<close> comment, so a semicolon inside a comment never splits a statement.
\<close>

theorem split_sql_statements_are_clean:
  "\<forall>s \<in> set (split_sql sql).
     s \<noteq> [] \<and> \<not> is_space (hd s) \<and> \<not> is_space (last s) \<and> CHR '';'' \<notin> set s \<and> \<not> contains s ''--''"
proof
  fix s
  assume s: "s \<in> set (split_sql sql)"
  let ?code = "concat (map (\<lambda>l. code_of_line l @ [newline]) (lines sql))"
  obtain part where part: "part \<in> set (split_on CHR '';'' ?code)" and st: "s = trim part" "s \<noteq> []"
    using s by (auto simp: split_sql_def Let_def)
  obtain a b where ab: "part = a @ s @ b" using trim_infix [of part] st by auto
  obtain a' b' where "?code = a' @ part @ b'" using split_on_infix [OF part] by auto
  then have "no_comment s"
    using no_comment_lines [of "lines sql"] ab by (metis append.assoc no_comment_infix)
  moreover have "CHR '';'' \<notin> set s" using split_on_clean [OF part] ab by simp
  ultimately show "s \<noteq> [] \<and> \<not> is_space (hd s) \<and> \<not> is_space (last s) \<and> CHR '';'' \<notin> set s \<and> \<not> contains s ''--''"
    using st trim_ends [of part] by (simp add: contains_dashes_iff)
qed

theorem split_sql_statements_are_clean_witness:
  "split_sql ''CREATE A; -- b;  c'' = [''CREATE A''] \<and>
   \<not> contains (hd (split_sql ''CREATE A; -- b;  c'')) ''--''"
  using split_sql_statements_are_clean [of "''CREATE A; -- b;  c''"]
  by (simp_all add: split_sql_def lines_def trim_def is_space_def newline_def strip_cr_def)

end
