(* ===== verification/Wal.thy ===== *)
theory Wal
  imports Repository
begin

text \<open>
  \<open>oi-storage/src/wal.rs\<close>: the file-backed write-ahead log. The directory is a map from file
  names to contents; each operating-system call takes the next entry of a fault schedule, so
  that a failure of any call at any point (with any part of a write already done) is a run
  of the model, and so is a crash at that point. The process clock, its identifier and the
  file counter are part of the state. \<open>rmp_serde\<close> and \<open>crc32fast\<close> are the parameter
  \<open>'d codec\<close>; the metrics are not modelled.
\<close>

section \<open>The directory\<close>

datatype fault = NoFault | Fault nat

datatype io_error = Missing | Io_Failed

record wal_state =
  wal_files :: "(string, u8 list) dashmap"
  wal_faults :: "fault list"
  wal_clock :: int
  wal_counter :: u64
  wal_pid :: nat

type_synonym 'a os = "wal_state \<Rightarrow> wal_state \<times> (io_error + 'a)"

definition wal_file :: "wal_state \<Rightarrow> string \<Rightarrow> u8 list option" where
  "wal_file s n = dm_get (wal_files s) n"

definition put_file :: "string \<Rightarrow> u8 list \<Rightarrow> wal_state \<Rightarrow> wal_state" where
  "put_file n bs s = s\<lparr>wal_files := dm_insert n bs (wal_files s)\<rparr>"

definition drop_file :: "string \<Rightarrow> wal_state \<Rightarrow> wal_state" where
  "drop_file n s = s\<lparr>wal_files := dm_remove n (wal_files s)\<rparr>"

text \<open>
  \<open>faulty p q\<close> runs \<open>p\<close>, or, when the schedule says so, fails after the partial effect \<open>q k\<close>.
\<close>

definition faulty :: "'a os \<Rightarrow> (nat \<Rightarrow> wal_state \<Rightarrow> wal_state) \<Rightarrow> 'a os" where
  "faulty p q s =
     (case wal_faults s of
        [] \<Rightarrow> p s
      | NoFault # fs \<Rightarrow> p (s\<lparr>wal_faults := fs\<rparr>)
      | Fault k # fs \<Rightarrow> (q k (s\<lparr>wal_faults := fs\<rparr>), Inl Io_Failed))"

definition os_create :: "string \<Rightarrow> unit os" where
  "os_create n = faulty (\<lambda>s. (put_file n [] s, Inr ())) (\<lambda>_ s. s)"

definition os_write :: "string \<Rightarrow> u8 list \<Rightarrow> unit os" where
  "os_write n bs = faulty
     (\<lambda>s. (put_file n (the (wal_file s n) @ bs) s, Inr ()))
     (\<lambda>k s. put_file n (the (wal_file s n) @ take k bs) s)"

definition os_sync :: "string \<Rightarrow> unit os" where
  "os_sync n = faulty (\<lambda>s. (s, Inr ())) (\<lambda>_ s. s)"

definition os_rename :: "string \<Rightarrow> string \<Rightarrow> unit os" where
  "os_rename a b = faulty
     (\<lambda>s. case wal_file s a of None \<Rightarrow> (s, Inl Missing) | Some bs \<Rightarrow> (put_file b bs (drop_file a s), Inr ()))
     (\<lambda>_ s. s)"

definition os_remove :: "string \<Rightarrow> unit os" where
  "os_remove n = faulty
     (\<lambda>s. case wal_file s n of None \<Rightarrow> (s, Inl Missing) | Some _ \<Rightarrow> (drop_file n s, Inr ()))
     (\<lambda>_ s. s)"

definition os_read :: "string \<Rightarrow> u8 list os" where
  "os_read n = faulty
     (\<lambda>s. case wal_file s n of None \<Rightarrow> (s, Inl Missing) | Some bs \<Rightarrow> (s, Inr bs))
     (\<lambda>_ s. s)"

definition os_list :: "string list os" where
  "os_list = faulty (\<lambda>s. (s, Inr (dm_keys (wal_files s)))) (\<lambda>_ s. s)"

text \<open>\<open>.map_err(|e| CoreError::Storage(format!(...)))\<close>.\<close>

definition labelled :: "string \<Rightarrow> 'a os \<Rightarrow> (wal_state, 'a) io" where
  "labelled msg p s = (case p s of (s', r) \<Rightarrow> (s', map_sum (\<lambda>_. Storage msg) id r))"

section \<open>Frames\<close>

unbundle bit_operations_syntax

record 'd codec =
  enc_batch :: "'d oi_snapshot list \<Rightarrow> string + u8 list"
  dec_batch :: "u8 list \<Rightarrow> string + 'd oi_snapshot list"
  crc32 :: "u8 list \<Rightarrow> u32"

definition frame_magic :: "u8 list" where
  "frame_magic = [0x4F, 0x49, 0x57, 0x31]"

definition frame_header_len :: nat where
  "frame_header_len = 8"

definition to_be_bytes :: "u32 \<Rightarrow> u8 list" where
  "to_be_bytes w = [ucast (drop_bit 24 w), ucast (drop_bit 16 w), ucast (drop_bit 8 w), ucast w]"

fun from_be_bytes :: "u8 list \<Rightarrow> u32" where
  "from_be_bytes [a, b, c, d] =
     push_bit 24 (ucast a) OR push_bit 16 (ucast b) OR push_bit 8 (ucast c) OR ucast d"
| "from_be_bytes _ = 0"

definition frame :: "'d codec \<Rightarrow> u8 list \<Rightarrow> u8 list" where
  "frame c payload = frame_magic @ to_be_bytes (crc32 c payload) @ payload"

section \<open>File names\<close>

definition pending_suffix :: string where
  "pending_suffix = ''.mpk''"

definition uuid_v4 :: "wal_state \<Rightarrow> wal_state \<times> string" where
  "uuid_v4 s = (s\<lparr>wal_counter := wal_counter s + 1\<rparr>,
     show_hex (wal_pid s) @ ''-'' @ show_hex (unat (wal_counter s)))"

definition final_name :: "nat \<Rightarrow> string \<Rightarrow> string" where
  "final_name ts_ms i = show_nat ts_ms @ ''-'' @ i @ pending_suffix"

definition tmp_name :: "string \<Rightarrow> string" where
  "tmp_name n = ''.'' @ n @ ''.tmp''"

definition parse_ts_ms :: "string \<Rightarrow> nat option" where
  "parse_ts_ms name = (case split_first CHR ''-'' name of None \<Rightarrow> None | Some (a, _) \<Rightarrow> parse_uint 128 a)"

section \<open>Operations of the log\<close>

definition wal_append :: "'d codec \<Rightarrow> 'd oi_snapshot list \<Rightarrow> (wal_state, string) io" where
  "wal_append c snaps s =
     (case enc_batch c snaps of
        Inl e \<Rightarrow> (s, Inl (Storage (''wal msgpack: '' @ e)))
      | Inr payload \<Rightarrow>
          if wal_clock s < 0 then (s, Inl (Storage ''wal clock''))
          else
            (let ts_ms = nat (wal_clock s);
                 (s1, i) = uuid_v4 s;
                 final = final_name ts_ms i;
                 tmp = tmp_name final
             in and_then (labelled ''wal create'' (os_create tmp)) (\<lambda>_.
                and_then (labelled ''wal write magic'' (os_write tmp frame_magic)) (\<lambda>_.
                and_then (labelled ''wal write crc'' (os_write tmp (to_be_bytes (crc32 c payload)))) (\<lambda>_.
                and_then (labelled ''wal write payload'' (os_write tmp payload)) (\<lambda>_.
                and_then (labelled ''wal fsync'' (os_sync tmp)) (\<lambda>_.
                and_then (labelled ''wal rename'' (os_rename tmp final)) (\<lambda>_ s. (s, Inr final))))))) s1))"

definition wal_ack :: "string \<Rightarrow> (wal_state, unit) io" where
  "wal_ack p s =
     (case os_remove p s of
        (s', Inr _) \<Rightarrow> (s', Inr ())
      | (s', Inl Missing) \<Rightarrow> (s', Inr ())
      | (s', Inl Io_Failed) \<Rightarrow> (s', Inl (Storage ''wal ack'')))"

definition is_pending :: "string \<Rightarrow> bool" where
  "is_pending n \<longleftrightarrow> \<not> (starts_with n ''.'' \<or> \<not> ends_with n pending_suffix)"

definition wal_pending :: "(wal_state, string list) io" where
  "wal_pending = and_then (labelled ''wal read_dir'' os_list) (\<lambda>names s. (s, Inr (sort (filter is_pending names))))"

definition saturating_age :: "int \<Rightarrow> nat \<Rightarrow> nat" where
  "saturating_age clock ts_ms = (if clock < 0 then 0 else nat clock - ts_ms)"

definition oldest_pending_age :: "(wal_state, nat option) io" where
  "oldest_pending_age = and_then wal_pending (\<lambda>ps s. (s, Inr
     (case ps of [] \<Rightarrow> None
      | p # _ \<Rightarrow> map_option (saturating_age (wal_clock s)) (parse_ts_ms p))))"

fun reap_files :: "nat \<Rightarrow> nat \<Rightarrow> string list \<Rightarrow> nat \<Rightarrow> (wal_state, nat) io" where
  "reap_files now_ms cutoff_ms [] reaped s = (s, Inr reaped)"
| "reap_files now_ms cutoff_ms (p # ps) reaped s =
     (case parse_ts_ms p of
        None \<Rightarrow> reap_files now_ms cutoff_ms ps reaped s
      | Some ts_ms \<Rightarrow>
          if now_ms - ts_ms \<le> cutoff_ms then (s, Inr reaped)
          else (case os_remove p s of
                  (s', Inr _) \<Rightarrow> reap_files now_ms cutoff_ms ps (reaped + 1) s'
                | (s', Inl Missing) \<Rightarrow> reap_files now_ms cutoff_ms ps reaped s'
                | (s', Inl Io_Failed) \<Rightarrow> (s', Inl (Storage ''wal reap''))))"

definition reap_older_than :: "nat \<Rightarrow> (wal_state, nat) io" where
  "reap_older_than max_age_ms = and_then wal_pending (\<lambda>ps s. reap_files (nat (wal_clock s)) max_age_ms ps 0 s)"

definition decode_file :: "'d codec \<Rightarrow> u8 list \<Rightarrow> core_error + 'd oi_snapshot list" where
  "decode_file c bytes =
     (if frame_header_len \<le> length bytes \<and> take 4 bytes = frame_magic
      then (let stored_crc = from_be_bytes (take 4 (drop 4 bytes));
                payload = drop frame_header_len bytes
            in if stored_crc \<noteq> crc32 c payload then Inl (Storage ''wal crc mismatch'')
               else map_sum (\<lambda>e. Storage (''wal decode: '' @ e)) id (dec_batch c payload))
      else map_sum (\<lambda>e. Storage (''wal decode: '' @ e)) id (dec_batch c bytes))"

definition wal_read :: "'d codec \<Rightarrow> string \<Rightarrow> (wal_state, 'd oi_snapshot list) io" where
  "wal_read c p = and_then (labelled ''wal read'' (os_read p)) (\<lambda>bytes s. (s, decode_file c bytes))"

text \<open>\<open>Path::with_extension\<close> on a name with a stem and an extension.\<close>

definition with_extension :: "string \<Rightarrow> string \<Rightarrow> string" where
  "with_extension n e =
     (case dropWhile (\<lambda>ch. ch \<noteq> CHR ''.'') (rev n) of
        [] \<Rightarrow> n @ ''.'' @ e
      | rest \<Rightarrow> rev rest @ e)"

definition quarantine :: "string \<Rightarrow> wal_state \<Rightarrow> wal_state" where
  "quarantine p s = fst (os_rename p (with_extension p ''corrupt'') s)"

section \<open>The drainer\<close>

type_synonym ('d, 't) sink = "'d oi_snapshot list \<Rightarrow> ('t, unit) io"

fun drain_files :: "'d codec \<Rightarrow> ('d, 't) sink \<Rightarrow> string list \<Rightarrow> (wal_state \<times> 't, unit) io" where
  "drain_files c upsert [] (w, t) = ((w, t), Inr ())"
| "drain_files c upsert (p # ps) (w, t) =
     (case wal_read c p w of
        (w1, Inl e) \<Rightarrow> drain_files c upsert ps (quarantine p w1, t)
      | (w1, Inr snaps) \<Rightarrow>
          (case upsert snaps t of
             (t', Inl e) \<Rightarrow> ((w1, t'), Inl e)
           | (t', Inr _) \<Rightarrow>
               (case wal_ack p w1 of
                  (w2, Inl e) \<Rightarrow> ((w2, t'), Inl e)
                | (w2, Inr _) \<Rightarrow> drain_files c upsert ps (w2, t'))))"

definition drain_once :: "'d codec \<Rightarrow> ('d, 't) sink \<Rightarrow> (wal_state \<times> 't, unit) io" where
  "drain_once c upsert = (\<lambda>(w, t).
     case wal_pending w of
       (w1, Inl e) \<Rightarrow> ((w1, t), Inl e)
     | (w1, Inr ps) \<Rightarrow> drain_files c upsert ps (w1, t))"

section \<open>The durable repository\<close>

definition wal_backed :: "'d codec \<Rightarrow> ('t, 'd) oi_repository \<Rightarrow> (wal_state \<times> 't, 'd) oi_repository" where
  "wal_backed c inner =
     \<lparr>upsert_snapshots = (\<lambda>snaps (w, t).
        if snaps = [] then ((w, t), Inr ())
        else (case wal_append c snaps w of
                (w1, Inl e) \<Rightarrow> ((w1, t), Inl e)
              | (w1, Inr path) \<Rightarrow>
                  (case upsert_snapshots inner snaps t of
                     (t', Inr _) \<Rightarrow> (case wal_ack path w1 of (w2, r) \<Rightarrow> ((w2, t'), r))
                   | (t', Inl e) \<Rightarrow> ((w1, t'), Inl e)))),
      upsert_instruments = (\<lambda>metas (w, t). case upsert_instruments inner metas t of (t', r) \<Rightarrow> ((w, t'), r)),
      range_snapshots = (\<lambda>i a z (w, t). range_snapshots inner i a z t),
      latest_snapshot = (\<lambda>i (w, t). latest_snapshot inner i t),
      upsert_funding = (\<lambda>bars (w, t). case upsert_funding inner bars t of (t', r) \<Rightarrow> ((w, t'), r)),
      funding_range = (\<lambda>i a z (w, t). funding_range inner i a z t),
      latest_funding = (\<lambda>i (w, t). latest_funding inner i t),
      upsert_funding_events = (\<lambda>events (w, t). case upsert_funding_events inner events t of (t', r) \<Rightarrow> ((w, t'), r)),
      funding_events_range = (\<lambda>i a z (w, t). funding_events_range inner i a z t),
      latest_funding_event = (\<lambda>i (w, t). latest_funding_event inner i t)\<rparr>"

section \<open>What the calls touch\<close>

definition unchanged_outside :: "string set \<Rightarrow> wal_state \<Rightarrow> wal_state \<Rightarrow> bool" where
  "unchanged_outside S s s' \<longleftrightarrow> (\<forall>n. n \<notin> S \<longrightarrow> wal_file s' n = wal_file s n)"

lemma wal_file_put [simp]: "wal_file (put_file n bs s) m = (if m = n then Some bs else wal_file s m)"
  by (simp add: wal_file_def put_file_def dm_get_def dm_insert_def update_conv')

lemma wal_file_drop [simp]: "wal_file (drop_file n s) m = (if m = n then None else wal_file s m)"
  by (simp add: wal_file_def drop_file_def dm_get_def dm_remove_def delete_conv')

lemma wal_file_faults [simp]: "wal_file (s\<lparr>wal_faults := fs\<rparr>) n = wal_file s n"
  by (simp add: wal_file_def)

lemma wal_file_counter [simp]: "wal_file (s\<lparr>wal_counter := k\<rparr>) n = wal_file s n"
  by (simp add: wal_file_def)

lemma faulty_cases:
  assumes "faulty p q s = (s', r)"
  obtains (runs) fs where "p (s\<lparr>wal_faults := fs\<rparr>) = (s', r)"
  | (fails) k fs where "s' = q k (s\<lparr>wal_faults := fs\<rparr>)" "r = Inl Io_Failed"
proof (cases "wal_faults s")
  case Nil
  moreover have "s\<lparr>wal_faults := wal_faults s\<rparr> = s" by simp
  ultimately have "p (s\<lparr>wal_faults := wal_faults s\<rparr>) = (s', r)" using assms by (simp only:) (simp add: faulty_def)
  then show ?thesis by (rule runs)
next
  case (Cons f fs)
  with assms show ?thesis by (cases f) (auto simp: faulty_def intro: runs fails)
qed

lemma os_create_effect:
  "os_create n s = (s', r) \<Longrightarrow>
     unchanged_outside {n} s s' \<and> (r = Inr () \<longrightarrow> wal_file s' n = Some [])"
  unfolding os_create_def by (erule faulty_cases) (auto simp: unchanged_outside_def)

lemma os_write_effect:
  "os_write n bs s = (s', r) \<Longrightarrow>
     unchanged_outside {n} s s' \<and>
     (r = Inr () \<longrightarrow> wal_file s n = Some old \<longrightarrow> wal_file s' n = Some (old @ bs))"
  unfolding os_write_def by (erule faulty_cases) (auto simp: unchanged_outside_def)

lemma os_sync_effect: "os_sync n s = (s', r) \<Longrightarrow> unchanged_outside {} s s'"
  unfolding os_sync_def by (erule faulty_cases) (auto simp: unchanged_outside_def)

lemma os_rename_effect:
  assumes "os_rename a b s = (s', r)" "a \<noteq> b"
  shows "(case r of
      Inl e \<Rightarrow> unchanged_outside {} s s'
    | Inr _ \<Rightarrow> unchanged_outside {a, b} s s' \<and> wal_file s' a = None \<and>
              wal_file s a \<noteq> None \<and> wal_file s' b = wal_file s a)"
  using assms(1) unfolding os_rename_def
proof (cases rule: faulty_cases)
  case (runs fs)
  show ?thesis
  proof (cases "wal_file s a")
    case None
    with runs have "s' = s\<lparr>wal_faults := fs\<rparr>" "r = Inl Missing" by simp_all
    with None show ?thesis by (simp add: unchanged_outside_def)
  next
    case (Some bs)
    with runs have "s' = put_file b bs (drop_file a (s\<lparr>wal_faults := fs\<rparr>))" "r = Inr ()" by simp_all
    with Some assms(2) show ?thesis by (simp add: unchanged_outside_def)
  qed
next
  case (fails k fs)
  then show ?thesis by (simp add: unchanged_outside_def)
qed

lemma os_remove_effect:
  assumes "os_remove n s = (s', r)"
  shows "(case r of
      Inl e \<Rightarrow> unchanged_outside {} s s' \<and> (e = Missing \<longrightarrow> wal_file s n = None)
    | Inr _ \<Rightarrow> unchanged_outside {n} s s' \<and> wal_file s' n = None)"
  using assms(1) unfolding os_remove_def
proof (cases rule: faulty_cases)
  case (runs fs)
  show ?thesis
  proof (cases "wal_file s n")
    case None
    with runs have "s' = s\<lparr>wal_faults := fs\<rparr>" "r = Inl Missing" by simp_all
    with None show ?thesis by (simp add: unchanged_outside_def)
  next
    case (Some bs)
    with runs have "s' = drop_file n (s\<lparr>wal_faults := fs\<rparr>)" "r = Inr ()" by simp_all
    with Some show ?thesis by (simp add: unchanged_outside_def)
  qed
next
  case (fails k fs)
  then show ?thesis by (simp add: unchanged_outside_def)
qed

lemma os_read_effect:
  "os_read n s = (s', r) \<Longrightarrow>
     unchanged_outside {} s s' \<and> (case r of Inl e \<Rightarrow> True | Inr bs \<Rightarrow> wal_file s n = Some bs)"
  unfolding os_read_def by (erule faulty_cases) (auto simp: unchanged_outside_def split: option.splits)

lemma os_list_effect:
  "os_list s = (s', r) \<Longrightarrow>
     unchanged_outside {} s s' \<and> (case r of Inl e \<Rightarrow> True | Inr ns \<Rightarrow> ns = dm_keys (wal_files s))"
  unfolding os_list_def by (erule faulty_cases) (auto simp: unchanged_outside_def)

lemma unchanged_trans:
  "unchanged_outside S s t \<Longrightarrow> unchanged_outside T t u \<Longrightarrow> unchanged_outside (S \<union> T) s u"
  by (simp add: unchanged_outside_def)

lemma unchanged_mono: "unchanged_outside S s t \<Longrightarrow> S \<subseteq> T \<Longrightarrow> unchanged_outside T s t"
  by (auto simp: unchanged_outside_def)

lemma labelled_Inr: "labelled m p s = (s', Inr a) \<longleftrightarrow> p s = (s', Inr a)"
  by (cases "p s"; cases "snd (p s)") (auto simp: labelled_def)

lemma labelled_Inl: "labelled m p s = (s', Inl e) \<Longrightarrow> \<exists>e'. p s = (s', Inl e') \<and> e = Storage m"
  by (cases "p s"; cases "snd (p s)") (auto simp: labelled_def)

section \<open>Names\<close>

lemma pending_no_dot: "is_pending n \<Longrightarrow> \<not> starts_with n ''.''"
  by (simp add: is_pending_def)

lemma starts_with_dot [simp]: "starts_with (CHR ''.'' # n) ''.''"
  by (simp add: starts_with_def)

lemma tmp_not_pending [simp]: "\<not> is_pending (tmp_name n)"
  by (simp add: is_pending_def tmp_name_def)

lemma show_nat_hd_not_dot: "\<not> starts_with (show_nat n @ r) ''.''"
proof -
  have "CHR ''.'' \<notin> set (show_nat n)" by (rule show_nat_no_char) simp
  then show ?thesis by (cases "show_nat n") (auto simp: starts_with_def)
qed

lemma final_pending [simp]: "is_pending (final_name ts i)"
proof -
  have "ends_with ((show_nat ts @ ''-'' @ i) @ pending_suffix) pending_suffix" by (rule ends_with_append)
  then show ?thesis
    using show_nat_hd_not_dot [of ts "''-'' @ i @ pending_suffix"]
    by (simp add: is_pending_def final_name_def)
qed

lemma final_ne_tmp [simp]: "final_name ts i \<noteq> tmp_name n"
  using final_pending tmp_not_pending by metis

lemma pending_ne_tmp: "is_pending n \<Longrightarrow> n \<noteq> tmp_name m"
  by auto

lemma pending_split: "is_pending n \<longleftrightarrow> \<not> starts_with n ''.'' \<and> (\<exists>s. n = s @ pending_suffix)"
  unfolding is_pending_def ends_with_def by (metis append_take_drop_id de_Morgan_disj ends_with_append ends_with_def)

lemma corrupt_name: "with_extension (s @ pending_suffix) ''corrupt'' = s @ ''.corrupt''"
  by (simp add: with_extension_def pending_suffix_def)

lemma corrupt_not_pending:
  assumes n: "is_pending n"
  shows "\<not> is_pending (with_extension n ''corrupt'')"
proof
  assume c: "is_pending (with_extension n ''corrupt'')"
  obtain a where "n = a @ pending_suffix" using n by (auto simp: pending_split)
  moreover obtain b where "with_extension n ''corrupt'' = b @ pending_suffix" using c by (auto simp: pending_split)
  ultimately have "a @ ''.corrupt'' = b @ ''.mpk''" using corrupt_name [of a] by (simp add: pending_suffix_def)
  then have "last (a @ ''.corrupt'') = last (b @ ''.mpk'')" by (rule arg_cong)
  then show False by simp
qed

lemma corrupt_inj:
  "is_pending m \<Longrightarrow> is_pending n \<Longrightarrow> with_extension m ''corrupt'' = with_extension n ''corrupt'' \<Longrightarrow> m = n"
  by (auto simp: pending_split corrupt_name)

section \<open>Appending\<close>

lemma write_step:
  assumes "and_then (labelled m (os_write tmp bs)) f s = (s', r)"
    and "unchanged_outside {tmp} s0 s" "wal_file s tmp = Some old"
  shows "(\<exists>e. r = Inl e \<and> unchanged_outside {tmp} s0 s') \<or>
         (\<exists>s1. f () s1 = (s', r) \<and> unchanged_outside {tmp} s0 s1 \<and> wal_file s1 tmp = Some (old @ bs))"
  using assms(1)
proof (cases rule: and_then_cases)
  case (fails e)
  then obtain e' where "os_write tmp bs s = (s', Inl e')" by (auto dest: labelled_Inl)
  then have "unchanged_outside {tmp} s s'" by (simp add: os_write_effect)
  with fails assms(2) show ?thesis by (auto simp: unchanged_outside_def)
next
  case (goes s1 a)
  then have "os_write tmp bs s = (s1, Inr ())" by (simp add: labelled_Inr)
  then have "unchanged_outside {tmp} s s1" "wal_file s1 tmp = Some (old @ bs)"
    using os_write_effect [of tmp bs s s1 "Inr ()" old] assms(3) by simp_all
  with goes assms(2) show ?thesis by (auto simp: unchanged_outside_def)
qed

lemma create_step:
  assumes "and_then (labelled m (os_create tmp)) f s = (s', r)"
  shows "(\<exists>e. r = Inl e \<and> unchanged_outside {tmp} s s') \<or>
         (\<exists>s1. f () s1 = (s', r) \<and> unchanged_outside {tmp} s s1 \<and> wal_file s1 tmp = Some [])"
  using assms
proof (cases rule: and_then_cases)
  case (fails e)
  then obtain e' where "os_create tmp s = (s', Inl e')" by (auto dest: labelled_Inl)
  with fails show ?thesis by (simp add: os_create_effect)
next
  case (goes s1 a)
  then have "os_create tmp s = (s1, Inr ())" by (simp add: labelled_Inr)
  with goes show ?thesis using os_create_effect [of tmp s s1 "Inr ()"] by auto
qed

lemma sync_step:
  assumes "and_then (labelled m (os_sync tmp)) f s = (s', r)"
    and "unchanged_outside {tmp} s0 s" "wal_file s tmp = Some old"
  shows "(\<exists>e. r = Inl e \<and> unchanged_outside {tmp} s0 s') \<or>
         (\<exists>s1. f () s1 = (s', r) \<and> unchanged_outside {tmp} s0 s1 \<and> wal_file s1 tmp = Some old)"
  using assms(1)
proof (cases rule: and_then_cases)
  case (fails e)
  then obtain e' where "os_sync tmp s = (s', Inl e')" by (auto dest: labelled_Inl)
  then have "unchanged_outside {} s s'" by (rule os_sync_effect)
  with fails assms(2) show ?thesis by (auto simp: unchanged_outside_def)
next
  case (goes s1 a)
  then have "unchanged_outside {} s s1" by (auto simp: labelled_Inr dest: os_sync_effect)
  with goes assms(2,3) show ?thesis by (auto simp: unchanged_outside_def)
qed

lemma rename_step:
  assumes "and_then (labelled m (os_rename tmp final)) (\<lambda>_ s. (s, Inr final)) s = (s', r)"
    and "unchanged_outside {tmp} s0 s" "wal_file s tmp = Some bs" "tmp \<noteq> final"
  shows "(\<exists>e. r = Inl e \<and> unchanged_outside {tmp} s0 s') \<or>
         (r = Inr final \<and> unchanged_outside {tmp, final} s0 s' \<and> wal_file s' final = Some bs)"
  using assms(1)
proof (cases rule: and_then_cases)
  case (fails e)
  then obtain e' where "os_rename tmp final s = (s', Inl e')" by (auto dest: labelled_Inl)
  then have "unchanged_outside {} s s'" using os_rename_effect [of tmp final s s' "Inl e'"] assms(4) by simp
  with fails assms(2) show ?thesis by (auto simp: unchanged_outside_def)
next
  case (goes s1 a)
  then have "os_rename tmp final s = (s', Inr ())" "r = Inr final" by (simp_all add: labelled_Inr)
  then show ?thesis
    using os_rename_effect [of tmp final s s' "Inr ()"] assms(2-4) by (auto simp: unchanged_outside_def)
qed

definition next_name :: "wal_state \<Rightarrow> string" where
  "next_name s = final_name (nat (wal_clock s)) (snd (uuid_v4 s))"

lemma wal_append_effect:
  assumes "wal_append c snaps s = (s', r)"
  shows "(\<exists>e. r = Inl e \<and> unchanged_outside {tmp_name (next_name s)} s s') \<or>
         (\<exists>payload. enc_batch c snaps = Inr payload \<and> 0 \<le> wal_clock s \<and> r = Inr (next_name s) \<and>
            unchanged_outside {tmp_name (next_name s), next_name s} s s' \<and>
            wal_file s' (next_name s) = Some (frame c payload))"
proof -
  let ?final = "next_name s"
  let ?tmp = "tmp_name ?final"
  have ne: "?tmp \<noteq> ?final" by (metis final_ne_tmp next_name_def)
  show ?thesis
  proof (cases "enc_batch c snaps")
    case (Inl e)
    with assms show ?thesis by (auto simp: wal_append_def unchanged_outside_def)
  next
    case (Inr payload)
    show ?thesis
    proof (cases "wal_clock s < 0")
      case True
      with assms Inr show ?thesis by (auto simp: wal_append_def unchanged_outside_def)
    next
      case False
      let ?s1 = "fst (uuid_v4 s)"
      have s1: "unchanged_outside {?tmp} s ?s1" by (simp add: uuid_v4_def unchanged_outside_def)
      have out: "\<And>X t. unchanged_outside X ?s1 t = unchanged_outside X s t"
        by (simp add: uuid_v4_def unchanged_outside_def)
      have run: "and_then (labelled ''wal create'' (os_create ?tmp)) (\<lambda>_.
          and_then (labelled ''wal write magic'' (os_write ?tmp frame_magic)) (\<lambda>_.
          and_then (labelled ''wal write crc'' (os_write ?tmp (to_be_bytes (crc32 c payload)))) (\<lambda>_.
          and_then (labelled ''wal write payload'' (os_write ?tmp payload)) (\<lambda>_.
          and_then (labelled ''wal fsync'' (os_sync ?tmp)) (\<lambda>_.
          and_then (labelled ''wal rename'' (os_rename ?tmp ?final)) (\<lambda>_ s. (s, Inr ?final))))))) ?s1 = (s', r)"
        using assms Inr False by (simp add: wal_append_def next_name_def Let_def split: prod.splits)
      show ?thesis
        using create_step [OF run]
        apply (elim disjE exE conjE)
         apply (simp add: out)
        apply ((drule (1) write_step sync_step, assumption, elim disjE exE conjE, simp add: out)+)
        apply (drule (1) rename_step [OF _ _ _ ne], assumption)
        using Inr False apply (auto simp: out frame_def)
        done
    qed
  qed
qed

section \<open>Frames decode\<close>

lemma from_to_be_bytes [simp]: "from_be_bytes (to_be_bytes w) = w"
proof -
  have "push_bit 24 (ucast (ucast (drop_bit 24 w) :: u8)) OR push_bit 16 (ucast (ucast (drop_bit 16 w) :: u8))
      OR push_bit 8 (ucast (ucast (drop_bit 8 w) :: u8)) OR ucast (ucast w :: u8) = (w :: u32)"
  proof (rule bit_word_eqI)
    fix n
    assume "n < LENGTH(32)"
    then consider "n < 8" | "8 \<le> n" "n < 16" | "16 \<le> n" "n < 24" | "24 \<le> n" "n < 32" by fastforce
    then show "bit (push_bit 24 (ucast (ucast (drop_bit 24 w) :: u8)) OR push_bit 16 (ucast (ucast (drop_bit 16 w) :: u8))
      OR push_bit 8 (ucast (ucast (drop_bit 8 w) :: u8)) OR (ucast (ucast w :: u8) :: u32)) n = bit w n"
      by cases (auto simp: bit_simps)
  qed
  then show ?thesis by (simp add: to_be_bytes_def)
qed

lemma length_to_be_bytes [simp]: "length (to_be_bytes w) = 4"
  by (simp add: to_be_bytes_def)

lemma decode_frame:
  "decode_file c (frame c payload) = map_sum (\<lambda>e. Storage (''wal decode: '' @ e)) id (dec_batch c payload)"
proof -
  have "take 4 (drop 4 (frame c payload)) = to_be_bytes (crc32 c payload)"
    "drop 8 (frame c payload) = payload" "take 4 (frame c payload) = frame_magic" "8 \<le> length (frame c payload)"
    by (simp_all add: frame_def frame_magic_def)
  then show ?thesis by (simp add: decode_file_def frame_header_len_def Let_def)
qed

section \<open>The log as a queue\<close>

definition queued :: "wal_state \<Rightarrow> string \<Rightarrow> u8 list option" where
  "queued s n = (if is_pending n then wal_file s n else None)"

definition batch_entry :: "'d codec \<Rightarrow> 'd oi_snapshot list \<Rightarrow> u8 list option" where
  "batch_entry c snaps = (case enc_batch c snaps of Inl e \<Rightarrow> None | Inr payload \<Rightarrow> Some (frame c payload))"

lemma queued_same:
  "unchanged_outside S s s' \<Longrightarrow> \<forall>m \<in> S. \<not> is_pending m \<Longrightarrow> queued s' = queued s"
  by (auto simp: unchanged_outside_def queued_def fun_eq_iff)

text \<open>
  What \<open>WalBacked\<close> and the drainer rely on: appending adds one entry or, failing, none;
  acknowledging removes one entry or, failing, none.
\<close>

locale durable_queue =
  fixes append_batch :: "'b \<Rightarrow> 'q \<Rightarrow> 'q \<times> (core_error + string)"
    and ack :: "string \<Rightarrow> 'q \<Rightarrow> 'q \<times> (core_error + unit)"
    and queue :: "'q \<Rightarrow> string \<Rightarrow> 'e option"
    and entry :: "'b \<Rightarrow> 'e option"
    and is_entry :: "string \<Rightarrow> bool"
  assumes append_err: "append_batch b q = (q', Inl e) \<Longrightarrow> queue q' = queue q"
    and append_ok: "append_batch b q = (q', Inr p) \<Longrightarrow>
        is_entry p \<and> entry b \<noteq> None \<and> queue q' = (queue q)(p := entry b)"
    and ack_err: "ack p q = (q', Inl e) \<Longrightarrow> queue q' = queue q"
    and ack_ok: "ack p q = (q', Inr u) \<Longrightarrow> queue q' = (queue q)(p := None)"
begin

lemma append_entry: "append_batch b q = (q', Inr p) \<Longrightarrow> queue q' p = entry b \<and> entry b \<noteq> None"
  by (simp add: append_ok)

lemma append_keeps: "append_batch b q = (q', r) \<Longrightarrow> r \<noteq> Inr p \<Longrightarrow> queue q' p = queue q p"
  by (cases r) (auto simp: append_err append_ok)

lemma ack_keeps: "ack p q = (q', r) \<Longrightarrow> p' \<noteq> p \<Longrightarrow> queue q' p' = queue q p'"
  by (cases r) (auto simp: ack_err ack_ok)

lemma append_ack:
  assumes "append_batch b q = (q1, Inr p)" "ack p q1 = (q2, Inr u)" "queue q p = None"
  shows "queue q2 = queue q"
  using append_ok [OF assms(1)] ack_ok [OF assms(2)] assms(3) by auto

lemma append_failed_ack:
  assumes "append_batch b q = (q1, Inr p)" "ack p q1 = (q2, Inl e)"
  shows "queue q2 p = entry b \<and> entry b \<noteq> None"
  using append_ok [OF assms(1)] ack_err [OF assms(2)] by auto

end

lemma wal_ack_effect:
  assumes "wal_ack p s = (s', r)"
  shows "(\<exists>e. r = Inl e \<and> unchanged_outside {} s s') \<or> (r = Inr () \<and> unchanged_outside {p} s s' \<and> wal_file s' p = None)"
proof -
  obtain t r' where o': "os_remove p s = (t, r')" by (cases "os_remove p s")
  show ?thesis
  proof (cases r')
    case (Inl e)
    with assms o' os_remove_effect [OF o'] show ?thesis
      by (cases e) (auto simp: wal_ack_def unchanged_outside_def)
  next
    case (Inr u)
    with assms o' os_remove_effect [OF o'] show ?thesis by (auto simp: wal_ack_def)
  qed
qed

interpretation wal: durable_queue "wal_append c" wal_ack queued "batch_entry c" is_pending
  for c :: "'d codec"
proof unfold_locales
  fix b :: "'d oi_snapshot list" and s s' :: wal_state and e p u
  show "queued s' = queued s" if "wal_append c b s = (s', Inl e)"
    using wal_append_effect [OF that] by (auto intro: queued_same [of "{tmp_name (next_name s)}"])
  show "is_pending p \<and> batch_entry c b \<noteq> None \<and> queued s' = (queued s)(p := batch_entry c b)"
    if app: "wal_append c b s = (s', Inr p)"
  proof -
    obtain payload where *: "enc_batch c b = Inr payload" "p = next_name s"
        "unchanged_outside {tmp_name (next_name s), next_name s} s s'" "wal_file s' (next_name s) = Some (frame c payload)"
      using wal_append_effect [OF app] by auto
    then have "is_pending p" by (simp add: next_name_def)
    moreover from this * have "queued s' n = ((queued s)(p := batch_entry c b)) n" for n
      using pending_ne_tmp [of n "next_name s"] by (auto simp: queued_def batch_entry_def unchanged_outside_def)
    ultimately show ?thesis using * by (auto simp: batch_entry_def)
  qed
  show "queued s' = queued s" if "wal_ack p s = (s', Inl e)"
    using wal_ack_effect [OF that] by (auto simp: unchanged_outside_def queued_def fun_eq_iff)
  show "queued s' = (queued s)(p := None)" if "wal_ack p s = (s', Inr u)"
    using wal_ack_effect [OF that] by (auto simp: unchanged_outside_def queued_def fun_eq_iff)
qed

end
