(* ===== verification/Durability.thy ===== *)
theory Durability
  imports Wal
begin

text \<open>
  What the write-ahead log guarantees: appends are all-or-nothing, batches read back,
  \<open>WalBacked\<close> stores or queues every batch, the drainer neither loses nor reorders a queued
  batch, the reaper deletes only aged files.
\<close>

text \<open>
  C3. The log is atomic at every point of failure: whatever call of \<open>append\<close> fails (or
  the process dies there), however much of a write was done, the pending entries are exactly
  those of before, or, when \<open>append\<close> returns a path, those of before and one complete frame
  of the batch under that path.
\<close>

theorem append_is_all_or_nothing:
  "case wal_append c snaps w of
     (w', Inl e) \<Rightarrow> queued w' = queued w
   | (w', Inr p) \<Rightarrow> \<exists>payload. enc_batch c snaps = Inr payload \<and> is_pending p \<and>
                    queued w' = (queued w)(p \<mapsto> frame c payload)"
proof -
  obtain w' r where a: "wal_append c snaps w = (w', r)" by (cases "wal_append c snaps w")
  show ?thesis
  proof (cases r)
    case (Inl e)
    with a show ?thesis by (simp add: wal.append_err)
  next
    case (Inr p)
    with a wal.append_ok [of c snaps w w' p] show ?thesis
      by (auto simp: batch_entry_def split: sum.splits)
  qed
qed

text \<open>A batch read back.\<close>

lemma wal_read_file:
  "wal_faults w = [] \<Longrightarrow> wal_file w p = Some bytes \<Longrightarrow> wal_read c p w = (w, decode_file c bytes)"
  by (simp add: wal_read_def and_then_def labelled_def os_read_def faulty_def)

text \<open>
  What was appended is what is read: when the codec round-trips, reading the path that
  \<open>append\<close> returned, at any later time at which the file is still there, gives the batch.
\<close>

theorem append_then_read:
  assumes "\<forall>payload. enc_batch c snaps = Inr payload \<longrightarrow> dec_batch c payload = Inr snaps"
    and "wal_append c snaps w = (w', Inr p)"
    and "wal_file w2 p = wal_file w' p" "wal_faults w2 = []"
  shows "wal_read c p w2 = (w2, Inr snaps)"
proof -
  obtain payload where *: "enc_batch c snaps = Inr payload" "wal_file w' p = Some (frame c payload)"
    using wal_append_effect [OF assms(2)] by auto
  with assms(1,3,4) show ?thesis by (simp add: wal_read_file decode_frame)
qed

section \<open>Concrete runs\<close>

text \<open>A codec over batches of bars that differ in one number, and an empty log.\<close>

definition nat_bar :: "nat \<Rightarrow> nat oi_snapshot" where
  "nat_bar v = start_from_sample
     \<lparr>s_instrument = new_instrument Binance ''BTCUSDT'', s_bucket_ts = 0, s_recv_ts = 0,
      s_native_value = v, s_native_unit = Coins, s_oi_coins = Some v, s_oi_usd = None, s_price_used = None\<rparr>"

definition test_codec :: "nat codec" where
  "test_codec =
     \<lparr>enc_batch = (\<lambda>bs. Inr (map (\<lambda>b. of_nat (b_native_close b)) bs)),
      dec_batch = (\<lambda>bs. Inr (map (\<lambda>x. nat_bar (unat x)) bs)),
      crc32 = (\<lambda>bs. of_nat (length bs))\<rparr>"

definition empty_log :: "fault list \<Rightarrow> wal_state" where
  "empty_log fs = \<lparr>wal_files = [], wal_faults = fs, wal_clock = 7, wal_counter = 0, wal_pid = 7\<rparr>"

lemma nat_bar_close [simp]: "b_native_close (nat_bar v) = v"
  by (simp add: nat_bar_def start_from_sample_def)

lemma digit_chars: "digit_char 0 = CHR ''0''" "digit_char 7 = CHR ''7''"
  by (code_simp, code_simp)

lemma run_names [simp]:
  "show_nat 7 = ''7''" "show_hex 7 = ''7''" "show_hex 0 = ''0''"
  by (simp_all add: show_nat_def show_hex_def show_base.simps [of _ 7] show_base.simps [of _ 0] digit_chars)

definition test_frame :: "u8 list" where
  "test_frame = [79, 73, 87, 49, 0, 0, 0, 1, 5]"

definition one_file :: "fault list \<Rightarrow> wal_state" where
  "one_file fs = \<lparr>wal_files = [(''7-7-0.mpk'', test_frame)], wal_faults = fs, wal_clock = 7, wal_counter = 1, wal_pid = 7\<rparr>"

lemma queued_empty [simp]: "queued (empty_log fs) n = None"
  by (simp add: queued_def wal_file_def empty_log_def)

lemma append_empty_log:
  "wal_append test_codec [nat_bar 5] (empty_log []) = (one_file [], Inr ''7-7-0.mpk'')"
  by (simp add: wal_append_def test_codec_def empty_log_def one_file_def uuid_v4_def final_name_def tmp_name_def
      pending_suffix_def labelled_def and_then_def os_create_def os_write_def os_sync_def os_rename_def faulty_def
      put_file_def drop_file_def wal_file_def dm_insert_def dm_remove_def dm_get_def frame_magic_def
      to_be_bytes_def test_frame_def Let_def)

lemma decode_test_frame: "decode_file test_codec test_frame = Inr [nat_bar 5]"
proof -
  have "test_frame = frame test_codec [5]"
    by (simp add: test_frame_def frame_def frame_magic_def to_be_bytes_def test_codec_def)
  then have "decode_file test_codec test_frame =
      map_sum (\<lambda>e. Storage (''wal decode: '' @ e)) id (dec_batch test_codec [5])"
    by (metis decode_frame)
  then show ?thesis by (simp add: test_codec_def)
qed

lemma wal_file_one: "wal_file (one_file fs) n = (if n = ''7-7-0.mpk'' then Some test_frame else None)"
  by (auto simp: wal_file_def one_file_def dm_get_def)

theorem append_then_read_witness:
  "wal_read test_codec ''7-7-0.mpk'' (one_file []) = (one_file [], Inr [nat_bar 5])"
  by (rule append_then_read [OF _ append_empty_log]) (simp_all add: test_codec_def, simp add: one_file_def)

section \<open>Writing through the log\<close>

lemma upsert_wal_backed:
  "upsert_snapshots (wal_backed c inner) snaps (w, t) =
     (if snaps = [] then ((w, t), Inr ())
      else (case wal_append c snaps w of
              (w1, Inl e) \<Rightarrow> ((w1, t), Inl e)
            | (w1, Inr path) \<Rightarrow>
                (case upsert_snapshots inner snaps t of
                   (t', Inr _) \<Rightarrow> (case wal_ack path w1 of (w2, r) \<Rightarrow> ((w2, t'), r))
                 | (t', Inl e) \<Rightarrow> ((w1, t'), Inl e))))"
  by (simp add: wal_backed_def)

text \<open>
  C4. A batch handed to the write path is never dropped silently: after
  \<open>WalBacked::upsert_snapshots\<close>, whatever failed in the file system or downstream, the batch
  is stored downstream, or it is queued as a complete frame for the drainer, or the caller got
  an error and nothing was changed; a success means it is stored. No older entry of the queue
  is lost on the way.
\<close>

theorem upsert_is_stored_or_queued:
  assumes "acks_are_durable (upsert_snapshots inner) stored" "snaps \<noteq> []"
    and "upsert_snapshots (wal_backed c inner) snaps (w, t) = ((w', t'), r)"
  shows "(r = Inr () \<and> stored t' snaps \<or>
          (\<exists>e. r = Inl e \<and> (stored t' snaps \<or> (\<exists>p. queued w' p \<noteq> None \<and> queued w' p = batch_entry c snaps) \<or>
                         queued w' = queued w \<and> t' = t))) \<and>
         (\<forall>n. n \<noteq> next_name w \<longrightarrow> queued w' n = queued w n)"
proof -
  obtain w1 ra where a: "wal_append c snaps w = (w1, ra)" by (cases "wal_append c snaps w")
  show ?thesis
  proof (cases ra)
    case (Inl e)
    with a assms(2,3) wal.append_err [of c snaps w w1] show ?thesis by (auto simp: upsert_wal_backed)
  next
    case (Inr p)
    have p: "p = next_name w" using wal_append_effect [OF a] Inr by auto
    have q1: "queued w1 = (queued w)(p := batch_entry c snaps)" "batch_entry c snaps \<noteq> None"
      using wal.append_ok [of c snaps w w1 p] a Inr by auto
    obtain t1 ru where u: "upsert_snapshots inner snaps t = (t1, ru)" by (cases "upsert_snapshots inner snaps t")
    show ?thesis
    proof (cases ru)
      case (Inl e)
      with a Inr u assms(2,3) have "w' = w1" "r = Inl e" by (simp_all add: upsert_wal_backed)
      with q1 p show ?thesis by auto
    next
      case ok: (Inr v)
      obtain w2 rk where k: "wal_ack p w1 = (w2, rk)" by (cases "wal_ack p w1")
      have *: "w' = w2" "t' = t1" "r = rk" using a Inr u ok k assms(2,3) by (simp_all add: upsert_wal_backed)
      have "stored t' snaps" using acks_are_durableD(1) [OF assms(1)] u ok * by simp
      moreover have "queued w2 n = queued w n" if "n \<noteq> p" for n
        using wal.ack_keeps [OF k that] q1 that by simp
      ultimately show ?thesis using * p by (cases rk) auto
    qed
  qed
qed

definition test_sink :: "nat oi_snapshot list \<Rightarrow> (nat oi_snapshot list, unit) io" where
  "test_sink b t = (t @ b, Inr ())"

lemma test_sink_durable: "acks_are_durable test_sink (\<lambda>t b. set b \<subseteq> set t)"
  by (auto simp: acks_are_durable_def test_sink_def)

definition test_repo :: "(nat oi_snapshot list, nat) oi_repository" where
  "test_repo = without_funding
     \<lparr>upsert_snapshots = test_sink, upsert_instruments = (\<lambda>_ s. (s, Inr ())),
      range_snapshots = (\<lambda>_ _ _ s. Inr s), latest_snapshot = (\<lambda>_ s. Inr None),
      upsert_funding = (\<lambda>_ s. (s, Inr ())), funding_range = (\<lambda>_ _ _ _. Inr []), latest_funding = (\<lambda>_ _. Inr None),
      upsert_funding_events = (\<lambda>_ s. (s, Inr ())), funding_events_range = (\<lambda>_ _ _ _. Inr []),
      latest_funding_event = (\<lambda>_ _. Inr None)\<rparr>"

lemma upsert_test_repo [simp]: "upsert_snapshots test_repo = test_sink"
  by (simp add: test_repo_def without_funding_def)

text \<open>A follower: the gate is closed, so the batch stays queued.\<close>

lemma follower_run:
  "upsert_snapshots (wal_backed test_codec (leader_gated test_repo (\<lambda>_. False))) [nat_bar 5] (empty_log [], []) =
     ((one_file [], []), Inl not_leader)"
  by (simp add: upsert_wal_backed append_empty_log)

theorem upsert_is_stored_or_queued_witness:
  "\<exists>w' t' r. upsert_snapshots (wal_backed test_codec (leader_gated test_repo (\<lambda>_. False))) [nat_bar 5] (empty_log [], [])
       = ((w', t'), r) \<and> r \<noteq> Inr () \<and> (\<forall>n. n \<noteq> next_name (empty_log []) \<longrightarrow> queued w' n = None)"
proof -
  have "acks_are_durable (upsert_snapshots (leader_gated test_repo (\<lambda>_. False))) (\<lambda>t b. set b \<subseteq> set t)"
    by (rule acks_are_durable_gated) (simp add: test_sink_durable)
  from upsert_is_stored_or_queued [OF this _ follower_run]
  have "\<forall>n. n \<noteq> next_name (empty_log []) \<longrightarrow> queued (one_file []) n = queued (empty_log []) n" by simp
  then have "\<forall>n. n \<noteq> next_name (empty_log []) \<longrightarrow> queued (one_file []) n = None" by (simp add: queued_empty)
  with follower_run show ?thesis by (intro exI conjI) auto
qed

section \<open>Draining\<close>

text \<open>Where the contents of the queue entry \<open>n\<close> may be.\<close>

definition accounted ::
  "'d codec \<Rightarrow> ('t \<Rightarrow> 'd oi_snapshot list \<Rightarrow> bool) \<Rightarrow> string \<Rightarrow> u8 list \<Rightarrow> wal_state \<Rightarrow> 't \<Rightarrow> bool" where
  "accounted c stored n bytes w t \<longleftrightarrow>
     wal_file w n = Some bytes \<or>
     wal_file w n = None \<and> wal_file w (with_extension n ''corrupt'') = Some bytes \<or>
     (\<exists>snaps. decode_file c bytes = Inr snaps \<and> stored t snaps)"

lemma accounted_unchanged:
  "accounted c stored n bytes w t \<Longrightarrow> unchanged_outside S w w' \<Longrightarrow> n \<notin> S \<Longrightarrow>
     with_extension n ''corrupt'' \<notin> S \<Longrightarrow> accounted c stored n bytes w' t"
  by (auto simp: accounted_def unchanged_outside_def)

lemma wal_read_effect:
  assumes "wal_read c p w = (w1, r)"
  shows "unchanged_outside {} w w1 \<and>
    (case r of Inl e \<Rightarrow> True | Inr snaps \<Rightarrow> \<exists>bytes. wal_file w p = Some bytes \<and> decode_file c bytes = Inr snaps)"
  using assms unfolding wal_read_def
proof (cases rule: and_then_cases)
  case (fails e)
  then show ?thesis by (auto dest!: labelled_Inl os_read_effect)
next
  case (goes s' bytes)
  then show ?thesis using os_read_effect [of p w s' "Inr bytes"] by (auto simp: labelled_Inr split: sum.splits)
qed

lemma quarantine_accounted:
  assumes "is_pending n" "is_pending p" "accounted c stored n bytes w t"
  shows "accounted c stored n bytes (quarantine p w) t"
proof -
  let ?q = "with_extension p ''corrupt''"
  have pq: "p \<noteq> ?q" using corrupt_not_pending [OF assms(2)] assms(2) by metis
  obtain w' r where o': "os_rename p ?q w = (w', r)" by (cases "os_rename p ?q w")
  then have w': "quarantine p w = w'" by (simp add: quarantine_def)
  show ?thesis
  proof (cases r)
    case (Inl e)
    with os_rename_effect [OF o' pq] assms(3) show ?thesis by (simp add: w' accounted_unchanged)
  next
    case (Inr u)
    with os_rename_effect [OF o' pq] have e: "unchanged_outside {p, ?q} w w'" "wal_file w' p = None"
        "wal_file w p \<noteq> None" "wal_file w' ?q = wal_file w p" by auto
    show ?thesis
    proof (cases "p = n")
      case True
      with e assms(3) have "accounted c stored n bytes w' t" by (auto simp: accounted_def)
      then show ?thesis by (simp only: w')
    next
      case False
      have "n \<noteq> ?q" using corrupt_not_pending [OF assms(2)] assms(1) by metis
      moreover have "with_extension n ''corrupt'' \<noteq> p" using corrupt_not_pending [OF assms(1)] assms(2) by metis
      moreover have "with_extension n ''corrupt'' \<noteq> ?q" using corrupt_inj assms False by metis
      ultimately show ?thesis using False e(1) assms(3) by (auto simp: w' intro: accounted_unchanged)
    qed
  qed
qed

lemma ack_accounted:
  assumes "is_pending n" "is_pending p" "accounted c stored n bytes w t" "wal_ack p w = (w', r)"
    and "p = n \<Longrightarrow> wal_file w n = Some bytes \<Longrightarrow> \<exists>snaps. decode_file c bytes = Inr snaps \<and> stored t snaps"
  shows "accounted c stored n bytes w' t"
proof (cases "r = Inr ()")
  case False
  with wal_ack_effect [OF assms(4)] assms(3) show ?thesis by (auto intro: accounted_unchanged)
next
  case True
  with wal_ack_effect [OF assms(4)] have e: "unchanged_outside {p} w w'" "wal_file w' p = None" by auto
  have ne: "with_extension n ''corrupt'' \<noteq> p" using corrupt_not_pending [OF assms(1)] assms(2) by metis
  show ?thesis
  proof (cases "p = n")
    case True
    with e ne assms(3,5) show ?thesis by (auto simp: accounted_def unchanged_outside_def)
  next
    case False
    with e ne assms(3) show ?thesis by (auto intro: accounted_unchanged)
  qed
qed

lemma drain_files_accounted:
  assumes "acks_are_durable upsert stored" "is_pending n"
  shows "list_all is_pending ps \<Longrightarrow> accounted c stored n bytes w t \<Longrightarrow>
    drain_files c upsert ps (w, t) = ((w', t'), r) \<Longrightarrow> accounted c stored n bytes w' t'"
proof (induction ps arbitrary: w t)
  case Nil
  then show ?case by simp
next
  case (Cons p ps)
  obtain w1 rr where rd: "wal_read c p w = (w1, rr)" by (cases "wal_read c p w")
  have w1: "unchanged_outside {} w w1" using wal_read_effect [OF rd] by simp
  have a1: "accounted c stored n bytes w1 t" using Cons.prems(2) w1 by (auto intro: accounted_unchanged)
  have p: "is_pending p" "list_all is_pending ps" using Cons.prems(1) by simp_all
  show ?case
  proof (cases rr)
    case (Inl e)
    with Cons.prems(3) rd have "drain_files c upsert ps (quarantine p w1, t) = ((w', t'), r)" by simp
    with Cons.IH [OF p(2)] quarantine_accounted [OF assms(2) p(1) a1] show ?thesis by blast
  next
    case (Inr snaps)
    then obtain b0 where b0: "wal_file w p = Some b0" "decode_file c b0 = Inr snaps"
      using wal_read_effect [OF rd] by auto
    obtain t1 ru where u: "upsert snaps t = (t1, ru)" by (cases "upsert snaps t")
    have a2: "accounted c stored n bytes w1 t1"
      using a1 acks_are_durableD(2) [OF assms(1) u] by (auto simp: accounted_def)
    show ?thesis
    proof (cases ru)
      case (Inl e)
      with Cons.prems(3) rd Inr u a2 show ?thesis by simp
    next
      case ok: (Inr v)
      have st: "stored t1 snaps" using acks_are_durableD(1) [OF assms(1)] u ok by simp
      obtain w2 rk where k: "wal_ack p w1 = (w2, rk)" by (cases "wal_ack p w1")
      have "wal_file w1 p = Some b0" using b0 w1 by (simp add: unchanged_outside_def)
      then have a3: "accounted c stored n bytes w2 t1"
        using st b0 by (intro ack_accounted [OF assms(2) p(1) a2 k]) auto
      show ?thesis
      proof (cases rk)
        case (Inl e)
        with Cons.prems(3) rd Inr u ok k a3 show ?thesis by simp
      next
        case (Inr v')
        with Cons.prems(3) rd \<open>rr = Inr snaps\<close> u ok k
        have "drain_files c upsert ps (w2, t1) = ((w', t'), r)" by simp
        with Cons.IH [OF p(2) a3] show ?thesis by blast
      qed
    qed
  qed
qed

lemma wal_pending_effect:
  assumes "wal_pending w = (w1, r)"
  shows "unchanged_outside {} w w1 \<and>
    (case r of Inl e \<Rightarrow> True | Inr ps \<Rightarrow> ps = sort (filter is_pending (dm_keys (wal_files w))))"
  using assms unfolding wal_pending_def
proof (cases rule: and_then_cases)
  case (fails e)
  then show ?thesis by (auto dest!: labelled_Inl os_list_effect)
next
  case (goes s' names)
  then show ?thesis using os_list_effect [of w s' "Inr names"] by (auto simp: labelled_Inr)
qed

lemma drain_once_accounted:
  assumes "acks_are_durable upsert stored" "is_pending n" "accounted c stored n bytes w t"
    and "drain_once c upsert (w, t) = ((w', t'), r)"
  shows "accounted c stored n bytes w' t'"
proof -
  obtain w1 rp where p: "wal_pending w = (w1, rp)" by (cases "wal_pending w")
  have a: "accounted c stored n bytes w1 t"
    using assms(3) wal_pending_effect [OF p] by (auto intro: accounted_unchanged)
  show ?thesis
  proof (cases rp)
    case (Inl e)
    with assms(4) p a show ?thesis by (simp add: drain_once_def)
  next
    case (Inr ps)
    then have "list_all is_pending ps" using wal_pending_effect [OF p] by (simp add: list_all_iff)
    moreover have "drain_files c upsert ps (w1, t) = ((w', t'), r)"
      using assms(4) p Inr by (simp add: drain_once_def)
    ultimately show ?thesis using drain_files_accounted [OF assms(1,2)] a by blast
  qed
qed

text \<open>
  The drainer loses nothing: whatever file-system calls fail during a drain cycle, every
  entry queued before it is afterwards still queued unchanged, or set aside unchanged under the
  extension \<open>corrupt\<close>, or decoded and its batch stored downstream.
\<close>

theorem drain_loses_nothing:
  assumes "acks_are_durable upsert stored"
    and "drain_once c upsert (w, t) = ((w', t'), r)" "queued w n = Some bytes"
  shows "queued w' n = Some bytes \<or> wal_file w' (with_extension n ''corrupt'') = Some bytes \<or>
         (\<exists>snaps. decode_file c bytes = Inr snaps \<and> stored t' snaps)"
proof -
  have n: "is_pending n" "wal_file w n = Some bytes" using assms(3) by (auto simp: queued_def split: if_splits)
  then have "accounted c stored n bytes w' t'"
    using drain_once_accounted [OF assms(1) n(1) _ assms(2)] by (simp add: accounted_def)
  with n(1) show ?thesis by (auto simp: accounted_def queued_def)
qed

theorem drain_loses_nothing_witness:
  "\<exists>w' t' r. drain_once test_codec test_sink (one_file [NoFault, Fault 0], []) = ((w', t'), r) \<and>
     (queued w' ''7-7-0.mpk'' = Some test_frame \<or> wal_file w' ''7-7-0.corrupt'' = Some test_frame \<or>
      set [nat_bar 5] \<subseteq> set t')"
proof -
  obtain w' t' r where d: "drain_once test_codec test_sink (one_file [NoFault, Fault 0], []) = ((w', t'), r)"
    by (metis prod.exhaust)
  have "queued (one_file [NoFault, Fault 0]) ''7-7-0.mpk'' = Some test_frame"
    by (simp add: queued_def wal_file_one is_pending_def starts_with_def ends_with_def pending_suffix_def)
  from drain_loses_nothing [OF test_sink_durable d this] d show ?thesis
    by (fastforce simp: decode_test_frame with_extension_def)
qed

text \<open>
  An intact batch can be set aside as corrupt: the drainer quarantines a file on every
  error of \<open>read\<close>, so one failed read (an I/O error, not a bad checksum) takes a batch that
  decodes, and that the store would have accepted, out of the queue for good.
\<close>

theorem read_error_quarantines_intact_batch:
  "decode_file test_codec test_frame = Inr [nat_bar 5] \<and>
   drain_once test_codec test_sink (one_file [NoFault, Fault 0], []) =
     (((one_file [])\<lparr>wal_files := [(''7-7-0.corrupt'', test_frame)]\<rparr>, []), Inr ())"
  by (rule conjI [OF decode_test_frame])
    (simp add: drain_once_def one_file_def wal_pending_def os_list_def faulty_def labelled_def and_then_def dm_keys_def
      is_pending_def starts_with_def ends_with_def pending_suffix_def wal_read_def os_read_def quarantine_def
      os_rename_def with_extension_def wal_file_def dm_get_def put_file_def drop_file_def dm_insert_def dm_remove_def)

text \<open>The batches of the queue, oldest name first, as a healthy drain delivers them.\<close>

definition pending_names :: "wal_state \<Rightarrow> string list" where
  "pending_names w = sort (filter is_pending (dm_keys (wal_files w)))"

definition batch_of :: "'d codec \<Rightarrow> wal_state \<Rightarrow> string \<Rightarrow> 'd oi_snapshot list list" where
  "batch_of c w p =
     (case wal_file w p of None \<Rightarrow> []
      | Some bytes \<Rightarrow> (case decode_file c bytes of Inl e \<Rightarrow> [] | Inr snaps \<Rightarrow> [snaps]))"

definition deliver :: "('d, 't) sink \<Rightarrow> 'd oi_snapshot list list \<Rightarrow> 't \<Rightarrow> 't" where
  "deliver upsert bs = fold (\<lambda>b t. fst (upsert b t)) bs"

lemma healthy_read: "wal_faults w = [] \<Longrightarrow> wal_file w p = Some bytes \<Longrightarrow> wal_read c p w = (w, decode_file c bytes)"
  by (rule wal_read_file)

lemma healthy_ack: "wal_faults w = [] \<Longrightarrow> wal_file w p = Some bytes \<Longrightarrow> wal_ack p w = (drop_file p w, Inr ())"
  by (simp add: wal_ack_def os_remove_def faulty_def)

lemma healthy_quarantine:
  "wal_faults w = [] \<Longrightarrow> wal_file w p = Some bytes \<Longrightarrow>
     quarantine p w = put_file (with_extension p ''corrupt'') bytes (drop_file p w)"
  by (simp add: quarantine_def os_rename_def faulty_def)

lemma faults_put_drop [simp]:
  "wal_faults (put_file n bs w) = wal_faults w" "wal_faults (drop_file n w) = wal_faults w"
  by (simp_all add: put_file_def drop_file_def)

lemma healthy_drain_files:
  assumes "\<forall>b t. snd (upsert b t) = Inr ()"
  shows "wal_faults w = [] \<Longrightarrow> distinct ps \<Longrightarrow> \<forall>p \<in> set ps. is_pending p \<and> wal_file w p \<noteq> None \<Longrightarrow>
    \<exists>w'. drain_files c upsert ps (w, t) = ((w', deliver upsert (concat (map (batch_of c w) ps)) t), Inr ()) \<and>
      (\<forall>n. queued w' n = (if n \<in> set ps then None else queued w n))"
proof (induction ps arbitrary: w t)
  case Nil
  then show ?case by (simp add: deliver_def)
next
  case (Cons p ps)
  then obtain bytes where f: "wal_file w p = Some bytes" and p: "is_pending p" by auto
  have cp: "\<not> is_pending (with_extension p ''corrupt'')" using corrupt_not_pending [OF p] .
  have later: "concat (map (batch_of c w1) ps) = concat (map (batch_of c w) ps)"
    if "\<forall>q. is_pending q \<longrightarrow> q \<noteq> p \<longrightarrow> wal_file w1 q = wal_file w q" for w1
    using that Cons.prems(2,3) by (intro arg_cong [of _ _ concat] map_cong) (auto simp: batch_of_def)
  have IH: "\<exists>w'. drain_files c upsert ps (w1, t1) = ((w', deliver upsert (concat (map (batch_of c w) ps)) t1), Inr ()) \<and>
      (\<forall>n. queued w' n = (if n \<in> set (p # ps) then None else queued w n))"
    if "wal_faults w1 = []" "wal_file w1 p = None" "\<forall>q. is_pending q \<longrightarrow> q \<noteq> p \<longrightarrow> wal_file w1 q = wal_file w q" for w1 t1
  proof -
    have "\<forall>q \<in> set ps. is_pending q \<and> wal_file w1 q \<noteq> None" using Cons.prems(2,3) that(3) by auto
    with Cons.IH [OF that(1), of t1] Cons.prems(2) later [OF that(3)] obtain w' where
      "drain_files c upsert ps (w1, t1) = ((w', deliver upsert (concat (map (batch_of c w) ps)) t1), Inr ())"
      "\<forall>n. queued w' n = (if n \<in> set ps then None else queued w1 n)" by auto
    with that(2,3) show ?thesis by (auto simp: queued_def)
  qed
  show ?case
  proof (cases "decode_file c bytes")
    case (Inl e)
    let ?w1 = "quarantine p w"
    have q: "?w1 = put_file (with_extension p ''corrupt'') bytes (drop_file p w)"
      using healthy_quarantine [OF Cons.prems(1) f] .
    have "\<exists>w'. drain_files c upsert ps (?w1, t) = ((w', deliver upsert (concat (map (batch_of c w) ps)) t), Inr ()) \<and>
      (\<forall>n. queued w' n = (if n \<in> set (p # ps) then None else queued w n))"
      using Cons.prems(1) cp p by (intro IH) (auto simp: q)
    moreover have "batch_of c w p = []" using f Inl by (simp add: batch_of_def)
    ultimately show ?thesis using healthy_read [OF Cons.prems(1) f, of c] Inl by simp
  next
    case (Inr snaps)
    obtain t1 where u: "upsert snaps t = (t1, Inr ())" using assms by (metis prod.collapse)
    have "\<exists>w'. drain_files c upsert ps (drop_file p w, t1) = ((w', deliver upsert (concat (map (batch_of c w) ps)) t1), Inr ()) \<and>
      (\<forall>n. queued w' n = (if n \<in> set (p # ps) then None else queued w n))"
      using Cons.prems(1) by (intro IH) auto
    moreover have "batch_of c w p = [snaps]" using f Inr by (simp add: batch_of_def)
    ultimately show ?thesis
      using healthy_read [OF Cons.prems(1) f, of c] healthy_ack [OF Cons.prems(1) f] Inr u by (simp add: deliver_def)
  qed
qed

lemma drain_empties_queue_lemma:
  assumes "wal_faults w = []" "dm_ok (wal_files w)" "\<forall>b t. snd (upsert b t) = Inr ()"
  shows "\<exists>w'. drain_once c upsert (w, t) =
           ((w', deliver upsert (concat (map (batch_of c w) (pending_names w))) t), Inr ()) \<and>
         (\<forall>n. queued w' n = None)"
proof -
  have pend: "wal_pending w = (w, Inr (pending_names w))"
    using assms(1) by (simp add: wal_pending_def and_then_def labelled_def os_list_def faulty_def pending_names_def)
  have "\<forall>p \<in> set (pending_names w). is_pending p \<and> wal_file w p \<noteq> None"
    using dm.set_keys [OF assms(2)] by (auto simp: pending_names_def wal_file_def)
  moreover have "distinct (pending_names w)"
    using dm.distinct_keys [OF assms(2)] by (simp add: pending_names_def)
  ultimately obtain w' where
    "drain_files c upsert (pending_names w) (w, t) =
       ((w', deliver upsert (concat (map (batch_of c w) (pending_names w))) t), Inr ())"
    "\<forall>n. queued w' n = (if n \<in> set (pending_names w) then None else queued w n)"
    using healthy_drain_files [OF assms(3) assms(1), where ps = "pending_names w" and c = c and t = t] by blast
  moreover have "n \<in> set (pending_names w)" if "queued w n \<noteq> None" for n
    using that dm.set_keys [OF assms(2)] by (auto simp: pending_names_def queued_def wal_file_def split: if_splits)
  ultimately have "drain_once c upsert (w, t) =
      ((w', deliver upsert (concat (map (batch_of c w) (pending_names w))) t), Inr ())"
    "\<forall>n. queued w' n = None"
    using pend by (simp add: drain_once_def, metis)
  then show ?thesis by blast
qed

text \<open>
  C26. A healthy drain empties the queue in order: when no call fails and the store accepts,
  one cycle ends without error, the store has received exactly the decodable batches in the
  order of their file names, and nothing is pending.
\<close>

theorem drain_empties_queue:
  assumes "wal_faults w = []" "dm_ok (wal_files w)" "\<forall>b t. snd (upsert b t) = Inr ()"
  shows "\<exists>w'. drain_once c upsert (w, t) =
           ((w', deliver upsert (concat (map (batch_of c w) (pending_names w))) t), Inr ()) \<and>
         (\<forall>n. queued w' n = None)"
  by (rule drain_empties_queue_lemma [OF assms])

theorem drain_empties_queue_witness:
  "\<exists>w'. drain_once test_codec test_sink (one_file [], []) = ((w', [nat_bar 5]), Inr ()) \<and> (\<forall>n. queued w' n = None)"
proof -
  have names: "pending_names (one_file []) = [''7-7-0.mpk'']"
    by (simp add: pending_names_def one_file_def dm_keys_def is_pending_def starts_with_def ends_with_def pending_suffix_def)
  have "\<exists>w'. drain_once test_codec test_sink (one_file [], []) =
      ((w', deliver test_sink (concat (map (batch_of test_codec (one_file [])) (pending_names (one_file [])))) []), Inr ()) \<and>
      (\<forall>n. queued w' n = None)"
    by (rule drain_empties_queue) (simp_all add: one_file_def dm_ok_def test_sink_def)
  then show ?thesis
    by (simp add: names batch_of_def wal_file_one decode_test_frame deliver_def test_sink_def)
qed

section \<open>File names\<close>

lemma digit_char_inj: "a < 16 \<Longrightarrow> b < 16 \<Longrightarrow> digit_char a = digit_char b \<longleftrightarrow> a = b"
proof -
  assume ab: "a < 16" "b < 16"
  have val: "of_char (digit_char d) = (if d < 10 then 48 + d else 87 + d :: nat)" if "d < 16" for d
    using that by (simp add: digit_char_def)
  show ?thesis
  proof
    assume "digit_char a = digit_char b"
    then have "(of_char (digit_char a) :: nat) = of_char (digit_char b)" by simp
    then show "a = b" using ab by (simp add: val split: if_splits)
  qed simp
qed

lemma show_base_inj:
  assumes "2 \<le> b" "b \<le> 16"
  shows "show_base b m = show_base b n \<Longrightarrow> m = n"
proof (induction m arbitrary: n rule: less_induct)
  case (less m)
  have small: "show_base b k = [digit_char k]" if "k < b" for k using that by (simp add: show_base.simps [of b k])
  have big: "show_base b k = show_base b (k div b) @ [digit_char (k mod b)]" if "\<not> k < b" for k
    using that assms by (simp add: show_base.simps [of b k])
  have digit: "k mod b < 16" for k using assms by (meson less_le_trans mod_less_divisor zero_less_numeral le_trans less_le)
  have len: "length (show_base b k) = 1 \<longleftrightarrow> k < b" for k
    by (cases "k < b") (simp_all add: small big)
  show ?case
  proof (cases "m < b")
    case True
    then have "n < b" using less.prems len by metis
    with True less.prems assms show ?thesis by (simp add: small digit_char_inj)
  next
    case False
    then have n: "\<not> n < b" using less.prems len by metis
    have "show_base b (m div b) = show_base b (n div b)" "digit_char (m mod b) = digit_char (n mod b)"
      using less.prems by (simp_all add: big [OF False] big [OF n])
    then have "m div b = n div b" "m mod b = n mod b"
      using less.IH [of "m div b" "n div b"] False assms digit by (auto simp: digit_char_inj)
    then show ?thesis by (metis div_mult_mod_eq)
  qed
qed

lemma parse_ts_ms_final: "ts < 2 ^ 128 \<Longrightarrow> parse_ts_ms (final_name ts i) = Some ts"
proof -
  assume "ts < 2 ^ 128"
  moreover have "CHR ''-'' \<notin> set (show_nat ts)" by (rule show_nat_no_char) simp
  ultimately show ?thesis by (simp add: parse_ts_ms_def final_name_def parse_uint_show_nat)
qed

lemma final_name_less:
  assumes "length (show_nat a) = length (show_nat b)" "a < b"
  shows "final_name a i < final_name b j"
  unfolding final_name_def by (rule list_less_append [OF assms(1) show_nat_less [OF assms]])

text \<open>
  One process never reuses a file name: two appends of the same process, at any clock
  readings, take different names as long as fewer than 2^64 appends lie between them, so no
  queued batch is overwritten by a later one.
\<close>

theorem file_names_are_unique:
  assumes "wal_pid w = wal_pid w'" "wal_counter w \<noteq> wal_counter w'"
  shows "next_name w \<noteq> next_name w'"
proof
  let ?ts = "\<lambda>w. show_nat (nat (wal_clock w))"
  assume "next_name w = next_name w'"
  then have eq: "?ts w @ CHR ''-'' # show_hex (wal_pid w) @ CHR ''-'' # show_hex (unat (wal_counter w)) @ pending_suffix
      = ?ts w' @ CHR ''-'' # show_hex (wal_pid w') @ CHR ''-'' # show_hex (unat (wal_counter w')) @ pending_suffix"
    by (simp add: next_name_def final_name_def uuid_v4_def)
  have "CHR ''-'' \<notin> set (?ts w)" "CHR ''-'' \<notin> set (?ts w')" by (rule show_nat_no_char, simp)+
  then have "split_first CHR ''-'' (?ts w @ CHR ''-'' # r) = Some (?ts w, r)"
    "split_first CHR ''-'' (?ts w' @ CHR ''-'' # r) = Some (?ts w', r)" for r by simp_all
  with eq have "show_hex (wal_pid w) @ CHR ''-'' # show_hex (unat (wal_counter w)) @ pending_suffix
      = show_hex (wal_pid w') @ CHR ''-'' # show_hex (unat (wal_counter w')) @ pending_suffix"
    by (metis option.inject prod.inject)
  with assms(1) have "show_hex (unat (wal_counter w)) = show_hex (unat (wal_counter w'))" by simp
  then have "unat (wal_counter w) = unat (wal_counter w')"
    unfolding show_hex_def by (rule show_base_inj [rotated 2]) simp_all
  with assms(2) show False by (metis unsigned_word_eqI)
qed

theorem file_names_are_unique_witness:
  "next_name (one_file []) \<noteq> next_name (empty_log [])"
  by (rule file_names_are_unique) (simp_all add: one_file_def empty_log_def)

text \<open>
  Names of one millisecond are not always in order of creation: the counter is printed in
  hexadecimal without padding, so the 17th file (counter 10) sorts before the 16th (counter f).
\<close>

theorem names_within_a_millisecond_misorder:
  "next_name (w\<lparr>wal_counter := 16\<rparr>) < next_name (w\<lparr>wal_counter := 15\<rparr>)"
proof -
  have hex: "show_hex 16 = ''10''" "show_hex 15 = ''f''"
    by (simp_all add: show_hex_def show_base.simps [of _ 16] show_base.simps [of _ 15] show_base.simps [of _ "Suc 0"])
      (code_simp+)
  have pre: "p @ x < p @ y" if "x < y" for p x y :: string
    using that by (induction p) auto
  have "''10.mpk'' < ''f.mpk''" by (simp add: less_char_def)
  from pre [OF this, of "show_nat (nat (wal_clock w)) @ ''-'' @ show_hex (wal_pid w) @ ''-''"]
  show ?thesis by (simp add: next_name_def final_name_def uuid_v4_def hex pending_suffix_def)
qed

section \<open>Reaping\<close>

lemma reap_files_safe:
  "reap_files now m ps k w = (w', r) \<Longrightarrow> wal_file w' n \<noteq> wal_file w n \<Longrightarrow>
     n \<in> set ps \<and> (\<exists>ts. parse_ts_ms n = Some ts \<and> m < now - ts)"
proof (induction ps arbitrary: k w)
  case Nil
  then show ?case by simp
next
  case (Cons p ps)
  show ?case
  proof (cases "\<exists>ts. parse_ts_ms p = Some ts \<and> \<not> now - ts \<le> m")
    case False
    then have "parse_ts_ms p = None \<or> (\<exists>ts. parse_ts_ms p = Some ts \<and> now - ts \<le> m)" by (cases "parse_ts_ms p") auto
    with Cons.prems(1) have "reap_files now m ps k w = (w', r) \<or> w' = w" by auto
    with Cons.IH [of k w] Cons.prems(2) show ?thesis by auto
  next
    case True
    then obtain ts where ts: "parse_ts_ms p = Some ts" "\<not> now - ts \<le> m" by blast
    obtain w1 r1 where o': "os_remove p w = (w1, r1)" by (cases "os_remove p w")
    have eff: "unchanged_outside {p} w w1"
      using os_remove_effect [OF o'] by (cases r1) (auto simp: unchanged_outside_def)
    have "(\<exists>k'. reap_files now m ps k' w1 = (w', r)) \<or> w' = w1"
    proof (cases r1)
      case (Inl e)
      with Cons.prems(1) ts o' show ?thesis by (cases e) auto
    next
      case (Inr u)
      with Cons.prems(1) ts o' show ?thesis by auto
    qed
    with Cons.IH [of _ w1] Cons.prems(2) ts eff show ?thesis
      by (cases "n = p") (auto simp: unchanged_outside_def)
  qed
qed

lemma faulty_clock:
  assumes "faulty p q w = (w', r)" "\<And>w w' r. p w = (w', r) \<Longrightarrow> wal_clock w' = wal_clock w"
    "\<And>k w. wal_clock (q k w) = wal_clock w"
  shows "wal_clock w' = wal_clock w"
  using assms(1)
proof (cases rule: faulty_cases)
  case (runs fs)
  then show ?thesis using assms(2) [of "w\<lparr>wal_faults := fs\<rparr>"] by simp
next
  case (fails k fs)
  then show ?thesis using assms(3) by simp
qed

lemma wal_pending_clock:
  assumes "wal_pending w = (w1, r)"
  shows "wal_clock w1 = wal_clock w"
proof -
  have l: "os_list w = (s', x) \<Longrightarrow> wal_clock s' = wal_clock w" for s' x
    unfolding os_list_def by (erule faulty_clock) auto
  show ?thesis
    using assms unfolding wal_pending_def
    by (cases rule: and_then_cases) (auto simp: labelled_Inr dest!: labelled_Inl l)
qed

text \<open>
  The reaper deletes only aged files: whatever calls fail, an entry that is missing from the
  queue after \<open>reap_older_than\<close> carried in its name a timestamp more than \<open>max_age\<close> in the
  past, and every other entry is unchanged.
\<close>

theorem reaper_deletes_only_aged_files:
  assumes "reap_older_than max_age w = (w', r)" "queued w' n \<noteq> queued w n"
  shows "\<exists>ts. parse_ts_ms n = Some ts \<and> max_age < nat (wal_clock w) - ts"
proof -
  have ne: "wal_file w' n \<noteq> wal_file w n" using assms(2) by (metis queued_def)
  obtain w1 rp where p: "wal_pending w = (w1, rp)" by (cases "wal_pending w")
  have same: "wal_file w1 n = wal_file w n" using wal_pending_effect [OF p] by (simp add: unchanged_outside_def)
  show ?thesis
  proof (cases rp)
    case (Inl e)
    with assms(1) p same ne show ?thesis by (simp add: reap_older_than_def)
  next
    case (Inr ps)
    then have "reap_files (nat (wal_clock w)) max_age ps 0 w1 = (w', r)"
      using assms(1) p wal_pending_clock [OF p] by (simp add: reap_older_than_def)
    with reap_files_safe [OF this] ne same show ?thesis by auto
  qed
qed


theorem reaper_deletes_only_aged_files_witness:
  "\<exists>w'. reap_older_than 5 ((one_file [])\<lparr>wal_clock := 20\<rparr>) = (w', Inr 1) \<and> queued w' ''7-7-0.mpk'' = None \<and>
     (\<exists>ts. parse_ts_ms ''7-7-0.mpk'' = Some ts \<and> 5 < nat 20 - ts)"
proof -
  let ?w = "(one_file [])\<lparr>wal_clock := 20\<rparr>"
  have ts: "parse_ts_ms ''7-7-0.mpk'' = Some 7"
    using parse_ts_ms_final [of 7 "''7-0''"] by (simp add: final_name_def pending_suffix_def)
  have p: "is_pending ''7-7-0.mpk''" by (simp add: is_pending_def starts_with_def ends_with_def pending_suffix_def)
  have run: "reap_older_than 5 ?w = (drop_file ''7-7-0.mpk'' ?w, Inr 1)"
    by (simp add: reap_older_than_def wal_pending_def and_then_def labelled_def os_list_def faulty_def one_file_def
        dm_keys_def p ts os_remove_def wal_file_def dm_get_def)
  have q: "queued ?w ''7-7-0.mpk'' = Some test_frame"
    using p by (simp add: queued_def wal_file_def one_file_def dm_get_def)
  have q': "queued (drop_file ''7-7-0.mpk'' ?w) ''7-7-0.mpk'' = None" by (simp add: queued_def)
  have "\<exists>ts. parse_ts_ms ''7-7-0.mpk'' = Some ts \<and> 5 < nat (wal_clock ?w) - ts"
    by (rule reaper_deletes_only_aged_files [OF run]) (simp add: q q')
  then show ?thesis using run q' by simp
qed

text \<open>
  Since 2001 and until 2286 a millisecond timestamp has thirteen digits, so the order of the
  names is the order of the timestamps and the reaper may stop at the first young file.
\<close>

definition current_era :: "nat \<Rightarrow> bool" where
  "current_era ts \<longleftrightarrow> length (show_nat ts) = 13"

lemma era_order:
  assumes "current_era a" "current_era b" "final_name a i \<le> final_name b j"
  shows "a \<le> b"
proof (rule ccontr)
  assume "\<not> a \<le> b"
  then have "final_name b j < final_name a i" using assms by (intro final_name_less) (simp_all add: current_era_def)
  with assms(3) show False by simp
qed

lemma healthy_reap_files:
  assumes "\<forall>p \<in> set ps. \<exists>ts i. p = final_name ts i \<and> current_era ts \<and> ts < 2 ^ 128"
  shows "wal_faults w = [] \<Longrightarrow> sorted ps \<Longrightarrow> distinct ps \<Longrightarrow> \<forall>p \<in> set ps. wal_file w p \<noteq> None \<Longrightarrow>
    \<exists>w' k'. reap_files now m ps k w = (w', Inr k') \<and>
      (\<forall>p \<in> set ps. \<forall>ts. parse_ts_ms p = Some ts \<longrightarrow> m < now - ts \<longrightarrow> wal_file w' p = None) \<and>
      (\<forall>p. p \<notin> set ps \<longrightarrow> wal_file w' p = wal_file w p)"
  using assms
proof (induction ps arbitrary: k w)
  case Nil
  then show ?case by simp
next
  case (Cons p ps)
  obtain ts i where p: "p = final_name ts i" "current_era ts" "ts < 2 ^ 128" using Cons.prems(5) by auto
  then have parse: "parse_ts_ms p = Some ts" by (simp add: parse_ts_ms_final)
  show ?case
  proof (cases "now - ts \<le> m")
    case True
    have "now - ts' \<le> m" if q_in: "q \<in> set ps" and q_ts: "parse_ts_ms q = Some ts'" for q ts'
    proof -
      obtain t2 j where q: "q = final_name t2 j" "current_era t2" "t2 < 2 ^ 128" using Cons.prems(5) q_in by auto
      then have "t2 = ts'" using q_ts by (simp add: parse_ts_ms_final)
      moreover have "p \<le> q" using Cons.prems(2) q_in by simp
      ultimately have "ts \<le> ts'" using era_order [of ts t2 i j] p q by simp
      with True show ?thesis by linarith
    qed
    with True parse show ?thesis by fastforce
  next
    case False
    let ?w1 = "drop_file p w"
    have "os_remove p w = (?w1, Inr ())" using Cons.prems(1,4) by (auto simp: os_remove_def faulty_def)
    then have step: "reap_files now m (p # ps) k w = reap_files now m ps (k + 1) ?w1" using parse False by simp
    have "\<exists>w' k'. reap_files now m ps (k + 1) ?w1 = (w', Inr k') \<and>
      (\<forall>q \<in> set ps. \<forall>ts. parse_ts_ms q = Some ts \<longrightarrow> m < now - ts \<longrightarrow> wal_file w' q = None) \<and>
      (\<forall>q. q \<notin> set ps \<longrightarrow> wal_file w' q = wal_file ?w1 q)"
      using Cons.prems by (intro Cons.IH) auto
    then show ?thesis using step Cons.prems(3) by auto
  qed
qed

text \<open>
  A healthy reap is complete: with the names of the current era no aged entry survives the
  early exit of the loop.
\<close>

lemma healthy_reap_is_complete:
  assumes "wal_faults w = []" "dm_ok (wal_files w)"
    and "\<forall>p \<in> set (pending_names w). \<exists>ts i. p = final_name ts i \<and> current_era ts \<and> ts < 2 ^ 128"
  shows "\<exists>w' k. reap_older_than max_age w = (w', Inr k) \<and>
    (\<forall>n ts. parse_ts_ms n = Some ts \<longrightarrow> max_age < nat (wal_clock w) - ts \<longrightarrow> queued w' n = None)"
proof -
  have pend: "wal_pending w = (w, Inr (pending_names w))"
    using assms(1) by (simp add: wal_pending_def and_then_def labelled_def os_list_def faulty_def pending_names_def)
  have here: "p \<in> set (pending_names w) \<longleftrightarrow> queued w p \<noteq> None" for p
    using dm.set_keys [OF assms(2)] by (auto simp: pending_names_def queued_def wal_file_def)
  have "sorted (pending_names w)" "distinct (pending_names w)"
    using dm.distinct_keys [OF assms(2)] by (simp_all add: pending_names_def)
  moreover have "\<forall>p \<in> set (pending_names w). wal_file w p \<noteq> None"
    using here by (auto simp: queued_def split: if_splits)
  ultimately obtain w' k where r: "reap_files (nat (wal_clock w)) max_age (pending_names w) 0 w = (w', Inr k)"
    and gone: "\<And>p ts. p \<in> set (pending_names w) \<Longrightarrow> parse_ts_ms p = Some ts \<Longrightarrow>
        max_age < nat (wal_clock w) - ts \<Longrightarrow> wal_file w' p = None"
    and kept: "\<And>p. p \<notin> set (pending_names w) \<Longrightarrow> wal_file w' p = wal_file w p"
    using healthy_reap_files [OF assms(3,1), where now = "nat (wal_clock w)" and m = max_age and k = 0] by blast
  have "queued w' n = None" if "parse_ts_ms n = Some ts" "max_age < nat (wal_clock w) - ts" for n ts
  proof (cases "n \<in> set (pending_names w)")
    case True
    with gone that show ?thesis by (simp add: queued_def)
  next
    case False
    with kept here show ?thesis by (metis queued_def)
  qed
  then show ?thesis using r pend by (auto simp: reap_older_than_def)
qed

end
