(* ===== verification/Composite.thy ===== *)
theory Composite
  imports Durability
begin

text \<open>
  \<open>oi-storage/src/redis.rs\<close>, \<open>pubsub.rs\<close> and \<open>composite.rs\<close>: the hot cache of the latest
  bar, the publication of fresh bars, and the repository that combines them with the
  primary store. Redis is the parameter \<open>'r redis_client\<close> and the MessagePack codec of one
  snapshot is \<open>'d snap_codec\<close>.
\<close>

section \<open>Redis\<close>

record 'r redis_client =
  rd_pipe_set_ex :: "(string \<times> u8 list \<times> nat) list \<Rightarrow> 'r \<Rightarrow> 'r \<times> (string + unit)"
  rd_get :: "string \<Rightarrow> 'r \<Rightarrow> string + u8 list option"
  rd_pipe_publish :: "(string \<times> u8 list) list \<Rightarrow> 'r \<Rightarrow> 'r \<times> (string + unit)"
  rd_ping :: "'r \<Rightarrow> string + string"

record 'd snap_codec =
  enc_snap :: "'d oi_snapshot \<Rightarrow> string + u8 list"
  dec_snap :: "u8 list \<Rightarrow> string + 'd oi_snapshot"

definition latest_ttl_secs :: nat where
  "latest_ttl_secs = 15 * 60"

definition latest_key :: "instrument_id \<Rightarrow> string" where
  "latest_key i = ''oi:latest:'' @ instrument_key i"

definition redis_err :: "string \<Rightarrow> core_error" where
  "redis_err e = Storage (''redis: '' @ e)"

definition probe :: "'r redis_client \<Rightarrow> 'r \<Rightarrow> core_error + unit" where
  "probe c r =
     (case rd_ping c r of
        Inl e \<Rightarrow> Inl (redis_err e)
      | Inr pong \<Rightarrow> if pong = ''PONG'' then Inr () else Inl (Storage (''unexpected PING reply: '' @ pong)))"

definition set_latest :: "'d snap_codec \<Rightarrow> 'r redis_client \<Rightarrow> 'd oi_snapshot \<Rightarrow> ('r, unit) io" where
  "set_latest k c snap r =
     (case enc_snap k snap of
        Inl e \<Rightarrow> (r, Inl (Storage (''msgpack: '' @ e)))
      | Inr bytes \<Rightarrow>
          (case rd_pipe_set_ex c [(latest_key (b_instrument snap), bytes, latest_ttl_secs)] r of
             (r', res) \<Rightarrow> (r', map_sum redis_err id res)))"

definition get_latest :: "'d snap_codec \<Rightarrow> 'r redis_client \<Rightarrow> instrument_id \<Rightarrow> 'r \<Rightarrow> core_error + 'd oi_snapshot option" where
  "get_latest k c i r =
     (case rd_get c (latest_key i) r of
        Inl e \<Rightarrow> Inl (redis_err e)
      | Inr None \<Rightarrow> Inr None
      | Inr (Some b) \<Rightarrow> map_sum (\<lambda>e. Storage (''msgpack decode: '' @ e)) Some (dec_snap k b))"

text \<open>The commands of a pipeline, or the first encoding error.\<close>

fun build_pipe :: "('d oi_snapshot \<Rightarrow> string + 'c list) \<Rightarrow> 'd oi_snapshot list \<Rightarrow> string + 'c list" where
  "build_pipe f [] = Inr []"
| "build_pipe f (s # ss) =
     (case f s of Inl e \<Rightarrow> Inl e
      | Inr cs \<Rightarrow> (case build_pipe f ss of Inl e \<Rightarrow> Inl e | Inr cs' \<Rightarrow> Inr (cs @ cs')))"

definition bulk_set_latest :: "'d snap_codec \<Rightarrow> 'r redis_client \<Rightarrow> 'd oi_snapshot list \<Rightarrow> ('r, unit) io" where
  "bulk_set_latest k c snaps r =
     (if snaps = [] then (r, Inr ())
      else (case build_pipe (\<lambda>s. map_sum id (\<lambda>bytes. [(latest_key (b_instrument s), bytes, latest_ttl_secs)]) (enc_snap k s)) snaps of
              Inl e \<Rightarrow> (r, Inl (Storage (''msgpack: '' @ e)))
            | Inr pipe \<Rightarrow> (case rd_pipe_set_ex c pipe r of (r', res) \<Rightarrow> (r', map_sum redis_err id res))))"

section \<open>Publication\<close>

definition firehose_channel :: string where
  "firehose_channel = ''oi:stream''"

definition exchange_channel :: "exchange \<Rightarrow> string" where
  "exchange_channel ex = firehose_channel @ '':'' @ exchange_code ex"

definition publish_commands :: "'d snap_codec \<Rightarrow> 'd oi_snapshot list \<Rightarrow> string + (string \<times> u8 list) list" where
  "publish_commands k snaps =
     build_pipe (\<lambda>s. map_sum id
        (\<lambda>bytes. [(firehose_channel, bytes), (exchange_channel (id_exchange (b_instrument s)), bytes)])
        (enc_snap k s)) snaps"

definition publish :: "'d snap_codec \<Rightarrow> 'r redis_client \<Rightarrow> 'd oi_snapshot list \<Rightarrow> ('r, unit) io" where
  "publish k c snaps r =
     (if snaps = [] then (r, Inr ())
      else (case publish_commands k snaps of
              Inl e \<Rightarrow> (r, Inl (Storage (''msgpack: '' @ e)))
            | Inr pipe \<Rightarrow> (case rd_pipe_publish c pipe r of (r', res) \<Rightarrow> (r', map_sum redis_err id res))))"

text \<open>What a subscriber of a channel decodes from the messages published on it.\<close>

definition subscribe :: "'d snap_codec \<Rightarrow> string \<Rightarrow> (string \<times> u8 list) list \<Rightarrow> 'd oi_snapshot list" where
  "subscribe k channel messages =
     List.map_filter (\<lambda>(ch, payload).
        if ch = channel then (case dec_snap k payload of Inl _ \<Rightarrow> None | Inr s \<Rightarrow> Some s) else None) messages"

section \<open>The composite\<close>

definition composite ::
  "'d snap_codec \<Rightarrow> 'r redis_client \<Rightarrow> ('s, 'd) oi_repository \<Rightarrow> ('r \<times> 's) leader_gate option \<Rightarrow> ('r \<times> 's, 'd) oi_repository" where
  "composite k c primary gate =
     \<lparr>upsert_snapshots = (\<lambda>snaps (r, s).
        let (s', primary_result) = upsert_snapshots primary snaps s;
            is_leader = (case gate of None \<Rightarrow> True | Some g \<Rightarrow> g (r, s'));
            r' = (if is_leader
                  then (let (r1, _) = bulk_set_latest k c snaps r; (r2, _) = publish k c snaps r1 in r2)
                  else r)
        in ((r', s'), primary_result)),
      upsert_instruments = (\<lambda>metas (r, s). case upsert_instruments primary metas s of (s', x) \<Rightarrow> ((r, s'), x)),
      range_snapshots = (\<lambda>i a z (r, s). range_snapshots primary i a z s),
      latest_snapshot = (\<lambda>i (r, s).
        case get_latest k c i r of
          Inr (Some b) \<Rightarrow> Inr (Some b)
        | Inr None \<Rightarrow> latest_snapshot primary i s
        | Inl e \<Rightarrow> latest_snapshot primary i s),
      upsert_funding = (\<lambda>bars (r, s). case upsert_funding primary bars s of (s', x) \<Rightarrow> ((r, s'), x)),
      funding_range = (\<lambda>i a z (r, s). funding_range primary i a z s),
      latest_funding = (\<lambda>i (r, s). latest_funding primary i s),
      upsert_funding_events = (\<lambda>events (r, s). case upsert_funding_events primary events s of (s', x) \<Rightarrow> ((r, s'), x)),
      funding_events_range = (\<lambda>i a z (r, s). funding_events_range primary i a z s),
      latest_funding_event = (\<lambda>i (r, s). latest_funding_event primary i s)\<rparr>"

section \<open>Cache keys\<close>

lemma latest_key_inj [simp]: "latest_key i = latest_key j \<longleftrightarrow> i = j"
  by (simp add: latest_key_def)

lemma exchange_channel_inj [simp]: "exchange_channel a = exchange_channel b \<longleftrightarrow> a = b"
  by (simp add: exchange_channel_def)

lemma exchange_channel_not_firehose [simp]: "exchange_channel a \<noteq> firehose_channel"
  by (simp add: exchange_channel_def)

section \<open>Publication reaches its subscribers\<close>

lemma build_pipe_Inr:
  assumes "\<And>s. s \<in> set ss \<Longrightarrow> f s = Inr (g s)"
  shows "build_pipe f ss = Inr (concat (map g ss))"
  using assms by (induction ss) auto

lemma map_filter_concat: "List.map_filter f (concat (map g xs)) = concat (map (\<lambda>x. List.map_filter f (g x)) xs)"
  by (induction xs) (simp_all add: List.map_filter_def)

lemma subscribe_published:
  assumes "\<forall>s \<in> set snaps. \<exists>bytes. enc_snap k s = Inr bytes \<and> dec_snap k bytes = Inr s"
    and "publish_commands k snaps = Inr messages"
  shows "subscribe k firehose_channel messages = snaps"
    and "subscribe k (exchange_channel ex) messages = filter (\<lambda>s. id_exchange (b_instrument s) = ex) snaps"
proof -
  define bytes where "bytes s = projr (enc_snap k s)" for s
  have b: "enc_snap k s = Inr (bytes s)" "dec_snap k (bytes s) = Inr s" if "s \<in> set snaps" for s
    using assms(1) that by (auto simp: bytes_def)
  have "build_pipe (\<lambda>s. map_sum id
        (\<lambda>bytes. [(firehose_channel, bytes), (exchange_channel (id_exchange (b_instrument s)), bytes)])
        (enc_snap k s)) snaps =
      Inr (concat (map (\<lambda>s. [(firehose_channel, bytes s), (exchange_channel (id_exchange (b_instrument s)), bytes s)]) snaps))"
    by (rule build_pipe_Inr) (simp add: b)
  then have m: "messages = concat (map (\<lambda>s. [(firehose_channel, bytes s), (exchange_channel (id_exchange (b_instrument s)), bytes s)]) snaps)"
    using assms(2) by (simp add: publish_commands_def)
  have split: "subscribe k ch messages = concat (map (\<lambda>s. subscribe k ch
      [(firehose_channel, bytes s), (exchange_channel (id_exchange (b_instrument s)), bytes s)]) snaps)" for ch
    by (simp only: m map_filter_concat subscribe_def)
  have "concat (map (\<lambda>s. [s]) snaps) = snaps" by (induction snaps) simp_all
  moreover have "map (\<lambda>s. subscribe k firehose_channel
      [(firehose_channel, bytes s), (exchange_channel (id_exchange (b_instrument s)), bytes s)]) snaps = map (\<lambda>s. [s]) snaps"
    by (rule map_cong) (auto simp: subscribe_def b List.map_filter_def)
  ultimately show "subscribe k firehose_channel messages = snaps"
    by (simp only: split)
  have "map (\<lambda>s. subscribe k (exchange_channel ex)
      [(firehose_channel, bytes s), (exchange_channel (id_exchange (b_instrument s)), bytes s)]) snaps =
      map (\<lambda>s. if id_exchange (b_instrument s) = ex then [s] else []) snaps"
    by (rule map_cong) (auto simp: subscribe_def b List.map_filter_def exchange_channel_not_firehose [symmetric])
  moreover have "concat (map (\<lambda>s. if P s then [s] else []) xs) = filter P xs" for P and xs :: "'a oi_snapshot list"
    by (induction xs) simp_all
  ultimately show "subscribe k (exchange_channel ex) messages = filter (\<lambda>s. id_exchange (b_instrument s) = ex) snaps"
    by (simp only: split)
qed

section \<open>Writes and reads\<close>

text \<open>
  Redis never decides the outcome of a write: whatever Redis answers, the composite leaves
  the primary store in the state, and returns the result, of the primary alone; a node whose
  gate is closed does not touch Redis.
\<close>

theorem composite_write_is_primary_write:
  "let (s', res) = upsert_snapshots primary snaps s;
       ((r', s''), res') = upsert_snapshots (composite k c primary gate) snaps (r, s)
   in s'' = s' \<and> res' = res \<and> ((case gate of None \<Rightarrow> True | Some g \<Rightarrow> g (r, s')) \<or> r' = r)"
  by (simp add: composite_def Let_def split: prod.splits)

section \<open>The storage stack under failover\<close>

text \<open>
  \<open>runner.rs\<close> stacks the layers: the composite over the log over the gated ClickHouse
  repository, both gates reading the same leadership flag.
\<close>

definition storage_stack ::
  "'d snap_codec \<Rightarrow> 'r redis_client \<Rightarrow> 'd codec \<Rightarrow> ('t, 'd) oi_repository \<Rightarrow> 't leader_gate
     \<Rightarrow> ('r \<times> wal_state \<times> 't, 'd) oi_repository" where
  "storage_stack k rc c ch g =
     composite k rc (wal_backed c (leader_gated ch g)) (Some (\<lambda>(r, w, t). g t))"

lemma dm_ok_put [simp]: "dm_ok (wal_files w) \<Longrightarrow> dm_ok (wal_files (put_file n bs w))"
  by (simp add: put_file_def dm.ok_insert)

lemma dm_ok_drop [simp]: "dm_ok (wal_files w) \<Longrightarrow> dm_ok (wal_files (drop_file n w))"
  by (simp add: drop_file_def dm.ok_remove)

lemma healthy_append:
  assumes "wal_faults w = []" "0 \<le> wal_clock w" "enc_batch c snaps = Inr payload" "dm_ok (wal_files w)"
  shows "\<exists>w'. wal_append c snaps w = (w', Inr (next_name w)) \<and> wal_faults w' = [] \<and> dm_ok (wal_files w')"
  using assms
  by (simp add: wal_append_def next_name_def uuid_v4_def Let_def labelled_def and_then_def
      os_create_def os_write_def os_sync_def os_rename_def faulty_def)


definition dead_redis :: "unit redis_client" where
  "dead_redis =
     \<lparr>rd_pipe_set_ex = (\<lambda>_ r. (r, Inl ''down'')), rd_get = (\<lambda>_ _. Inl ''down''),
      rd_pipe_publish = (\<lambda>_ r. (r, Inl ''down'')), rd_ping = (\<lambda>_. Inl ''down'')\<rparr>"

definition no_snap_codec :: "nat snap_codec" where
  "no_snap_codec = \<lparr>enc_snap = (\<lambda>_. Inl ''none''), dec_snap = (\<lambda>_. Inl ''none'')\<rparr>"


end
