(* ===== verification/Collector.thy ===== *)
theory Collector
  imports Aggregator Price_Provider Scheduler Repository
begin

text \<open>
  \<open>oi-collector/src/runner.rs\<close> (\<open>run_exchange_loop\<close>) and \<open>backfill.rs\<close>: the loop of one
  exchange. An iteration is a function of the tick and of what the adapter answered in it;
  the repository is any \<open>oi_repository\<close>. Metrics and log lines are left out. A panic inside
  the enrichment (an overflow of \<open>Decimal\<close>, the parameter \<open>mul\<close>) ends the loop: \<open>Panic\<close>.
\<close>

section \<open>State\<close>

type_synonym 'd funding_cursor = "(instrument_id, timestamp \<times> 'd) dashmap"

record 'd collector =
  col_metas :: "'d instrument_meta list"
  col_prices :: "'d price_provider"
  col_agg :: "'d aggregator"
  col_cursor :: "'d funding_cursor"
  col_symbols :: "instrument_id list"

text \<open>
  The answers of one iteration; \<open>mr_refresh\<close> is the answer to the rediscovery in the
  iterations in which the six-hour interval has elapsed.
\<close>

record 'd minute_replies =
  mr_prices :: "exchange_error + 'd price_quote list"
  mr_oi :: "exchange_error + 'd raw_oi list"
  mr_funding :: "exchange_error + 'd funding_bar list"
  mr_refresh :: "(exchange_error + 'd instrument_meta list) option"

definition active_ids :: "'d instrument_meta list \<Rightarrow> instrument_id list" where
  "active_ids metas = map meta_id (filter meta_active metas)"

fun register_all :: "'d price_provider \<Rightarrow> 'd instrument_meta list \<Rightarrow> 'd price_provider" where
  "register_all pp [] = pp"
| "register_all pp (m # ms) =
     register_all
       (if meta_active m then register_instrument pp (meta_id m) (meta_base_asset m) (meta_quote_asset m) else pp) ms"

text \<open>What precedes the loop; \<open>None\<close> when discovery fails and the loop is never entered.\<close>

definition start_loop ::
  "('s, 'd) oi_repository \<Rightarrow> exchange_error + 'd instrument_meta list \<Rightarrow> 'd price_provider \<Rightarrow> 'd aggregator \<Rightarrow> 's
     \<Rightarrow> ('d collector \<times> 's) option" where
  "start_loop repo discovered prices agg s =
     (case discovered of
        Inl e \<Rightarrow> None
      | Inr metas \<Rightarrow>
          (let (s', _) = upsert_instruments repo metas s
           in Some (\<lparr>col_metas = metas, col_prices = register_all prices metas, col_agg = agg, col_cursor = [],
                     col_symbols = active_ids metas\<rparr>, s')))"

section \<open>The samples of the minute\<close>

definition find_meta :: "'d instrument_meta list \<Rightarrow> instrument_id \<Rightarrow> 'd instrument_meta option" where
  "find_meta metas i = find (\<lambda>m. meta_id m = i) metas"

definition sample_price :: "'d price_provider \<Rightarrow> 'd instrument_meta \<Rightarrow> 'd raw_oi \<Rightarrow> 'd option" where
  "sample_price pp meta r =
     (case price_usd_with_fallback pp (raw_instrument r) (meta_base_asset meta) (meta_quote_asset meta) (raw_bucket_ts r) of
        Some (p, Native) \<Rightarrow> Some p
      | Some (p, Fallback from quote_match) \<Rightarrow> Some p
      | None \<Rightarrow> None)"

fun observe_raws ::
  "('d::linorder \<Rightarrow> 'd \<Rightarrow> 'd rust) \<Rightarrow> 'd price_provider \<Rightarrow> 'd instrument_meta list \<Rightarrow> 'd aggregator \<Rightarrow> 'd raw_oi list
     \<Rightarrow> 'd aggregator rust" where
  "observe_raws mul pp metas agg [] = Ret agg"
| "observe_raws mul pp metas agg (r # rs) =
     (case find_meta metas (raw_instrument r) of
        None \<Rightarrow> observe_raws mul pp metas agg rs
      | Some meta \<Rightarrow>
          (case enrich mul r meta (sample_price pp meta r) of
             Panic \<Rightarrow> Panic
           | Ret (Inr s) \<Rightarrow> observe_raws mul pp metas (fst (agg_observe agg s)) rs
           | Ret (Inl e) \<Rightarrow> observe_raws mul pp metas agg rs))"

section \<open>Settlement events from the funding stream\<close>

fun derive_events :: "'d funding_cursor \<Rightarrow> 'd funding_bar list \<Rightarrow> 'd funding_cursor \<times> 'd funding_event list" where
  "derive_events cursor [] = (cursor, [])"
| "derive_events cursor (bar # bars) =
     (case fb_next_funding_ts bar of
        None \<Rightarrow> derive_events cursor bars
      | Some next \<Rightarrow>
          (let emitted = (case dm_get cursor (fb_instrument bar) of
                            Some (prev_next, prev_rate) \<Rightarrow>
                              if next > prev_next
                              then [\<lparr>fe_instrument = fb_instrument bar, fe_settlement_ts = prev_next,
                                     fe_rate = prev_rate, fe_mark_price = None\<rparr>]
                              else []
                          | None \<Rightarrow> []);
               (cursor', events) = derive_events (dm_insert (fb_instrument bar) (next, fb_rate bar) cursor) bars
           in (cursor', emitted @ events)))"

definition write_funding ::
  "('s, 'd) oi_repository \<Rightarrow> 'd funding_cursor \<Rightarrow> exchange_error + 'd funding_bar list \<Rightarrow> 's \<Rightarrow> 'd funding_cursor \<times> 's" where
  "write_funding repo cursor reply s =
     (case reply of
        Inl e \<Rightarrow> (cursor, s)
      | Inr funding \<Rightarrow>
          if funding = [] then (cursor, s)
          else
            (let (cursor', events) = derive_events cursor funding;
                 s1 = (if events \<noteq> [] then fst (upsert_funding_events repo events s) else s);
                 s2 = fst (upsert_funding repo funding s1)
             in (cursor', s2)))"

section \<open>One iteration\<close>

definition refresh_metas ::
  "('s, 'd) oi_repository \<Rightarrow> (exchange_error + 'd instrument_meta list) option \<Rightarrow> 'd collector \<Rightarrow> 's \<Rightarrow> 'd collector \<times> 's" where
  "refresh_metas repo reply col s =
     (case reply of
        None \<Rightarrow> (col, s)
      | Some (Inl e) \<Rightarrow> (col, s)
      | Some (Inr metas) \<Rightarrow>
          (let (s', _) = upsert_instruments repo metas s
           in (col\<lparr>col_metas := metas, col_symbols := active_ids metas\<rparr>, s')))"

definition collect_minute ::
  "('d::linorder \<Rightarrow> 'd \<Rightarrow> 'd rust) \<Rightarrow> ('s, 'd) oi_repository \<Rightarrow> minute_tick \<Rightarrow> 'd minute_replies \<Rightarrow> 'd collector \<Rightarrow> 's
     \<Rightarrow> ('d collector \<times> 's) rust" where
  "collect_minute mul repo tick rep col s =
     (let prices = (case mr_prices rep of Inr quotes \<Rightarrow> ingest (col_prices col) quotes | Inl e \<Rightarrow> col_prices col) in
      case mr_oi rep of
        Inl e \<Rightarrow> Ret (col\<lparr>col_prices := prices\<rparr>, s)
      | Inr raws \<Rightarrow>
          bind_rust (observe_raws mul prices (col_metas col) (col_agg col) raws) (\<lambda>agg.
            let (agg', snaps) = flush_through agg (tick_bucket_ts tick);
                (s1, _) = upsert_snapshots repo snaps s;
                (cursor, s2) = write_funding repo (col_cursor col) (mr_funding rep) s1
            in Ret (refresh_metas repo (mr_refresh rep)
                     (col\<lparr>col_prices := prices, col_agg := agg', col_cursor := cursor\<rparr>) s2)))"

text \<open>The whole loop over the answers of a run, with the ticks of the scheduler.\<close>

fun run_exchange_loop ::
  "('d::linorder \<Rightarrow> 'd \<Rightarrow> 'd rust) \<Rightarrow> ('s, 'd) oi_repository \<Rightarrow> (minute_tick \<times> 'd minute_replies) list \<Rightarrow> 'd collector \<Rightarrow> 's
     \<Rightarrow> ('d collector \<times> 's) rust" where
  "run_exchange_loop mul repo [] col s = Ret (col, s)"
| "run_exchange_loop mul repo ((tick, rep) # rest) col s =
     bind_rust (collect_minute mul repo tick rep col s) (\<lambda>(col', s'). run_exchange_loop mul repo rest col' s')"

section \<open>Resync\<close>

definition last_by :: "('a \<Rightarrow> instrument_id) \<Rightarrow> 'a list \<Rightarrow> instrument_id \<Rightarrow> 'a option" where
  "last_by key xs i = find (\<lambda>x. key x = i) (rev xs)"

fun resync_snaps ::
  "('d \<Rightarrow> 'd \<Rightarrow> 'd rust) \<Rightarrow> 'd instrument_meta list \<Rightarrow> 'd price_quote list \<Rightarrow> 'd raw_oi list \<Rightarrow> 'd oi_snapshot list rust" where
  "resync_snaps mul metas prices [] = Ret []"
| "resync_snaps mul metas prices (r # rs) =
     (case last_by meta_id metas (raw_instrument r) of
        None \<Rightarrow> resync_snaps mul metas prices rs
      | Some meta \<Rightarrow>
          (let price = (case map_option quote_price (raw_price_hint r) of
                          Some p \<Rightarrow> Some p
                        | None \<Rightarrow> map_option quote_price (last_by quote_instrument prices (raw_instrument r)))
           in bind_rust (enrich mul r meta price) (\<lambda>e.
              bind_rust (resync_snaps mul metas prices rs) (\<lambda>snaps.
                case e of Inr s \<Rightarrow> Ret (start_from_sample s # snaps) | Inl _ \<Rightarrow> Ret snaps))))"

text \<open>
  \<open>resync_bucket\<close>: the answers of the adapter are \<open>discovered\<close>, \<open>prices\<close> and, for the asked
  bucket, \<open>oi bucket\<close>.
\<close>

definition resync_bucket ::
  "('d \<Rightarrow> 'd \<Rightarrow> 'd rust) \<Rightarrow> ('s, 'd) oi_repository \<Rightarrow> exchange_error + 'd instrument_meta list
     \<Rightarrow> exchange_error + 'd price_quote list \<Rightarrow> (timestamp \<Rightarrow> exchange_error + 'd raw_oi list) \<Rightarrow> timestamp \<Rightarrow> 's
     \<Rightarrow> ('s \<times> (core_error + nat)) rust" where
  "resync_bucket mul repo discovered prices oi bucket s =
     (case discovered of
        Inl e \<Rightarrow> Ret (s, Inl (ExchangeErr e))
      | Inr metas \<Rightarrow>
          (case upsert_instruments repo metas s of
             (s1, Inl e) \<Rightarrow> Ret (s1, Inl e)
           | (s1, Inr _) \<Rightarrow>
               (case oi bucket of
                  Inl e \<Rightarrow> Ret (s1, Inl (ExchangeErr e))
                | Inr raws \<Rightarrow>
                    bind_rust (resync_snaps mul metas (case prices of Inr p \<Rightarrow> p | Inl _ \<Rightarrow> []) raws) (\<lambda>snaps.
                      case upsert_snapshots repo snaps s1 of
                        (s2, Inl e) \<Rightarrow> Ret (s2, Inl e)
                      | (s2, Inr _) \<Rightarrow> Ret (s2, Inr (length snaps))))))"

fun resync_buckets :: "(timestamp \<Rightarrow> 's \<Rightarrow> ('s \<times> (core_error + nat)) rust) \<Rightarrow> timestamp list \<Rightarrow> nat \<Rightarrow> 's \<Rightarrow> ('s \<times> nat) rust" where
  "resync_buckets f [] acc s = Ret (s, acc)"
| "resync_buckets f (b # bs) acc s =
     bind_rust (f b s) (\<lambda>(s', r). resync_buckets f bs (case r of Inr n \<Rightarrow> acc + n | Inl _ \<Rightarrow> acc) s')"

definition resync_recent ::
  "(timestamp \<Rightarrow> 's \<Rightarrow> ('s \<times> (core_error + nat)) rust) \<Rightarrow> timestamp \<Rightarrow> u32 \<Rightarrow> 's \<Rightarrow> ('s \<times> nat) rust" where
  "resync_recent f now mins s =
     (let start_min = floor_to_minute now - minutes (int (unat mins))
      in resync_buckets f (map (\<lambda>i. start_min + minutes (int i)) [0..<unat mins]) 0 s)"

section \<open>Settlement events are the roll-overs of the stream\<close>

text \<open>The boundaries and rates an instrument announced, in order.\<close>

definition announced :: "instrument_id \<Rightarrow> 'd funding_bar list \<Rightarrow> (timestamp \<times> 'd) list" where
  "announced i bars =
     List.map_filter (\<lambda>b. if fb_instrument b = i
        then map_option (\<lambda>next. (next, fb_rate b)) (fb_next_funding_ts b) else None) bars"

definition held :: "'d funding_cursor \<Rightarrow> instrument_id \<Rightarrow> (timestamp \<times> 'd) list" where
  "held cursor i = (case dm_get cursor i of None \<Rightarrow> [] | Some c \<Rightarrow> [c])"

definition settled :: "instrument_id \<Rightarrow> timestamp \<times> 'd \<Rightarrow> 'd funding_event" where
  "settled i p = \<lparr>fe_instrument = i, fe_settlement_ts = fst p, fe_rate = snd p, fe_mark_price = None\<rparr>"

definition roll_overs :: "(timestamp \<times> 'd) list \<Rightarrow> (timestamp \<times> 'd) list" where
  "roll_overs ys = map fst (filter (\<lambda>(p, x). fst p < fst x) (zip ys (tl ys)))"

definition events_for :: "instrument_id \<Rightarrow> 'd funding_event list \<Rightarrow> 'd funding_event list" where
  "events_for i es = filter (\<lambda>e. fe_instrument e = i) es"

lemma announced_simps [simp]:
  "announced i [] = []"
  "announced i (b # bs) =
     (if fb_instrument b = i then (case fb_next_funding_ts b of None \<Rightarrow> announced i bs | Some next \<Rightarrow> (next, fb_rate b) # announced i bs)
      else announced i bs)"
  by (simp_all add: announced_def List.map_filter_def split: option.splits)

lemma roll_overs_simps [simp]:
  "roll_overs [] = []"
  "roll_overs [p] = []"
  "roll_overs (p # x # xs) = (if fst p < fst x then [p] else []) @ roll_overs (x # xs)"
  by (auto simp: roll_overs_def)

lemma events_for_append [simp]: "events_for i (xs @ ys) = events_for i xs @ events_for i ys"
  by (simp add: events_for_def)

lemma derive_events_ok: "dm_ok cursor \<Longrightarrow> dm_ok (fst (derive_events cursor bars))"
proof (induction bars arbitrary: cursor)
  case (Cons bar bars)
  then show ?case by (auto simp: Let_def case_prod_unfold dm.ok_insert split: option.split)
qed simp

lemma derive_events_append:
  "derive_events cursor (xs @ ys) =
     (let (c1, es1) = derive_events cursor xs; (c2, es2) = derive_events c1 ys in (c2, es1 @ es2))"
proof (induction xs arbitrary: cursor)
  case (Cons x xs)
  then show ?case by (auto simp: Let_def split: option.splits prod.splits)
qed (simp add: Let_def split: prod.splits)

lemma derive_events_spec:
  "dm_ok cursor \<Longrightarrow>
     events_for i (snd (derive_events cursor bars)) = map (settled i) (roll_overs (held cursor i @ announced i bars))"
proof (induction bars arbitrary: cursor)
  case Nil
  then show ?case by (simp add: held_def events_for_def split: option.split)
next
  case (Cons bar bars)
  show ?case
  proof (cases "fb_next_funding_ts bar")
    case None
    with Cons show ?thesis by simp
  next
    case (Some nxt)
    let ?c = "dm_insert (fb_instrument bar) (nxt, fb_rate bar) cursor"
    have IH: "events_for i (snd (derive_events ?c bars)) = map (settled i) (roll_overs (held ?c i @ announced i bars))"
      using Cons.IH Cons.prems by (simp add: dm.ok_insert)
    show ?thesis
    proof (cases "fb_instrument bar = i")
      case True
      with Some IH Cons.prems show ?thesis
        by (cases "dm_get cursor i")
          (auto simp: Let_def held_def dm.get_insert events_for_def settled_def split: prod.splits)
    next
      case False
      then have "held ?c i = held cursor i" using Cons.prems by (simp add: held_def dm.get_insert)
      with False Some IH Cons.prems show ?thesis
        by (auto simp: Let_def events_for_def split: prod.splits option.splits)
    qed
  qed
qed

text \<open>
  C11. Settlement markers are the roll-overs of the funding stream: for every instrument the
  events derived from a sequence of bars are, in order, one per place where the announced next
  funding time moves forward, dated at the old boundary and carrying the last rate announced
  under it; other instruments in the stream do not interfere.
\<close>

theorem derived_events_are_rollovers:
  assumes "dm_ok cursor"
  shows "events_for i (snd (derive_events cursor bars)) =
         map (\<lambda>(p, _). settled i p)
           (filter (\<lambda>(p, x). fst p < fst x)
             (zip (held cursor i @ announced i bars) (tl (held cursor i @ announced i bars))))"
  using derive_events_spec [OF assms, of i bars] by (simp add: roll_overs_def o_def case_prod_unfold)

definition hourly :: "int \<Rightarrow> nat \<Rightarrow> nat funding_bar" where
  "hourly h rate =
     \<lparr>fb_instrument = new_instrument Hyperliquid ''BTC'', fb_bucket_ts = 0, fb_recv_ts = 0, fb_rate = rate,
      fb_next_funding_ts = Some (minutes (60 * h)), fb_interval_hours = Some 1\<rparr>"

theorem derived_events_are_rollovers_witness:
  "events_for (new_instrument Hyperliquid ''BTC'') (snd (derive_events [] [hourly 1 3, hourly 1 4, hourly 2 5])) =
     [settled (new_instrument Hyperliquid ''BTC'') (minutes 60, 4)]"
  by (subst derived_events_are_rollovers) (simp_all add: held_def hourly_def minutes_def)

lemma roll_overs_increasing:
  "sorted (map fst ys) \<Longrightarrow> sorted_wrt (<) (map fst (roll_overs ys)) \<and> (\<forall>p \<in> set (roll_overs ys). hd (map fst ys) \<le> fst p)"
proof (induction ys rule: induct_list012)
  case (3 p x xs)
  then have IH: "sorted_wrt (<) (map fst (roll_overs (x # xs)))" "\<forall>q \<in> set (roll_overs (x # xs)). fst x \<le> fst q" by auto
  moreover have "fst p \<le> fst x" using 3 by simp
  ultimately show ?case by force
qed simp_all

text \<open>
  No settlement is marked twice: while the announced next funding time of an instrument
  never moves backward, the settlement ex_mul of its derived events strictly increase.
\<close>

theorem derived_settlements_strictly_increase:
  assumes "dm_ok cursor" "sorted (map fst (held cursor i @ announced i bars))"
  shows "sorted_wrt (<) (map fe_settlement_ts (events_for i (snd (derive_events cursor bars))))"
proof -
  have "map fe_settlement_ts (events_for i (snd (derive_events cursor bars)))
      = map fst (roll_overs (held cursor i @ announced i bars))"
    by (simp add: derive_events_spec [OF assms(1)] settled_def o_def)
  with roll_overs_increasing [OF assms(2)] show ?thesis by simp
qed

theorem derived_settlements_strictly_increase_witness:
  "sorted_wrt (<) (map fe_settlement_ts (events_for (new_instrument Hyperliquid ''BTC'')
     (snd (derive_events [] [hourly 1 3, hourly 2 4, hourly 3 5]))))"
  by (rule derived_settlements_strictly_increase) (simp_all add: held_def hourly_def minutes_def)

section \<open>The batch of a minute\<close>

definition minute_prices :: "'d minute_replies \<Rightarrow> 'd collector \<Rightarrow> 'd price_provider" where
  "minute_prices rep col = (case mr_prices rep of Inr quotes \<Rightarrow> ingest (col_prices col) quotes | Inl e \<Rightarrow> col_prices col)"

definition minute_batch ::
  "('d::linorder \<Rightarrow> 'd \<Rightarrow> 'd rust) \<Rightarrow> minute_tick \<Rightarrow> 'd minute_replies \<Rightarrow> 'd collector \<Rightarrow> ('d aggregator \<times> 'd oi_snapshot list) option rust" where
  "minute_batch mul tick rep col =
     (case mr_oi rep of
        Inl e \<Rightarrow> Ret None
      | Inr raws \<Rightarrow> map_rust (\<lambda>agg. Some (flush_through agg (tick_bucket_ts tick)))
                    (observe_raws mul (minute_prices rep col) (col_metas col) (col_agg col) raws))"

text \<open>The repository sees exactly that batch, then the funding writes and the metadata.\<close>

lemma collect_minute_batch:
  "collect_minute mul repo tick rep col s =
     (case minute_batch mul tick rep col of
        Panic \<Rightarrow> Panic
      | Ret None \<Rightarrow> Ret (col\<lparr>col_prices := minute_prices rep col\<rparr>, s)
      | Ret (Some (agg', snaps)) \<Rightarrow>
          (let s1 = fst (upsert_snapshots repo snaps s);
               (cursor, s2) = write_funding repo (col_cursor col) (mr_funding rep) s1
           in Ret (refresh_metas repo (mr_refresh rep)
                (col\<lparr>col_prices := minute_prices rep col, col_agg := agg', col_cursor := cursor\<rparr>) s2)))"
  by (cases "mr_oi rep"; cases "observe_raws mul (minute_prices rep col) (col_metas col) (col_agg col) (projr (mr_oi rep))")
    (auto simp: collect_minute_def minute_batch_def minute_prices_def Let_def split: prod.splits)

lemma agg_observe_bucket_of:
  assumes "agg_ok m"
  shows "\<exists>b. dm_get (fst (agg_observe m s)) (s_instrument s) = Some b \<and> b_bucket_ts b = s_bucket_ts s"
  using assms
proof (cases rule: agg_observe_cases [where s = s])
  case vacant
  then show ?thesis using dm.get_insert [OF agg_ok_dm_ok [OF assms]] by simp
next
  case (duplicate b)
  then show ?thesis by simp
next
  case (fold b b')
  then show ?thesis using dm.get_insert [OF agg_ok_dm_ok [OF assms]] observe_Inr(3) [OF fold(4)] by (auto simp: observe_Inr)
next
  case (roll b)
  then show ?thesis using dm.get_insert [OF agg_ok_dm_ok [OF assms]] by simp
qed


lemma enriched_sample:
  "enrich mul r meta price = Ret (Inr smp) \<Longrightarrow> s_instrument smp = raw_instrument r \<and> s_bucket_ts smp = raw_bucket_ts r"
  by (auto simp: enrich_def Let_def bind_rust_Ret_iff split: if_splits)

lemma observe_raws_ok [keeps]:
  "agg_ok agg \<Longrightarrow> observe_raws mul pp metas agg rs = Ret agg' \<Longrightarrow> agg_ok agg'"
proof (induction rs arbitrary: agg)
  case (Cons r rs)
  then show ?case by (auto intro: agg_ok_observe split: option.splits rust.splits sum.splits)
qed simp

text \<open>A reading the minute uses: known instrument, successful enrichment.\<close>

definition usable ::
  "('d \<Rightarrow> 'd \<Rightarrow> 'd rust) \<Rightarrow> 'd price_provider \<Rightarrow> 'd instrument_meta list \<Rightarrow> 'd raw_oi \<Rightarrow> bool" where
  "usable mul pp metas r \<longleftrightarrow>
     (\<exists>meta smp. find_meta metas (raw_instrument r) = Some meta \<and> enrich mul r meta (sample_price pp meta r) = Ret (Inr smp))"

definition open_at :: "'d aggregator \<Rightarrow> instrument_id \<Rightarrow> timestamp \<Rightarrow> bool" where
  "open_at agg i t \<longleftrightarrow> (\<exists>b. dm_get agg i = Some b \<and> b_bucket_ts b = t)"

lemma open_at_observe:
  assumes "agg_ok agg" "s_bucket_ts smp = t" "open_at agg i t \<or> s_instrument smp = i"
  shows "open_at (fst (agg_observe agg smp)) i t"
proof (cases "s_instrument smp = i")
  case True
  with agg_observe_bucket_of [OF assms(1), of smp] assms(2) show ?thesis by (auto simp: open_at_def)
next
  case False
  with agg_observe_other [OF assms(1), of i smp] assms(3) show ?thesis by (auto simp: open_at_def)
qed

lemma observe_raws_usable:
  assumes "observe_raws mul pp metas agg (r # rs) = Ret agg'" "usable mul pp metas r"
  obtains smp where "observe_raws mul pp metas (fst (agg_observe agg smp)) rs = Ret agg'"
    "s_instrument smp = raw_instrument r" "s_bucket_ts smp = raw_bucket_ts r"
proof -
  obtain meta smp where u: "find_meta metas (raw_instrument r) = Some meta"
    "enrich mul r meta (sample_price pp meta r) = Ret (Inr smp)"
    using assms(2) by (auto simp: usable_def)
  then have "observe_raws mul pp metas (fst (agg_observe agg smp)) rs = Ret agg'" using assms(1) by simp
  with enriched_sample [OF u(2)] show thesis by (intro that [of smp]) simp_all
qed

lemma observe_raws_unusable:
  "observe_raws mul pp metas agg (r # rs) = Ret agg' \<Longrightarrow> \<not> usable mul pp metas r \<Longrightarrow>
     observe_raws mul pp metas agg rs = Ret agg'"
  by (auto simp: usable_def split: option.splits rust.splits sum.splits)

lemma observe_raws_open:
  "agg_ok agg \<Longrightarrow> observe_raws mul pp metas agg rs = Ret agg' \<Longrightarrow> \<forall>r \<in> set rs. raw_bucket_ts r = t \<Longrightarrow>
     open_at agg i t \<or> (\<exists>r \<in> set rs. raw_instrument r = i \<and> usable mul pp metas r) \<Longrightarrow> open_at agg' i t"
proof (induction rs arbitrary: agg)
  case Nil
  then show ?case by simp
next
  case (Cons r rs)
  show ?case
  proof (cases "usable mul pp metas r")
    case False
    with Cons.prems show ?thesis by (intro Cons.IH [OF Cons.prems(1) observe_raws_unusable]) auto
  next
    case True
    obtain smp where s: "observe_raws mul pp metas (fst (agg_observe agg smp)) rs = Ret agg'"
      "s_instrument smp = raw_instrument r" "s_bucket_ts smp = t"
      using observe_raws_usable [OF Cons.prems(2) True] Cons.prems(3) by auto
    have "open_at (fst (agg_observe agg smp)) i t \<or> (\<exists>r \<in> set rs. raw_instrument r = i \<and> usable mul pp metas r)"
      using open_at_observe [OF Cons.prems(1) s(3)] s(2) Cons.prems(4) by auto
    then show ?thesis using Cons.prems(3) by (intro Cons.IH [OF agg_ok_observe [OF Cons.prems(1)] s(1)]) auto
  qed
qed

lemma minute_batch_complete_lemma:
  assumes "agg_ok (col_agg col)" "mr_oi rep = Inr raws" "\<forall>r \<in> set raws. raw_bucket_ts r = tick_bucket_ts tick"
    and "minute_batch mul tick rep col = Ret (Some (agg', snaps))"
  shows "(\<forall>r \<in> set raws. usable mul (minute_prices rep col) (col_metas col) r \<longrightarrow>
            (\<exists>!b. b \<in> set snaps \<and> b_instrument b = raw_instrument r) \<and>
            (\<exists>b \<in> set snaps. b_instrument b = raw_instrument r \<and> b_bucket_ts b = tick_bucket_ts tick)) \<and>
         (\<forall>b \<in> set snaps. b_bucket_ts b \<le> tick_bucket_ts tick) \<and>
         (\<forall>i b. agg_current agg' i = Some b \<longrightarrow> tick_bucket_ts tick < b_bucket_ts b)"
proof -
  let ?t = "tick_bucket_ts tick"
  obtain agg where o': "observe_raws mul (minute_prices rep col) (col_metas col) (col_agg col) raws = Ret agg"
    and f: "flush_through agg ?t = (agg', snaps)"
    using assms(2,4) by (auto simp: minute_batch_def map_rust_Ret_iff)
  have ok: "agg_ok agg" by (rule observe_raws_ok [OF assms(1) o'])
  then have dm: "dm_ok agg" by (rule agg_ok_dm_ok)
  have out: "snaps = map snd (filter (\<lambda>(k, b). b_bucket_ts b \<le> ?t) agg)"
    using flush_through_out [OF dm, of ?t] f by simp
  have mem: "b \<in> set snaps \<longleftrightarrow> (\<exists>k. dm_get agg k = Some b \<and> b_bucket_ts b \<le> ?t)" for b
    unfolding out using dm_get_iff [OF dm] by force
  have inst: "dm_get agg k = Some b \<Longrightarrow> b_instrument b = k" for k b using ok by (auto simp: agg_ok_def)
  have rest: "dm_get agg' i = Some b \<Longrightarrow> ?t < b_bucket_ts b" for i b
    using flush_through_get [OF dm, of ?t i] f by (auto split: option.splits if_splits)
  have "(\<exists>!b. b \<in> set snaps \<and> b_instrument b = raw_instrument r) \<and>
        (\<exists>b \<in> set snaps. b_instrument b = raw_instrument r \<and> b_bucket_ts b = ?t)"
    if "r \<in> set raws" "usable mul (minute_prices rep col) (col_metas col) r" for r
  proof -
    have "open_at agg (raw_instrument r) ?t"
      using that by (intro observe_raws_open [OF assms(1) o' assms(3)]) auto
    then obtain b where b: "dm_get agg (raw_instrument r) = Some b" "b_bucket_ts b = ?t"
      by (auto simp: open_at_def)
    then have "b \<in> set snaps" "b_instrument b = raw_instrument r" using mem inst by auto
    moreover have "b' = b" if "b' \<in> set snaps" "b_instrument b' = raw_instrument r" for b'
      using that mem inst b(1) by (metis option.inject)
    ultimately show ?thesis using b(2) by blast
  qed
  then show ?thesis using mem rest by (auto simp: agg_current_def)
qed

lemma refresh_metas_keeps:
  "col_agg (fst (refresh_metas repo reply col s)) = col_agg col"
  "snd (refresh_metas repo reply col s) = (case reply of Some (Inr metas) \<Rightarrow> fst (upsert_instruments repo metas s) | _ \<Rightarrow> s)"
  by (simp_all add: refresh_metas_def split: option.splits sum.splits prod.splits)

text \<open>The state an iteration leaves behind when its batch is \<open>snaps\<close>.\<close>

definition after_batch ::
  "('s, 'd) oi_repository \<Rightarrow> 'd minute_replies \<Rightarrow> 'd collector \<Rightarrow> 'd oi_snapshot list \<Rightarrow> 's \<Rightarrow> 's" where
  "after_batch repo rep col snaps s =
     (let s1 = fst (upsert_snapshots repo snaps s);
          s2 = snd (write_funding repo (col_cursor col) (mr_funding rep) s1)
      in snd (refresh_metas repo (mr_refresh rep) col s2))"

lemma collect_minute_Ret:
  assumes "collect_minute mul repo tick rep col s = Ret (col', s')" "mr_oi rep = Inr raws"
  shows "\<exists>agg' snaps. minute_batch mul tick rep col = Ret (Some (agg', snaps)) \<and> col_agg col' = agg' \<and>
           s' = after_batch repo rep col snaps s"
proof -
  obtain agg' snaps where b: "minute_batch mul tick rep col = Ret (Some (agg', snaps))"
    using assms unfolding collect_minute_batch
    by (auto simp: minute_batch_def map_rust_Ret_iff split: rust.splits option.splits)
  obtain cursor s2 where f: "write_funding repo (col_cursor col) (mr_funding rep) (fst (upsert_snapshots repo snaps s)) = (cursor, s2)"
    by (metis prod.exhaust)
  have r: "refresh_metas repo (mr_refresh rep) (col\<lparr>col_prices := minute_prices rep col, col_agg := agg', col_cursor := cursor\<rparr>) s2 = (col', s')"
    using assms(1) unfolding collect_minute_batch b by (simp add: f)
  have "col_agg col' = agg'" using arg_cong [OF r, of "\<lambda>p. col_agg (fst p)"] by (simp add: refresh_metas_keeps(1))
  moreover have "s' = after_batch repo rep col snaps s"
    using arg_cong [OF r, of snd] unfolding after_batch_def f Let_def by (simp add: refresh_metas_keeps(2))
  ultimately show ?thesis using b by blast
qed

text \<open>
  Every usable reading of a minute reaches the store in that minute: when the adapter
  answers for the tick's bucket, the batch handed to the repository holds exactly one bar for
  every instrument with a usable reading, of that bucket; every bar of the batch is of that
  bucket or older, and no bar of that bucket or older stays behind in the aggregator.
\<close>

theorem minute_batch_is_complete:
  assumes "agg_ok (col_agg col)" "mr_oi rep = Inr raws" "\<forall>r \<in> set raws. raw_bucket_ts r = tick_bucket_ts tick"
    and "collect_minute mul repo tick rep col s = Ret (col', s')"
  shows "\<exists>snaps. s' = after_batch repo rep col snaps s \<and>
         (\<forall>r \<in> set raws. usable mul (minute_prices rep col) (col_metas col) r \<longrightarrow>
            (\<exists>!b. b \<in> set snaps \<and> b_instrument b = raw_instrument r) \<and>
            (\<exists>b \<in> set snaps. b_instrument b = raw_instrument r \<and> b_bucket_ts b = tick_bucket_ts tick)) \<and>
         (\<forall>b \<in> set snaps. b_bucket_ts b \<le> tick_bucket_ts tick) \<and>
         (\<forall>i b. agg_current (col_agg col') i = Some b \<longrightarrow> tick_bucket_ts tick < b_bucket_ts b)"
  using collect_minute_Ret [OF assms(4,2)] minute_batch_complete_lemma [OF assms(1,2,3)] by blast


definition ex_reading :: "int \<Rightarrow> timestamp \<Rightarrow> int raw_oi" where
  "ex_reading v t =
     \<lparr>raw_instrument = new_instrument Okx ''BTC-USDT-SWAP'', raw_value = v, raw_unit = Coins, raw_bucket_ts = t,
      raw_recv_ts = t + 1, raw_price_hint = None\<rparr>"

definition okx_meta :: "int instrument_meta" where
  "okx_meta =
     \<lparr>meta_id = new_instrument Okx ''BTC-USDT-SWAP'', meta_base_asset = ''BTC'', meta_quote_asset = ''USDT'',
      meta_is_perpetual = True, meta_native_unit = Coins, meta_contract_multiplier = None, meta_price_tick = None,
      meta_qty_step = None, meta_active = True\<rparr>"

definition ex_collector :: "int aggregator \<Rightarrow> int collector" where
  "ex_collector agg =
     \<lparr>col_metas = [okx_meta], col_prices = with_tolerance (minutes 5), col_agg = agg, col_cursor = [],
      col_symbols = [new_instrument Okx ''BTC-USDT-SWAP'']\<rparr>"

definition ex_replies :: "exchange_error + int raw_oi list \<Rightarrow> int minute_replies" where
  "ex_replies oi = \<lparr>mr_prices = Inr [], mr_oi = oi, mr_funding = Inr [], mr_refresh = None\<rparr>"

definition ex_tick :: "timestamp \<Rightarrow> minute_tick" where
  "ex_tick t = \<lparr>tick_bucket_ts = t, tick_late = False\<rparr>"

definition ex_bar :: "int \<Rightarrow> timestamp \<Rightarrow> int oi_snapshot" where
  "ex_bar v t = start_from_sample
     \<lparr>s_instrument = new_instrument Okx ''BTC-USDT-SWAP'', s_bucket_ts = t, s_recv_ts = t + 1, s_native_value = v,
      s_native_unit = Coins, s_oi_coins = Some v, s_oi_usd = None, s_price_used = None\<rparr>"

definition ex_mul :: "int \<Rightarrow> int \<Rightarrow> int rust" where
  "ex_mul a b = Ret (a * b)"

lemma ex_no_price: "price_usd_with_fallback (with_tolerance x) i b q t = None"
  by (simp add: price_usd_with_fallback_def with_tolerance_def fresh_def)

lemma ex_enrich:
  "enrich ex_mul (ex_reading v t) okx_meta (sample_price (with_tolerance (minutes 5)) okx_meta (ex_reading v t)) =
     Ret (Inr \<lparr>s_instrument = new_instrument Okx ''BTC-USDT-SWAP'', s_bucket_ts = t, s_recv_ts = t + 1, s_native_value = v,
      s_native_unit = Coins, s_oi_coins = Some v, s_oi_usd = None, s_price_used = None\<rparr>)"
  by (simp add: enrich_def sample_price_def ex_no_price ex_reading_def okx_meta_def)

lemma ex_prices: "minute_prices (ex_replies x) (ex_collector agg) = with_tolerance (minutes 5)"
  by (simp add: minute_prices_def ex_replies_def ex_collector_def)

lemma ex_find: "find_meta [okx_meta] (raw_instrument (ex_reading v t)) = Some okx_meta"
  by (simp add: find_meta_def okx_meta_def ex_reading_def)

lemma ex_usable: "usable ex_mul (with_tolerance (minutes 5)) [okx_meta] (ex_reading v t)"
  unfolding usable_def using ex_find ex_enrich by blast

lemma ex_fields [simp]:
  "mr_oi (ex_replies x) = x" "col_metas (ex_collector agg) = [okx_meta]" "col_agg (ex_collector agg) = agg"
  "tick_bucket_ts (ex_tick t) = t" "b_bucket_ts (ex_bar v t) = t" "raw_bucket_ts (ex_reading v t) = t"
  "b_instrument (ex_bar v t) = new_instrument Okx ''BTC-USDT-SWAP''"
  "raw_instrument (ex_reading v t) = new_instrument Okx ''BTC-USDT-SWAP''"
  by (simp_all add: ex_replies_def ex_collector_def ex_tick_def ex_bar_def ex_reading_def start_from_sample_def)

abbreviation btc_swap :: instrument_id where
  "btc_swap \<equiv> new_instrument Okx ''BTC-USDT-SWAP''"

lemma agg_ok_ex_bar [simp]: "agg_ok [(btc_swap, ex_bar v t)]"
  using agg_ok_insert [OF agg_ok_Nil, of "ex_bar v t" btc_swap] by (simp add: dm_insert_def ex_bar_def bar_ok_start)

lemma ex_observe:
  assumes "agg = [] \<or> agg = [(btc_swap, ex_bar w u)]" "u \<noteq> t"
  shows "observe_raws ex_mul (with_tolerance (minutes 5)) [okx_meta] agg [ex_reading v t] = Ret [(btc_swap, ex_bar v t)]"
proof -
  let ?s = "\<lparr>s_instrument = btc_swap, s_bucket_ts = t, s_recv_ts = t + 1, s_native_value = v,
      s_native_unit = Coins, s_oi_coins = Some v, s_oi_usd = None, s_price_used = None\<rparr>"
  have "agg_observe agg ?s = (dm_insert btc_swap (ex_bar v t) agg, ex_bar v t)"
    using assms(1)
  proof
    assume "agg = []"
    then show ?thesis by (simp add: agg_observe_vacant ex_bar_def)
  next
    assume "agg = [(btc_swap, ex_bar w u)]"
    with assms(2) show ?thesis
      by (subst agg_observe_roll [of _ _ "ex_bar w u"]) (simp_all add: dm_get_def, simp add: ex_bar_def)
  qed
  moreover have "dm_insert btc_swap (ex_bar v t) agg = [(btc_swap, ex_bar v t)]"
    using assms(1) by (auto simp: dm_insert_def)
  ultimately show ?thesis using ex_find [of v t] ex_enrich [of v t] by simp
qed

lemma ex_flush: "flush_through [(btc_swap, ex_bar v t)] t = ([], [ex_bar v t])"
  by (simp add: flush_through_def flush_keys_def dm_get_def dm_remove_def)

lemma ex_batch:
  assumes "agg = [] \<or> agg = [(btc_swap, ex_bar w u)]" "u \<noteq> t"
  shows "minute_batch ex_mul (ex_tick t) (ex_replies (Inr [ex_reading v t])) (ex_collector agg) = Ret (Some ([], [ex_bar v t]))"
  by (simp add: minute_batch_def ex_prices ex_observe [OF assms] ex_flush del: observe_raws.simps)

text \<open>A repository whose state is the list of the batches it was given.\<close>

definition recording_repo :: "('d oi_snapshot list list, 'd) oi_repository" where
  "recording_repo = without_funding
     \<lparr>upsert_snapshots = (\<lambda>b log. (log @ [b], Inr ())), upsert_instruments = (\<lambda>_ log. (log, Inr ())),
      range_snapshots = (\<lambda>_ _ _ _. Inr []), latest_snapshot = (\<lambda>_ _. Inr None),
      upsert_funding = (\<lambda>_ log. (log, Inr ())), funding_range = (\<lambda>_ _ _ _. Inr []),
      latest_funding = (\<lambda>_ _. Inr None), upsert_funding_events = (\<lambda>_ log. (log, Inr ())),
      funding_events_range = (\<lambda>_ _ _ _. Inr []), latest_funding_event = (\<lambda>_ _. Inr None)\<rparr>"

lemma recording_repo_upsert: "upsert_snapshots recording_repo b log = (log @ [b], Inr ())"
  by (simp add: recording_repo_def without_funding_def)

lemma ex_after_batch: "after_batch recording_repo (ex_replies x) (ex_collector agg) snaps log = log @ [snaps]"
  by (simp add: after_batch_def recording_repo_upsert ex_replies_def write_funding_def refresh_metas_def Let_def)

lemma ex_collect:
  assumes "agg = [] \<or> agg = [(btc_swap, ex_bar w u)]" "u \<noteq> t"
  shows "collect_minute ex_mul recording_repo (ex_tick t) (ex_replies (Inr [ex_reading v t])) (ex_collector agg) log
           = Ret (ex_collector [], log @ [[ex_bar v t]])"
  by (simp add: collect_minute_batch ex_batch [OF assms] recording_repo_upsert ex_prices Let_def)
     (simp add: ex_replies_def ex_collector_def write_funding_def refresh_metas_def)

theorem minute_batch_is_complete_witness:
  "\<exists>snaps. [[ex_bar 7 0]] = [] @ [snaps] \<and> (\<exists>!b. b \<in> set snaps \<and> b_instrument b = btc_swap)"
proof -
  have u: "usable ex_mul (minute_prices (ex_replies (Inr [ex_reading 7 0])) (ex_collector [])) (col_metas (ex_collector [])) (ex_reading 7 0)"
    unfolding ex_prices using ex_usable by simp
  have c: "collect_minute ex_mul recording_repo (ex_tick 0) (ex_replies (Inr [ex_reading 7 0])) (ex_collector []) []
      = Ret (ex_collector [], [[ex_bar 7 0]])"
    using ex_collect [of "[]" 0 1 0 7 "[]"] by simp
  have "agg_ok (col_agg (ex_collector []))" "mr_oi (ex_replies (Inr [ex_reading 7 0])) = Inr [ex_reading 7 0]"
    "\<forall>r \<in> set [ex_reading 7 0]. raw_bucket_ts r = tick_bucket_ts (ex_tick 0)" by simp_all
  from minute_batch_is_complete [OF this c] u show ?thesis by (auto simp: ex_after_batch)
qed

lemma failed_fetch_lemma:
  assumes "agg_ok (col_agg col)" "agg_current (col_agg col) i = Some b" "b_bucket_ts b = tick_bucket_ts tick1"
    and "mr_oi rep1 = Inl e" "collect_minute mul repo tick1 rep1 col s = Ret (col1, s1)"
    and "mr_oi rep2 = Inr raws" "\<forall>r \<in> set raws. raw_bucket_ts r = tick_bucket_ts tick2"
    and "tick_bucket_ts tick2 \<noteq> tick_bucket_ts tick1"
    and "r \<in> set raws" "raw_instrument r = i" "usable mul (minute_prices rep2 col1) (col_metas col1) r"
    and "minute_batch mul tick2 rep2 col1 = Ret (Some (agg', snaps))"
  shows "s1 = s \<and> b \<notin> set snaps \<and> agg_current agg' i \<noteq> Some b"
proof -
  let ?t = "tick_bucket_ts tick2"
  have c1: "s1 = s" "col_agg col1 = col_agg col"
    using assms(4,5) by (auto simp: collect_minute_def Let_def)
  obtain agg where o': "observe_raws mul (minute_prices rep2 col1) (col_metas col1) (col_agg col) raws = Ret agg"
    and f: "flush_through agg ?t = (agg', snaps)"
    using assms(6,12) c1(2) by (auto simp: minute_batch_def map_rust_Ret_iff)
  have ok: "agg_ok agg" by (rule observe_raws_ok [OF assms(1) o'])
  then have dm: "dm_ok agg" by (rule agg_ok_dm_ok)
  have "open_at agg i ?t"
    using assms(9-11) by (intro observe_raws_open [OF assms(1) o' assms(7)]) auto
  then obtain b' where b': "dm_get agg i = Some b'" "b_bucket_ts b' = ?t" by (auto simp: open_at_def)
  have i: "b_instrument b = i" using assms(1,2) by (auto simp: agg_ok_def agg_current_def)
  have "b \<noteq> b'" using b'(2) assms(3,8) by auto
  moreover have "x = b'" if "x \<in> set snaps" "b_instrument x = i" for x
  proof -
    have "snaps = map snd (filter (\<lambda>(k, b). b_bucket_ts b \<le> ?t) agg)"
      using flush_through_out [OF dm, of ?t] f by simp
    with that(1) obtain k where "dm_get agg k = Some x" using dm_get_iff [OF dm] by force
    moreover from this ok have "k = i" using that(2) by (auto simp: agg_ok_def)
    ultimately show "x = b'" using b'(1) by simp
  qed
  moreover have "agg_current agg' i = None"
    using flush_through_get [OF dm, of ?t i] f b' by (simp add: agg_current_def)
  ultimately show ?thesis using c1(1) i by auto
qed

text \<open>
  A failed open-interest fetch loses the bar of that minute on a venue with a live stream:
  the iteration ends before the flush, and in the next minute the first reading of the
  instrument replaces the closed bar in the aggregator, so it is in no batch.
\<close>

theorem failed_fetch_loses_the_closed_bar:
  assumes "agg_ok (col_agg col)" "agg_current (col_agg col) i = Some b" "b_bucket_ts b = tick_bucket_ts tick1"
    and "mr_oi rep1 = Inl e" "collect_minute mul repo tick1 rep1 col s = Ret (col1, s1)"
    and "mr_oi rep2 = Inr raws" "\<forall>r \<in> set raws. raw_bucket_ts r = tick_bucket_ts tick2"
    and "tick_bucket_ts tick2 \<noteq> tick_bucket_ts tick1"
    and "r \<in> set raws" "raw_instrument r = i" "usable mul (minute_prices rep2 col1) (col_metas col1) r"
    and "collect_minute mul repo tick2 rep2 col1 s1 = Ret (col2, s2)"
  shows "s1 = s \<and> agg_current (col_agg col2) i \<noteq> Some b \<and>
         (\<exists>snaps. s2 = after_batch repo rep2 col1 snaps s1 \<and> b \<notin> set snaps)"
  using collect_minute_Ret [OF assms(12,6)] failed_fetch_lemma [OF assms(1-11)] by blast

theorem failed_fetch_loses_the_closed_bar_witness:
  "agg_current [] btc_swap \<noteq> Some (ex_bar 5 0) \<and> (\<exists>snaps. [[ex_bar 7 (minutes 1)]] = [] @ [snaps] \<and> ex_bar 5 0 \<notin> set snaps)"
proof -
  let ?rep1 = "ex_replies (Inl (Unexpected ''down''))" and ?rep2 = "ex_replies (Inr [ex_reading 7 (minutes 1)])"
  let ?col = "ex_collector [(btc_swap, ex_bar 5 0)]"
  have c1: "collect_minute ex_mul recording_repo (ex_tick 0) ?rep1 ?col [] = Ret (?col, [])"
    by (simp add: collect_minute_def) (simp add: ex_replies_def ex_collector_def)
  have c2: "collect_minute ex_mul recording_repo (ex_tick (minutes 1)) ?rep2 ?col [] = Ret (ex_collector [], [[ex_bar 7 (minutes 1)]])"
    using ex_collect [of "[(btc_swap, ex_bar 5 0)]" 5 0 "minutes 1" 7 "[]"] by (simp add: minutes_def)
  have u: "usable ex_mul (minute_prices ?rep2 ?col) (col_metas ?col) (ex_reading 7 (minutes 1))"
    unfolding ex_prices using ex_usable by simp
  have "([] :: int oi_snapshot list list) = [] \<and> agg_current (col_agg (ex_collector [])) btc_swap \<noteq> Some (ex_bar 5 0) \<and>
      (\<exists>snaps. [[ex_bar 7 (minutes 1)]] = after_batch recording_repo ?rep2 ?col snaps [] \<and> ex_bar 5 0 \<notin> set snaps)"
    by (rule failed_fetch_loses_the_closed_bar [OF _ _ _ _ c1 _ _ _ _ _ u c2, where raws = "[ex_reading 7 (minutes 1)]"])
      (simp_all add: agg_current_def dm_get_def, simp add: minutes_def)
  then show ?thesis by (simp add: ex_after_batch)
qed

end
