(* ===== verification/Fan_Out.thy ===== *)
theory Fan_Out
  imports Prelude "HOL-Library.Multiset"
begin

text \<open>
  The bounded fan-out the collector and the adapters share: the first tasks are spawned, and
  each completion spawns the next one (\<open>FuturesUnordered\<close> fed from an iterator). The futures
  in flight are a list; which of them completes next is the runtime's choice, so a run is
  parameterised by the choices. Every item is run exactly once, whatever the choices.
\<close>

section \<open>The work list\<close>

record 'i sweep_queue =
  sw_iter :: "'i list"
  sw_stream :: "'i list"

text \<open>\<open>for _ in 0..concurrency\<close>: launch the first tasks.\<close>

fun prime_first :: "nat \<Rightarrow> 'i sweep_queue \<Rightarrow> 'i sweep_queue" where
  "prime_first 0 q = q"
| "prime_first (Suc k) q =
     prime_first k
       (case sw_iter q of
          [] \<Rightarrow> q
        | inst # rest \<Rightarrow> q\<lparr>sw_iter := rest, sw_stream := sw_stream q @ [inst]\<rparr>)"

definition start_sweep :: "'i list \<Rightarrow> nat \<Rightarrow> 'i sweep_queue" where
  "start_sweep instruments concurrency = prime_first concurrency \<lparr>sw_iter = instruments, sw_stream = []\<rparr>"

text \<open>\<open>stream.next()\<close> yields the task at a position; then the next instrument is launched.\<close>

definition complete_at :: "nat \<Rightarrow> 'i sweep_queue \<Rightarrow> 'i \<times> 'i sweep_queue" where
  "complete_at k q =
     (let j = k mod length (sw_stream q);
          rest = take j (sw_stream q) @ drop (Suc j) (sw_stream q)
      in (sw_stream q ! j,
          (case sw_iter q of
             [] \<Rightarrow> q\<lparr>sw_stream := rest\<rparr>
           | inst # todo \<Rightarrow> q\<lparr>sw_iter := todo, sw_stream := rest @ [inst]\<rparr>)))"

text \<open>The order in which the tasks complete, for a sequence of choices; stops when none is left.\<close>

function completions :: "(nat \<Rightarrow> nat) \<Rightarrow> nat \<Rightarrow> 'i sweep_queue \<Rightarrow> 'i list" where
  "completions pick n q =
     (if sw_stream q = [] then []
      else (let (inst, q') = complete_at (pick n) q in inst # completions pick (Suc n) q'))"
  by pat_completeness auto
termination
proof (relation "measure (\<lambda>(pick, n, q). length (sw_iter q) + length (sw_stream q))")
  fix pick :: "nat \<Rightarrow> nat" and n q x inst q'
  assume ne: "sw_stream q \<noteq> []" and x: "x = complete_at (pick n) q" "(inst, q') = x"
  then have "pick n mod length (sw_stream q) < length (sw_stream q)" by simp
  with x show "((pick, Suc n, q'), pick, n, q) \<in> measure (\<lambda>(pick, n, q). length (sw_iter q) + length (sw_stream q))"
    by (auto simp: complete_at_def Let_def split: list.splits)
qed simp

declare completions.simps [simp del]

section \<open>Every item completes once\<close>

lemma mset_take_drop: "j < length xs \<Longrightarrow> mset xs = add_mset (xs ! j) (mset (take j xs @ drop (Suc j) xs))"
  by (metis add_mset_add_single append_take_drop_id Cons_nth_drop_Suc mset_append union_mset_add_mset_right mset.simps(2))

lemma prime_first_queue:
  "mset (sw_stream (prime_first k q)) + mset (sw_iter (prime_first k q)) = mset (sw_stream q) + mset (sw_iter q)
   \<and> length (sw_stream (prime_first k q)) = min (length (sw_stream q) + k) (length (sw_stream q) + length (sw_iter q))"
  by (induction k arbitrary: q) (auto split: list.split)

lemma completions_mset:
  "sw_iter q = [] \<or> sw_stream q \<noteq> [] \<Longrightarrow>
     mset (completions pick n q) = mset (sw_stream q) + mset (sw_iter q)"
proof (induction pick n q rule: completions.induct)
  case (1 pick n q)
  show ?case
  proof (cases "sw_stream q = []")
    case True
    with 1(2) show ?thesis by (simp add: completions.simps)
  next
    case False
    let ?j = "pick n mod length (sw_stream q)"
    obtain inst q' where c: "complete_at (pick n) q = (inst, q')" by (cases "complete_at (pick n) q")
    have j: "?j < length (sw_stream q)" using False by simp
    have q': "sw_iter q' = [] \<or> sw_stream q' \<noteq> []"
      using c by (auto simp: complete_at_def Let_def split: list.splits)
    have "add_mset inst (mset (sw_stream q') + mset (sw_iter q')) = mset (sw_stream q) + mset (sw_iter q)"
      using c mset_take_drop [OF j] by (auto simp: complete_at_def Let_def split: list.splits)
    with 1(1) [OF False c [symmetric] refl] q' c False show ?thesis
      by (simp add: completions.simps [of pick n q])
  qed
qed

lemma start_sweep_queue:
  "mset (sw_stream (start_sweep ids c)) + mset (sw_iter (start_sweep ids c)) = mset ids"
  "length (sw_stream (start_sweep ids c)) = min c (length ids)"
  using prime_first_queue [of c "\<lparr>sw_iter = ids, sw_stream = []\<rparr>"] by (simp_all add: start_sweep_def)

lemma completions_cover:
  assumes "0 < concurrency"
  shows "mset (completions pick 0 (start_sweep items concurrency)) = mset items"
proof -
  let ?q = "start_sweep items concurrency"
  have "sw_iter ?q = [] \<or> sw_stream ?q \<noteq> []"
  proof (cases "items = []")
    case True
    then show ?thesis using start_sweep_queue(1) [of items concurrency] by simp
  next
    case False
    with assms have "length (sw_stream ?q) \<noteq> 0" by (simp add: start_sweep_queue(2))
    then show ?thesis by auto
  qed
  from completions_mset [OF this] show ?thesis by (simp add: start_sweep_queue(1))
qed

lemma set_completions [simp]:
  "0 < concurrency \<Longrightarrow> set (completions pick 0 (start_sweep items concurrency)) = set items"
  using completions_cover [of concurrency pick items] by (metis set_mset_mset)

end
