(* ===== verification/Funding_Sweep.thy ===== *)
theory Funding_Sweep
  imports Repository Fan_Out
begin

text \<open>
  \<open>oi-collector/src/funding_sweep.rs\<close>: the sweep over the active instruments with bounded
  concurrency (theory \<open>Fan_Out\<close>). A completed task is a join
  error (the task panicked) or the result of the fetch.
\<close>

section \<open>The due gate\<close>

definition not_due_before :: duration where
  "not_due_before = minutes 50"

text \<open>
  What a task does: look the cursor up, and either return nothing or ask the venue for the
  history since the cursor (\<open>fetch\<close>). A failed lookup counts as no cursor.
\<close>

definition prime ::
  "('s, 'd) oi_repository \<Rightarrow> (instrument_id \<Rightarrow> timestamp option \<Rightarrow> exchange_error + 'd funding_event list)
     \<Rightarrow> timestamp \<Rightarrow> 's \<Rightarrow> instrument_id \<Rightarrow> exchange_error + 'd funding_event list" where
  "prime repo fetch now s inst =
     (let since = (case latest_funding_event repo inst s of
                     Inr (Some e) \<Rightarrow> Some (fe_settlement_ts e)
                   | Inr None \<Rightarrow> None
                   | Inl _ \<Rightarrow> None)
      in case since of
           Some t \<Rightarrow> if now - t < not_due_before then Inr [] else fetch inst since
         | None \<Rightarrow> fetch inst since)"

section \<open>Results\<close>

datatype 'd joined = Panicked | Joined "exchange_error + 'd funding_event list"

record sweep_stats =
  st_events :: u64
  st_failures :: u64
  st_auth_failures :: u64

definition chunk_size :: nat where
  "chunk_size = 500"

definition upsert_chunk ::
  "('s, 'd) oi_repository \<Rightarrow> 'd funding_event list \<Rightarrow> sweep_stats \<Rightarrow> 's \<Rightarrow> sweep_stats \<times> 's" where
  "upsert_chunk repo batch st s =
     (case upsert_funding_events repo batch s of
        (s', Inl e) \<Rightarrow> (st\<lparr>st_failures := st_failures st + 1\<rparr>, s')
      | (s', Inr _) \<Rightarrow> (st, s'))"

fun is_auth :: "exchange_error \<Rightarrow> bool" where
  "is_auth (Auth m) = True"
| "is_auth (Transient k m) = False"
| "is_auth (RateLimited r) = False"
| "is_auth (Schema m) = False"
| "is_auth (NotFound m) = False"
| "is_auth (Unexpected m) = False"

fun collect_results_of ::
  "('s, 'd) oi_repository \<Rightarrow> 'd joined list \<Rightarrow> sweep_stats \<Rightarrow> 'd funding_event list \<Rightarrow> 's \<Rightarrow> sweep_stats \<times> 'd funding_event list \<times> 's" where
  "collect_results_of repo [] st batch s = (st, batch, s)"
| "collect_results_of repo (Panicked # js) st batch s =
     collect_results_of repo js (st\<lparr>st_failures := st_failures st + 1\<rparr>) batch s"
| "collect_results_of repo (Joined (Inl e) # js) st batch s =
     collect_results_of repo js
       (if is_auth e
        then st\<lparr>st_failures := st_failures st + 1, st_auth_failures := st_auth_failures st + 1\<rparr>
        else st\<lparr>st_failures := st_failures st + 1\<rparr>) batch s"
| "collect_results_of repo (Joined (Inr events) # js) st batch s =
     (if events = [] then collect_results_of repo js st batch s
      else
        (let st1 = st\<lparr>st_events := st_events st + of_nat (length events)\<rparr>;
             batch1 = batch @ events
         in if chunk_size \<le> length batch1
            then (let (st2, s') = upsert_chunk repo batch1 st1 s in collect_results_of repo js st2 [] s')
            else collect_results_of repo js st1 batch1 s))"

definition empty_stats :: sweep_stats where
  "empty_stats = \<lparr>st_events = 0, st_failures = 0, st_auth_failures = 0\<rparr>"

definition sweep_results :: "('s, 'd) oi_repository \<Rightarrow> 'd joined list \<Rightarrow> 's \<Rightarrow> sweep_stats \<times> 's" where
  "sweep_results repo js s =
     (let (st, batch, s') = collect_results_of repo js empty_stats [] s
      in if batch \<noteq> [] then upsert_chunk repo batch st s' else (st, s'))"

text \<open>The sweep: every completed task contributes its outcome (\<open>outcome\<close>) in completion order.\<close>

definition sweep_once ::
  "('s, 'd) oi_repository \<Rightarrow> (instrument_id \<Rightarrow> 'd joined) \<Rightarrow> (nat \<Rightarrow> nat) \<Rightarrow> instrument_id list \<Rightarrow> nat \<Rightarrow> 's \<Rightarrow> sweep_stats \<times> 's" where
  "sweep_once repo outcome pick instruments concurrency s =
     sweep_results repo (map outcome (completions pick 0 (start_sweep instruments concurrency))) s"

section \<open>The cycle\<close>

definition waf_ban_threshold :: u64 where
  "waf_ban_threshold = 20"

definition waf_cooldown :: duration where
  "waf_cooldown = seconds (4 * 3600)"

definition next_sleep :: "duration \<Rightarrow> bool \<Rightarrow> sweep_stats \<Rightarrow> duration" where
  "next_sleep interval is_leader st =
     (if is_leader \<and> waf_ban_threshold \<le> st_auth_failures st then waf_cooldown else interval)"

section \<open>Every instrument is swept once\<close>

text \<open>
  A sweep asks for every instrument exactly once, whatever order the requests complete in,
  as long as at least one request may be in flight.
\<close>

theorem sweep_covers_every_instrument_once:
  assumes "0 < concurrency"
  shows "mset (completions pick 0 (start_sweep (instruments :: instrument_id list) concurrency)) = mset instruments"
  using assms by (rule completions_cover)

theorem sweep_covers_every_instrument_once_witness:
  "mset (completions (\<lambda>n. n) 0 (start_sweep [new_instrument Okx ''A'', new_instrument Okx ''B'', new_instrument Okx ''C''] 2))
     = {#new_instrument Okx ''A'', new_instrument Okx ''B'', new_instrument Okx ''C''#}"
  using sweep_covers_every_instrument_once [of 2 "\<lambda>n. n" "[new_instrument Okx ''A'', new_instrument Okx ''B'', new_instrument Okx ''C'']"]
  by simp

section \<open>Every fetched event is handed to the store\<close>

fun fetched :: "'d joined \<Rightarrow> 'd funding_event list" where
  "fetched Panicked = []"
| "fetched (Joined (Inl e)) = []"
| "fetched (Joined (Inr events)) = events"

fun failed :: "'d joined \<Rightarrow> bool" where
  "failed Panicked = True"
| "failed (Joined (Inl e)) = True"
| "failed (Joined (Inr events)) = False"

definition store_all :: "('s, 'd) oi_repository \<Rightarrow> 'd funding_event list list \<Rightarrow> 's \<Rightarrow> 's" where
  "store_all repo bs s = fold (\<lambda>b s. fst (upsert_funding_events repo b s)) bs s"

lemma upsert_chunk_effect:
  "st_events (fst (upsert_chunk repo b st s)) = st_events st \<and>
   snd (upsert_chunk repo b st s) = fst (upsert_funding_events repo b s)"
  by (auto simp: upsert_chunk_def split: prod.split sum.split)

lemma collect_results_of_chunks:
  "\<exists>bs. concat bs @ fst (snd (collect_results_of repo js st batch s)) = batch @ concat (map fetched js) \<and>
     (\<forall>b \<in> set bs. chunk_size \<le> length b) \<and>
     snd (snd (collect_results_of repo js st batch s)) = store_all repo bs s \<and>
     st_events (fst (collect_results_of repo js st batch s)) = st_events st + of_nat (length (concat (map fetched js)))"
proof (induction repo js st batch s rule: collect_results_of.induct)
  case (1 repo st batch s)
  show ?case by (rule exI [of _ "[]"]) (simp add: store_all_def)
next
  case (2 repo js st batch s)
  then show ?case by simp
next
  case (3 repo e js st batch s)
  then show ?case by (cases "is_auth e") simp_all
next
  case (4 repo events js st batch s)
  show ?case
  proof (cases "events = []")
    case True
    with 4(1) show ?thesis by simp
  next
    case False
    let ?st1 = "st\<lparr>st_events := st_events st + of_nat (length events)\<rparr>" and ?b1 = "batch @ events"
    show ?thesis
    proof (cases "chunk_size \<le> length ?b1")
      case True
      obtain st2 s' where u: "upsert_chunk repo ?b1 ?st1 s = (st2, s')" by (cases "upsert_chunk repo ?b1 ?st1 s")
      have eff: "st_events st2 = st_events st + of_nat (length events)" "s' = fst (upsert_funding_events repo ?b1 s)"
        using upsert_chunk_effect [of repo ?b1 ?st1 s] u by simp_all
      from 4(2) [OF False refl refl True u [symmetric] refl] obtain bs where
        "concat bs @ fst (snd (collect_results_of repo js st2 [] s')) = concat (map fetched js)"
        "\<forall>b \<in> set bs. chunk_size \<le> length b"
        "snd (snd (collect_results_of repo js st2 [] s')) = store_all repo bs s'"
        "st_events (fst (collect_results_of repo js st2 [] s')) = st_events st2 + of_nat (length (concat (map fetched js)))"
        by auto
      then show ?thesis using False True u eff
        by (intro exI [of _ "?b1 # bs"]) (simp add: store_all_def)
    next
      case short: False
      from 4(3) [OF False refl refl short] False short show ?thesis by (simp add: add.assoc)
    qed
  qed
qed

text \<open>
  C25. No fetched event is dropped between the venue and the store: the repository receives, in
  completion order, a sequence of non-empty batches whose concatenation is exactly the
  concatenation of the fetched events; every batch but the last holds at least 500 events; and
  the event counter is their number.
\<close>

theorem sweep_hands_over_every_event:
  "\<exists>batches.
     concat batches = concat (map fetched js) \<and> (\<forall>b \<in> set batches. b \<noteq> []) \<and>
     (\<forall>b \<in> set (butlast batches). chunk_size \<le> length b) \<and>
     snd (sweep_results repo js s) = store_all repo batches s \<and>
     st_events (fst (sweep_results repo js s)) = of_nat (length (concat (map fetched js)))"
proof -
  obtain st batch s' where c: "collect_results_of repo js empty_stats [] s = (st, batch, s')"
    by (metis prod.exhaust)
  obtain bs where bs: "concat bs @ batch = concat (map fetched js)" "\<forall>b \<in> set bs. chunk_size \<le> length b"
    "s' = store_all repo bs s" "st_events st = of_nat (length (concat (map fetched js)))"
    using collect_results_of_chunks [of repo js empty_stats "[]" s] c by (auto simp: empty_stats_def)
  have ne: "\<forall>b \<in> set bs. b \<noteq> []" using bs(2) by (auto simp: chunk_size_def)
  show ?thesis
  proof (cases "batch = []")
    case True
    with bs ne c show ?thesis
      by (intro exI [of _ bs]) (auto simp: sweep_results_def dest: in_set_butlastD)
  next
    case False
    with bs ne c upsert_chunk_effect [of repo batch st s'] show ?thesis
      by (intro exI [of _ "bs @ [batch]"]) (simp add: sweep_results_def store_all_def)
  qed
qed

text \<open>A store that appends the events it is given.\<close>

definition event_at :: "int \<Rightarrow> nat funding_event" where
  "event_at h = \<lparr>fe_instrument = new_instrument Okx ''A'', fe_settlement_ts = minutes (60 * h), fe_rate = 1, fe_mark_price = None\<rparr>"

definition event_log :: "(nat funding_event list, nat) oi_repository" where
  "event_log =
     \<lparr>upsert_snapshots = (\<lambda>_ s. (s, Inr ())), upsert_instruments = (\<lambda>_ s. (s, Inr ())),
      range_snapshots = (\<lambda>_ _ _ _. Inr []), latest_snapshot = (\<lambda>_ _. Inr None),
      upsert_funding = (\<lambda>_ s. (s, Inr ())), funding_range = (\<lambda>_ _ _ _. Inr []), latest_funding = (\<lambda>_ _. Inr None),
      upsert_funding_events = (\<lambda>es s. (s @ es, Inr ())), funding_events_range = (\<lambda>_ _ _ s. Inr s),
      latest_funding_event = (\<lambda>_ s. Inr (if s = [] then None else Some (last s)))\<rparr>"

lemma store_all_event_log: "store_all event_log bs s = s @ concat bs"
  by (induction bs arbitrary: s) (simp_all add: store_all_def event_log_def)

theorem sweep_hands_over_every_event_witness:
  "snd (sweep_results event_log [Joined (Inr [event_at 1]), Panicked, Joined (Inr [event_at 2])] []) =
     [event_at 1, event_at 2]"
proof -
  let ?js = "[Joined (Inr [event_at 1]), Panicked, Joined (Inr [event_at 2])]"
  obtain batches where "concat batches = concat (map fetched ?js)"
    "snd (sweep_results event_log ?js []) = store_all event_log batches []"
    using sweep_hands_over_every_event [of ?js event_log "[]"] by blast
  then show ?thesis by (simp add: store_all_event_log)
qed

end
