(* ===== verification/Json.thy ===== *)
theory Json
  imports Text
begin

text \<open>
  JSON values as \<open>serde_json::Value\<close> offers them to the stream parsers: an object is an
  association list with distinct keys, a number keeps its text.
\<close>

datatype json = JNull | JBool bool | JNumber string | JString string | JArray "json list" | JObject "(string \<times> json) list"

fun json_get :: "json \<Rightarrow> string \<Rightarrow> json option" where
  "json_get (JObject kvs) k = map_of kvs k"
| "json_get JNull k = None"
| "json_get (JBool b) k = None"
| "json_get (JNumber n) k = None"
| "json_get (JString s) k = None"
| "json_get (JArray vs) k = None"

fun as_str :: "json \<Rightarrow> string option" where
  "as_str (JString s) = Some s"
| "as_str JNull = None"
| "as_str (JBool b) = None"
| "as_str (JNumber n) = None"
| "as_str (JArray vs) = None"
| "as_str (JObject kvs) = None"

fun as_array :: "json \<Rightarrow> json list option" where
  "as_array (JArray vs) = Some vs"
| "as_array JNull = None"
| "as_array (JBool b) = None"
| "as_array (JNumber n) = None"
| "as_array (JString s) = None"
| "as_array (JObject kvs) = None"

text \<open>\<open>v.get(k)?.as_str()?\<close> and the first row of a data array.\<close>

definition get_str :: "json \<Rightarrow> string \<Rightarrow> string option" where
  "get_str v k = Option.bind (json_get v k) as_str"

definition first_row :: "json \<Rightarrow> json option" where
  "first_row v = Option.bind (Option.bind (json_get v ''data'') as_array) (\<lambda>rows. case rows of [] \<Rightarrow> None | r # _ \<Rightarrow> Some r)"

text \<open>A decimal field that is present, a string and not empty.\<close>

definition opt_decimal :: "(string \<Rightarrow> 'd option) \<Rightarrow> json \<Rightarrow> string \<Rightarrow> 'd option" where
  "opt_decimal parse v k = Option.bind (get_str v k) (\<lambda>s. if s = [] then None else parse s)"

end
