(* ===== verification/Live.thy ===== *)
theory Live
  imports Json Aggregator
begin

text \<open>
  The live path: the frame parsers \<open>bybit/stream.rs\<close>, \<open>okx/stream.rs\<close>, \<open>bitget/stream.rs\<close>
  and \<open>hyperliquid/stream.rs\<close>, and the shard loops of \<open>oi-collector/src/live.rs\<close>, which fold
  each change into the aggregator shared with the REST loop. \<open>Decimal::from_str\<close> is the
  parameter \<open>parse\<close>, the product of decimals is \<open>mul\<close>.
\<close>

section \<open>OKX\<close>

definition okx_extract :: "(string \<Rightarrow> 'd option) \<Rightarrow> json \<Rightarrow> (string \<times> 'd) option" where
  "okx_extract parse frame =
     Option.bind (json_get frame ''arg'') (\<lambda>arg.
     Option.bind (get_str arg ''channel'') (\<lambda>channel.
     if channel \<noteq> ''open-interest'' then None
     else Option.bind (first_row frame) (\<lambda>row.
       Option.bind (get_str row ''instId'') (\<lambda>inst_id.
       let coins_str = (case get_str row ''oiCcy'' of Some s \<Rightarrow> s | None \<Rightarrow> [])
       in if coins_str \<noteq> [] then map_option (\<lambda>v. (inst_id, v)) (parse coins_str) else None))))"

definition okx_to_raw :: "string \<Rightarrow> 'd \<Rightarrow> timestamp \<Rightarrow> 'd raw_oi" where
  "okx_to_raw inst_id v now =
     \<lparr>raw_instrument = new_instrument Okx inst_id, raw_value = v, raw_unit = Coins,
      raw_bucket_ts = floor_to_minute now, raw_recv_ts = now, raw_price_hint = None\<rparr>"

definition enrich_okx :: "'d raw_oi \<Rightarrow> 'd oi_sample" where
  "enrich_okx raw =
     \<lparr>s_instrument = raw_instrument raw, s_bucket_ts = raw_bucket_ts raw, s_recv_ts = raw_recv_ts raw,
      s_native_value = raw_value raw, s_native_unit = Coins, s_oi_coins = Some (raw_value raw),
      s_oi_usd = None, s_price_used = None\<rparr>"

section \<open>Bitget and Hyperliquid\<close>

definition bitget_extract :: "(string \<Rightarrow> 'd option) \<Rightarrow> json \<Rightarrow> (string \<times> 'd \<times> 'd option) option" where
  "bitget_extract parse frame =
     Option.bind (json_get frame ''arg'') (\<lambda>arg.
     Option.bind (get_str arg ''channel'') (\<lambda>channel.
     if channel \<noteq> ''ticker'' then None
     else Option.bind (first_row frame) (\<lambda>row.
       Option.bind (get_str row ''instId'') (\<lambda>inst_id.
       Option.bind (opt_decimal parse row ''holdingAmount'') (\<lambda>v.
       Some (inst_id, v, opt_decimal parse row ''markPrice''))))))"

definition hyperliquid_extract :: "(string \<Rightarrow> 'd option) \<Rightarrow> json \<Rightarrow> (string \<times> 'd \<times> 'd option) option" where
  "hyperliquid_extract parse frame =
     Option.bind (get_str frame ''channel'') (\<lambda>channel.
     if channel \<noteq> ''activeAssetCtx'' then None
     else Option.bind (json_get frame ''data'') (\<lambda>data.
       Option.bind (get_str data ''coin'') (\<lambda>coin.
       Option.bind (json_get data ''ctx'') (\<lambda>ctx.
       Option.bind (opt_decimal parse ctx ''openInterest'') (\<lambda>v.
       Some (coin, v, opt_decimal parse ctx ''markPx''))))))"

definition marked_raw :: "exchange \<Rightarrow> string \<Rightarrow> 'd \<Rightarrow> 'd option \<Rightarrow> timestamp \<Rightarrow> 'd raw_oi" where
  "marked_raw ex symb v price now =
     (let instrument = new_instrument ex symb
      in \<lparr>raw_instrument = instrument, raw_value = v, raw_unit = Coins,
          raw_bucket_ts = floor_to_minute now, raw_recv_ts = now,
          raw_price_hint = map_option (\<lambda>p.
            \<lparr>quote_instrument = instrument, quote_price = p, quote_source = Mark, quote_ts = now\<rparr>) price\<rparr>)"

definition bitget_to_raw :: "string \<Rightarrow> 'd \<Rightarrow> 'd option \<Rightarrow> timestamp \<Rightarrow> 'd raw_oi" where
  "bitget_to_raw inst_id v price now = marked_raw Bitget inst_id v price now"

definition hyperliquid_to_raw :: "string \<Rightarrow> 'd \<Rightarrow> 'd option \<Rightarrow> timestamp \<Rightarrow> 'd raw_oi" where
  "hyperliquid_to_raw coin v price now = marked_raw Hyperliquid coin v price now"

text \<open>\<open>enrich_bitget\<close>, \<open>enrich_hyperliquid\<close> and \<open>enrich_bybit\<close> have the same body.\<close>

definition enrich_coins :: "('d \<Rightarrow> 'd \<Rightarrow> 'd rust) \<Rightarrow> 'd raw_oi \<Rightarrow> 'd oi_sample rust" where
  "enrich_coins mul raw =
     (let price = map_option quote_price (raw_price_hint raw) in
      bind_rust (case price of None \<Rightarrow> Ret None | Some p \<Rightarrow> map_rust Some (mul (raw_value raw) p)) (\<lambda>oi_usd.
      Ret \<lparr>s_instrument = raw_instrument raw, s_bucket_ts = raw_bucket_ts raw, s_recv_ts = raw_recv_ts raw,
           s_native_value = raw_value raw, s_native_unit = Coins, s_oi_coins = Some (raw_value raw),
           s_oi_usd = oi_usd, s_price_used = price\<rparr>))"

section \<open>Bybit\<close>

datatype frame_type = FSnapshot | FDelta

record 'd symbol_state =
  open_interest :: "'d option"
  mark_price :: "'d option"
  last_price :: "'d option"

definition default_state :: "'d symbol_state" where
  "default_state = \<lparr>open_interest = None, mark_price = None, last_price = None\<rparr>"

definition pick_decimal :: "(string \<Rightarrow> 'd option) \<Rightarrow> json \<Rightarrow> string \<Rightarrow> 'd option" where
  "pick_decimal parse data key =
     Option.bind (json_get data key) (\<lambda>v. Option.bind (as_str v) (\<lambda>s. if s = [] then None else parse s))"

definition opt_or :: "'a option \<Rightarrow> 'a option \<Rightarrow> 'a option" where
  "opt_or x y = (case x of Some a \<Rightarrow> Some a | None \<Rightarrow> y)"

definition merge_frame ::
  "(string \<Rightarrow> 'd option) \<Rightarrow> frame_type \<Rightarrow> json \<Rightarrow> 'd symbol_state \<Rightarrow> 'd symbol_state \<times> 'd option" where
  "merge_frame parse ty data st =
     (let prev_oi = open_interest st;
          st' = (if ty = FSnapshot
                 then \<lparr>open_interest = opt_or (pick_decimal parse data ''openInterest'') (open_interest st),
                       mark_price = opt_or (pick_decimal parse data ''markPrice'') (mark_price st),
                       last_price = opt_or (pick_decimal parse data ''lastPrice'') (last_price st)\<rparr>
                 else (let s1 = (case pick_decimal parse data ''openInterest'' of Some v \<Rightarrow> st\<lparr>open_interest := Some v\<rparr> | None \<Rightarrow> st);
                           s2 = (case pick_decimal parse data ''markPrice'' of Some v \<Rightarrow> s1\<lparr>mark_price := Some v\<rparr> | None \<Rightarrow> s1)
                       in (case pick_decimal parse data ''lastPrice'' of Some v \<Rightarrow> s2\<lparr>last_price := Some v\<rparr> | None \<Rightarrow> s2)))
      in (st', (case (prev_oi, open_interest st') of
                  (Some a, Some b) \<Rightarrow> if a = b then None else Some b
                | (None, None) \<Rightarrow> None
                | (None, Some b) \<Rightarrow> Some b
                | (Some a, None) \<Rightarrow> None)))"

definition bybit_to_raw :: "'d symbol_state \<Rightarrow> string \<Rightarrow> timestamp \<Rightarrow> timestamp \<Rightarrow> 'd raw_oi option" where
  "bybit_to_raw st symb bucket_ts recv_ts =
     (case open_interest st of
        None \<Rightarrow> None
      | Some v \<Rightarrow>
          (let instrument = new_instrument Bybit symb
           in Some \<lparr>raw_instrument = instrument, raw_value = v, raw_unit = Coins, raw_bucket_ts = bucket_ts,
                    raw_recv_ts = recv_ts,
                    raw_price_hint = map_option (\<lambda>p.
                      \<lparr>quote_instrument = instrument, quote_price = p,
                       quote_source = (if mark_price st \<noteq> None then Mark else Last), quote_ts = recv_ts\<rparr>)
                      (opt_or (mark_price st) (last_price st))\<rparr>))"

definition classify_frame :: "json \<Rightarrow> (frame_type \<times> string) option" where
  "classify_frame frame =
     Option.bind (get_str frame ''topic'') (\<lambda>topic.
     Option.bind (strip_prefix topic ''tickers.'') (\<lambda>symb.
     Option.bind (get_str frame ''type'') (\<lambda>ty.
     if ty = ''snapshot'' then Some (FSnapshot, symb)
     else if ty = ''delta'' then Some (FDelta, symb)
     else None)))"

section \<open>The shard loops\<close>

definition may_publish :: "bool option \<Rightarrow> bool" where
  "may_publish lease = (case lease of None \<Rightarrow> True | Some is_leader \<Rightarrow> is_leader)"

text \<open>
  \<open>last\<close>, the aggregator, and the bars handed to the publisher so far. \<open>None\<close> in place of a
  sample means that the frame is skipped before the aggregator.
\<close>

record 'd live =
  lv_last :: "(string, 'd) dashmap"
  lv_agg :: "'d aggregator"
  lv_published :: "'d oi_snapshot list"

definition fold_sample :: "bool option \<Rightarrow> ('d::linorder) oi_sample \<Rightarrow> 'd live \<Rightarrow> 'd live" where
  "fold_sample lease sample lv =
     (let (agg, bar) = agg_observe (lv_agg lv) sample
      in lv\<lparr>lv_agg := agg,
            lv_published := (if may_publish lease then lv_published lv @ [bar] else lv_published lv)\<rparr>)"

text \<open>One payload of the OKX, Bitget and Hyperliquid loops, after extraction.\<close>

definition on_update ::
  "bool option \<Rightarrow> ('d::linorder) oi_sample rust \<Rightarrow> string \<Rightarrow> 'd \<Rightarrow> 'd live \<Rightarrow> 'd live rust" where
  "on_update lease sample symb new_value lv =
     (let changed = (case dm_get (lv_last lv) symb of Some v \<Rightarrow> if v = new_value then False else True | None \<Rightarrow> True)
      in if \<not> changed then Ret lv
         else (let lv1 = lv\<lparr>lv_last := dm_insert symb new_value (lv_last lv)\<rparr>
               in bind_rust sample (\<lambda>s. Ret (fold_sample lease s lv1))))"

definition okx_frame ::
  "(string \<Rightarrow> ('d::linorder) option) \<Rightarrow> bool option \<Rightarrow> timestamp \<Rightarrow> json \<Rightarrow> 'd live \<Rightarrow> 'd live rust" where
  "okx_frame parse lease now frame lv =
     (case okx_extract parse frame of
        None \<Rightarrow> Ret lv
      | Some (inst_id, v) \<Rightarrow> on_update lease (Ret (enrich_okx (okx_to_raw inst_id v now))) inst_id v lv)"

definition bitget_frame ::
  "('d \<Rightarrow> 'd \<Rightarrow> 'd rust) \<Rightarrow> (string \<Rightarrow> ('d::linorder) option) \<Rightarrow> bool option \<Rightarrow> timestamp \<Rightarrow> json \<Rightarrow> 'd live \<Rightarrow> 'd live rust" where
  "bitget_frame mul parse lease now frame lv =
     (case bitget_extract parse frame of
        None \<Rightarrow> Ret lv
      | Some (inst_id, v, price) \<Rightarrow> on_update lease (enrich_coins mul (bitget_to_raw inst_id v price now)) inst_id v lv)"

definition hyperliquid_frame ::
  "('d \<Rightarrow> 'd \<Rightarrow> 'd rust) \<Rightarrow> (string \<Rightarrow> ('d::linorder) option) \<Rightarrow> bool option \<Rightarrow> timestamp \<Rightarrow> json \<Rightarrow> 'd live \<Rightarrow> 'd live rust" where
  "hyperliquid_frame mul parse lease now frame lv =
     (case hyperliquid_extract parse frame of
        None \<Rightarrow> Ret lv
      | Some (coin, v, price) \<Rightarrow> on_update lease (enrich_coins mul (hyperliquid_to_raw coin v price now)) coin v lv)"

text \<open>The Bybit loop keeps a \<open>SymbolState\<close> per symbol instead of the last value.\<close>

record 'd bybit_live =
  by_states :: "(string, 'd symbol_state) dashmap"
  by_live :: "'d live"

definition bybit_frame ::
  "('d \<Rightarrow> 'd \<Rightarrow> 'd rust) \<Rightarrow> (string \<Rightarrow> ('d::linorder) option) \<Rightarrow> bool option \<Rightarrow> timestamp \<Rightarrow> json \<Rightarrow> 'd bybit_live
     \<Rightarrow> 'd bybit_live rust" where
  "bybit_frame mul parse lease now frame by =
     (case classify_frame frame of
        None \<Rightarrow> Ret by
      | Some (ty, symb) \<Rightarrow>
          (case json_get frame ''data'' of
             None \<Rightarrow> Ret by
           | Some data \<Rightarrow>
               (let entry = (case dm_get (by_states by) symb of Some st \<Rightarrow> st | None \<Rightarrow> default_state);
                    (st, emitted) = merge_frame parse ty data entry;
                    by1 = by\<lparr>by_states := dm_insert symb st (by_states by)\<rparr>
                in if emitted = None then Ret by1
                   else (case bybit_to_raw st symb (floor_to_minute now) now of
                           None \<Rightarrow> Ret by1
                         | Some raw \<Rightarrow> bind_rust (enrich_coins mul raw) (\<lambda>s.
                             Ret (by1\<lparr>by_live := fold_sample lease s (by_live by1)\<rparr>))))))"

section \<open>Bybit keeps the last value it has seen\<close>

definition merged :: "(string \<Rightarrow> 'd option) \<Rightarrow> (frame_type \<times> json) list \<Rightarrow> 'd symbol_state \<Rightarrow> 'd symbol_state" where
  "merged parse frames st = fold (\<lambda>(ty, data) st. fst (merge_frame parse ty data st)) frames st"

definition last_seen :: "(string \<Rightarrow> 'd option) \<Rightarrow> string \<Rightarrow> (frame_type \<times> json) list \<Rightarrow> 'd option \<Rightarrow> 'd option" where
  "last_seen parse key frames old =
     (case List.map_filter (\<lambda>(_, data). pick_decimal parse data key) frames of [] \<Rightarrow> old | vs \<Rightarrow> Some (last vs))"

lemma merge_frame_fields:
  "open_interest (fst (merge_frame parse ty data st)) = opt_or (pick_decimal parse data ''openInterest'') (open_interest st)"
  "mark_price (fst (merge_frame parse ty data st)) = opt_or (pick_decimal parse data ''markPrice'') (mark_price st)"
  "last_price (fst (merge_frame parse ty data st)) = opt_or (pick_decimal parse data ''lastPrice'') (last_price st)"
  by (cases "ty = FSnapshot"; simp add: merge_frame_def opt_or_def Let_def split: option.split)+

lemma last_seen_Cons:
  "last_seen parse key ((ty, data) # frames) old = last_seen parse key frames (opt_or (pick_decimal parse data key) old)"
  by (cases "pick_decimal parse data key"; cases "List.map_filter (\<lambda>(_, data). pick_decimal parse data key) frames")
    (auto simp: last_seen_def List.map_filter_def opt_or_def)

lemma merged_Cons: "merged parse ((ty, data) # frames) st = merged parse frames (fst (merge_frame parse ty data st))"
  by (simp add: merged_def)

text \<open>
  C36. The merged Bybit state is the last value seen: after any sequence of snapshot and delta
  frames each of the three fields holds the last present, parseable value of the sequence (or
  the old value when there was none), and a frame emits exactly when it changes the open
  interest, with the new value.
\<close>

theorem bybit_state_is_last_seen:
  "open_interest (merged parse frames st) = last_seen parse ''openInterest'' frames (open_interest st) \<and>
   mark_price (merged parse frames st) = last_seen parse ''markPrice'' frames (mark_price st) \<and>
   last_price (merged parse frames st) = last_seen parse ''lastPrice'' frames (last_price st) \<and>
   (let (st', emitted) = merge_frame parse ty data st
    in emitted = (if open_interest st' = open_interest st then None else open_interest st'))"
proof (intro conjI)
  show "open_interest (merged parse frames st) = last_seen parse ''openInterest'' frames (open_interest st)"
    by (induction frames arbitrary: st)
      (auto simp: merged_Cons last_seen_Cons merge_frame_fields, simp_all add: merged_def last_seen_def List.map_filter_def)
  show "mark_price (merged parse frames st) = last_seen parse ''markPrice'' frames (mark_price st)"
    by (induction frames arbitrary: st)
      (auto simp: merged_Cons last_seen_Cons merge_frame_fields, simp_all add: merged_def last_seen_def List.map_filter_def)
  show "last_price (merged parse frames st) = last_seen parse ''lastPrice'' frames (last_price st)"
    by (induction frames arbitrary: st)
      (auto simp: merged_Cons last_seen_Cons merge_frame_fields, simp_all add: merged_def last_seen_def List.map_filter_def)
  show "let (st', emitted) = merge_frame parse ty data st
    in emitted = (if open_interest st' = open_interest st then None else open_interest st')"
    by (auto simp: merge_frame_def Let_def split: option.split)
qed

section \<open>Live samples are enriched like polled ones\<close>

text \<open>
  The live path computes the same sample as the REST path: for a coins-native reading whose
  mark price came with it, or when no price is known at all, the enrichment of the Bybit,
  Bitget and Hyperliquid streams equals \<open>OiSample::enrich\<close> with the instrument's metadata,
  and so does that of OKX for a reading without a price.
\<close>

theorem live_enrichment_agrees_with_rest:
  assumes "raw_unit raw = Coins" "raw_instrument raw = meta_id meta" "raw_price_hint raw \<noteq> None \<or> price = None"
  shows "enrich mul raw meta price = map_rust Inr (enrich_coins mul raw) \<and>
         (raw_price_hint raw = None \<longrightarrow> enrich mul raw meta price = Ret (Inr (enrich_okx raw)))"
proof -
  have p: "(case map_option quote_price (raw_price_hint raw) of Some p \<Rightarrow> Some p | None \<Rightarrow> price)
      = map_option quote_price (raw_price_hint raw)"
    using assms(3) by (auto split: option.split)
  show ?thesis
    using assms(1-2) p
    by (cases "raw_price_hint raw"; cases "mul (raw_value raw) (quote_price (the (raw_price_hint raw)))")
      (simp_all add: enrich_def enrich_coins_def enrich_okx_def Let_def)
qed

section \<open>Only changes are folded\<close>

text \<open>The values that differ from their predecessor, the first one from the value held.\<close>

definition changes :: "'d option \<Rightarrow> 'd list \<Rightarrow> 'd list" where
  "changes old vs = (case old of None \<Rightarrow> remdups_adj vs | Some h \<Rightarrow> tl (remdups_adj (h # vs)))"

lemma changes_simps [simp]:
  "changes old [] = []"
  "changes old (v # vs) = (if old = Some v then changes old vs else v # changes (Some v) vs)"
proof -
  have t: "remdups_adj (x # xs) = x # tl (remdups_adj (x # xs))" for x :: 'a and xs
    by (cases xs) (auto simp: remdups_adj_Cons split: list.split)
  show "changes old [] = []" by (simp add: changes_def split: option.split)
  show "changes old (v # vs) = (if old = Some v then changes old vs else v # changes (Some v) vs)"
    using t [of v vs] by (auto simp: changes_def split: option.split)
qed

text \<open>\<open>while let Some(frame) = rx.recv().await\<close>, over the payloads received, with the time of each.\<close>

fun shard_run :: "(timestamp \<Rightarrow> json \<Rightarrow> 'l \<Rightarrow> 'l rust) \<Rightarrow> (timestamp \<times> json) list \<Rightarrow> 'l \<Rightarrow> 'l rust" where
  "shard_run step [] l = Ret l"
| "shard_run step ((now, frame) # rest) l = bind_rust (step now frame l) (shard_run step rest)"

definition okx_run ::
  "(string \<Rightarrow> ('d::linorder) option) \<Rightarrow> bool option \<Rightarrow> (timestamp \<times> json) list \<Rightarrow> 'd live \<Rightarrow> 'd live rust" where
  "okx_run parse lease = shard_run (okx_frame parse lease)"

definition bitget_run ::
  "('d \<Rightarrow> 'd \<Rightarrow> 'd rust) \<Rightarrow> (string \<Rightarrow> ('d::linorder) option) \<Rightarrow> bool option \<Rightarrow> (timestamp \<times> json) list \<Rightarrow> 'd live
     \<Rightarrow> 'd live rust" where
  "bitget_run mul parse lease = shard_run (bitget_frame mul parse lease)"

definition hyperliquid_run ::
  "('d \<Rightarrow> 'd \<Rightarrow> 'd rust) \<Rightarrow> (string \<Rightarrow> ('d::linorder) option) \<Rightarrow> bool option \<Rightarrow> (timestamp \<times> json) list \<Rightarrow> 'd live
     \<Rightarrow> 'd live rust" where
  "hyperliquid_run mul parse lease = shard_run (hyperliquid_frame mul parse lease)"

definition bybit_run ::
  "('d \<Rightarrow> 'd \<Rightarrow> 'd rust) \<Rightarrow> (string \<Rightarrow> ('d::linorder) option) \<Rightarrow> bool option \<Rightarrow> (timestamp \<times> json) list \<Rightarrow> 'd bybit_live
     \<Rightarrow> 'd bybit_live rust" where
  "bybit_run mul parse lease = shard_run (bybit_frame mul parse lease)"

text \<open>
  The OKX, Bitget and Hyperliquid loops differ in two functions: what they extract from a frame
  and the sample they make of it.
\<close>

definition feed_frame ::
  "(json \<Rightarrow> (string \<times> 'd \<times> 'd option) option) \<Rightarrow> (string \<Rightarrow> 'd \<Rightarrow> 'd option \<Rightarrow> timestamp \<Rightarrow> ('d::linorder) oi_sample rust)
     \<Rightarrow> bool option \<Rightarrow> timestamp \<Rightarrow> json \<Rightarrow> 'd live \<Rightarrow> 'd live rust" where
  "feed_frame pull sample lease now frame lv =
     (case pull frame of None \<Rightarrow> Ret lv | Some (i, v, price) \<Rightarrow> on_update lease (sample i v price now) i v lv)"

definition unpriced :: "(string \<times> 'd) option \<Rightarrow> (string \<times> 'd \<times> 'd option) option" where
  "unpriced = map_option (\<lambda>(i, v). (i, v, None))"

lemma okx_feed: "okx_frame parse lease =
    feed_frame (\<lambda>f. unpriced (okx_extract parse f)) (\<lambda>i v _ now. Ret (enrich_okx (okx_to_raw i v now))) lease"
  by (intro ext) (simp add: okx_frame_def feed_frame_def unpriced_def split: option.split prod.split)

lemma bitget_feed: "bitget_frame mul parse lease =
    feed_frame (bitget_extract parse) (\<lambda>i v price now. enrich_coins mul (bitget_to_raw i v price now)) lease"
  by (intro ext) (simp add: bitget_frame_def feed_frame_def)

lemma hyperliquid_feed: "hyperliquid_frame mul parse lease =
    feed_frame (hyperliquid_extract parse) (\<lambda>i v price now. enrich_coins mul (hyperliquid_to_raw i v price now)) lease"
  by (intro ext) (simp add: hyperliquid_frame_def feed_frame_def)

text \<open>The open interests of an instrument in a list of payloads.\<close>

definition value_of :: "(json \<Rightarrow> (string \<times> 'd \<times> 'd option) option) \<Rightarrow> string \<Rightarrow> json \<Rightarrow> 'd option" where
  "value_of pull i f = (case pull f of None \<Rightarrow> None | Some (j, v, _) \<Rightarrow> if j = i then Some v else None)"

text \<open>What the loop of an exchange leaves when it folds, for each instrument, the changes of a list of values.\<close>

definition folds_the_changes ::
  "exchange \<Rightarrow> bool option \<Rightarrow> ('d::linorder) live \<Rightarrow> 'd live rust \<Rightarrow> (string \<Rightarrow> 'd list) \<Rightarrow> bool" where
  "folds_the_changes ex lease lv result vals \<longleftrightarrow>
     (\<exists>lv' ss. result = Ret lv' \<and> lv_agg lv' = agg_run (lv_agg lv) ss \<and>
        (\<forall>i. map s_native_value (filter (\<lambda>s. s_instrument s = new_instrument ex i) ss) =
             changes (dm_get (lv_last lv) i) (vals i)) \<and>
        (\<not> may_publish lease \<longrightarrow> lv_published lv' = lv_published lv))"

locale push_feed =
  fixes ex :: exchange
    and pull :: "json \<Rightarrow> (string \<times> ('d::linorder) \<times> 'd option) option"
    and sample :: "string \<Rightarrow> 'd \<Rightarrow> 'd option \<Rightarrow> timestamp \<Rightarrow> 'd oi_sample rust"
  assumes sampled: "sample i v price now = Ret s \<Longrightarrow> s_instrument s = new_instrument ex i \<and> s_native_value s = v"
begin

lemma held_value:
  "pull f = Some (i, v, price) \<Longrightarrow> dm_get (lv_last lv) i = Some v \<Longrightarrow> feed_frame pull sample lease now f lv = Ret lv"
  by (simp add: feed_frame_def on_update_def)

lemma new_value:
  assumes "pull f = Some (i, v, price)" "dm_get (lv_last lv) i \<noteq> Some v" "sample i v price now = Ret s"
  shows "feed_frame pull sample lease now f lv = Ret (fold_sample lease s (lv\<lparr>lv_last := dm_insert i v (lv_last lv)\<rparr>))"
  using assms by (auto simp: feed_frame_def on_update_def Let_def split: option.splits)

lemma run_changes:
  assumes total: "\<And>i v price now. sample i v price now \<noteq> Panic"
  shows "dm_ok (lv_last lv) \<Longrightarrow>
    folds_the_changes ex lease lv (shard_run (feed_frame pull sample lease) frames lv)
      (\<lambda>i. List.map_filter (value_of pull i) (map snd frames))"
proof (induction frames arbitrary: lv)
  case Nil
  show ?case
    unfolding folds_the_changes_def
    by (intro exI [of _ lv] exI [of _ "[]"]) (simp add: agg_run_def List.map_filter_simps)
next
  case (Cons nf frames)
  obtain now f where nf: "nf = (now, f)" by (cases nf)
  show ?case
  proof (cases "pull f")
    case None
    with Cons show ?thesis by (simp add: nf feed_frame_def value_of_def List.map_filter_simps)
  next
    case (Some x)
    obtain i v price where x: "pull f = Some (i, v, price)" using Some by (cases x) auto
    show ?thesis
    proof (cases "dm_get (lv_last lv) i = Some v")
      case True
      then have "changes (dm_get (lv_last lv) j) (List.map_filter (value_of pull j) (map snd (nf # frames))) =
          changes (dm_get (lv_last lv) j) (List.map_filter (value_of pull j) (map snd frames))" for j
        using x by (auto simp: nf value_of_def List.map_filter_simps)
      with Cons.IH [OF Cons.prems] held_value [OF x True] show ?thesis
        by (simp add: nf folds_the_changes_def)
    next
      case False
      obtain s where s: "sample i v price now = Ret s" using total [of i v price now] by (cases "sample i v price now") auto
      let ?lv = "fold_sample lease s (lv\<lparr>lv_last := dm_insert i v (lv_last lv)\<rparr>)"
      have last: "lv_last ?lv = dm_insert i v (lv_last lv)" and agg: "lv_agg ?lv = fst (agg_observe (lv_agg lv) s)"
        and pub: "\<not> may_publish lease \<Longrightarrow> lv_published ?lv = lv_published lv"
        by (auto simp: fold_sample_def Let_def split: prod.splits)
      obtain lv' ss where ih: "shard_run (feed_frame pull sample lease) frames ?lv = Ret lv'"
          "lv_agg lv' = agg_run (lv_agg ?lv) ss"
          "\<And>j. map s_native_value (filter (\<lambda>s. s_instrument s = new_instrument ex j) ss) =
             changes (dm_get (lv_last ?lv) j) (List.map_filter (value_of pull j) (map snd frames))"
          "\<not> may_publish lease \<Longrightarrow> lv_published lv' = lv_published ?lv"
        using Cons.IH [of ?lv] Cons.prems by (auto simp: last dm.ok_insert folds_the_changes_def)
      have "map s_native_value (filter (\<lambda>s. s_instrument s = new_instrument ex j) (s # ss)) =
          changes (dm_get (lv_last lv) j) (List.map_filter (value_of pull j) (map snd (nf # frames)))" for j
        using ih(3) [of j] x False sampled [OF s] Cons.prems
        by (auto simp: nf value_of_def last dm.get_insert List.map_filter_simps)
      moreover have "lv_agg lv' = agg_run (lv_agg lv) (s # ss)" using ih(2) agg by (simp add: agg_run_def)
      moreover have "shard_run (feed_frame pull sample lease) (nf # frames) lv = Ret lv'"
        using new_value [OF x False s] ih(1) by (simp add: nf)
      moreover have "\<not> may_publish lease \<longrightarrow> lv_published lv' = lv_published lv" using ih(4) pub by auto
      ultimately show ?thesis
        unfolding folds_the_changes_def by (intro exI [of _ lv'] exI [of _ "s # ss"]) blast
    qed
  qed
qed

end

lemma enrich_coins_fields:
  "enrich_coins mul raw = Ret s \<Longrightarrow> s_instrument s = raw_instrument raw \<and> s_native_value s = raw_value raw"
  by (auto simp: enrich_coins_def Let_def bind_rust_Ret_iff)

lemma marked_raw_fields [simp]:
  "raw_instrument (marked_raw ex i v price now) = new_instrument ex i" "raw_value (marked_raw ex i v price now) = v"
  by (simp_all add: marked_raw_def Let_def)

lemma enrich_coins_total: "(\<And>a b. mul a b \<noteq> Panic) \<Longrightarrow> enrich_coins mul raw \<noteq> Panic"
  by (cases "raw_price_hint raw"; cases "mul (raw_value raw) (quote_price (the (raw_price_hint raw)))")
    (auto simp: enrich_coins_def Let_def)

interpretation okx_push: push_feed Okx "\<lambda>f. unpriced (okx_extract parse f)" "\<lambda>i v _ now. Ret (enrich_okx (okx_to_raw i v now))"
  for parse :: "string \<Rightarrow> ('d::linorder) option"
  by unfold_locales (auto simp: enrich_okx_def okx_to_raw_def)

interpretation bitget_push: push_feed Bitget "bitget_extract parse" "\<lambda>i v price now. enrich_coins mul (bitget_to_raw i v price now)"
  for mul and parse :: "string \<Rightarrow> ('d::linorder) option"
  by unfold_locales (auto dest!: enrich_coins_fields simp: bitget_to_raw_def)

interpretation hyperliquid_push: push_feed Hyperliquid "hyperliquid_extract parse"
    "\<lambda>i v price now. enrich_coins mul (hyperliquid_to_raw i v price now)"
  for mul and parse :: "string \<Rightarrow> ('d::linorder) option"
  by unfold_locales (auto dest!: enrich_coins_fields simp: hyperliquid_to_raw_def)

text \<open>
  The live loops fold changes and nothing else: over any sequence of frames the loops of OKX,
  Bitget and Hyperliquid return (when no product overflows), and the samples they folded into the
  aggregator for an instrument are exactly the extracted values of that instrument with
  repetitions removed (starting from the value held); a follower folds them too and publishes
  nothing.
\<close>

lemma live_changes:
  assumes "dm_ok (lv_last lv)"
  shows "folds_the_changes Okx lease lv (okx_run parse lease frames lv)
      (\<lambda>i. List.map_filter (value_of (\<lambda>f. unpriced (okx_extract parse f)) i) (map snd frames))"
    and "(\<And>a b. mul a b \<noteq> Panic) \<Longrightarrow> folds_the_changes Bitget lease lv (bitget_run mul parse lease frames lv)
      (\<lambda>i. List.map_filter (value_of (bitget_extract parse) i) (map snd frames))"
    and "(\<And>a b. mul a b \<noteq> Panic) \<Longrightarrow> folds_the_changes Hyperliquid lease lv (hyperliquid_run mul parse lease frames lv)
      (\<lambda>i. List.map_filter (value_of (hyperliquid_extract parse) i) (map snd frames))"
proof -
  show "folds_the_changes Okx lease lv (okx_run parse lease frames lv)
      (\<lambda>i. List.map_filter (value_of (\<lambda>f. unpriced (okx_extract parse f)) i) (map snd frames))"
    unfolding okx_run_def okx_feed by (rule okx_push.run_changes [OF _ assms(1)]) simp
  show "folds_the_changes Bitget lease lv (bitget_run mul parse lease frames lv)
      (\<lambda>i. List.map_filter (value_of (bitget_extract parse) i) (map snd frames))" if "\<And>a b. mul a b \<noteq> Panic"
    unfolding bitget_run_def bitget_feed
    by (rule bitget_push.run_changes [OF _ assms(1)]) (rule enrich_coins_total [OF that])
  show "folds_the_changes Hyperliquid lease lv (hyperliquid_run mul parse lease frames lv)
      (\<lambda>i. List.map_filter (value_of (hyperliquid_extract parse) i) (map snd frames))" if "\<And>a b. mul a b \<noteq> Panic"
    unfolding hyperliquid_run_def hyperliquid_feed
    by (rule hyperliquid_push.run_changes [OF _ assms(1)]) (rule enrich_coins_total [OF that])
qed

definition okx_push :: "string \<Rightarrow> json" where
  "okx_push v = JObject [(''arg'', JObject [(''channel'', JString ''open-interest'')]),
     (''data'', JArray [JObject [(''instId'', JString ''BTC-USDT-SWAP''), (''oiCcy'', JString v)]])]"

definition text_length :: "string \<Rightarrow> nat option" where
  "text_length s = Some (List.length s)"

lemma okx_extract_push: "okx_extract text_length (okx_push (c # s)) = Some (''BTC-USDT-SWAP'', Suc (List.length s))"
  by (simp add: okx_extract_def okx_push_def get_str_def first_row_def text_length_def)

theorem live_enrichment_agrees_with_rest_witness:
  "enrich (\<lambda>a b. Ret (a * b)) (bitget_to_raw ''BTCUSDT'' 3 (Some 5) 0)
     \<lparr>meta_id = new_instrument Bitget ''BTCUSDT'', meta_base_asset = ''BTC'', meta_quote_asset = ''USDT'',
      meta_is_perpetual = True, meta_native_unit = Coins, meta_contract_multiplier = None, meta_price_tick = None,
      meta_qty_step = None, meta_active = True\<rparr> (Some (7 :: nat)) =
   map_rust Inr (enrich_coins (\<lambda>a b. Ret (a * b)) (bitget_to_raw ''BTCUSDT'' 3 (Some 5) 0))"
  by (rule live_enrichment_agrees_with_rest [THEN conjunct1])
    (simp_all add: bitget_to_raw_def marked_raw_def Let_def)

end
