(* ===== verification/Api_Auth.thy ===== *)
theory Api_Auth
  imports Text
begin

text \<open>
  \<open>oi-api/src/auth.rs\<close> and the way \<open>server.rs\<close> puts it in front of the routes: the list of
  accepted tokens with its constant-time comparison, the REST middleware, the gRPC
  interceptor and the merged application.

  The header type of the HTTP library is the parameter \<open>'h\<close>, read by \<open>to_str\<close> (a header that
  is not visible text has no string); the routes behind the middleware are parameters too.
\<close>

unbundle bit_operations_syntax

section \<open>Tokens\<close>

record auth_state =
  auth_tokens :: "string list"

definition as_bytes :: "string \<Rightarrow> u8 list" where
  "as_bytes s = map of_char s"

definition ct_eq :: "u8 list \<Rightarrow> u8 list \<Rightarrow> bool" where
  "ct_eq a b =
     (if length a \<noteq> length b then False
      else foldl (\<lambda>diff (x, y). diff OR (x XOR y)) 0 (zip a b) = 0)"

definition accepts :: "auth_state \<Rightarrow> string \<Rightarrow> bool" where
  "accepts st presented = list_ex (\<lambda>valid. ct_eq (as_bytes valid) (as_bytes presented)) (auth_tokens st)"

definition extract_bearer :: "string option \<Rightarrow> string option" where
  "extract_bearer header_value = Option.bind header_value (\<lambda>v. strip_prefix v ''Bearer '')"

definition is_public_path :: "string \<Rightarrow> bool" where
  "is_public_path path \<longleftrightarrow>
     path = ''/health'' \<or> starts_with path ''/health/'' \<or> path = ''/metrics'' \<or> starts_with path ''/ws/''"

lemma or_eq_0_iff_word: "(a OR b = (0 :: 'a::len word)) \<longleftrightarrow> a = 0 \<and> b = 0"
  by (auto simp: bit_eq_iff bit_simps)

lemma xor_eq_0_iff_word: "(a XOR b = (0 :: 'a::len word)) \<longleftrightarrow> a = b"
  by (auto simp: bit_eq_iff bit_simps)

lemma foldl_diff_eq_0:
  "foldl (\<lambda>diff (x, y). diff OR (x XOR y)) d ps = (0 :: u8) \<longleftrightarrow> d = 0 \<and> (\<forall>(x, y) \<in> set ps. x = y)"
  by (induction ps arbitrary: d) (auto simp: or_eq_0_iff_word xor_eq_0_iff_word)

text \<open>The comparison that looks at every byte is equality.\<close>

lemma ct_eq_iff: "ct_eq a b \<longleftrightarrow> a = b"
proof (cases "length a = length b")
  case True
  then have "(\<forall>(x, y) \<in> set (zip a b). x = y) \<longleftrightarrow> a = b"
    by (induction a b rule: list_induct2) auto
  with True show ?thesis by (simp add: ct_eq_def foldl_diff_eq_0)
qed (auto simp: ct_eq_def)

lemma of_char_u8_inj [simp]: "(of_char c :: u8) = of_char d \<longleftrightarrow> c = d"
proof
  have low: "of_char x < (2 ^ LENGTH(8) :: nat)" for x :: char
    using of_char_mod_256 [of x] by simp
  assume "(of_char c :: u8) = of_char d"
  then have "(of_nat (of_char c) :: u8) = of_nat (of_char d)" by (simp only: of_nat_of_char)
  then have "(of_char c :: nat) = of_char d"
    using low [of c] low [of d] by (metis of_nat_inverse)
  then show "c = d" by simp
qed simp

lemma as_bytes_inj [simp]: "as_bytes s = as_bytes t \<longleftrightarrow> s = t"
  using map_injective [of _ s t] by (auto simp: as_bytes_def inj_def inj_map_eq_map)

lemma accepts_iff: "accepts st t \<longleftrightarrow> t \<in> set (auth_tokens st)"
  by (auto simp: accepts_def ct_eq_iff list_ex_iff)

lemma extract_bearer_Some_iff: "extract_bearer h = Some t \<longleftrightarrow> h = Some (''Bearer '' @ t)"
  by (cases h) (simp_all add: extract_bearer_def strip_prefix_Some_iff)

text \<open>No data route is a public path: each starts with \<open>/v1/\<close>.\<close>

lemma data_paths_are_protected: "starts_with path ''/v1/'' \<Longrightarrow> \<not> is_public_path path"
  by (cases path; cases "tl path")
     (auto simp: is_public_path_def starts_with_def take_Cons' split: if_splits)

section \<open>The middleware and the interceptor\<close>

record 'h request =
  req_path :: string
  req_authorization :: "'h option"

datatype 'b response =
    Unauthenticated string   \<comment> \<open>401 with \<open>WWW-Authenticate: Bearer\<close>\<close>
  | Served 'b

definition unauthenticated_response :: "'b response" where
  "unauthenticated_response = Unauthenticated ''missing or invalid bearer token''"

definition rest_auth_middleware ::
  "('h \<Rightarrow> string option) \<Rightarrow> auth_state \<Rightarrow> ('h, 'z) request_scheme \<Rightarrow> (('h, 'z) request_scheme \<Rightarrow> 'b response) \<Rightarrow> 'b response" where
  "rest_auth_middleware to_str st request next_run =
     (if is_public_path (req_path request) then next_run request
      else
        (let header = Option.bind (req_authorization request) to_str
         in case extract_bearer header of
              None \<Rightarrow> unauthenticated_response
            | Some token \<Rightarrow>
                if accepts st token then next_run request else unauthenticated_response))"

definition grpc_auth_interceptor ::
  "('h \<Rightarrow> string option) \<Rightarrow> auth_state \<Rightarrow> 'h option \<Rightarrow> string + unit" where
  "grpc_auth_interceptor to_str st authorization =
     (let token_str = Option.bind authorization to_str
      in case extract_bearer token_str of
           None \<Rightarrow> Inl ''missing bearer token''
         | Some token \<Rightarrow>
             if accepts st token then Inr () else Inl ''invalid bearer token'')"

text \<open>What both guards check: the header is the word \<open>Bearer\<close>, a space and a listed token.\<close>

definition carries_token :: "('h \<Rightarrow> string option) \<Rightarrow> auth_state \<Rightarrow> 'h option \<Rightarrow> bool" where
  "carries_token to_str st authorization \<longleftrightarrow>
     (\<exists>t \<in> set (auth_tokens st). Option.bind authorization to_str = Some (''Bearer '' @ t))"

lemma bearer_guard:
  "(case extract_bearer h of None \<Rightarrow> no | Some token \<Rightarrow> if accepts st token then yes else bad) =
   (if \<exists>t \<in> set (auth_tokens st). h = Some (''Bearer '' @ t) then yes
    else if extract_bearer h = None then no else bad)"
proof (cases "extract_bearer h")
  case None
  then have "h \<noteq> Some (''Bearer '' @ t)" for t by (metis extract_bearer_Some_iff option.distinct(1))
  with None show ?thesis by simp
next
  case (Some token)
  then have "h = Some (''Bearer '' @ token)" by (simp add: extract_bearer_Some_iff)
  with Some show ?thesis by (auto simp: accepts_iff)
qed

lemma middleware_guard:
  "rest_auth_middleware to_str st request next_run =
     (if is_public_path (req_path request) \<or> carries_token to_str st (req_authorization request)
      then next_run request else unauthenticated_response)"
  by (auto simp: rest_auth_middleware_def carries_token_def bearer_guard Let_def)

lemma interceptor_guard:
  "grpc_auth_interceptor to_str st authorization = Inr u \<longleftrightarrow> carries_token to_str st authorization"
  by (simp add: grpc_auth_interceptor_def carries_token_def bearer_guard Let_def)

text \<open>
  The bearer guards let exactly the right callers through. For every token list, request
  and handler, the REST middleware runs the handler if the path is public or the
  \<open>Authorization\<close> header is readable and consists of \<open>Bearer\<close>, one space and a listed token,
  and answers 401 in every other case without running it; the gRPC interceptor admits a
  call under exactly the same condition on its metadata.
\<close>

theorem guards_admit_exactly_listed_tokens:
  "rest_auth_middleware to_str st request next_run =
     (if is_public_path (req_path request) \<or>
         (\<exists>t \<in> set (auth_tokens st). Option.bind (req_authorization request) to_str = Some (''Bearer '' @ t))
      then next_run request else unauthenticated_response)
   \<and> (grpc_auth_interceptor to_str st authorization = Inr () \<longleftrightarrow>
        (\<exists>t \<in> set (auth_tokens st). Option.bind authorization to_str = Some (''Bearer '' @ t)))"
  by (simp add: middleware_guard interceptor_guard carries_token_def)

end
