(* ===== verification/Api_Ws.thy ===== *)
theory Api_Ws
  imports Api_Auth Composite
begin

text \<open>
  \<open>oi-api/src/ws.rs\<close> and its mounting in \<open>server.rs\<close>: the subscribe handler (token and
  instrument filter), and the event loop of one connection over the broadcast channel that
  the process's single Redis subscriber feeds.

  What the \<open>select!\<close> of the loop sees in one turn is a \<open>ws_event\<close>, with the outcome of the
  send it triggers; a run is the list of the turns in the order they are taken. The
  broadcast channel belongs to the runtime library: what it hands a receiver (a snapshot,
  \<open>Lagged\<close>, \<open>Closed\<close>) is part of the event.
\<close>

section \<open>The subscribe handler\<close>

record subscribe_params =
  p_instruments :: string
  p_token :: "string option"

definition parse_instrument :: "string \<Rightarrow> instrument_id option" where
  "parse_instrument s =
     (case split_first CHR '':'' s of
        None \<Rightarrow> None
      | Some (ex, symb) \<Rightarrow>
          (case exchange_from_str ex of
             Inl e \<Rightarrow> None
           | Inr exchange \<Rightarrow> Some (new_instrument exchange symb)))"

definition ws_filter :: "string \<Rightarrow> instrument_id set" where
  "ws_filter instruments =
     set (List.map_filter parse_instrument (filter (\<lambda>s. s \<noteq> []) (split_on CHR '','' instruments)))"

text \<open>\<open>Inl\<close> is the 401 answer, \<open>Inr\<close> the upgrade with the filter the connection gets.\<close>

definition ws_subscribe_handler :: "auth_state option \<Rightarrow> subscribe_params \<Rightarrow> string + instrument_id set" where
  "ws_subscribe_handler auth params =
     (let valid = (case auth of
                     None \<Rightarrow> True
                   | Some st \<Rightarrow> (case p_token params of None \<Rightarrow> False | Some t \<Rightarrow> accepts st t))
      in if \<not> valid then Inl ''missing or invalid token''
         else Inr (ws_filter (p_instruments params)))"

lemma ws_subscribe_iff:
  "ws_subscribe_handler auth params = Inr f \<longleftrightarrow>
     (\<forall>st. auth = Some st \<longrightarrow> (\<exists>t \<in> set (auth_tokens st). p_token params = Some t)) \<and>
     f = ws_filter (p_instruments params)"
  by (auto simp: ws_subscribe_handler_def Let_def accepts_iff split: option.splits)

lemma parse_instrument_key [simp]: "parse_instrument (instrument_key i) = Some i"
  by (simp add: parse_instrument_def split_key exchange_from_str_code_lower)

lemma instrument_key_ne [simp]: "instrument_key i \<noteq> []"
  by (simp add: instrument_key_def)

lemma comma_free_key: "CHR '','' \<notin> set (id_symbol i) \<Longrightarrow> CHR '','' \<notin> set (instrument_key i)"
  by (simp add: instrument_key_def exchange_code_no_comma)

lemma map_filter_parse_keys: "List.map_filter parse_instrument (map instrument_key is) = is"
  by (induction "is") (simp_all add: List.map_filter_simps)

text \<open>
  Subscribing by key. A query that lists the keys of some instruments, separated by
  commas, asks for exactly those instruments, as long as no symbol has a comma of its own;
  the empty list gives the empty filter, which is the firehose.
\<close>

theorem ws_filter_of_keys:
  assumes "\<forall>i \<in> set is. CHR '','' \<notin> set (id_symbol i)"
  shows "ws_filter (join_with CHR '','' (map instrument_key is)) = set is"
proof (cases "is = []")
  case True
  then show ?thesis by (simp add: ws_filter_def List.map_filter_simps)
next
  case False
  then have "split_on CHR '','' (join_with CHR '','' (map instrument_key is)) = map instrument_key is"
    using assms by (intro split_on_join_with) (auto simp: comma_free_key)
  moreover have "filter (\<lambda>s. s \<noteq> []) (map instrument_key is) = map instrument_key is"
    by (simp add: filter_empty_conv)
  ultimately show ?thesis by (simp add: ws_filter_def map_filter_parse_keys)
qed

theorem ws_filter_of_keys_witness:
  "ws_filter (join_with CHR '','' (map instrument_key [new_instrument Okx ''BTC-USDT-SWAP'', new_instrument Bybit ''ETHUSDT'']))
   = {new_instrument Okx ''BTC-USDT-SWAP'', new_instrument Bybit ''ETHUSDT''}"
  using ws_filter_of_keys [of "[new_instrument Okx ''BTC-USDT-SWAP'', new_instrument Bybit ''ETHUSDT'']"]
  by simp

text \<open>
  The filter keeps no trace of entries it could not parse: a list of only such entries is
  the firehose.
\<close>

lemma unparseable_list_is_firehose: "ws_filter ''binanc:BTCUSDT'' = {}"
  by (simp add: ws_filter_def parse_instrument_def exchange_from_str_def to_ascii_lowercase_def
      lower_char_def List.map_filter_simps)

section \<open>One connection\<close>

datatype client_frame = Gone | RecvError | CloseFrame | OtherFrame

datatype flush = Flushed | SendError | SendTimeout

datatype 'd ws_event =
    FromClient client_frame
  | Heartbeat flush
  | LaggedBy nat
  | ChannelClosed
  | Snapshot "'d oi_snapshot" flush

record ws_conn =
  frames :: "string list"   \<comment> \<open>text frames flushed to the client, oldest first\<close>
  frames_sent :: u64
  frames_metric :: nat
  lagged_metric :: nat

definition new_conn :: ws_conn where
  "new_conn = \<lparr>frames = [], frames_sent = 0, frames_metric = 0, lagged_metric = 0\<rparr>"

text \<open>One turn of the loop: the connection after it, and whether the loop goes on.\<close>

fun ws_turn ::
  "('d oi_snapshot \<Rightarrow> string option) \<Rightarrow> instrument_id set \<Rightarrow> 'd ws_event \<Rightarrow> ws_conn \<Rightarrow> ws_conn \<times> bool" where
  "ws_turn to_json flt (FromClient f) c = (c, f = OtherFrame)"
| "ws_turn to_json flt (Heartbeat f) c = (c, f \<noteq> SendTimeout)"
| "ws_turn to_json flt (LaggedBy skipped) c = (c\<lparr>lagged_metric := lagged_metric c + skipped\<rparr>, True)"
| "ws_turn to_json flt ChannelClosed c = (c, False)"
| "ws_turn to_json flt (Snapshot snap f) c =
     (if flt \<noteq> {} \<and> b_instrument snap \<notin> flt then (c, True)
      else
        (case to_json snap of
           None \<Rightarrow> (c, True)
         | Some payload \<Rightarrow>
             (case f of
                SendTimeout \<Rightarrow> (c, False)
              | SendError \<Rightarrow> (c, False)
              | Flushed \<Rightarrow>
                  (let n = frames_sent c + 1 in
                   (c\<lparr>frames := frames c @ [payload], frames_sent := n,
                      frames_metric := (if n mod 100 = 0 then frames_metric c + 100 else frames_metric c)\<rparr>,
                    True)))))"

fun handle_socket ::
  "('d oi_snapshot \<Rightarrow> string option) \<Rightarrow> instrument_id set \<Rightarrow> 'd ws_event list \<Rightarrow> ws_conn \<Rightarrow> ws_conn" where
  "handle_socket to_json flt [] c = c"
| "handle_socket to_json flt (ev # evs) c =
     (case ws_turn to_json flt ev c of
        (c', goes_on) \<Rightarrow> if goes_on then handle_socket to_json flt evs c' else c')"

text \<open>What the client is entitled to: the frame of an event, if it has one.\<close>

fun frame_of :: "('d oi_snapshot \<Rightarrow> string option) \<Rightarrow> instrument_id set \<Rightarrow> 'd ws_event \<Rightarrow> string option" where
  "frame_of to_json flt (Snapshot snap f) =
     (if flt = {} \<or> b_instrument snap \<in> flt then to_json snap else None)"
| "frame_of to_json flt (FromClient f) = None"
| "frame_of to_json flt (Heartbeat f) = None"
| "frame_of to_json flt (LaggedBy n) = None"
| "frame_of to_json flt ChannelClosed = None"

fun ends_connection :: "('d oi_snapshot \<Rightarrow> string option) \<Rightarrow> instrument_id set \<Rightarrow> 'd ws_event \<Rightarrow> bool" where
  "ends_connection to_json flt (FromClient f) \<longleftrightarrow> f \<noteq> OtherFrame"
| "ends_connection to_json flt (Heartbeat f) \<longleftrightarrow> f = SendTimeout"
| "ends_connection to_json flt (LaggedBy n) \<longleftrightarrow> False"
| "ends_connection to_json flt ChannelClosed \<longleftrightarrow> True"
| "ends_connection to_json flt (Snapshot snap f) \<longleftrightarrow>
     frame_of to_json flt (Snapshot snap f) \<noteq> None \<and> f \<noteq> Flushed"

lemma ws_turn_spec:
  "snd (ws_turn to_json flt ev c) = (\<not> ends_connection to_json flt ev)"
  "frames (fst (ws_turn to_json flt ev c)) =
     (if ends_connection to_json flt ev then frames c
      else frames c @ (case frame_of to_json flt ev of None \<Rightarrow> [] | Some p \<Rightarrow> [p]))"
  by (cases ev; auto simp: Let_def split: option.splits flush.splits)+

lemma handle_socket_frames:
  "frames (handle_socket to_json flt evs c) =
     frames c @ List.map_filter (frame_of to_json flt) (takeWhile (\<lambda>ev. \<not> ends_connection to_json flt ev) evs)"
proof (induction evs arbitrary: c)
  case Nil
  then show ?case by (simp add: List.map_filter_simps)
next
  case (Cons ev evs)
  show ?case
    using Cons.IH [of "fst (ws_turn to_json flt ev c)"] ws_turn_spec [of to_json flt ev c]
    by (cases "ws_turn to_json flt ev c") (auto simp: List.map_filter_simps split: option.splits)
qed

text \<open>
  C22. A WebSocket client gets exactly what it subscribed to. For every sequence of turns of
  the connection's loop (client frames, heartbeats, lag notices, snapshots, in any
  interleaving and with any outcome of the sends), the text frames flushed to the client are
  the encodings of the broadcast snapshots that match its filter, each once and in broadcast
  order, up to the turn that ends the connection; an empty filter matches everything.
\<close>

theorem client_receives_its_subscription:
  "frames (handle_socket to_json flt evs new_conn) =
     List.map_filter (frame_of to_json flt) (takeWhile (\<lambda>ev. \<not> ends_connection to_json flt ev) evs)"
  by (simp add: handle_socket_frames new_conn_def)

section \<open>The merged application\<close>

text \<open>
  \<open>server.rs\<close> merges the WebSocket route into the REST router and, when authentication is on,
  puts the middleware in front of both. \<open>rest\<close> is the REST router, \<open>query\<close> the query string
  of a request as the framework parses it.
\<close>

datatype 'b app_reply = RestReply 'b | WsUpgrade "instrument_id set"

definition ws_route :: string where
  "ws_route = ''/ws/v1/oi/subscribe''"

definition dispatch ::
  "bool \<Rightarrow> auth_state \<Rightarrow> (('h, 'z) request_scheme \<Rightarrow> 'b) \<Rightarrow> (('h, 'z) request_scheme \<Rightarrow> subscribe_params) \<Rightarrow> ('h, 'z) request_scheme \<Rightarrow> 'b app_reply response" where
  "dispatch auth_enabled st rest query req =
     (if req_path req = ws_route
      then (case ws_subscribe_handler (if auth_enabled then Some st else None) (query req) of
              Inl e \<Rightarrow> Unauthenticated e
            | Inr f \<Rightarrow> Served (WsUpgrade f))
      else Served (RestReply (rest req)))"

definition app ::
  "bool \<Rightarrow> ('h \<Rightarrow> string option) \<Rightarrow> auth_state \<Rightarrow> (('h, 'z) request_scheme \<Rightarrow> 'b) \<Rightarrow> (('h, 'z) request_scheme \<Rightarrow> subscribe_params) \<Rightarrow>
   ('h, 'z) request_scheme \<Rightarrow> 'b app_reply response" where
  "app auth_enabled to_str st rest query req =
     (if auth_enabled then rest_auth_middleware to_str st req (dispatch auth_enabled st rest query)
      else dispatch auth_enabled st rest query req)"

text \<open>
  With authentication on, no data leaves without a listed token. Whenever the merged
  application serves a \<open>/v1/\<close> route or upgrades the WebSocket route (which the middleware
  lets through as public), the caller presented one of the configured tokens, in the
  \<open>Authorization\<close> header or, on the WebSocket route, in the query.
\<close>

theorem data_needs_a_token:
  assumes "app True to_str st rest query req = Served r"
    and "starts_with (req_path req) ''/v1/'' \<or> req_path req = ws_route"
  shows "\<exists>t \<in> set (auth_tokens st).
      Option.bind (req_authorization req) to_str = Some (''Bearer '' @ t) \<or>
      req_path req = ws_route \<and> p_token (query req) = Some t"
proof (cases "req_path req = ws_route")
  case True
  then have public: "is_public_path (req_path req)"
    by (simp add: is_public_path_def ws_route_def starts_with_def)
  from assms(1) True public obtain f where "ws_subscribe_handler (Some st) (query req) = Inr f"
    by (auto simp: app_def middleware_guard dispatch_def split: sum.splits)
  then show ?thesis using True by (auto simp: ws_subscribe_iff)
next
  case False
  with assms(2) have guarded: "\<not> is_public_path (req_path req)" by (auto dest: data_paths_are_protected)
  from assms(1) guarded have "carries_token to_str st (req_authorization req)"
    by (auto simp: app_def middleware_guard unauthenticated_response_def split: if_splits)
  then show ?thesis by (auto simp: carries_token_def)
qed

theorem data_needs_a_token_witness:
  "\<exists>t \<in> set [''s3cr3t''].
      Option.bind (Some ''Bearer s3cr3t'') Some = Some (''Bearer '' @ t) \<or>
      ''/v1/oi/latest/okx/X'' = ws_route \<and> p_token \<lparr>p_instruments = [], p_token = None\<rparr> = Some t"
  using data_needs_a_token [of Some "\<lparr>auth_tokens = [''s3cr3t'']\<rparr>" "\<lambda>_. ()"
      "\<lambda>_. \<lparr>p_instruments = [], p_token = None\<rparr>"
      "\<lparr>req_path = ''/v1/oi/latest/okx/X'', req_authorization = Some ''Bearer s3cr3t''\<rparr>" "RestReply ()"]
  by (simp add: app_def middleware_guard carries_token_def dispatch_def ws_route_def starts_with_def)

end
