(* ===== verification/Api_Rest.thy ===== *)
theory Api_Rest
  imports Clickhouse
begin

text \<open>
  \<open>oi-api/src/rest.rs\<close>: the JSON shapes of bars and funding (row and columnar), the single
  handlers, and the batch endpoints with their bounded fan-out.

  An answer is the HTTP status with either a text or a JSON body. Formatting and parsing of
  times and decimals belong to other crates and are the parameter \<open>'d rest_text\<close>. A handler
  reads the repository at one state; within a batch that state does not change.
\<close>

section \<open>Rows\<close>

record 'd rest_text =
  decimals :: "'d decimal_text"
  rfc3339_format :: "timestamp \<Rightarrow> string option"
  ts_display :: "timestamp \<Rightarrow> string"
  rfc3339_parse :: "string \<Rightarrow> string + timestamp"

type_synonym 'b reply = "nat \<times> (string + 'b)"

definition ts_rfc3339 :: "'d rest_text \<Rightarrow> timestamp \<Rightarrow> string" where
  "ts_rfc3339 x t = (case rfc3339_format x t of Some s \<Rightarrow> s | None \<Rightarrow> ts_display x t)"

definition dec_str :: "'d rest_text \<Rightarrow> 'd \<Rightarrow> string" where
  "dec_str x = dec_show (decimals x)"

record bar_dto =
  d_exchange :: string
  d_symbol :: string
  d_bucket_ts :: string
  d_first_recv_ts :: string
  d_last_recv_ts :: string
  d_samples :: u32
  d_native_unit :: string
  d_native_open :: string
  d_native_high :: string
  d_native_low :: string
  d_native_close :: string
  d_oi_coins_open :: "string option"
  d_oi_coins_high :: "string option"
  d_oi_coins_low :: "string option"
  d_oi_coins_close :: "string option"
  d_oi_usd_open :: "string option"
  d_oi_usd_high :: "string option"
  d_oi_usd_low :: "string option"
  d_oi_usd_close :: "string option"
  d_price_used_close :: "string option"

definition bar_dto_of :: "'d rest_text \<Rightarrow> 'd oi_snapshot \<Rightarrow> bar_dto" where
  "bar_dto_of x s =
     \<lparr>d_exchange = exchange_code (id_exchange (b_instrument s)),
      d_symbol = id_symbol (b_instrument s),
      d_bucket_ts = ts_rfc3339 x (b_bucket_ts s),
      d_first_recv_ts = ts_rfc3339 x (b_first_recv_ts s),
      d_last_recv_ts = ts_rfc3339 x (b_last_recv_ts s),
      d_samples = b_samples s,
      d_native_unit = (case b_native_unit s of
          Coins \<Rightarrow> ''coins'' | Contracts \<Rightarrow> ''contracts'' | Usd \<Rightarrow> ''usd''),
      d_native_open = dec_str x (b_native_open s),
      d_native_high = dec_str x (b_native_high s),
      d_native_low = dec_str x (b_native_low s),
      d_native_close = dec_str x (b_native_close s),
      d_oi_coins_open = map_option (dec_str x) (b_oi_coins_open s),
      d_oi_coins_high = map_option (dec_str x) (b_oi_coins_high s),
      d_oi_coins_low = map_option (dec_str x) (b_oi_coins_low s),
      d_oi_coins_close = map_option (dec_str x) (b_oi_coins_close s),
      d_oi_usd_open = map_option (dec_str x) (b_oi_usd_open s),
      d_oi_usd_high = map_option (dec_str x) (b_oi_usd_high s),
      d_oi_usd_low = map_option (dec_str x) (b_oi_usd_low s),
      d_oi_usd_close = map_option (dec_str x) (b_oi_usd_close s),
      d_price_used_close = map_option (dec_str x) (b_price_used_close s)\<rparr>"

record funding_dto =
  f_exchange :: string
  f_symbol :: string
  f_bucket_ts :: string
  f_recv_ts :: string
  f_rate :: string
  f_next_funding_ts :: "string option"
  f_interval_hours :: "u8 option"

definition funding_dto_of :: "'d rest_text \<Rightarrow> 'd funding_bar \<Rightarrow> funding_dto" where
  "funding_dto_of x b =
     \<lparr>f_exchange = exchange_code (id_exchange (fb_instrument b)),
      f_symbol = id_symbol (fb_instrument b),
      f_bucket_ts = ts_rfc3339 x (fb_bucket_ts b),
      f_recv_ts = ts_rfc3339 x (fb_recv_ts b),
      f_rate = dec_str x (fb_rate b),
      f_next_funding_ts = map_option (ts_rfc3339 x) (fb_next_funding_ts b),
      f_interval_hours = fb_interval_hours b\<rparr>"

record funding_event_dto =
  e_exchange :: string
  e_symbol :: string
  e_settlement_ts :: string
  e_rate :: string
  e_mark_price :: "string option"

definition funding_event_dto_of :: "'d rest_text \<Rightarrow> 'd funding_event \<Rightarrow> funding_event_dto" where
  "funding_event_dto_of x e =
     \<lparr>e_exchange = exchange_code (id_exchange (fe_instrument e)),
      e_symbol = id_symbol (fe_instrument e),
      e_settlement_ts = ts_rfc3339 x (fe_settlement_ts e),
      e_rate = dec_str x (fe_rate e),
      e_mark_price = map_option (dec_str x) (fe_mark_price e)\<rparr>"

section \<open>Columns\<close>

record oi_columns =
  c_fmt :: string
  c_n :: nat
  c_ts :: "u64 list"
  c_native_open :: "string list"
  c_native_high :: "string list"
  c_native_low :: "string list"
  c_native_close :: "string list"
  c_oi_coins_open :: "string option list option"
  c_oi_coins_high :: "string option list option"
  c_oi_coins_low :: "string option list option"
  c_oi_coins_close :: "string option list option"
  c_oi_usd_open :: "string option list option"
  c_oi_usd_high :: "string option list option"
  c_oi_usd_low :: "string option list option"
  c_oi_usd_close :: "string option list option"

definition default_columns :: oi_columns where
  "default_columns =
     \<lparr>c_fmt = [], c_n = 0, c_ts = [],
      c_native_open = [], c_native_high = [], c_native_low = [], c_native_close = [],
      c_oi_coins_open = None, c_oi_coins_high = None, c_oi_coins_low = None, c_oi_coins_close = None,
      c_oi_usd_open = None, c_oi_usd_high = None, c_oi_usd_low = None, c_oi_usd_close = None\<rparr>"

text \<open>The first pass: which axes carry any value, with the early \<open>break\<close>.\<close>

fun detect_axes :: "bool \<times> bool \<Rightarrow> 'd oi_snapshot list \<Rightarrow> bool \<times> bool" where
  "detect_axes (has_co, has_uo) [] = (has_co, has_uo)"
| "detect_axes (has_co, has_uo) (s # snaps) =
     (let co = (if \<not> has_co \<and> (b_oi_coins_open s \<noteq> None \<or> b_oi_coins_high s \<noteq> None \<or>
                               b_oi_coins_low s \<noteq> None \<or> b_oi_coins_close s \<noteq> None)
                then True else has_co);
          uo = (if \<not> has_uo \<and> (b_oi_usd_open s \<noteq> None \<or> b_oi_usd_high s \<noteq> None \<or>
                               b_oi_usd_low s \<noteq> None \<or> b_oi_usd_close s \<noteq> None)
                then True else has_uo)
      in if co \<and> uo then (co, uo) else detect_axes (co, uo) snaps)"

definition push :: "'a \<Rightarrow> 'a list option \<Rightarrow> 'a list option" where
  "push v col = map_option (\<lambda>vs. vs @ [v]) col"

definition push_snapshot :: "'d rest_text \<Rightarrow> oi_columns \<Rightarrow> 'd oi_snapshot \<Rightarrow> oi_columns" where
  "push_snapshot x c s =
     c\<lparr>c_ts := c_ts c @ [unix_millis (b_bucket_ts s)],
       c_native_open := c_native_open c @ [dec_str x (b_native_open s)],
       c_native_high := c_native_high c @ [dec_str x (b_native_high s)],
       c_native_low := c_native_low c @ [dec_str x (b_native_low s)],
       c_native_close := c_native_close c @ [dec_str x (b_native_close s)],
       c_oi_coins_open := push (map_option (dec_str x) (b_oi_coins_open s)) (c_oi_coins_open c),
       c_oi_coins_high := push (map_option (dec_str x) (b_oi_coins_high s)) (c_oi_coins_high c),
       c_oi_coins_low := push (map_option (dec_str x) (b_oi_coins_low s)) (c_oi_coins_low c),
       c_oi_coins_close := push (map_option (dec_str x) (b_oi_coins_close s)) (c_oi_coins_close c),
       c_oi_usd_open := push (map_option (dec_str x) (b_oi_usd_open s)) (c_oi_usd_open c),
       c_oi_usd_high := push (map_option (dec_str x) (b_oi_usd_high s)) (c_oi_usd_high c),
       c_oi_usd_low := push (map_option (dec_str x) (b_oi_usd_low s)) (c_oi_usd_low c),
       c_oi_usd_close := push (map_option (dec_str x) (b_oi_usd_close s)) (c_oi_usd_close c)\<rparr>"

definition from_snapshots :: "'d rest_text \<Rightarrow> 'd oi_snapshot list \<Rightarrow> oi_columns" where
  "from_snapshots x snaps =
     (let (has_co, has_uo) = detect_axes (False, False) snaps;
          co = (if has_co then Some [] else None);
          uo = (if has_uo then Some [] else None)
      in foldl (push_snapshot x)
           (default_columns\<lparr>c_fmt := ''col'', c_n := length snaps,
              c_oi_coins_open := co, c_oi_coins_high := co, c_oi_coins_low := co, c_oi_coins_close := co,
              c_oi_usd_open := uo, c_oi_usd_high := uo, c_oi_usd_low := uo, c_oi_usd_close := uo\<rparr>)
           snaps)"

record funding_columns =
  fc_fmt :: string
  fc_n :: nat
  fc_ts :: "u64 list"
  fc_rate :: "string list"
  fc_next_funding_ts :: "u64 option list option"
  fc_interval_hours :: "u8 option list option"

definition default_funding_columns :: funding_columns where
  "default_funding_columns =
     \<lparr>fc_fmt = [], fc_n = 0, fc_ts = [], fc_rate = [], fc_next_funding_ts = None, fc_interval_hours = None\<rparr>"

definition push_bar :: "'d rest_text \<Rightarrow> funding_columns \<Rightarrow> 'd funding_bar \<Rightarrow> funding_columns" where
  "push_bar x c b =
     c\<lparr>fc_ts := fc_ts c @ [unix_millis (fb_bucket_ts b)],
       fc_rate := fc_rate c @ [dec_str x (fb_rate b)],
       fc_next_funding_ts := push (map_option unix_millis (fb_next_funding_ts b)) (fc_next_funding_ts c),
       fc_interval_hours := push (fb_interval_hours b) (fc_interval_hours c)\<rparr>"

definition from_bars :: "'d rest_text \<Rightarrow> 'd funding_bar list \<Rightarrow> funding_columns" where
  "from_bars x bars =
     (let has_nft = list_ex (\<lambda>b. fb_next_funding_ts b \<noteq> None) bars;
          has_ih = list_ex (\<lambda>b. fb_interval_hours b \<noteq> None) bars
      in foldl (push_bar x)
           (default_funding_columns\<lparr>fc_fmt := ''col'', fc_n := length bars,
              fc_next_funding_ts := (if has_nft then Some [] else None),
              fc_interval_hours := (if has_ih then Some [] else None)\<rparr>)
           bars)"

lemma push_simps [simp]:
  "push v None = None"
  "push v (Some vs) = Some (vs @ [v])"
  by (simp_all add: push_def)

text \<open>What the passes compute, as maps over the rows.\<close>

definition has_coins :: "'d oi_snapshot list \<Rightarrow> bool" where
  "has_coins snaps \<longleftrightarrow> (\<exists>s \<in> set snaps. b_oi_coins_open s \<noteq> None \<or> b_oi_coins_high s \<noteq> None \<or>
                                    b_oi_coins_low s \<noteq> None \<or> b_oi_coins_close s \<noteq> None)"

definition has_usd :: "'d oi_snapshot list \<Rightarrow> bool" where
  "has_usd snaps \<longleftrightarrow> (\<exists>s \<in> set snaps. b_oi_usd_open s \<noteq> None \<or> b_oi_usd_high s \<noteq> None \<or>
                                  b_oi_usd_low s \<noteq> None \<or> b_oi_usd_close s \<noteq> None)"

lemma detect_axes_or: "detect_axes (co, uo) snaps = (co \<or> has_coins snaps, uo \<or> has_usd snaps)"
  by (induction "(co, uo)" snaps arbitrary: co uo rule: detect_axes.induct)
     (auto simp: has_coins_def has_usd_def Let_def simp del: not_None_eq)

lemma append_after_push [simp]:
  "map_option (\<lambda>vs. vs @ ws) (push v col) = map_option (\<lambda>vs. vs @ v # ws) col"
  by (cases col) simp_all

lemma foldl_push_snapshot:
  "foldl (push_snapshot x) c snaps =
     c\<lparr>c_ts := c_ts c @ map (\<lambda>s. unix_millis (b_bucket_ts s)) snaps,
       c_native_open := c_native_open c @ map (\<lambda>s. dec_str x (b_native_open s)) snaps,
       c_native_high := c_native_high c @ map (\<lambda>s. dec_str x (b_native_high s)) snaps,
       c_native_low := c_native_low c @ map (\<lambda>s. dec_str x (b_native_low s)) snaps,
       c_native_close := c_native_close c @ map (\<lambda>s. dec_str x (b_native_close s)) snaps,
       c_oi_coins_open := map_option (\<lambda>vs. vs @ map (\<lambda>s. map_option (dec_str x) (b_oi_coins_open s)) snaps) (c_oi_coins_open c),
       c_oi_coins_high := map_option (\<lambda>vs. vs @ map (\<lambda>s. map_option (dec_str x) (b_oi_coins_high s)) snaps) (c_oi_coins_high c),
       c_oi_coins_low := map_option (\<lambda>vs. vs @ map (\<lambda>s. map_option (dec_str x) (b_oi_coins_low s)) snaps) (c_oi_coins_low c),
       c_oi_coins_close := map_option (\<lambda>vs. vs @ map (\<lambda>s. map_option (dec_str x) (b_oi_coins_close s)) snaps) (c_oi_coins_close c),
       c_oi_usd_open := map_option (\<lambda>vs. vs @ map (\<lambda>s. map_option (dec_str x) (b_oi_usd_open s)) snaps) (c_oi_usd_open c),
       c_oi_usd_high := map_option (\<lambda>vs. vs @ map (\<lambda>s. map_option (dec_str x) (b_oi_usd_high s)) snaps) (c_oi_usd_high c),
       c_oi_usd_low := map_option (\<lambda>vs. vs @ map (\<lambda>s. map_option (dec_str x) (b_oi_usd_low s)) snaps) (c_oi_usd_low c),
       c_oi_usd_close := map_option (\<lambda>vs. vs @ map (\<lambda>s. map_option (dec_str x) (b_oi_usd_close s)) snaps) (c_oi_usd_close c)\<rparr>"
proof (induction snaps arbitrary: c)
  case Nil
  show ?case by (simp add: option.map_ident)
next
  case (Cons s snaps)
  show ?case
    unfolding foldl_Cons Cons.IH by (simp add: push_snapshot_def)
qed

text \<open>What a client reads in column \<open>col\<close> for row \<open>k\<close>: an absent column is null throughout.\<close>

definition cell :: "'a option list option \<Rightarrow> nat \<Rightarrow> 'a option" where
  "cell col k = (case col of None \<Rightarrow> None | Some vs \<Rightarrow> vs ! k)"

definition column_of :: "bool \<Rightarrow> ('b \<Rightarrow> 'a option) \<Rightarrow> 'b list \<Rightarrow> 'a option list option" where
  "column_of present f rows = (if present then Some (map f rows) else None)"

lemma cell_column_of:
  "k < length rows \<Longrightarrow> (\<not> present \<Longrightarrow> f (rows ! k) = None) \<Longrightarrow> cell (column_of present f rows) k = f (rows ! k)"
  by (auto simp: cell_def column_of_def)

lemma map_option_start: "map_option (\<lambda>vs. vs @ f) (if b then Some [] else None) = (if b then Some f else None)"
  by simp

lemma from_snapshots_fields:
  "c_fmt (from_snapshots x snaps) = ''col''"
  "c_n (from_snapshots x snaps) = length snaps"
  "c_ts (from_snapshots x snaps) = map (\<lambda>s. unix_millis (b_bucket_ts s)) snaps"
  "c_native_open (from_snapshots x snaps) = map (\<lambda>s. dec_str x (b_native_open s)) snaps"
  "c_native_high (from_snapshots x snaps) = map (\<lambda>s. dec_str x (b_native_high s)) snaps"
  "c_native_low (from_snapshots x snaps) = map (\<lambda>s. dec_str x (b_native_low s)) snaps"
  "c_native_close (from_snapshots x snaps) = map (\<lambda>s. dec_str x (b_native_close s)) snaps"
  "c_oi_coins_open (from_snapshots x snaps) = column_of (has_coins snaps) (\<lambda>s. map_option (dec_str x) (b_oi_coins_open s)) snaps"
  "c_oi_coins_high (from_snapshots x snaps) = column_of (has_coins snaps) (\<lambda>s. map_option (dec_str x) (b_oi_coins_high s)) snaps"
  "c_oi_coins_low (from_snapshots x snaps) = column_of (has_coins snaps) (\<lambda>s. map_option (dec_str x) (b_oi_coins_low s)) snaps"
  "c_oi_coins_close (from_snapshots x snaps) = column_of (has_coins snaps) (\<lambda>s. map_option (dec_str x) (b_oi_coins_close s)) snaps"
  "c_oi_usd_open (from_snapshots x snaps) = column_of (has_usd snaps) (\<lambda>s. map_option (dec_str x) (b_oi_usd_open s)) snaps"
  "c_oi_usd_high (from_snapshots x snaps) = column_of (has_usd snaps) (\<lambda>s. map_option (dec_str x) (b_oi_usd_high s)) snaps"
  "c_oi_usd_low (from_snapshots x snaps) = column_of (has_usd snaps) (\<lambda>s. map_option (dec_str x) (b_oi_usd_low s)) snaps"
  "c_oi_usd_close (from_snapshots x snaps) = column_of (has_usd snaps) (\<lambda>s. map_option (dec_str x) (b_oi_usd_close s)) snaps"
  by (simp_all add: from_snapshots_def detect_axes_or foldl_push_snapshot default_columns_def column_of_def)

text \<open>
  The columnar format carries the same bars as the row format. For every list of bars
  and every row of it, the columns have the length \<open>n\<close> of the list and, read at that row (an
  omitted column reads as null), give the same native values and the same coin and dollar
  values, nulls included, as the row object; the coin columns are omitted exactly when no
  bar has any coin value, and the dollar columns likewise.
\<close>

theorem columns_agree_with_rows:
  assumes "k < length snaps"
  shows "let c = from_snapshots x snaps; r = bar_dto_of x (snaps ! k)
    in c_n c = length snaps \<and>
       [c_native_open c ! k, c_native_high c ! k, c_native_low c ! k, c_native_close c ! k] =
         [d_native_open r, d_native_high r, d_native_low r, d_native_close r] \<and>
       [cell (c_oi_coins_open c) k, cell (c_oi_coins_high c) k, cell (c_oi_coins_low c) k, cell (c_oi_coins_close c) k] =
         [d_oi_coins_open r, d_oi_coins_high r, d_oi_coins_low r, d_oi_coins_close r] \<and>
       [cell (c_oi_usd_open c) k, cell (c_oi_usd_high c) k, cell (c_oi_usd_low c) k, cell (c_oi_usd_close c) k] =
         [d_oi_usd_open r, d_oi_usd_high r, d_oi_usd_low r, d_oi_usd_close r] \<and>
       (c_oi_coins_open c = None \<longleftrightarrow> \<not> has_coins snaps) \<and> (c_oi_usd_open c = None \<longleftrightarrow> \<not> has_usd snaps)"
proof -
  have row: "snaps ! k \<in> set snaps" using assms by simp
  then have no_coins: "b_oi_coins_open (snaps ! k) = None" "b_oi_coins_high (snaps ! k) = None"
      "b_oi_coins_low (snaps ! k) = None" "b_oi_coins_close (snaps ! k) = None" if "\<not> has_coins snaps"
    using that unfolding has_coins_def by blast+
  have no_usd: "b_oi_usd_open (snaps ! k) = None" "b_oi_usd_high (snaps ! k) = None"
      "b_oi_usd_low (snaps ! k) = None" "b_oi_usd_close (snaps ! k) = None" if "\<not> has_usd snaps"
    using that row unfolding has_usd_def by blast+
  have "column_of b f rows = None \<longleftrightarrow> \<not> b" for b and f :: "'a oi_snapshot \<Rightarrow> string option" and rows
    by (simp add: column_of_def)
  then show ?thesis
    using assms no_coins no_usd
    by (simp add: Let_def from_snapshots_fields cell_column_of bar_dto_of_def)
qed

section \<open>The single handlers\<close>

datatype ('row, 'col) range_body = Rows "'row list" | Cols 'col

definition ready :: "(core_error + unit) option \<Rightarrow> (core_error + unit) option \<Rightarrow> nat \<times> (string \<times> string)" where
  "ready clickhouse redis =
     (let (ch_ok, ch_msg) = (case clickhouse of
              None \<Rightarrow> (True, ''skipped'')
            | Some (Inr _) \<Rightarrow> (True, ''ok'')
            | Some (Inl e) \<Rightarrow> (False, show_core_error e));
          (rs_ok, rs_msg) = (case redis of
              None \<Rightarrow> (True, ''skipped'')
            | Some (Inr _) \<Rightarrow> (True, ''ok'')
            | Some (Inl e) \<Rightarrow> (False, show_core_error e))
      in (if ch_ok \<and> rs_ok then 200 else 503, (ch_msg, rs_msg)))"

definition parse_id :: "string \<Rightarrow> string \<Rightarrow> string + instrument_id" where
  "parse_id ex symb =
     (case exchange_from_str ex of Inl e \<Rightarrow> Inl e | Inr e \<Rightarrow> Inr (new_instrument e symb))"

definition parse_rfc3339 :: "'d rest_text \<Rightarrow> string \<Rightarrow> string + timestamp" where
  "parse_rfc3339 x s = map_sum (\<lambda>e. ''rfc3339: '' @ e) id (rfc3339_parse x s)"

definition latest :: "'d rest_text \<Rightarrow> ('s, 'd) oi_repository \<Rightarrow> 's \<Rightarrow> string \<Rightarrow> string \<Rightarrow> bar_dto reply" where
  "latest x repo st ex symb =
     (case parse_id ex symb of
        Inl e \<Rightarrow> (400, Inl e)
      | Inr i \<Rightarrow>
          (case latest_snapshot repo i st of
             Inr (Some s) \<Rightarrow> (200, Inr (bar_dto_of x s))
           | Inr None \<Rightarrow> (404, Inl ''no data'')
           | Inl e \<Rightarrow> (500, Inl (show_core_error e))))"

definition funding_latest :: "'d rest_text \<Rightarrow> ('s, 'd) oi_repository \<Rightarrow> 's \<Rightarrow> string \<Rightarrow> string \<Rightarrow> funding_dto reply" where
  "funding_latest x repo st ex symb =
     (case parse_id ex symb of
        Inl e \<Rightarrow> (400, Inl e)
      | Inr i \<Rightarrow>
          (case latest_funding repo i st of
             Inr (Some b) \<Rightarrow> (200, Inr (funding_dto_of x b))
           | Inr None \<Rightarrow> (404, Inl ''no funding data'')
           | Inl e \<Rightarrow> (500, Inl (show_core_error e))))"

definition funding_event_latest ::
  "'d rest_text \<Rightarrow> ('s, 'd) oi_repository \<Rightarrow> 's \<Rightarrow> string \<Rightarrow> string \<Rightarrow> funding_event_dto reply" where
  "funding_event_latest x repo st ex symb =
     (case parse_id ex symb of
        Inl e \<Rightarrow> (400, Inl e)
      | Inr i \<Rightarrow>
          (case latest_funding_event repo i st of
             Inr (Some e) \<Rightarrow> (200, Inr (funding_event_dto_of x e))
           | Inr None \<Rightarrow> (404, Inl ''no settlement events'')
           | Inl e \<Rightarrow> (500, Inl (show_core_error e))))"

record range_query =
  q_from :: string
  q_to :: string
  q_fmt :: "string option"

definition range_reply ::
  "'d rest_text \<Rightarrow> ('s, 'd) oi_repository \<Rightarrow> 's \<Rightarrow> string \<Rightarrow> string \<Rightarrow> range_query \<Rightarrow>
   (bar_dto, oi_columns) range_body reply" where
  "range_reply x repo st ex symb q =
     (case parse_id ex symb of
        Inl e \<Rightarrow> (400, Inl e)
      | Inr i \<Rightarrow>
     (case parse_rfc3339 x (q_from q) of
        Inl e \<Rightarrow> (400, Inl e)
      | Inr a \<Rightarrow>
     (case parse_rfc3339 x (q_to q) of
        Inl e \<Rightarrow> (400, Inl e)
      | Inr z \<Rightarrow>
          (let columnar = (q_fmt q = Some ''col'')
           in case range_snapshots repo i a z st of
                Inr snaps \<Rightarrow>
                  (200, Inr (if columnar then Cols (from_snapshots x snaps) else Rows (map (bar_dto_of x) snaps)))
              | Inl e \<Rightarrow> (500, Inl (show_core_error e))))))"

definition funding_range_reply ::
  "'d rest_text \<Rightarrow> ('s, 'd) oi_repository \<Rightarrow> 's \<Rightarrow> string \<Rightarrow> string \<Rightarrow> range_query \<Rightarrow>
   (funding_dto, funding_columns) range_body reply" where
  "funding_range_reply x repo st ex symb q =
     (case parse_id ex symb of
        Inl e \<Rightarrow> (400, Inl e)
      | Inr i \<Rightarrow>
     (case parse_rfc3339 x (q_from q) of
        Inl e \<Rightarrow> (400, Inl e)
      | Inr a \<Rightarrow>
     (case parse_rfc3339 x (q_to q) of
        Inl e \<Rightarrow> (400, Inl e)
      | Inr z \<Rightarrow>
          (let columnar = (q_fmt q = Some ''col'')
           in case funding_range repo i a z st of
                Inr bars \<Rightarrow>
                  (200, Inr (if columnar then Cols (from_bars x bars) else Rows (map (funding_dto_of x) bars)))
              | Inl e \<Rightarrow> (500, Inl (show_core_error e))))))"

definition funding_event_range_reply ::
  "'d rest_text \<Rightarrow> ('s, 'd) oi_repository \<Rightarrow> 's \<Rightarrow> string \<Rightarrow> string \<Rightarrow> range_query \<Rightarrow>
   funding_event_dto list reply" where
  "funding_event_range_reply x repo st ex symb q =
     (case parse_id ex symb of
        Inl e \<Rightarrow> (400, Inl e)
      | Inr i \<Rightarrow>
     (case parse_rfc3339 x (q_from q) of
        Inl e \<Rightarrow> (400, Inl e)
      | Inr a \<Rightarrow>
     (case parse_rfc3339 x (q_to q) of
        Inl e \<Rightarrow> (400, Inl e)
      | Inr z \<Rightarrow>
          (case funding_events_range repo i a z st of
             Inr events \<Rightarrow> (200, Inr (map (funding_event_dto_of x) events))
           | Inl e \<Rightarrow> (500, Inl (show_core_error e))))))"

section \<open>Batches\<close>

definition batch_max_items :: nat where
  "batch_max_items = 128"

definition batch_concurrency :: nat where
  "batch_concurrency = 16"

record batch_item =
  i_exchange :: string
  i_symbol :: string
  i_from :: string
  i_to :: string

type_synonym parsed_item = "instrument_id \<times> timestamp \<times> timestamp"

record 'p batch_entry =
  be_exchange :: string
  be_symbol :: string
  be_error :: "string option"
  be_payload :: 'p

fun parse_items :: "'d rest_text \<Rightarrow> nat \<Rightarrow> batch_item list \<Rightarrow> string + parsed_item list" where
  "parse_items x i [] = Inr []"
| "parse_items x i (it # items) =
     (case parse_id (i_exchange it) (i_symbol it) of
        Inl e \<Rightarrow> Inl (''items['' @ show_nat i @ '']: '' @ e)
      | Inr inst \<Rightarrow>
     (case parse_rfc3339 x (i_from it) of
        Inl e \<Rightarrow> Inl (''items['' @ show_nat i @ ''].from: '' @ e)
      | Inr a \<Rightarrow>
     (case parse_rfc3339 x (i_to it) of
        Inl e \<Rightarrow> Inl (''items['' @ show_nat i @ ''].to: '' @ e)
      | Inr z \<Rightarrow> map_sum id (\<lambda>ps. (inst, a, z) # ps) (parse_items x (Suc i) items))))"

definition parse_batch :: "'d rest_text \<Rightarrow> batch_item list \<Rightarrow> string + parsed_item list" where
  "parse_batch x items =
     (if items = [] then Inl ''items: empty''
      else if length items > batch_max_items
      then Inl (''items: '' @ show_nat (length items) @ '' exceeds max '' @ show_nat batch_max_items)
      else parse_items x 0 items)"

text \<open>
  The fan-out. \<open>inflight\<close> holds the futures that are running; which of them finishes next is
  the scheduler's choice, \<open>sched n\<close> at the \<open>n\<close>-th completion. A slot nobody filled makes the
  final \<open>expect\<close> panic.
\<close>

type_synonym 'r item_result = "nat \<times> string \<times> string \<times> (core_error + 'r list)"

definition spawn_one :: "(parsed_item \<Rightarrow> core_error + 'r list) \<Rightarrow> nat \<Rightarrow> parsed_item \<Rightarrow> 'r item_result" where
  "spawn_one query idx item =
     (idx, exchange_code (id_exchange (fst item)), id_symbol (fst item), query item)"

definition entry_of :: "('r list \<Rightarrow> 'p) \<Rightarrow> 'p \<Rightarrow> string \<Rightarrow> string \<Rightarrow> core_error + 'r list \<Rightarrow> 'p batch_entry" where
  "entry_of finalize default_payload ex symb out =
     (case out of
        Inr rows \<Rightarrow> \<lparr>be_exchange = ex, be_symbol = symb, be_error = None, be_payload = finalize rows\<rparr>
      | Inl e \<Rightarrow> \<lparr>be_exchange = ex, be_symbol = symb, be_error = Some (show_core_error e),
                  be_payload = default_payload\<rparr>)"

function batch_prime ::
  "(parsed_item \<Rightarrow> core_error + 'r list) \<Rightarrow> parsed_item list \<Rightarrow> nat \<Rightarrow> 'r item_result list \<Rightarrow>
   nat \<times> 'r item_result list" where
  "batch_prime query items next_ix inflight =
     (if next_ix < length items \<and> length inflight < batch_concurrency
      then batch_prime query items (Suc next_ix) (inflight @ [spawn_one query next_ix (items ! next_ix)])
      else (next_ix, inflight))"
  by pat_completeness auto
termination
  by (relation "measure (\<lambda>(query, items, next_ix, inflight). length items - next_ix)") auto

declare batch_prime.simps [simp del]

function batch_loop ::
  "(nat \<Rightarrow> nat) \<Rightarrow> ('r list \<Rightarrow> 'p) \<Rightarrow> 'p \<Rightarrow> (parsed_item \<Rightarrow> core_error + 'r list) \<Rightarrow> parsed_item list \<Rightarrow>
   nat \<Rightarrow> nat \<Rightarrow> 'r item_result list \<Rightarrow> 'p batch_entry option list \<Rightarrow> 'p batch_entry option list" where
  "batch_loop sched finalize default_payload query items n next_ix inflight results =
     (if inflight = [] then results
      else
        (let pick = sched n mod length inflight;
             (idx, ex, symb, out) = inflight ! pick;
             rest = take pick inflight @ drop (Suc pick) inflight;
             results' = results[idx := Some (entry_of finalize default_payload ex symb out)]
         in if next_ix < length items
            then batch_loop sched finalize default_payload query items (Suc n) (Suc next_ix)
                   (rest @ [spawn_one query next_ix (items ! next_ix)]) results'
            else batch_loop sched finalize default_payload query items (Suc n) next_ix rest results'))"
  by pat_completeness auto
termination
  by (relation "measure (\<lambda>(sched, finalize, default_payload, query, items, n, next_ix, inflight, results).
        length inflight + 2 * (length items - next_ix))")
     (auto simp: min_def dest!: leD)

declare batch_loop.simps [simp del]

definition run_batch ::
  "(nat \<Rightarrow> nat) \<Rightarrow> (parsed_item \<Rightarrow> core_error + 'r list) \<Rightarrow> ('r list \<Rightarrow> 'p) \<Rightarrow> 'p \<Rightarrow> parsed_item list \<Rightarrow>
   'p batch_entry list rust" where
  "run_batch sched query finalize default_payload items =
     (let results = replicate (length items) None;
          (next_ix, inflight) = batch_prime query items 0 [];
          results' = batch_loop sched finalize default_payload query items 0 next_ix inflight results
      in if None \<in> set results' then Panic else Ret (map the results'))"

subsection \<open>Every slot is filled with its own item's entry\<close>

definition item_entry ::
  "(parsed_item \<Rightarrow> core_error + 'r list) \<Rightarrow> ('r list \<Rightarrow> 'p) \<Rightarrow> 'p \<Rightarrow> parsed_item \<Rightarrow> 'p batch_entry" where
  "item_entry query finalize default_payload item =
     entry_of finalize default_payload (exchange_code (id_exchange (fst item))) (id_symbol (fst item)) (query item)"

definition batch_inv ::
  "(parsed_item \<Rightarrow> core_error + 'r list) \<Rightarrow> ('r list \<Rightarrow> 'p) \<Rightarrow> 'p \<Rightarrow> parsed_item list \<Rightarrow>
   nat \<Rightarrow> 'r item_result list \<Rightarrow> 'p batch_entry option list \<Rightarrow> bool" where
  "batch_inv query finalize default_payload items next_ix inflight results \<longleftrightarrow>
     next_ix \<le> length items \<and> length results = length items \<and> (inflight = [] \<longrightarrow> next_ix = length items) \<and>
     (\<exists>ixs. inflight = map (\<lambda>i. spawn_one query i (items ! i)) ixs \<and> distinct ixs \<and> set ixs \<subseteq> {..<next_ix} \<and>
        (\<forall>i < length items. results ! i =
           (if i < next_ix \<and> i \<notin> set ixs then Some (item_entry query finalize default_payload (items ! i)) else None)))"

lemma batch_prime_spec:
  assumes "batch_prime query items next_ix inflight = (n, fl)"
    and "inflight = map (\<lambda>i. spawn_one query i (items ! i)) [0..<next_ix]" "next_ix \<le> length items"
  shows "fl = map (\<lambda>i. spawn_one query i (items ! i)) [0..<n] \<and> n \<le> length items \<and>
         (fl = [] \<longrightarrow> n = length items)"
  using assms
proof (induction query items next_ix inflight rule: batch_prime.induct)
  case (1 query items next_ix inflight)
  show ?case
  proof (cases "next_ix < length items \<and> length inflight < batch_concurrency")
    case True
    then have step: "batch_prime query items (Suc next_ix)
        (inflight @ [spawn_one query next_ix (items ! next_ix)]) = (n, fl)"
      using 1(2) by (subst (asm) batch_prime.simps) simp
    have "inflight @ [spawn_one query next_ix (items ! next_ix)] =
        map (\<lambda>i. spawn_one query i (items ! i)) [0..<Suc next_ix]"
      by (simp add: 1(3))
    from 1(1) [OF True step this] True show ?thesis by linarith
  next
    case False
    then have "batch_prime query items next_ix inflight = (next_ix, inflight)"
      by (subst batch_prime.simps) (simp only: if_False)
    then have "n = next_ix" "fl = inflight" using 1(2) by simp_all
    then show ?thesis using 1(3,4) False by (auto simp: batch_concurrency_def)
  qed
qed

lemma drop_pick:
  assumes "p < length xs"
  shows "xs = take p xs @ xs ! p # drop (Suc p) xs"
  using assms by (simp add: id_take_nth_drop)

lemma batch_inv_step:
  assumes inv: "batch_inv query finalize dflt items next_ix inflight results"
    and ne: "inflight \<noteq> []" and p: "p < length inflight" and pick: "inflight ! p = (idx, ex, symb, out)"
    and rest: "rest = take p inflight @ drop (Suc p) inflight"
    and results': "results' = results[idx := Some (entry_of finalize dflt ex symb out)]"
  shows "next_ix < length items \<Longrightarrow>
      batch_inv query finalize dflt items (Suc next_ix) (rest @ [spawn_one query next_ix (items ! next_ix)]) results'"
    and "\<not> next_ix < length items \<Longrightarrow> batch_inv query finalize dflt items next_ix rest results'"
proof -
  let ?sp = "\<lambda>i. spawn_one query i (items ! i)"
  obtain ixs where fl: "inflight = map ?sp ixs" and dist: "distinct ixs" and sub: "set ixs \<subseteq> {..<next_ix}"
    and res: "\<forall>i < length items. results ! i =
        (if i < next_ix \<and> i \<notin> set ixs then Some (item_entry query finalize dflt (items ! i)) else None)"
    and le: "next_ix \<le> length items" "length results = length items"
    using inv unfolding batch_inv_def by blast
  have p': "p < length ixs" using p fl by simp
  define js where "js = take p ixs @ drop (Suc p) ixs"
  have ixs: "ixs = take p ixs @ ixs ! p # drop (Suc p) ixs" by (rule drop_pick [OF p'])
  have rest': "rest = map ?sp js" by (simp add: rest fl js_def take_map drop_map)
  have idx: "idx = ixs ! p" and entry: "entry_of finalize dflt ex symb out = item_entry query finalize dflt (items ! idx)"
    using pick fl p' by (auto simp: spawn_one_def item_entry_def)
  have dist': "distinct js" and idx_js: "idx \<notin> set js" and set_js: "set ixs = insert idx (set js)"
    using dist unfolding idx js_def by (subst (asm) ixs, force, subst (asm) ixs, force, subst ixs, force)
  have idx_less: "idx < next_ix" using sub set_js by auto
  have res': "\<forall>i < length items. results' ! i =
      (if i < next_ix \<and> i \<notin> set js then Some (item_entry query finalize dflt (items ! i)) else None)"
    using res idx_less idx_js le by (auto simp: results' entry nth_list_update set_js)
  show "batch_inv query finalize dflt items next_ix rest results'" if "\<not> next_ix < length items"
    unfolding batch_inv_def using that le dist' sub res' rest' set_js by (auto simp: results' intro!: exI [of _ js])
  show "batch_inv query finalize dflt items (Suc next_ix) (rest @ [?sp next_ix]) results'" if "next_ix < length items"
  proof -
    have out: "next_ix \<notin> set js" using sub set_js by auto
    show ?thesis
      unfolding batch_inv_def using that le dist' sub res' rest' set_js out
      by (auto simp: results' less_Suc_eq intro!: exI [of _ "js @ [next_ix]"])
  qed
qed

lemma batch_loop_fills:
  assumes "batch_inv query finalize dflt items next_ix inflight results"
  shows "batch_loop sched finalize dflt query items n next_ix inflight results =
           map (\<lambda>item. Some (item_entry query finalize dflt item)) items"
  using assms
proof (induction sched finalize dflt query items n next_ix inflight results rule: batch_loop.induct)
  case (1 sched finalize dflt query items n next_ix inflight results)
  show ?case
  proof (cases "inflight = []")
    case True
    with 1(3) have "next_ix = length items" "length results = length items"
      "\<forall>i < length items. results ! i = Some (item_entry query finalize dflt (items ! i))"
      by (auto simp: batch_inv_def)
    then have "results = map (\<lambda>item. Some (item_entry query finalize dflt item)) items"
      by (intro nth_equalityI) auto
    with True show ?thesis by (subst batch_loop.simps) simp
  next
    case False
    define p where "p = sched n mod length inflight"
    have p: "p < length inflight" using False by (simp add: p_def)
    obtain idx ex symb out where pick: "inflight ! p = (idx, ex, symb, out)" by (metis prod_cases4)
    note inv' = batch_inv_step [OF 1(3) False p pick refl refl]
    show ?thesis
    proof (cases "next_ix < length items")
      case True
      note IH = 1(1) [OF False p_def refl pick [symmetric] refl refl refl refl True inv'(1) [OF True]]
      show ?thesis
        by (subst batch_loop.simps) (use False True pick IH in \<open>simp add: p_def Let_def\<close>)
    next
      case drained: False
      note IH = 1(2) [OF False p_def refl pick [symmetric] refl refl refl refl drained inv'(2) [OF drained]]
      show ?thesis
        by (subst batch_loop.simps) (use False drained pick IH in \<open>simp add: p_def Let_def\<close>)
    qed
  qed
qed

lemma run_batch_lemma:
  "run_batch sched query finalize default_payload items =
     Ret (map (\<lambda>item. entry_of finalize default_payload (exchange_code (id_exchange (fst item)))
                        (id_symbol (fst item)) (query item)) items)"
proof -
  obtain n fl where prime: "batch_prime query items 0 [] = (n, fl)" by (cases "batch_prime query items 0 []")
  have "fl = map (\<lambda>i. spawn_one query i (items ! i)) [0..<n] \<and> n \<le> length items \<and> (fl = [] \<longrightarrow> n = length items)"
    by (rule batch_prime_spec [OF prime]) simp_all
  then have fl: "fl = map (\<lambda>i. spawn_one query i (items ! i)) [0..<n]" "n \<le> length items" "fl = [] \<longrightarrow> n = length items"
    by blast+
  have "batch_inv query finalize default_payload items n fl (replicate (length items) None)"
    unfolding batch_inv_def
  proof (intro conjI exI [of _ "[0..<n]"])
    show "fl = map (\<lambda>i. spawn_one query i (items ! i)) [0..<n]" "n \<le> length items" "fl = [] \<longrightarrow> n = length items"
      by (rule fl)+
  qed (simp_all add: atLeast0LessThan)
  then have "batch_loop sched finalize default_payload query items 0 n fl (replicate (length items) None) =
      map (\<lambda>item. Some (item_entry query finalize default_payload item)) items"
    by (rule batch_loop_fills)
  then show ?thesis
    unfolding run_batch_def Let_def prime prod.case by (simp add: item_entry_def image_iff)
qed

text \<open>
  C18. A batch answers each item, in the order of the request. Whatever order the queries of
  a batch complete in, \<open>run_batch\<close> never panics on an empty slot and returns one entry per
  item, the \<open>k\<close>-th entry being the \<open>k\<close>-th item's: its exchange and symbol, and either the
  finalized rows of its own query or that query's error with the default payload.
\<close>

theorem batch_answers_in_request_order:
  "run_batch sched query finalize default_payload items =
     Ret (map (\<lambda>item. entry_of finalize default_payload (exchange_code (id_exchange (fst item)))
                        (id_symbol (fst item)) (query item)) items)"
  by (rule run_batch_lemma)

section \<open>The batch endpoints\<close>

definition range_batch ::
  "(nat \<Rightarrow> nat) \<Rightarrow> 'd rest_text \<Rightarrow> ('s, 'd) oi_repository \<Rightarrow> 's \<Rightarrow> batch_item list \<Rightarrow> string option \<Rightarrow>
   (bar_dto list batch_entry list, oi_columns batch_entry list) sum reply rust" where
  "range_batch sched x repo st items fmt =
     (case parse_batch x items of
        Inl msg \<Rightarrow> Ret (400, Inl msg)
      | Inr parsed \<Rightarrow>
          (if fmt = Some ''col''
           then map_rust (\<lambda>results. (200, Inr (Inr results)))
                  (run_batch sched (\<lambda>(i, a, z). range_snapshots repo i a z st) (from_snapshots x) default_columns parsed)
           else map_rust (\<lambda>results. (200, Inr (Inl results)))
                  (run_batch sched (\<lambda>(i, a, z). range_snapshots repo i a z st) (map (bar_dto_of x)) [] parsed)))"

definition funding_range_batch ::
  "(nat \<Rightarrow> nat) \<Rightarrow> 'd rest_text \<Rightarrow> ('s, 'd) oi_repository \<Rightarrow> 's \<Rightarrow> batch_item list \<Rightarrow> string option \<Rightarrow>
   (funding_dto list batch_entry list, funding_columns batch_entry list) sum reply rust" where
  "funding_range_batch sched x repo st items fmt =
     (case parse_batch x items of
        Inl msg \<Rightarrow> Ret (400, Inl msg)
      | Inr parsed \<Rightarrow>
          (if fmt = Some ''col''
           then map_rust (\<lambda>results. (200, Inr (Inr results)))
                  (run_batch sched (\<lambda>(i, a, z). funding_range repo i a z st) (from_bars x) default_funding_columns parsed)
           else map_rust (\<lambda>results. (200, Inr (Inl results)))
                  (run_batch sched (\<lambda>(i, a, z). funding_range repo i a z st) (map (funding_dto_of x)) [] parsed)))"

definition funding_event_range_batch ::
  "(nat \<Rightarrow> nat) \<Rightarrow> 'd rest_text \<Rightarrow> ('s, 'd) oi_repository \<Rightarrow> 's \<Rightarrow> batch_item list \<Rightarrow>
   funding_event_dto list batch_entry list reply rust" where
  "funding_event_range_batch sched x repo st items =
     (case parse_batch x items of
        Inl msg \<Rightarrow> Ret (400, Inl msg)
      | Inr parsed \<Rightarrow>
          map_rust (\<lambda>results. (200, Inr results))
            (run_batch sched (\<lambda>(i, a, z). funding_events_range repo i a z st) (map (funding_event_dto_of x)) [] parsed))"

lemma map_sum_Inr_iff: "map_sum f g r = Inr b \<longleftrightarrow> (\<exists>a. r = Inr a \<and> b = g a)"
  by (cases r) auto

lemma parse_items_Inr_iff:
  "parse_items x k items = Inr ps \<longleftrightarrow>
     length ps = length items \<and>
     (\<forall>j < length items. parse_id (i_exchange (items ! j)) (i_symbol (items ! j)) = Inr (fst (ps ! j)) \<and>
        parse_rfc3339 x (i_from (items ! j)) = Inr (fst (snd (ps ! j))) \<and>
        parse_rfc3339 x (i_to (items ! j)) = Inr (snd (snd (ps ! j))))"
proof (induction items arbitrary: k ps)
  case Nil
  then show ?case by auto
next
  case (Cons it items)
  have step: "parse_items x k (it # items) = Inr ps \<longleftrightarrow>
      (\<exists>i a z ps'. ps = (i, a, z) # ps' \<and> parse_id (i_exchange it) (i_symbol it) = Inr i \<and>
         parse_rfc3339 x (i_from it) = Inr a \<and> parse_rfc3339 x (i_to it) = Inr z \<and>
         parse_items x (Suc k) items = Inr ps')"
    by (auto split: sum.splits simp: map_sum_Inr_iff)
  show ?case
    unfolding step Cons.IH by (cases ps) (auto simp: All_less_Suc2 nth_Cons')
qed

text \<open>The entry of a batch that says what a single answer says.\<close>

fun says_the_same :: "'p batch_entry \<Rightarrow> 'p \<Rightarrow> 'p reply \<Rightarrow> bool" where
  "says_the_same entry dflt (status, Inr body) \<longleftrightarrow> status = 200 \<and> be_error entry = None \<and> be_payload entry = body"
| "says_the_same entry dflt (status, Inl msg) \<longleftrightarrow> status = 500 \<and> be_error entry = Some msg \<and> be_payload entry = dflt"

fun rows_of :: "('row, 'col) range_body reply \<Rightarrow> 'row list reply" where
  "rows_of (status, Inr (Rows rows)) = (status, Inr rows)"
| "rows_of (status, Inr (Cols cols)) = (status, Inl [])"
| "rows_of (status, Inl msg) = (status, Inl msg)"

fun cols_of :: "('row, 'col) range_body reply \<Rightarrow> 'col reply" where
  "cols_of (status, Inr (Rows rows)) = (status, Inl [])"
| "cols_of (status, Inr (Cols cols)) = (status, Inr cols)"
| "cols_of (status, Inl msg) = (status, Inl msg)"

definition single_range ::
  "'d rest_text \<Rightarrow> ('s, 'd) oi_repository \<Rightarrow> 's \<Rightarrow> batch_item \<Rightarrow> string option \<Rightarrow> (bar_dto, oi_columns) range_body reply" where
  "single_range x repo st it fmt =
     range_reply x repo st (i_exchange it) (i_symbol it) \<lparr>q_from = i_from it, q_to = i_to it, q_fmt = fmt\<rparr>"

lemma run_batch_entries:
  "run_batch sched query finalize dflt items = Ret (map (item_entry query finalize dflt) items)"
  unfolding item_entry_def [abs_def] by (rule run_batch_lemma)

lemma single_range_parsed:
  assumes "parse_items x k items = Inr parsed" "j < length items"
  shows "single_range x repo st (items ! j) fmt =
     (case parsed ! j of (i, a, z) \<Rightarrow>
        case range_snapshots repo i a z st of
          Inr snaps \<Rightarrow> (200, Inr (if fmt = Some ''col'' then Cols (from_snapshots x snaps) else Rows (map (bar_dto_of x) snaps)))
        | Inl e \<Rightarrow> (500, Inl (show_core_error e)))"
  using assms by (simp add: single_range_def range_reply_def parse_items_Inr_iff split: prod.splits)

lemma parse_batch_Inr:
  assumes "parse_batch x items = Inr parsed"
  shows "parse_items x 0 items = Inr parsed" "length parsed = length items"
  using assms by (auto simp: parse_batch_def parse_items_Inr_iff split: if_splits)

text \<open>
  C38. A batch of ranges is a list of single ranges. If a batch request is accepted, then in
  either wire format and under every completion order the answer is 200 with as many entries
  as items, and the entry of each item says exactly what the single-range endpoint answers
  for that item's exchange, symbol, bounds and the same format: the payload of a 200, or the
  text of a 500 in \<open>error\<close> beside the empty payload.
\<close>

theorem batch_agrees_with_single_range:
  assumes "parse_batch x items = Inr parsed" and "k < length items"
  shows "\<exists>rows cols.
      range_batch sched x repo st items None = Ret (200, Inr (Inl rows)) \<and>
      range_batch sched x repo st items (Some ''col'') = Ret (200, Inr (Inr cols)) \<and>
      length rows = length items \<and> length cols = length items \<and>
      says_the_same (rows ! k) [] (rows_of (single_range x repo st (items ! k) None)) \<and>
      says_the_same (cols ! k) default_columns (cols_of (single_range x repo st (items ! k) (Some ''col'')))"
proof -
  note parsed = parse_batch_Inr [OF assms(1)]
  obtain i a z where item: "parsed ! k = (i, a, z)" by (metis prod_cases3)
  have "range_batch sched x repo st items None = Ret (200, Inr (Inl (map (item_entry
      (\<lambda>(i, a, z). range_snapshots repo i a z st) (map (bar_dto_of x)) []) parsed)))"
    "range_batch sched x repo st items (Some ''col'') = Ret (200, Inr (Inr (map (item_entry
      (\<lambda>(i, a, z). range_snapshots repo i a z st) (from_snapshots x) default_columns) parsed)))"
    by (simp_all add: range_batch_def assms(1) run_batch_entries)
  then show ?thesis
    using assms(2) parsed(2)
    by (cases "range_snapshots repo i a z st")
       (simp_all add: single_range_parsed [OF parsed(1)] item item_entry_def entry_of_def)
qed

text \<open>A repository of two instruments, one of them broken.\<close>

definition demo_text :: "nat rest_text" where
  "demo_text = \<lparr>decimals = \<lparr>dec_show = show_nat, dec_parse = (\<lambda>s. Inl s)\<rparr>,
     rfc3339_format = (\<lambda>t. None), ts_display = (\<lambda>t. []), rfc3339_parse = (\<lambda>s. Inr (int (length s)))\<rparr>"

definition demo_repo :: "(unit, nat) oi_repository" where
  "demo_repo = without_funding
     \<lparr>upsert_snapshots = (\<lambda>_ s. (s, Inr ())), upsert_instruments = (\<lambda>_ s. (s, Inr ())),
      range_snapshots = (\<lambda>i a z s. if id_symbol i = ''BAD'' then Inl (Storage ''down'') else Inr []),
      latest_snapshot = (\<lambda>i s. Inr None),
      upsert_funding = (\<lambda>_ s. (s, Inr ())), funding_range = (\<lambda>_ _ _ _. Inr []),
      latest_funding = (\<lambda>_ _. Inr None), upsert_funding_events = (\<lambda>_ s. (s, Inr ())),
      funding_events_range = (\<lambda>_ _ _ _. Inr []), latest_funding_event = (\<lambda>_ _. Inr None)\<rparr>"

definition demo_items :: "batch_item list" where
  "demo_items =
     [\<lparr>i_exchange = ''okx'', i_symbol = ''BAD'', i_from = [], i_to = ''x''\<rparr>,
      \<lparr>i_exchange = ''Bybit'', i_symbol = ''BTCUSDT'', i_from = [], i_to = ''xy''\<rparr>]"

lemma demo_exchanges: "exchange_from_str ''okx'' = Inr Okx" "exchange_from_str ''Bybit'' = Inr Bybit"
  by code_simp+

lemma demo_items_parse:
  "parse_batch demo_text demo_items = Inr [(new_instrument Okx ''BAD'', 0, 1), (new_instrument Bybit ''BTCUSDT'', 0, 2)]"
  by (simp add: parse_batch_def demo_items_def demo_text_def batch_max_items_def parse_id_def
      parse_rfc3339_def demo_exchanges)

theorem batch_agrees_with_single_range_witness:
  "\<exists>rows cols.
      range_batch (\<lambda>n. n) demo_text demo_repo () demo_items None = Ret (200, Inr (Inl rows)) \<and>
      range_batch (\<lambda>n. n) demo_text demo_repo () demo_items (Some ''col'') = Ret (200, Inr (Inr cols)) \<and>
      length rows = length demo_items \<and> length cols = length demo_items \<and>
      says_the_same (rows ! 0) [] (rows_of (single_range demo_text demo_repo () (demo_items ! 0) None)) \<and>
      says_the_same (cols ! 0) default_columns (cols_of (single_range demo_text demo_repo () (demo_items ! 0) (Some ''col'')))"
  by (rule batch_agrees_with_single_range [OF demo_items_parse]) (simp add: demo_items_def)

definition demo_bars :: "nat oi_snapshot list" where
  "demo_bars = map start_from_sample
     [\<lparr>s_instrument = new_instrument Okx ''A'', s_bucket_ts = 0, s_recv_ts = 5, s_native_value = 7,
       s_native_unit = Coins, s_oi_coins = Some 7, s_oi_usd = None, s_price_used = None\<rparr>,
      \<lparr>s_instrument = new_instrument Okx ''A'', s_bucket_ts = minutes 1, s_recv_ts = minutes 1, s_native_value = 9,
       s_native_unit = Contracts, s_oi_coins = None, s_oi_usd = None, s_price_used = None\<rparr>]"

theorem columns_agree_with_rows_witness:
  "let c = from_snapshots demo_text demo_bars; r = bar_dto_of demo_text (demo_bars ! 1)
    in c_n c = length demo_bars \<and>
       [c_native_open c ! 1, c_native_high c ! 1, c_native_low c ! 1, c_native_close c ! 1] =
         [d_native_open r, d_native_high r, d_native_low r, d_native_close r] \<and>
       [cell (c_oi_coins_open c) 1, cell (c_oi_coins_high c) 1, cell (c_oi_coins_low c) 1, cell (c_oi_coins_close c) 1] =
         [d_oi_coins_open r, d_oi_coins_high r, d_oi_coins_low r, d_oi_coins_close r] \<and>
       [cell (c_oi_usd_open c) 1, cell (c_oi_usd_high c) 1, cell (c_oi_usd_low c) 1, cell (c_oi_usd_close c) 1] =
         [d_oi_usd_open r, d_oi_usd_high r, d_oi_usd_low r, d_oi_usd_close r] \<and>
       (c_oi_coins_open c = None \<longleftrightarrow> \<not> has_coins demo_bars) \<and> (c_oi_usd_open c = None \<longleftrightarrow> \<not> has_usd demo_bars)"
  by (rule columns_agree_with_rows) (simp add: demo_bars_def)

end
