(* ===== verification/Api_Grpc.thy ===== *)
theory Api_Grpc
  imports Clickhouse "HOL-Library.Signed_Division"
begin

text \<open>
  \<open>oi-api/src/grpc.rs\<close>: the protobuf shapes of \<open>proto/oi.proto\<close>, the conversions to and from
  the domain types, and the handlers. A handler reads the repository at one state; a
  streaming answer is the list of messages its task sends, of which a client that hangs up
  gets a prefix. \<open>in_calendar\<close> says which instants the time library can represent.
\<close>

section \<open>Messages\<close>

record pb_instrument =
  pi_exchange :: string
  pi_symbol :: string

record pb_timestamp =
  pt_seconds :: u64
  pt_nanos :: u32

datatype pb_unit = UNIT_UNSPECIFIED | COINS | CONTRACTS | USD

fun pb_unit_number :: "pb_unit \<Rightarrow> u32" where
  "pb_unit_number UNIT_UNSPECIFIED = 0"
| "pb_unit_number COINS = 1"
| "pb_unit_number CONTRACTS = 2"
| "pb_unit_number USD = 3"

record pb_bar =
  pb_bar_instrument :: "pb_instrument option"
  pb_bucket_ts :: "pb_timestamp option"
  pb_first_recv_ts :: "pb_timestamp option"
  pb_last_recv_ts :: "pb_timestamp option"
  pb_samples :: u32
  pb_native_unit :: u32
  pb_native_open :: string
  pb_native_high :: string
  pb_native_low :: string
  pb_native_close :: string
  pb_oi_coins_open :: string
  pb_oi_coins_high :: string
  pb_oi_coins_low :: string
  pb_oi_coins_close :: string
  pb_oi_usd_open :: string
  pb_oi_usd_high :: string
  pb_oi_usd_low :: string
  pb_oi_usd_close :: string
  pb_price_used_close :: string

record pb_funding =
  pf_instrument :: "pb_instrument option"
  pf_bucket_ts :: "pb_timestamp option"
  pf_recv_ts :: "pb_timestamp option"
  pf_rate :: string
  pf_next_funding_ts :: "pb_timestamp option"
  pf_interval_hours :: u32

record pb_funding_event =
  pe_instrument :: "pb_instrument option"
  pe_settlement_ts :: "pb_timestamp option"
  pe_rate :: string
  pe_mark_price :: string

datatype status = InvalidArgument string | Internal string | Unavailable string

section \<open>Conversions\<close>

definition pb_to_id :: "pb_instrument \<Rightarrow> status + instrument_id" where
  "pb_to_id pi =
     (case exchange_from_str (pi_exchange pi) of
        Inl e \<Rightarrow> Inl (InvalidArgument (''exchange: '' @ e))
      | Inr ex \<Rightarrow> Inr (new_instrument ex (pi_symbol pi)))"

definition pb_ts :: "(timestamp \<Rightarrow> bool) \<Rightarrow> pb_timestamp option \<Rightarrow> status + timestamp" where
  "pb_ts in_calendar t =
     (case t of
        None \<Rightarrow> Inl (InvalidArgument ''timestamp required'')
      | Some t \<Rightarrow>
          (let nanos = sint (pt_seconds t) * 1000000000 + sint (pt_nanos t)
           in if in_calendar nanos then Inr nanos else Inl (InvalidArgument ''timestamp: out of range'')))"

definition ts_to_pb :: "timestamp \<Rightarrow> pb_timestamp" where
  "ts_to_pb t = \<lparr>pt_seconds = word_of_int (t sdiv 1000000000), pt_nanos = word_of_int (t smod 1000000000)\<rparr>"

fun unit_to_pb :: "unit_kind \<Rightarrow> pb_unit" where
  "unit_to_pb Coins = COINS"
| "unit_to_pb Contracts = CONTRACTS"
| "unit_to_pb Usd = USD"

definition id_to_pb :: "instrument_id \<Rightarrow> pb_instrument" where
  "id_to_pb i = \<lparr>pi_exchange = exchange_code (id_exchange i), pi_symbol = id_symbol i\<rparr>"

text \<open>\<open>map(to_string).unwrap_or_default()\<close>.\<close>

definition opt_text :: "'d decimal_text \<Rightarrow> 'd option \<Rightarrow> string" where
  "opt_text d v = (case v of None \<Rightarrow> [] | Some v \<Rightarrow> dec_show d v)"

definition snap_to_bar :: "'d decimal_text \<Rightarrow> 'd oi_snapshot \<Rightarrow> pb_bar" where
  "snap_to_bar d s =
     \<lparr>pb_bar_instrument = Some (id_to_pb (b_instrument s)),
      pb_bucket_ts = Some (ts_to_pb (b_bucket_ts s)),
      pb_first_recv_ts = Some (ts_to_pb (b_first_recv_ts s)),
      pb_last_recv_ts = Some (ts_to_pb (b_last_recv_ts s)),
      pb_samples = b_samples s,
      pb_native_unit = pb_unit_number (unit_to_pb (b_native_unit s)),
      pb_native_open = dec_show d (b_native_open s),
      pb_native_high = dec_show d (b_native_high s),
      pb_native_low = dec_show d (b_native_low s),
      pb_native_close = dec_show d (b_native_close s),
      pb_oi_coins_open = opt_text d (b_oi_coins_open s),
      pb_oi_coins_high = opt_text d (b_oi_coins_high s),
      pb_oi_coins_low = opt_text d (b_oi_coins_low s),
      pb_oi_coins_close = opt_text d (b_oi_coins_close s),
      pb_oi_usd_open = opt_text d (b_oi_usd_open s),
      pb_oi_usd_high = opt_text d (b_oi_usd_high s),
      pb_oi_usd_low = opt_text d (b_oi_usd_low s),
      pb_oi_usd_close = opt_text d (b_oi_usd_close s),
      pb_price_used_close = opt_text d (b_price_used_close s)\<rparr>"

definition funding_to_pb :: "'d decimal_text \<Rightarrow> 'd funding_bar \<Rightarrow> pb_funding" where
  "funding_to_pb d b =
     \<lparr>pf_instrument = Some (id_to_pb (fb_instrument b)),
      pf_bucket_ts = Some (ts_to_pb (fb_bucket_ts b)),
      pf_recv_ts = Some (ts_to_pb (fb_recv_ts b)),
      pf_rate = dec_show d (fb_rate b),
      pf_next_funding_ts = map_option ts_to_pb (fb_next_funding_ts b),
      pf_interval_hours = ucast (case fb_interval_hours b of None \<Rightarrow> 0 | Some h \<Rightarrow> h)\<rparr>"

definition funding_event_to_pb :: "'d decimal_text \<Rightarrow> 'd funding_event \<Rightarrow> pb_funding_event" where
  "funding_event_to_pb d e =
     \<lparr>pe_instrument = Some (id_to_pb (fe_instrument e)),
      pe_settlement_ts = Some (ts_to_pb (fe_settlement_ts e)),
      pe_rate = dec_show d (fe_rate e),
      pe_mark_price = opt_text d (fe_mark_price e)\<rparr>"

section \<open>Handlers\<close>

text \<open>The loop of the three \<open>latest\<close> calls: the first bad id or failing read ends it.\<close>

fun latest_loop ::
  "(instrument_id \<Rightarrow> core_error + 'r option) \<Rightarrow> ('r \<Rightarrow> 'm) \<Rightarrow> 'm list \<Rightarrow> pb_instrument list \<Rightarrow> status + 'm list" where
  "latest_loop read conv acc [] = Inr acc"
| "latest_loop read conv acc (pi # pis) =
     (case pb_to_id pi of
        Inl e \<Rightarrow> Inl e
      | Inr i \<Rightarrow>
          (case read i of
             Inr (Some r) \<Rightarrow> latest_loop read conv (acc @ [conv r]) pis
           | Inr None \<Rightarrow> latest_loop read conv acc pis
           | Inl e \<Rightarrow> Inl (Internal (show_core_error e))))"

definition grpc_latest :: "'d decimal_text \<Rightarrow> ('s, 'd) oi_repository \<Rightarrow> 's \<Rightarrow> pb_instrument list \<Rightarrow> status + pb_bar list" where
  "grpc_latest d repo st insts = latest_loop (\<lambda>i. latest_snapshot repo i st) (snap_to_bar d) [] insts"

definition grpc_latest_funding ::
  "'d decimal_text \<Rightarrow> ('s, 'd) oi_repository \<Rightarrow> 's \<Rightarrow> pb_instrument list \<Rightarrow> status + pb_funding list" where
  "grpc_latest_funding d repo st insts = latest_loop (\<lambda>i. latest_funding repo i st) (funding_to_pb d) [] insts"

definition grpc_latest_funding_event ::
  "'d decimal_text \<Rightarrow> ('s, 'd) oi_repository \<Rightarrow> 's \<Rightarrow> pb_instrument list \<Rightarrow> status + pb_funding_event list" where
  "grpc_latest_funding_event d repo st insts =
     latest_loop (\<lambda>i. latest_funding_event repo i st) (funding_event_to_pb d) [] insts"

record pb_range_request =
  rr_instrument :: "pb_instrument option"
  rr_from :: "pb_timestamp option"
  rr_to :: "pb_timestamp option"

definition range_args ::
  "(timestamp \<Rightarrow> bool) \<Rightarrow> pb_range_request \<Rightarrow> status + (instrument_id \<times> timestamp \<times> timestamp)" where
  "range_args in_calendar req =
     (case rr_instrument req of
        None \<Rightarrow> Inl (InvalidArgument ''instrument required'')
      | Some pi \<Rightarrow>
     (case pb_to_id pi of
        Inl e \<Rightarrow> Inl e
      | Inr i \<Rightarrow>
     (case pb_ts in_calendar (rr_from req) of
        Inl e \<Rightarrow> Inl e
      | Inr a \<Rightarrow>
     (case pb_ts in_calendar (rr_to req) of
        Inl e \<Rightarrow> Inl e
      | Inr z \<Rightarrow> Inr (i, a, z)))))"

definition grpc_range ::
  "(timestamp \<Rightarrow> bool) \<Rightarrow> 'd decimal_text \<Rightarrow> ('s, 'd) oi_repository \<Rightarrow> 's \<Rightarrow> pb_range_request \<Rightarrow> status + pb_bar list" where
  "grpc_range in_calendar d repo st req =
     (case range_args in_calendar req of
        Inl e \<Rightarrow> Inl e
      | Inr (i, a, z) \<Rightarrow>
          (case range_snapshots repo i a z st of
             Inl e \<Rightarrow> Inl (Internal (show_core_error e))
           | Inr snaps \<Rightarrow> Inr (map (snap_to_bar d) snaps)))"

definition grpc_funding_range ::
  "(timestamp \<Rightarrow> bool) \<Rightarrow> 'd decimal_text \<Rightarrow> ('s, 'd) oi_repository \<Rightarrow> 's \<Rightarrow> pb_range_request \<Rightarrow> status + pb_funding list" where
  "grpc_funding_range in_calendar d repo st req =
     (case range_args in_calendar req of
        Inl e \<Rightarrow> Inl e
      | Inr (i, a, z) \<Rightarrow>
          (case funding_range repo i a z st of
             Inl e \<Rightarrow> Inl (Internal (show_core_error e))
           | Inr bars \<Rightarrow> Inr (map (funding_to_pb d) bars)))"

definition grpc_funding_event_range ::
  "(timestamp \<Rightarrow> bool) \<Rightarrow> 'd decimal_text \<Rightarrow> ('s, 'd) oi_repository \<Rightarrow> 's \<Rightarrow> pb_range_request \<Rightarrow> status + pb_funding_event list" where
  "grpc_funding_event_range in_calendar d repo st req =
     (case range_args in_calendar req of
        Inl e \<Rightarrow> Inl e
      | Inr (i, a, z) \<Rightarrow>
          (case funding_events_range repo i a z st of
             Inl e \<Rightarrow> Inl (Internal (show_core_error e))
           | Inr events \<Rightarrow> Inr (map (funding_event_to_pb d) events)))"

text \<open>
  \<open>Subscribe\<close>: \<open>connect\<close> is what the Redis subscription yields, an error or the snapshots of
  the firehose channel in order; the result is what the client's stream carries.
\<close>

fun collect_ids :: "pb_instrument list \<Rightarrow> status + instrument_id list" where
  "collect_ids [] = Inr []"
| "collect_ids (pi # pis) =
     (case pb_to_id pi of
        Inl e \<Rightarrow> Inl e
      | Inr i \<Rightarrow> map_sum id (\<lambda>is. i # is) (collect_ids pis))"

definition grpc_subscribe ::
  "'d decimal_text \<Rightarrow> (core_error + 'd oi_snapshot list) \<Rightarrow> pb_instrument list \<Rightarrow> status + (status + pb_bar) list" where
  "grpc_subscribe d connect insts =
     (case collect_ids insts of
        Inl e \<Rightarrow> Inl e
      | Inr ids \<Rightarrow>
          (let filter_set = set ids
           in Inr (case connect of
                Inl e \<Rightarrow> [Inl (Unavailable (''pubsub: '' @ show_core_error e))]
              | Inr snaps \<Rightarrow>
                  map (\<lambda>s. Inr (snap_to_bar d s))
                    (filter (\<lambda>s. \<not> (filter_set \<noteq> {} \<and> b_instrument s \<notin> filter_set)) snaps))))"

section \<open>Nothing is lost on the wire\<close>

text \<open>Instants whose seconds are an \<open>i64\<close>; every instant of the calendar is one.\<close>

definition wire_ts :: "timestamp \<Rightarrow> bool" where
  "wire_ts t \<longleftrightarrow> \<bar>t\<bar> < 2 ^ 63 * 1000000000"

lemma sdiv_smod_parts:
  fixes t :: int
  shows "(t sdiv 1000000000) * 1000000000 + t smod 1000000000 = t"
    "\<bar>t sdiv 1000000000\<bar> = \<bar>t\<bar> div 1000000000" "\<bar>t smod 1000000000\<bar> < 1000000000"
proof -
  show "(t sdiv 1000000000) * 1000000000 + t smod 1000000000 = t"
    by (rule sdiv_mult_smod_eq)
  show "\<bar>t sdiv 1000000000\<bar> = \<bar>t\<bar> div 1000000000"
    by (cases "t \<ge> 0") (auto simp: signed_divide_int_def abs_mult sgn_if)
  show "\<bar>t smod 1000000000\<bar> < 1000000000"
    by (cases "t \<ge> 0") (auto simp: signed_modulo_int_def signed_divide_int_def sgn_if minus_mult_div_eq_mod)
qed

lemma ts_to_pb_parts:
  assumes "wire_ts t"
  shows "sint (pt_seconds (ts_to_pb t)) * 1000000000 + sint (pt_nanos (ts_to_pb t)) = t"
proof -
  have "\<bar>t\<bar> div 1000000000 < 2 ^ 63" using assms by (auto simp: wire_ts_def)
  then have "\<bar>t sdiv 1000000000\<bar> < 2 ^ 63" by (simp only: sdiv_smod_parts)
  then have "sint (word_of_int (t sdiv 1000000000) :: u64) = t sdiv 1000000000"
    by (auto simp: signed_of_int signed_take_bit_int_eq_self_iff abs_less_iff)
  moreover have "sint (word_of_int (t smod 1000000000) :: u32) = t smod 1000000000"
    using sdiv_smod_parts(3) [of t] by (auto simp: signed_of_int signed_take_bit_int_eq_self_iff abs_less_iff)
  ultimately show ?thesis by (simp add: ts_to_pb_def sdiv_smod_parts(1))
qed

lemma pb_ts_round_trip: "wire_ts t \<Longrightarrow> in_calendar t \<Longrightarrow> pb_ts in_calendar (Some (ts_to_pb t)) = Inr t"
  by (simp add: pb_ts_def ts_to_pb_parts)

lemma pb_id_round_trip: "pb_to_id (id_to_pb i) = Inr i"
  by (simp add: pb_to_id_def id_to_pb_def exchange_from_str_code_lower)

text \<open>A client's reading of a bar, by the conventions \<open>oi.proto\<close> states for its fields.\<close>

definition unit_of_pb :: "u32 \<Rightarrow> unit_kind option" where
  "unit_of_pb n = (if n = 1 then Some Coins else if n = 2 then Some Contracts else if n = 3 then Some Usd else None)"

definition opt_of_text :: "'d decimal_text \<Rightarrow> string \<Rightarrow> 'd option" where
  "opt_of_text d s = (if s = [] then None else case dec_parse d s of Inl e \<Rightarrow> None | Inr v \<Rightarrow> Some v)"

definition read_ts :: "pb_timestamp option \<Rightarrow> timestamp option" where
  "read_ts t = map_option (\<lambda>t. sint (pt_seconds t) * 1000000000 + sint (pt_nanos t)) t"

definition ok_part :: "'e + 'a \<Rightarrow> 'a option" where
  "ok_part r = (case r of Inl e \<Rightarrow> None | Inr a \<Rightarrow> Some a)"

definition read_bar :: "'d decimal_text \<Rightarrow> pb_bar \<Rightarrow> 'd oi_snapshot option" where
  "read_bar d b =
     Option.bind (Option.bind (pb_bar_instrument b) (\<lambda>p. ok_part (pb_to_id p))) (\<lambda>i.
     Option.bind (read_ts (pb_bucket_ts b)) (\<lambda>bucket.
     Option.bind (read_ts (pb_first_recv_ts b)) (\<lambda>recv1.
     Option.bind (read_ts (pb_last_recv_ts b)) (\<lambda>recv2.
     Option.bind (unit_of_pb (pb_native_unit b)) (\<lambda>unit.
     Option.bind (ok_part (dec_parse d (pb_native_open b))) (\<lambda>op.
     Option.bind (ok_part (dec_parse d (pb_native_high b))) (\<lambda>hi.
     Option.bind (ok_part (dec_parse d (pb_native_low b))) (\<lambda>lo.
     Option.bind (ok_part (dec_parse d (pb_native_close b))) (\<lambda>cl.
       Some \<lparr>b_instrument = i, b_bucket_ts = bucket, b_first_recv_ts = recv1, b_last_recv_ts = recv2,
             b_samples = pb_samples b, b_native_unit = unit,
             b_native_open = op, b_native_high = hi, b_native_low = lo, b_native_close = cl,
             b_oi_coins_open = opt_of_text d (pb_oi_coins_open b),
             b_oi_coins_high = opt_of_text d (pb_oi_coins_high b),
             b_oi_coins_low = opt_of_text d (pb_oi_coins_low b),
             b_oi_coins_close = opt_of_text d (pb_oi_coins_close b),
             b_oi_usd_open = opt_of_text d (pb_oi_usd_open b),
             b_oi_usd_high = opt_of_text d (pb_oi_usd_high b),
             b_oi_usd_low = opt_of_text d (pb_oi_usd_low b),
             b_oi_usd_close = opt_of_text d (pb_oi_usd_close b),
             b_price_used_close = opt_of_text d (pb_price_used_close b)\<rparr>)))))))))"

definition decimals_print :: "'d decimal_text \<Rightarrow> bool" where
  "decimals_print d \<longleftrightarrow> decimal_roundtrip d \<and> (\<forall>v. dec_show d v \<noteq> [])"

lemma opt_text_round_trip: "decimals_print d \<Longrightarrow> opt_of_text d (opt_text d v) = v"
  by (cases v) (simp_all add: opt_of_text_def opt_text_def decimals_print_def decimal_roundtrip_def)

lemma unit_round_trip: "unit_of_pb (pb_unit_number (unit_to_pb u)) = Some u"
  by (cases u) (simp_all add: unit_of_pb_def)

lemma read_ts_round_trip: "wire_ts t \<Longrightarrow> read_ts (Some (ts_to_pb t)) = Some t"
  by (simp add: read_ts_def ts_to_pb_parts)

text \<open>
  The gRPC bar is lossless. Reading the protobuf bar by the conventions of
  \<open>oi.proto\<close> (empty string is null, seconds plus nanoseconds, the numbers of \<open>Unit\<close>) gives
  back the snapshot the server converted, whatever its instrument, times (before or after
  the epoch), unit and present or absent values, provided decimals print as a non-empty
  text that parses back.
\<close>

theorem grpc_bar_is_lossless:
  assumes "decimals_print d"
    and "wire_ts (b_bucket_ts s)" "wire_ts (b_first_recv_ts s)" "wire_ts (b_last_recv_ts s)"
  shows "read_bar d (snap_to_bar d s) = Some s"
  using assms
  by (simp add: read_bar_def snap_to_bar_def pb_id_round_trip read_ts_round_trip unit_round_trip
      opt_text_round_trip ok_part_def) (simp add: decimals_print_def decimal_roundtrip_def)

theorem grpc_bar_is_lossless_witness:
  "read_bar (unary_text\<lparr>dec_show := (\<lambda>n. CHR ''1'' # replicate n CHR ''1''), dec_parse := (\<lambda>s. Inr (length s - 1))\<rparr>)
     (snap_to_bar (unary_text\<lparr>dec_show := (\<lambda>n. CHR ''1'' # replicate n CHR ''1''), dec_parse := (\<lambda>s. Inr (length s - 1))\<rparr>)
       (start_from_sample \<lparr>s_instrument = new_instrument Okx ''A'', s_bucket_ts = -1500000000, s_recv_ts = 5, s_native_value = 7,
         s_native_unit = Coins, s_oi_coins = Some 7, s_oi_usd = None, s_price_used = None\<rparr>))
   = Some (start_from_sample \<lparr>s_instrument = new_instrument Okx ''A'', s_bucket_ts = -1500000000, s_recv_ts = 5, s_native_value = 7,
       s_native_unit = Coins, s_oi_coins = Some 7, s_oi_usd = None, s_price_used = None\<rparr>)"
  by (rule grpc_bar_is_lossless)
     (simp_all add: decimals_print_def decimal_roundtrip_def unary_text_def wire_ts_def start_from_sample_def)

end
