(* ===== verification/Serde.thy ===== *)
theory Serde
  imports Json Timestamps "HOL-Library.Monad_Syntax"
begin

text \<open>
  What the derived deserializers of the adapters accept, field by field: a required field, a
  field with \<open>#[serde(default)]\<close> (missing is the default, but \<open>null\<close> and a wrong kind are
  errors), an \<open>Option\<close> field (missing and \<open>null\<close> are \<open>None\<close>). \<open>None\<close> is a decoding
  error. A number keeps the text \<open>serde_json::Number\<close> prints, so an integer field takes the
  texts that are integers in range. A struct is read from an object only.

  Also the two conversions of millisecond timestamps the adapters share.
\<close>

section \<open>Fields\<close>

text \<open>\<open>str::parse\<close> at a signed type of \<open>bits\<close> bits.\<close>

definition parse_sint :: "nat \<Rightarrow> string \<Rightarrow> int option" where
  "parse_sint bits s =
     (let (neg, t) = (case s of c # cs \<Rightarrow> if c = CHR ''-'' then (True, cs)
                                          else if c = CHR ''+'' then (False, cs) else (False, s)
                      | [] \<Rightarrow> (False, s))
      in if t = [] then None
         else (case parse_digits 0 t of
                 None \<Rightarrow> None
               | Some n \<Rightarrow> (let k = (if neg then - int n else int n)
                            in if - (2 ^ (bits - 1)) \<le> k \<and> k < 2 ^ (bits - 1) then Some k else None)))"

fun is_object :: "json \<Rightarrow> bool" where
  "is_object (JObject kvs) = True"
| "is_object JNull = False"
| "is_object (JBool b) = False"
| "is_object (JNumber n) = False"
| "is_object (JString s) = False"
| "is_object (JArray vs) = False"

fun as_bool :: "json \<Rightarrow> bool option" where
  "as_bool (JBool b) = Some b"
| "as_bool JNull = None"
| "as_bool (JNumber n) = None"
| "as_bool (JString s) = None"
| "as_bool (JArray vs) = None"
| "as_bool (JObject kvs) = None"

fun as_number :: "json \<Rightarrow> string option" where
  "as_number (JNumber n) = Some n"
| "as_number JNull = None"
| "as_number (JBool b) = None"
| "as_number (JString s) = None"
| "as_number (JArray vs) = None"
| "as_number (JObject kvs) = None"

definition as_i64 :: "json \<Rightarrow> int option" where
  "as_i64 v = Option.bind (as_number v) (parse_sint 64)"

definition as_i32 :: "json \<Rightarrow> int option" where
  "as_i32 v = Option.bind (as_number v) (parse_sint 32)"

definition as_u8 :: "json \<Rightarrow> u8 option" where
  "as_u8 v = map_option of_nat (Option.bind (as_number v) (parse_uint 8))"

definition as_u32 :: "json \<Rightarrow> u32 option" where
  "as_u32 v = map_option of_nat (Option.bind (as_number v) (parse_uint 32))"

definition required :: "(json \<Rightarrow> 'a option) \<Rightarrow> json \<Rightarrow> string \<Rightarrow> 'a option" where
  "required get v k = Option.bind (json_get v k) get"

definition defaulted :: "'a \<Rightarrow> (json \<Rightarrow> 'a option) \<Rightarrow> json \<Rightarrow> string \<Rightarrow> 'a option" where
  "defaulted d get v k = (case json_get v k of None \<Rightarrow> Some d | Some w \<Rightarrow> get w)"

definition optional :: "(json \<Rightarrow> 'a option) \<Rightarrow> json \<Rightarrow> string \<Rightarrow> 'a option option" where
  "optional get v k =
     (case json_get v k of None \<Rightarrow> Some None | Some JNull \<Rightarrow> Some None | Some w \<Rightarrow> map_option Some (get w))"

fun sequence :: "('a \<Rightarrow> 'b option) \<Rightarrow> 'a list \<Rightarrow> 'b list option" where
  "sequence f [] = Some []"
| "sequence f (x # xs) =
     (case f x of None \<Rightarrow> None | Some y \<Rightarrow> map_option ((#) y) (sequence f xs))"

definition vec_of :: "(json \<Rightarrow> 'a option) \<Rightarrow> json \<Rightarrow> 'a list option" where
  "vec_of f v = Option.bind (as_array v) (sequence f)"

definition struct :: "(json \<Rightarrow> 'a option) \<Rightarrow> json \<Rightarrow> 'a option" where
  "struct f v = (if is_object v then f v else None)"

lemma sequence_Some_iff:
  "sequence f xs = Some ys \<longleftrightarrow> length ys = length xs \<and> (\<forall>i < length xs. f (xs ! i) = Some (ys ! i))"
proof (induction xs arbitrary: ys)
  case (Cons x xs)
  show ?case
  proof (cases ys)
    case (Cons y ys')
    then show ?thesis using Cons.IH [of ys'] by (auto split: option.splits simp: nth_Cons' All_less_Suc2)
  qed (auto split: option.splits)
qed auto

text \<open>A row that does not decode fails the whole array: there is no partial result.\<close>

lemma sequence_None_iff: "sequence f xs = None \<longleftrightarrow> (\<exists>x \<in> set xs. f x = None)"
  by (induction xs) (auto split: option.splits)

section \<open>Millisecond timestamps\<close>

text \<open>
  \<open>OffsetDateTime::from_unix_timestamp_nanos(i128::from(ms) * 1_000_000)\<close>: an error outside the
  calendar of the time library (the years -9999 to 9999).
\<close>

definition ts_of_ms :: "int \<Rightarrow> timestamp option" where
  "ts_of_ms ms =
     (let t = ms * 1000000
      in if seconds (- 377705116800) \<le> t \<and> t < seconds 253402300800 then Some t else None)"

text \<open>\<open>since.unix_timestamp_nanos() / 1_000_000\<close>, a division that truncates, and its decimal text.\<close>

definition trunc_div :: "int \<Rightarrow> int \<Rightarrow> int" where
  "trunc_div a b = sgn a * sgn b * (\<bar>a\<bar> div \<bar>b\<bar>)"

definition ms_of_ts :: "timestamp \<Rightarrow> int" where
  "ms_of_ts t = trunc_div t 1000000"

definition show_int :: "int \<Rightarrow> string" where
  "show_int k = (if k < 0 then ''-'' @ show_nat (nat (- k)) else show_nat (nat k))"

text \<open>\<open>parse::<i64>()\<close> of a field, positive, as a timestamp.\<close>

definition parse_ms :: "string \<Rightarrow> timestamp option" where
  "parse_ms s = Option.bind (parse_sint 64 s) ts_of_ms"

definition next_funding :: "int \<Rightarrow> timestamp option" where
  "next_funding ms = (if 0 < ms then ts_of_ms ms else None)"

lemma ts_of_ms_SomeD: "ts_of_ms ms = Some t \<Longrightarrow> t = ms * 1000000"
  by (simp add: ts_of_ms_def Let_def split: if_splits)

lemma ms_of_ts_of_ms: "ts_of_ms ms = Some t \<Longrightarrow> ms_of_ts t = ms"
  by (drule ts_of_ms_SomeD) (auto simp: ms_of_ts_def trunc_div_def sgn_if abs_if)

lemma parse_sint_show_int:
  assumes "- (2 ^ 63) \<le> k" "k < 2 ^ 63"
  shows "parse_sint 64 (show_int k) = Some k"
proof (cases "k < 0")
  case True
  with assms show ?thesis by (simp add: parse_sint_def show_int_def parse_digits_show_nat Let_def)
next
  case False
  obtain c cs where s: "show_nat (nat k) = c # cs" by (cases "show_nat (nat k)") auto
  have "CHR ''+'' \<notin> set (show_nat (nat k))" "CHR ''-'' \<notin> set (show_nat (nat k))"
    by (rule show_nat_no_char; simp)+
  with s have "c \<noteq> CHR ''+''" "c \<noteq> CHR ''-''" by auto
  with s False assms show ?thesis
    using parse_digits_show_nat [of "nat k"] by (simp add: parse_sint_def show_int_def Let_def)
qed

end
