(* ===== verification/Wire.thy ===== *)
theory Wire
  imports Serde Api_Ws Composite
begin

text \<open>
  The derived \<open>Serialize\<close> and \<open>Deserialize\<close> of the bar (\<open>oi-core/src/snapshot.rs\<close>,
  \<open>instrument.rs\<close>, \<open>exchange.rs\<close>, \<open>unit.rs\<close>), to and from a tree of fields. The same tree is
  printed as JSON on the WebSocket and as MessagePack (with field names) in Redis, on the pub/sub
  channels and in the write-ahead log. How \<open>rust_decimal\<close> and \<open>time\<close> write a value is the
  parameter \<open>'d leaf_codec\<close>; writing a time fails outside the years RFC 3339 has.
\<close>

section \<open>Names of variants\<close>

text \<open>\<open>#[serde(rename_all = "snake_case")]\<close>.\<close>

definition is_upper :: "char \<Rightarrow> bool" where
  "is_upper c \<longleftrightarrow> (65 :: nat) \<le> of_char c \<and> of_char c \<le> (90 :: nat)"

fun snake_case :: "string \<Rightarrow> string" where
  "snake_case [] = []"
| "snake_case (c # cs) = lower_char c # concat (map (\<lambda>d. if is_upper d then [CHR ''_'', lower_char d] else [d]) cs)"

fun exchange_variant :: "exchange \<Rightarrow> string" where
  "exchange_variant Binance = ''Binance''"
| "exchange_variant Bybit = ''Bybit''"
| "exchange_variant Okx = ''Okx''"
| "exchange_variant BingX = ''BingX''"
| "exchange_variant KuCoin = ''KuCoin''"
| "exchange_variant Mexc = ''Mexc''"
| "exchange_variant Bitget = ''Bitget''"
| "exchange_variant Hyperliquid = ''Hyperliquid''"
| "exchange_variant Aster = ''Aster''"

definition exchange_wire :: "exchange \<Rightarrow> string" where
  "exchange_wire ex = snake_case (exchange_variant ex)"

definition exchange_of_wire :: "json \<Rightarrow> exchange option" where
  "exchange_of_wire v = Option.bind (as_str v) (\<lambda>s. find (\<lambda>ex. exchange_wire ex = s) all_exchanges)"

fun unit_variant :: "unit_kind \<Rightarrow> string" where
  "unit_variant Coins = ''Coins''"
| "unit_variant Usd = ''Usd''"
| "unit_variant Contracts = ''Contracts''"

definition unit_wire :: "unit_kind \<Rightarrow> string" where
  "unit_wire u = snake_case (unit_variant u)"

definition unit_of_wire :: "json \<Rightarrow> unit_kind option" where
  "unit_of_wire v = Option.bind (as_str v) (\<lambda>s. find (\<lambda>u. unit_wire u = s) [Coins, Usd, Contracts])"

section \<open>The bar\<close>

record 'd leaf_codec =
  put_dec :: "'d \<Rightarrow> json"
  get_dec :: "json \<Rightarrow> 'd option"
  put_ts :: "timestamp \<Rightarrow> json option"
  get_ts :: "json \<Rightarrow> timestamp option"

definition put_opt :: "('a \<Rightarrow> json) \<Rightarrow> 'a option \<Rightarrow> json" where
  "put_opt f x = (case x of None \<Rightarrow> JNull | Some a \<Rightarrow> f a)"

definition put_instrument :: "instrument_id \<Rightarrow> json" where
  "put_instrument i =
     JObject [(''exchange'', JString (exchange_wire (id_exchange i))), (''symbol'', JString (id_symbol i))]"

definition get_instrument :: "json \<Rightarrow> instrument_id option" where
  "get_instrument = struct (\<lambda>v. do {
     ex \<leftarrow> required exchange_of_wire v ''exchange'';
     symb \<leftarrow> required as_str v ''symbol'';
     Some \<lparr>id_exchange = ex, id_symbol = symb\<rparr> })"

definition put_snapshot :: "'d leaf_codec \<Rightarrow> 'd oi_snapshot \<Rightarrow> json option" where
  "put_snapshot k s = do {
     bucket \<leftarrow> put_ts k (b_bucket_ts s);
     first_recv \<leftarrow> put_ts k (b_first_recv_ts s);
     last_recv \<leftarrow> put_ts k (b_last_recv_ts s);
     Some (JObject
       [(''instrument'', put_instrument (b_instrument s)),
        (''bucket_ts'', bucket), (''first_recv_ts'', first_recv), (''last_recv_ts'', last_recv),
        (''samples'', JNumber (show_nat (unat (b_samples s)))),
        (''native_unit'', JString (unit_wire (b_native_unit s))),
        (''native_open'', put_dec k (b_native_open s)), (''native_high'', put_dec k (b_native_high s)),
        (''native_low'', put_dec k (b_native_low s)), (''native_close'', put_dec k (b_native_close s)),
        (''oi_coins_open'', put_opt (put_dec k) (b_oi_coins_open s)),
        (''oi_coins_high'', put_opt (put_dec k) (b_oi_coins_high s)),
        (''oi_coins_low'', put_opt (put_dec k) (b_oi_coins_low s)),
        (''oi_coins_close'', put_opt (put_dec k) (b_oi_coins_close s)),
        (''oi_usd_open'', put_opt (put_dec k) (b_oi_usd_open s)),
        (''oi_usd_high'', put_opt (put_dec k) (b_oi_usd_high s)),
        (''oi_usd_low'', put_opt (put_dec k) (b_oi_usd_low s)),
        (''oi_usd_close'', put_opt (put_dec k) (b_oi_usd_close s)),
        (''price_used_close'', put_opt (put_dec k) (b_price_used_close s))]) }"

definition get_snapshot :: "'d leaf_codec \<Rightarrow> json \<Rightarrow> 'd oi_snapshot option" where
  "get_snapshot k = struct (\<lambda>v. do {
     inst \<leftarrow> required get_instrument v ''instrument'';
     bucket \<leftarrow> required (get_ts k) v ''bucket_ts'';
     first_recv \<leftarrow> required (get_ts k) v ''first_recv_ts'';
     last_recv \<leftarrow> required (get_ts k) v ''last_recv_ts'';
     n \<leftarrow> required as_u32 v ''samples'';
     u \<leftarrow> required unit_of_wire v ''native_unit'';
     no \<leftarrow> required (get_dec k) v ''native_open'';
     nh \<leftarrow> required (get_dec k) v ''native_high'';
     nl \<leftarrow> required (get_dec k) v ''native_low'';
     nc \<leftarrow> required (get_dec k) v ''native_close'';
     co \<leftarrow> optional (get_dec k) v ''oi_coins_open'';
     ch \<leftarrow> optional (get_dec k) v ''oi_coins_high'';
     cl \<leftarrow> optional (get_dec k) v ''oi_coins_low'';
     cc \<leftarrow> optional (get_dec k) v ''oi_coins_close'';
     uo \<leftarrow> optional (get_dec k) v ''oi_usd_open'';
     uh \<leftarrow> optional (get_dec k) v ''oi_usd_high'';
     ul \<leftarrow> optional (get_dec k) v ''oi_usd_low'';
     uc \<leftarrow> optional (get_dec k) v ''oi_usd_close'';
     p \<leftarrow> optional (get_dec k) v ''price_used_close'';
     Some \<lparr>b_instrument = inst, b_bucket_ts = bucket, b_first_recv_ts = first_recv, b_last_recv_ts = last_recv,
           b_samples = n, b_native_unit = u, b_native_open = no, b_native_high = nh, b_native_low = nl, b_native_close = nc,
           b_oi_coins_open = co, b_oi_coins_high = ch, b_oi_coins_low = cl, b_oi_coins_close = cc,
           b_oi_usd_open = uo, b_oi_usd_high = uh, b_oi_usd_low = ul, b_oi_usd_close = uc,
           b_price_used_close = p\<rparr> })"

section \<open>The encodings built on it\<close>

text \<open>
  \<open>rmp_serde::to_vec_named\<close> and \<open>from_slice\<close>, and \<open>serde_json::to_string\<close>, are a printer and a
  parser of field trees; \<open>rd\<close> may refuse any bytes.
\<close>

record tree_codec =
  write_tree :: "json \<Rightarrow> u8 list"
  read_tree :: "u8 list \<Rightarrow> json option"

definition or_error :: "string \<Rightarrow> 'a option \<Rightarrow> string + 'a" where
  "or_error e x = (case x of None \<Rightarrow> Inl e | Some a \<Rightarrow> Inr a)"

lemma or_error_Inr [simp]: "or_error e x = Inr a \<longleftrightarrow> x = Some a"
  by (simp add: or_error_def split: option.split)

definition wire_snap_codec :: "'d leaf_codec \<Rightarrow> tree_codec \<Rightarrow> 'd snap_codec" where
  "wire_snap_codec k m =
     \<lparr>enc_snap = (\<lambda>s. or_error ''encode'' (map_option (write_tree m) (put_snapshot k s))),
      dec_snap = (\<lambda>bytes. or_error ''decode'' (Option.bind (read_tree m bytes) (get_snapshot k)))\<rparr>"

definition wire_codec :: "'d leaf_codec \<Rightarrow> tree_codec \<Rightarrow> (u8 list \<Rightarrow> u32) \<Rightarrow> 'd codec" where
  "wire_codec k m crc =
     \<lparr>enc_batch = (\<lambda>ss. or_error ''encode'' (map_option (\<lambda>vs. write_tree m (JArray vs)) (sequence (put_snapshot k) ss))),
      dec_batch = (\<lambda>bytes. or_error ''decode'' (Option.bind (read_tree m bytes) (vec_of (get_snapshot k)))),
      crc32 = crc\<rparr>"

definition ws_text :: "'d leaf_codec \<Rightarrow> (json \<Rightarrow> string) \<Rightarrow> 'd oi_snapshot \<Rightarrow> string option" where
  "ws_text k print s = map_option print (put_snapshot k s)"

section \<open>Round trips\<close>

text \<open>What is relied on: decimals and times read back as they were written, and no decimal is written as \<open>null\<close>.\<close>

definition leaves_read_back :: "'d leaf_codec \<Rightarrow> bool" where
  "leaves_read_back k \<longleftrightarrow>
     (\<forall>d. get_dec k (put_dec k d) = Some d \<and> put_dec k d \<noteq> JNull) \<and> (\<forall>t v. put_ts k t = Some v \<longrightarrow> get_ts k v = Some t)"

definition written :: "'d leaf_codec \<Rightarrow> 'd oi_snapshot \<Rightarrow> 'd oi_snapshot list \<Rightarrow> json set" where
  "written k s ss = set_option (put_snapshot k s) \<union> JArray ` set_option (sequence (put_snapshot k) ss)"

definition trees_read_back :: "tree_codec \<Rightarrow> json set \<Rightarrow> bool" where
  "trees_read_back m T \<longleftrightarrow> (\<forall>v \<in> T. read_tree m (write_tree m v) = Some v)"

lemma exchange_wire_names:
  "map exchange_wire all_exchanges =
     [''binance'', ''bybit'', ''okx'', ''bing_x'', ''ku_coin'', ''mexc'', ''bitget'', ''hyperliquid'', ''aster'']"
  by code_simp

lemma exchange_wire_eq:
  "exchange_wire ex = (if ex = BingX then ''bing_x'' else if ex = KuCoin then ''ku_coin'' else exchange_code ex)"
  using exchange_wire_names by (cases ex) (simp_all add: all_exchanges_def)

lemma unit_wire_simps: "unit_wire Coins = ''coins''" "unit_wire Usd = ''usd''" "unit_wire Contracts = ''contracts''"
  by code_simp+

lemma exchange_of_wire [simp]: "exchange_of_wire (JString (exchange_wire ex)) = Some ex"
  by (cases ex) (simp_all add: exchange_of_wire_def exchange_wire_eq all_exchanges_def)

lemma unit_of_wire [simp]: "unit_of_wire (JString (unit_wire u)) = Some u"
  by (cases u) (simp_all add: unit_of_wire_def unit_wire_simps)

lemma get_put_instrument [simp]: "get_instrument (put_instrument i) = Some i"
  by (simp add: get_instrument_def put_instrument_def struct_def required_def)

lemma as_u32_number [simp]: "as_u32 (JNumber (show_nat (unat n))) = Some n"
  using unsigned_less [of n] by (simp add: as_u32_def parse_uint_show_nat)

lemma optional_present: "json_get v f = Some w \<Longrightarrow> w \<noteq> JNull \<Longrightarrow> optional g v f = map_option Some (g w)"
  by (cases w) (simp_all add: optional_def)

lemma optional_put_opt:
  assumes "leaves_read_back k" "json_get v f = Some (put_opt (put_dec k) x)"
  shows "optional (get_dec k) v f = Some x"
proof (cases x)
  case None
  with assms(2) show ?thesis by (simp add: optional_def put_opt_def)
next
  case (Some d)
  with assms show ?thesis by (simp add: leaves_read_back_def put_opt_def optional_present)
qed

lemma required_dec:
  "leaves_read_back k \<Longrightarrow> json_get v f = Some (put_dec k d) \<Longrightarrow> required (get_dec k) v f = Some d"
  by (simp add: leaves_read_back_def required_def)

lemma required_ts:
  "leaves_read_back k \<Longrightarrow> json_get v f = Some w \<Longrightarrow> put_ts k t = Some w \<Longrightarrow> required (get_ts k) v f = Some t"
  by (simp add: leaves_read_back_def required_def)

lemma get_put_snapshot:
  assumes k: "leaves_read_back k" and v: "put_snapshot k s = Some v"
  shows "get_snapshot k v = Some s"
proof -
  obtain bucket first_recv last_recv where t: "put_ts k (b_bucket_ts s) = Some bucket"
      "put_ts k (b_first_recv_ts s) = Some first_recv" "put_ts k (b_last_recv_ts s) = Some last_recv"
    using v by (auto simp: put_snapshot_def bind_eq_Some_conv)
  note fields = required_ts [OF k _ t(1)] required_ts [OF k _ t(2)] required_ts [OF k _ t(3)]
    required_dec [OF k] optional_put_opt [OF k]
  have "is_object v" using v t by (auto simp: put_snapshot_def)
  moreover have "required get_instrument v ''instrument'' = Some (b_instrument s)"
    "required as_u32 v ''samples'' = Some (b_samples s)" "required unit_of_wire v ''native_unit'' = Some (b_native_unit s)"
    "required (get_ts k) v ''bucket_ts'' = Some (b_bucket_ts s)"
    "required (get_ts k) v ''first_recv_ts'' = Some (b_first_recv_ts s)"
    "required (get_ts k) v ''last_recv_ts'' = Some (b_last_recv_ts s)"
    using v t by (auto simp: put_snapshot_def required_def intro!: fields [unfolded required_def])
  moreover have "required (get_dec k) v ''native_open'' = Some (b_native_open s)"
    "required (get_dec k) v ''native_high'' = Some (b_native_high s)"
    "required (get_dec k) v ''native_low'' = Some (b_native_low s)"
    "required (get_dec k) v ''native_close'' = Some (b_native_close s)"
    using v t by (auto simp: put_snapshot_def intro!: fields)
  moreover have "optional (get_dec k) v ''oi_coins_open'' = Some (b_oi_coins_open s)"
    "optional (get_dec k) v ''oi_coins_high'' = Some (b_oi_coins_high s)"
    "optional (get_dec k) v ''oi_coins_low'' = Some (b_oi_coins_low s)"
    "optional (get_dec k) v ''oi_coins_close'' = Some (b_oi_coins_close s)"
    using v t by (auto simp: put_snapshot_def intro!: fields)
  moreover have "optional (get_dec k) v ''oi_usd_open'' = Some (b_oi_usd_open s)"
    "optional (get_dec k) v ''oi_usd_high'' = Some (b_oi_usd_high s)"
    "optional (get_dec k) v ''oi_usd_low'' = Some (b_oi_usd_low s)"
    "optional (get_dec k) v ''oi_usd_close'' = Some (b_oi_usd_close s)"
    "optional (get_dec k) v ''price_used_close'' = Some (b_price_used_close s)"
    using v t by (auto simp: put_snapshot_def intro!: fields)
  ultimately show ?thesis by (simp add: get_snapshot_def struct_def)
qed

lemma sequence_read_back:
  "(\<And>x y. f x = Some y \<Longrightarrow> g y = Some x) \<Longrightarrow> sequence f xs = Some ys \<Longrightarrow> sequence g ys = Some xs"
  by (induction xs arbitrary: ys) (auto split: option.splits)

text \<open>
  C16. A bar survives every way it is carried: read back as a field tree (JSON), from the
  MessagePack bytes of the cache and the channels, and as part of a batch from the payload of a
  log entry, it is the bar that was written, with all nineteen fields, the missing ones missing.
\<close>

theorem snapshot_survives_the_wire:
  assumes "leaves_read_back k" "trees_read_back m (written k s ss)"
  shows "(\<forall>v. put_snapshot k s = Some v \<longrightarrow> get_snapshot k v = Some s) \<and>
         (\<forall>bytes. enc_snap (wire_snap_codec k m) s = Inr bytes \<longrightarrow> dec_snap (wire_snap_codec k m) bytes = Inr s) \<and>
         (\<forall>payload. enc_batch (wire_codec k m crc) ss = Inr payload \<longrightarrow> dec_batch (wire_codec k m crc) payload = Inr ss)"
proof (intro conjI allI impI)
  show "get_snapshot k v = Some s" if "put_snapshot k s = Some v" for v
    using get_put_snapshot [OF assms(1) that] .
  show "dec_snap (wire_snap_codec k m) bytes = Inr s" if e: "enc_snap (wire_snap_codec k m) s = Inr bytes" for bytes
  proof -
    obtain v where v: "put_snapshot k s = Some v" "bytes = write_tree m v"
      using e by (auto simp: wire_snap_codec_def)
    then show ?thesis
      using get_put_snapshot [OF assms(1) v(1)] assms(2)
      by (simp add: wire_snap_codec_def trees_read_back_def written_def)
  qed
  show "dec_batch (wire_codec k m crc) payload = Inr ss" if e: "enc_batch (wire_codec k m crc) ss = Inr payload" for payload
  proof -
    obtain vs where vs: "sequence (put_snapshot k) ss = Some vs" "payload = write_tree m (JArray vs)"
      using e by (auto simp: wire_codec_def)
    have "sequence (get_snapshot k) vs = Some ss"
      using get_put_snapshot [OF assms(1)] sequence_read_back [OF _ vs(1)] by blast
    then show ?thesis
      using vs assms(2) by (simp add: wire_codec_def trees_read_back_def written_def vec_of_def)
  qed
qed

section \<open>Names on the WebSocket\<close>

text \<open>
  The frames of the WebSocket do not speak the language of its filter for two venues: the
  exchange a frame names, put back into a subscription, selects the instrument of the frame for
  seven exchanges, and is an unknown exchange for BingX and KuCoin, whose derived names are
  \<open>bing_x\<close> and \<open>ku_coin\<close> while the code is \<open>bingx\<close> and \<open>kucoin\<close>.
\<close>

theorem frames_name_two_venues_differently:
  assumes "put_snapshot k s = Some v"
  shows "\<exists>inst nm. json_get v ''instrument'' = Some inst \<and> get_str inst ''exchange'' = Some nm \<and>
     get_str inst ''symbol'' = Some (id_symbol (b_instrument s)) \<and>
     parse_instrument (nm @ '':'' @ id_symbol (b_instrument s)) =
       (if id_exchange (b_instrument s) \<in> {BingX, KuCoin} then None else Some (b_instrument s))"
proof -
  let ?i = "b_instrument s"
  have inst: "json_get v ''instrument'' = Some (put_instrument ?i)"
    using assms by (auto simp: put_snapshot_def bind_eq_Some_conv)
  have "parse_instrument (exchange_wire (id_exchange ?i) @ '':'' @ id_symbol ?i) =
      (if id_exchange ?i \<in> {BingX, KuCoin} then None else Some ?i)"
  proof (cases "id_exchange ?i \<in> {BingX, KuCoin}")
    case True
    then show ?thesis
      by (auto simp: exchange_wire_eq parse_instrument_def exchange_from_str_def to_ascii_lowercase_def lower_char_def)
  next
    case False
    then have "exchange_wire (id_exchange ?i) @ '':'' @ id_symbol ?i = instrument_key ?i"
      by (simp add: exchange_wire_eq instrument_key_def)
    with False show ?thesis by (simp only: parse_instrument_key if_False)
  qed
  with inst show ?thesis
    by (intro exI [of _ "put_instrument ?i"] exI [of _ "exchange_wire (id_exchange ?i)"])
      (simp add: put_instrument_def get_str_def)
qed

section \<open>Concrete runs\<close>

definition nat_leaves :: "nat leaf_codec" where
  "nat_leaves =
     \<lparr>put_dec = (\<lambda>d. JString (show_nat d)), get_dec = (\<lambda>v. Option.bind (as_str v) (parse_digits 0)),
      put_ts = (\<lambda>t. if 0 \<le> t then Some (JNumber (show_nat (nat t))) else None),
      get_ts = (\<lambda>v. map_option int (Option.bind (as_number v) (parse_digits 0)))\<rparr>"

lemma nat_leaves_read_back: "leaves_read_back nat_leaves"
  by (simp add: leaves_read_back_def nat_leaves_def parse_digits_show_nat)

text \<open>A printer of two trees, the one of a bar and the one of the batch of that bar.\<close>

definition two_trees :: "json \<Rightarrow> tree_codec" where
  "two_trees v =
     \<lparr>write_tree = (\<lambda>t. if t = v then [0] else [1]),
      read_tree = (\<lambda>bs. if bs = [0] then Some v else if bs = [1] then Some (JArray [v]) else None)\<rparr>"

lemma nat_bar_written: "\<exists>v kvs. put_snapshot nat_leaves (nat_bar n) = Some v \<and> v = JObject kvs"
  by (simp add: put_snapshot_def nat_leaves_def nat_bar_def start_from_sample_def)

theorem snapshot_survives_the_wire_witness:
  "\<exists>v. put_snapshot nat_leaves (nat_bar 5) = Some v \<and> get_snapshot nat_leaves v = Some (nat_bar 5) \<and>
     dec_snap (wire_snap_codec nat_leaves (two_trees v)) [0] = Inr (nat_bar 5) \<and>
     dec_batch (wire_codec nat_leaves (two_trees v) (\<lambda>bs. 0)) [1] = Inr [nat_bar 5]"
proof -
  obtain v kvs where v: "put_snapshot nat_leaves (nat_bar 5) = Some v" "v = JObject kvs" using nat_bar_written by blast
  have "trees_read_back (two_trees v) (written nat_leaves (nat_bar 5) [nat_bar 5])"
    using v by (simp add: trees_read_back_def written_def two_trees_def)
  from snapshot_survives_the_wire [OF nat_leaves_read_back this, of "\<lambda>bs. 0"] v show ?thesis
    by (simp add: wire_snap_codec_def wire_codec_def two_trees_def)
qed

definition kucoin_bar :: "nat oi_snapshot" where
  "kucoin_bar = (nat_bar 5)\<lparr>b_instrument := new_instrument KuCoin ''XBTUSDTM''\<rparr>"

theorem frames_name_two_venues_differently_witness:
  "\<exists>inst. get_str inst ''exchange'' = Some ''ku_coin'' \<and> parse_instrument ''ku_coin:XBTUSDTM'' = None"
proof -
  have "put_snapshot nat_leaves kucoin_bar \<noteq> None"
    by (simp add: put_snapshot_def nat_leaves_def kucoin_bar_def nat_bar_def start_from_sample_def)
  then obtain v where v: "put_snapshot nat_leaves kucoin_bar = Some v" by auto
  have i: "b_instrument kucoin_bar = new_instrument KuCoin ''XBTUSDTM''" by (simp add: kucoin_bar_def)
  have "json_get v ''instrument'' = Some (put_instrument (b_instrument kucoin_bar))"
    using v by (auto simp: put_snapshot_def bind_eq_Some_conv)
  with frames_name_two_venues_differently [OF v]
  have "get_str (put_instrument (b_instrument kucoin_bar)) ''exchange'' = Some (exchange_wire KuCoin) \<and>
      parse_instrument (exchange_wire KuCoin @ '':'' @ ''XBTUSDTM'') = None"
    by (auto simp: i put_instrument_def get_str_def)
  then show ?thesis by (intro exI [of _ "put_instrument (b_instrument kucoin_bar)"]) (simp add: exchange_wire_eq)
qed

end
