(* ===== verification/Configuration.thy ===== *)
theory Configuration
  imports Wire Lease
begin

text \<open>
  \<open>oi-collector/src/config.rs\<close> and \<open>oi-api/src/config.rs\<close>: what the two daemons accept as their
  configuration. \<open>figment\<close> merges the TOML file and the environment into one tree of values; the
  tree is the argument \<open>json\<close> of the decoders (\<open>None\<close>: the daemon does not start). Unknown keys
  are ignored, as the derived decoders do.
\<close>

section \<open>Shared sections\<close>

definition as_u64 :: "json \<Rightarrow> nat option" where
  "as_u64 v = Option.bind (as_number v) (parse_uint 64)"

record clickhouse_cfg =
  cc_url :: string
  cc_database :: string
  cc_user :: string
  cc_password :: string

definition get_clickhouse_cfg :: "json \<Rightarrow> clickhouse_cfg option" where
  "get_clickhouse_cfg = struct (\<lambda>v. do {
     url \<leftarrow> required as_str v ''url'';
     database \<leftarrow> defaulted ''oi'' as_str v ''database'';
     user \<leftarrow> defaulted ''default'' as_str v ''user'';
     password \<leftarrow> defaulted [] as_str v ''password'';
     Some \<lparr>cc_url = url, cc_database = database, cc_user = user, cc_password = password\<rparr> })"

text \<open>\<open>RedisCfg\<close> is its URL.\<close>

definition get_redis_cfg :: "json \<Rightarrow> string option" where
  "get_redis_cfg = struct (\<lambda>v. required as_str v ''url'')"

section \<open>The collector\<close>

record wal_cfg =
  wc_enabled :: bool
  wc_dir :: string
  wc_soft_max_files :: nat
  wc_drain_interval_secs :: nat
  wc_follower_max_age_secs :: "nat option"

definition default_wal_cfg :: wal_cfg where
  "default_wal_cfg =
     \<lparr>wc_enabled = False, wc_dir = ''/var/lib/oi/wal'', wc_soft_max_files = 10000, wc_drain_interval_secs = 10,
      wc_follower_max_age_secs = None\<rparr>"

definition get_wal_cfg :: "json \<Rightarrow> wal_cfg option" where
  "get_wal_cfg = struct (\<lambda>v. do {
     enabled \<leftarrow> defaulted False as_bool v ''enabled'';
     dir \<leftarrow> defaulted ''/var/lib/oi/wal'' as_str v ''dir'';
     soft_max \<leftarrow> defaulted 10000 as_u64 v ''soft_max_files'';
     drain \<leftarrow> defaulted 10 as_u64 v ''drain_interval_secs'';
     max_age \<leftarrow> optional as_u64 v ''follower_max_age_secs'';
     Some \<lparr>wc_enabled = enabled, wc_dir = dir, wc_soft_max_files = soft_max, wc_drain_interval_secs = drain,
           wc_follower_max_age_secs = max_age\<rparr> })"

record failover_cfg =
  oc_enabled :: bool
  oc_node_id :: "string option"
  oc_key :: "string option"
  oc_ttl_secs :: "nat option"
  oc_refresh_secs :: "nat option"

definition default_failover_cfg :: failover_cfg where
  "default_failover_cfg =
     \<lparr>oc_enabled = False, oc_node_id = None, oc_key = None, oc_ttl_secs = None, oc_refresh_secs = None\<rparr>"

definition get_failover_cfg :: "json \<Rightarrow> failover_cfg option" where
  "get_failover_cfg = struct (\<lambda>v. do {
     enabled \<leftarrow> defaulted False as_bool v ''enabled'';
     node_id \<leftarrow> optional as_str v ''node_id'';
     key \<leftarrow> optional as_str v ''key'';
     ttl \<leftarrow> optional as_u64 v ''ttl_secs'';
     refresh \<leftarrow> optional as_u64 v ''refresh_secs'';
     Some \<lparr>oc_enabled = enabled, oc_node_id = node_id, oc_key = key, oc_ttl_secs = ttl, oc_refresh_secs = refresh\<rparr> })"

text \<open>\<open>ExchangesCfg\<close> is its list.\<close>

definition get_exchanges_cfg :: "json \<Rightarrow> exchange list option" where
  "get_exchanges_cfg = struct (\<lambda>v. defaulted [] (vec_of exchange_of_wire) v ''enabled'')"

record collector_cfg =
  kc_clickhouse :: clickhouse_cfg
  kc_redis :: string
  kc_exchanges :: "exchange list"
  kc_failover :: failover_cfg
  kc_wal :: wal_cfg
  kc_metrics_addr :: string

definition load_collector :: "json \<Rightarrow> collector_cfg option" where
  "load_collector = struct (\<lambda>v. do {
     clickhouse \<leftarrow> required get_clickhouse_cfg v ''clickhouse'';
     redis \<leftarrow> required get_redis_cfg v ''redis'';
     exchanges \<leftarrow> defaulted [] get_exchanges_cfg v ''exchanges'';
     failover \<leftarrow> defaulted default_failover_cfg get_failover_cfg v ''failover'';
     wal \<leftarrow> defaulted default_wal_cfg get_wal_cfg v ''wal'';
     metrics_addr \<leftarrow> defaulted ''0.0.0.0:9090'' as_str v ''metrics_addr'';
     Some \<lparr>kc_clickhouse = clickhouse, kc_redis = redis, kc_exchanges = exchanges, kc_failover = failover, kc_wal = wal,
           kc_metrics_addr = metrics_addr\<rparr> })"

section \<open>The API\<close>

record tls_cfg =
  tc_enabled :: bool
  tc_cert_path :: string
  tc_key_path :: string

definition default_tls_cfg :: tls_cfg where
  "default_tls_cfg = \<lparr>tc_enabled = False, tc_cert_path = [], tc_key_path = []\<rparr>"

definition get_tls_cfg :: "json \<Rightarrow> tls_cfg option" where
  "get_tls_cfg = struct (\<lambda>v. do {
     enabled \<leftarrow> defaulted False as_bool v ''enabled'';
     cert \<leftarrow> defaulted [] as_str v ''cert_path'';
     key \<leftarrow> defaulted [] as_str v ''key_path'';
     Some \<lparr>tc_enabled = enabled, tc_cert_path = cert, tc_key_path = key\<rparr> })"

record auth_cfg =
  ac_enabled :: bool
  ac_tokens :: "string list"

definition default_auth_cfg :: auth_cfg where
  "default_auth_cfg = \<lparr>ac_enabled = False, ac_tokens = []\<rparr>"

definition get_auth_cfg :: "json \<Rightarrow> auth_cfg option" where
  "get_auth_cfg = struct (\<lambda>v. do {
     enabled \<leftarrow> defaulted False as_bool v ''enabled'';
     tokens \<leftarrow> defaulted [] (vec_of as_str) v ''tokens'';
     Some \<lparr>ac_enabled = enabled, ac_tokens = tokens\<rparr> })"

record api_cfg =
  pc_clickhouse :: clickhouse_cfg
  pc_redis :: string
  pc_grpc_addr :: string
  pc_rest_addr :: string
  pc_metrics_addr :: string
  pc_tls :: tls_cfg
  pc_auth :: auth_cfg

definition load_api :: "json \<Rightarrow> api_cfg option" where
  "load_api = struct (\<lambda>v. do {
     clickhouse \<leftarrow> required get_clickhouse_cfg v ''clickhouse'';
     redis \<leftarrow> required get_redis_cfg v ''redis'';
     grpc \<leftarrow> defaulted ''0.0.0.0:50051'' as_str v ''grpc_addr'';
     rest \<leftarrow> defaulted ''0.0.0.0:8080'' as_str v ''rest_addr'';
     metrics \<leftarrow> defaulted ''0.0.0.0:9091'' as_str v ''metrics_addr'';
     tls \<leftarrow> defaulted default_tls_cfg get_tls_cfg v ''tls'';
     auth \<leftarrow> defaulted default_auth_cfg get_auth_cfg v ''auth'';
     Some \<lparr>pc_clickhouse = clickhouse, pc_redis = redis, pc_grpc_addr = grpc, pc_rest_addr = rest,
           pc_metrics_addr = metrics, pc_tls = tls, pc_auth = auth\<rparr> })"

section \<open>What the sections accept\<close>

text \<open>An absent section and an empty section are the same: the \<open>Default\<close> impls agree with the field defaults.\<close>

lemma empty_sections:
  "get_wal_cfg (JObject []) = Some default_wal_cfg" "get_failover_cfg (JObject []) = Some default_failover_cfg"
  "get_tls_cfg (JObject []) = Some default_tls_cfg" "get_auth_cfg (JObject []) = Some default_auth_cfg"
  "get_exchanges_cfg (JObject []) = Some []"
  by (simp_all add: get_wal_cfg_def default_wal_cfg_def get_failover_cfg_def default_failover_cfg_def get_tls_cfg_def
      default_tls_cfg_def get_auth_cfg_def default_auth_cfg_def get_exchanges_cfg_def struct_def defaulted_def optional_def)

section \<open>Pinning exchanges\<close>

definition pinned :: "exchange list \<Rightarrow> json" where
  "pinned exs = JObject [(''enabled'', JArray (map (\<lambda>ex. JString (exchange_code ex)) exs))]"

lemma exchange_of_code:
  "exchange_of_wire (JString (exchange_code ex)) = (if ex \<in> {BingX, KuCoin} then None else Some ex)"
  by (cases ex) (simp_all add: exchange_of_wire_def exchange_wire_eq all_exchanges_def)

lemma get_pinned:
  "get_exchanges_cfg (pinned exs) = (if BingX \<in> set exs \<or> KuCoin \<in> set exs then None else Some exs)"
proof -
  have "sequence exchange_of_wire (map (\<lambda>ex. JString (exchange_code ex)) exs) =
      (if BingX \<in> set exs \<or> KuCoin \<in> set exs then None else Some exs)"
    by (induction exs) (auto simp: exchange_of_code)
  then show ?thesis by (simp add: get_exchanges_cfg_def pinned_def struct_def defaulted_def vec_of_def)
qed

text \<open>
  C35. A list of exchanges by their codes, added to any configuration the collector accepts, pins
  exactly those exchanges, unless it names BingX or KuCoin: then the whole configuration is
  refused and the collector does not start, since the decoder only knows the names \<open>bing_x\<close> and
  \<open>ku_coin\<close>.
\<close>

theorem pinning_by_code_refuses_two_venues:
  assumes "load_collector (JObject kvs) = Some cfg"
  shows "load_collector (JObject ((''exchanges'', pinned exs) # kvs)) =
           (if BingX \<in> set exs \<or> KuCoin \<in> set exs then None else Some (cfg\<lparr>kc_exchanges := exs\<rparr>))"
proof -
  have other: "required f (JObject ((''exchanges'', p) # kvs)) k = required f (JObject kvs) k"
    "defaulted d f (JObject ((''exchanges'', p) # kvs)) k = defaulted d f (JObject kvs) k"
    if "k \<noteq> ''exchanges''" for p k d and f :: "json \<Rightarrow> 'b option"
    using that by (simp_all add: required_def defaulted_def)
  have new: "defaulted [] get_exchanges_cfg (JObject ((''exchanges'', p) # kvs)) ''exchanges'' = get_exchanges_cfg p" for p
    by (simp add: defaulted_def)
  from assms show ?thesis
    by (auto simp: load_collector_def struct_def other new get_pinned bind_eq_Some_conv)
qed

definition minimal_config :: "(string \<times> json) list" where
  "minimal_config = [(''clickhouse'', JObject [(''url'', JString ''c'')]), (''redis'', JObject [(''url'', JString ''r'')])]"

definition minimal_collector :: collector_cfg where
  "minimal_collector =
     \<lparr>kc_clickhouse = \<lparr>cc_url = ''c'', cc_database = ''oi'', cc_user = ''default'', cc_password = []\<rparr>, kc_redis = ''r'',
      kc_exchanges = [], kc_failover = default_failover_cfg, kc_wal = default_wal_cfg, kc_metrics_addr = ''0.0.0.0:9090''\<rparr>"

lemma load_minimal: "load_collector (JObject minimal_config) = Some minimal_collector"
  by (simp add: load_collector_def minimal_config_def minimal_collector_def struct_def required_def defaulted_def
      get_clickhouse_cfg_def get_redis_cfg_def)

theorem pinning_by_code_refuses_two_venues_witness:
  "load_collector (JObject ((''exchanges'', pinned [Okx, KuCoin]) # minimal_config)) = None \<and>
   map_option kc_exchanges (load_collector (JObject ((''exchanges'', pinned [Okx]) # minimal_config))) = Some [Okx]"
  using pinning_by_code_refuses_two_venues [OF load_minimal, of "[Okx, KuCoin]"]
    pinning_by_code_refuses_two_venues [OF load_minimal, of "[Okx]"] by simp

section \<open>The lease of a configuration\<close>

text \<open>The first part of \<open>run_async\<close> in \<open>runner.rs\<close>; \<open>uuid\<close> is the random id of the process.\<close>

definition lease_config_of :: "string \<Rightarrow> collector_cfg \<Rightarrow> lease_config option" where
  "lease_config_of uuid cfg =
     (let fo = kc_failover cfg
      in if oc_enabled fo
         then (let lc = new_lease_config uuid (kc_redis cfg);
                   lc = (case oc_node_id fo of None \<Rightarrow> lc | Some i \<Rightarrow> with_node_id lc i);
                   lc = (case oc_key fo of None \<Rightarrow> lc | Some k \<Rightarrow> lc\<lparr>lc_key := k\<rparr>);
                   lc = (case oc_ttl_secs fo of None \<Rightarrow> lc | Some t \<Rightarrow> lc\<lparr>lc_ttl := int t * 1000\<rparr>)
               in Some (case oc_refresh_secs fo of None \<Rightarrow> lc | Some r \<Rightarrow> lc\<lparr>lc_refresh_interval := int r * 1000\<rparr>))
         else None)"

text \<open>
  The refresh interval is below the time to live exactly when the configured numbers, or their
  defaults of 5 and 15 seconds, are in that order; nothing else refuses the others.
\<close>

lemma lease_is_refreshed_in_time_iff:
  "lease_config_of uuid cfg = Some lc \<Longrightarrow>
     lc_refresh_interval lc < lc_ttl lc \<longleftrightarrow>
       case_option 5 id (oc_refresh_secs (kc_failover cfg)) < case_option 15 id (oc_ttl_secs (kc_failover cfg))"
  by (auto simp: lease_config_of_def Let_def new_lease_config_def with_node_id_def split: if_splits option.splits)

section \<open>The shipped file\<close>

text \<open>
  The tree of \<open>deploy/collector.toml\<close>: its last line stands under the table \<open>[wal]\<close>, so it is a
  key of that section.
\<close>

definition shipped_collector :: "string \<Rightarrow> json" where
  "shipped_collector addr =
     JObject
       [(''clickhouse'', JObject [(''url'', JString ''http://clickhouse:8123''), (''database'', JString ''oi''),
                                  (''user'', JString ''default''), (''password'', JString [])]),
        (''redis'', JObject [(''url'', JString ''redis://redis:6379'')]),
        (''exchanges'', JObject [(''enabled'', JArray [])]),
        (''failover'', JObject [(''enabled'', JBool False)]),
        (''wal'', JObject [(''enabled'', JBool False), (''dir'', JString ''/var/lib/oi/wal''),
                           (''soft_max_files'', JNumber (show_nat 10000)), (''drain_interval_secs'', JNumber (show_nat 10)),
                           (''metrics_addr'', JString addr)])]"

text \<open>Whatever address the file names for the metrics, the daemon takes its default.\<close>

lemma shipped_metrics_addr_is_ignored:
  "map_option kc_metrics_addr (load_collector (shipped_collector addr)) = Some ''0.0.0.0:9090''"
proof -
  have n: "as_u64 (JNumber (show_nat k)) = Some k" if "k < 2 ^ 64" for k
    using that by (simp add: as_u64_def parse_uint_show_nat)
  show ?thesis
    by (simp add: load_collector_def shipped_collector_def struct_def required_def defaulted_def optional_def n
        get_clickhouse_cfg_def get_redis_cfg_def get_exchanges_cfg_def get_failover_cfg_def get_wal_cfg_def vec_of_def)
qed

end
