(* ===== verification/Http_Client.thy ===== *)
theory Http_Client
  imports Serde Core_Types
begin

text \<open>
  \<open>oi-exchanges/src/common/http.rs\<close>: sending one request, the classification of the status, the
  decoding of the body. The network is a function from the number of the request (for the pages
  of one call) and the request to a transport error or a response; waiting for the rate limiter
  takes time only and is left out.
\<close>

section \<open>Requests and responses\<close>

record http_request =
  rq_url :: string
  rq_post :: "json option"

record http_response =
  resp_status :: nat
  resp_retry_after :: "string option"
  resp_body :: "string option"

datatype transport_error = Timed_Out | Not_Connected | Transport_Failed

text \<open>What one call of an adapter sees of the world around it.\<close>

record 'd venue =
  vn_base :: string
  vn_net :: "nat \<Rightarrow> http_request \<Rightarrow> transport_error + http_response"
  vn_json :: "string \<Rightarrow> json option"
  vn_dec :: "string \<Rightarrow> 'd option"
  vn_one :: 'd
  vn_now :: timestamp
  vn_pick :: "nat \<Rightarrow> nat"
  vn_lost :: "string \<Rightarrow> bool"

definition http_get :: "string \<Rightarrow> http_request" where
  "http_get url = \<lparr>rq_url = url, rq_post = None\<rparr>"

definition http_post :: "string \<Rightarrow> json \<Rightarrow> http_request" where
  "http_post url body = \<lparr>rq_url = url, rq_post = Some body\<rparr>"

definition method_name :: "http_request \<Rightarrow> string" where
  "method_name r = (case rq_post r of None \<Rightarrow> ''GET'' | Some _ \<Rightarrow> ''POST'')"

section \<open>Classification\<close>

definition is_char_boundary :: "string \<Rightarrow> nat \<Rightarrow> bool" where
  "is_char_boundary s i =
     (i = 0 \<or> i = length s \<or> (i < length s \<and> (of_char (s ! i) < (128 :: nat) \<or> (192 :: nat) \<le> of_char (s ! i))))"

fun floor_boundary :: "string \<Rightarrow> nat \<Rightarrow> nat" where
  "floor_boundary s 0 = 0"
| "floor_boundary s (Suc n) = (if is_char_boundary s (Suc n) then Suc n else floor_boundary s n)"

definition ellipsis :: string where
  "ellipsis = [char_of (226 :: nat), char_of (128 :: nat), char_of (166 :: nat)]"

definition truncate_text :: "string \<Rightarrow> nat \<Rightarrow> string" where
  "truncate_text s n = (if length s \<le> n then s else take (floor_boundary s n) s @ ellipsis)"

definition is_success :: "nat \<Rightarrow> bool" where
  "is_success st \<longleftrightarrow> 200 \<le> st \<and> st < 300"

definition is_server_error :: "nat \<Rightarrow> bool" where
  "is_server_error st \<longleftrightarrow> 500 \<le> st \<and> st < 600"

definition text_or_default :: "http_response \<Rightarrow> string" where
  "text_or_default resp = (case resp_body resp of Some b \<Rightarrow> b | None \<Rightarrow> [])"

definition classify :: "string \<Rightarrow> http_response \<Rightarrow> exchange_error + http_response" where
  "classify code resp =
     (let status = resp_status resp;
          retry_after = Option.bind (resp_retry_after resp) (parse_uint 64)
      in if is_success status then Inr resp
         else if status = 418 then Inl (RateLimited retry_after)
         else if status = 429 then Inl (RateLimited retry_after)
         else if is_server_error status then Inl (Transient ''http_5xx'' (''status '' @ show_nat status))
         else if status = 404 then Inl (NotFound (''status 404 from '' @ code))
         else if status = 401 \<or> status = 403
              then Inl (Auth (show_nat status @ '': '' @ truncate_text (text_or_default resp) 200))
         else Inl (Schema (show_nat status @ '': '' @ truncate_text (text_or_default resp) 200)))"

definition send_error :: "http_request \<Rightarrow> transport_error \<Rightarrow> exchange_error" where
  "send_error r e =
     (let m = method_name r @ '' '' @ rq_url r @ '': ''
      in if e = Timed_Out \<or> e = Not_Connected then Transient ''http'' m else Unexpected m)"

definition send :: "'d venue \<Rightarrow> string \<Rightarrow> nat \<Rightarrow> http_request \<Rightarrow> exchange_error + http_response" where
  "send v code k r =
     (case vn_net v k r of
        Inl e \<Rightarrow> Inl (send_error r e)
      | Inr resp \<Rightarrow> classify code resp)"

text \<open>\<open>resp.json::<T>()\<close>: the body is read, parsed as JSON and deserialized.\<close>

definition body_json :: "'d venue \<Rightarrow> (json \<Rightarrow> 'a option) \<Rightarrow> http_response \<Rightarrow> 'a option" where
  "body_json v decode resp = do { b \<leftarrow> resp_body resp; j \<leftarrow> vn_json v b; decode j }"

definition request_json :: "'d venue \<Rightarrow> string \<Rightarrow> (json \<Rightarrow> 'a option) \<Rightarrow> nat \<Rightarrow> http_request \<Rightarrow> exchange_error + 'a" where
  "request_json v code decode k r =
     (case send v code k r of
        Inl e \<Rightarrow> Inl e
      | Inr resp \<Rightarrow>
          (case body_json v decode resp of
             None \<Rightarrow> Inl (Schema (method_name r @ '' '' @ rq_url r @ '' decode: ''))
           | Some a \<Rightarrow> Inr a))"

definition get_json :: "'d venue \<Rightarrow> string \<Rightarrow> (json \<Rightarrow> 'a option) \<Rightarrow> nat \<Rightarrow> string \<Rightarrow> exchange_error + 'a" where
  "get_json v code decode k url = request_json v code decode k (http_get url)"

definition post_json :: "'d venue \<Rightarrow> string \<Rightarrow> (json \<Rightarrow> 'a option) \<Rightarrow> string \<Rightarrow> json \<Rightarrow> exchange_error + 'a" where
  "post_json v code decode url body = request_json v code decode 0 (http_post url body)"

section \<open>Retries\<close>

text \<open>
  The replies after which another attempt can help: no connection, a timeout, a rate limit or
  a ban, a failing server.
\<close>

fun worth_retrying :: "transport_error + http_response \<Rightarrow> bool" where
  "worth_retrying (Inl e) = (e = Timed_Out \<or> e = Not_Connected)"
| "worth_retrying (Inr resp) =
     (resp_status resp \<in> {418, 429} \<or> is_server_error (resp_status resp))"

lemma classify_error:
  "classify code resp = Inl e \<Longrightarrow> is_retryable e \<longleftrightarrow> worth_retrying (Inr resp)"
  by (auto simp: classify_def Let_def split: if_splits)

lemma classify_ok [simp]: "classify code resp = Inr resp' \<longleftrightarrow> resp' = resp \<and> is_success (resp_status resp)"
  by (auto simp: classify_def Let_def)

lemma request_error:
  assumes "request_json v code decode k r = Inl e"
  shows "is_retryable e \<longleftrightarrow> worth_retrying (vn_net v k r)"
proof (cases "vn_net v k r")
  case (Inl x)
  with assms show ?thesis
    by (auto simp: request_json_def send_def send_error_def Let_def split: if_splits)
next
  case (Inr resp)
  show ?thesis
  proof (cases "classify code resp")
    case (Inl e')
    with assms Inr have "e = e'" by (simp add: request_json_def send_def)
    with classify_error [OF Inl] Inr show ?thesis by simp
  next
    case ok: (Inr resp')
    then have "is_success (resp_status resp)" by simp
    with assms Inr ok show ?thesis
      by (auto simp: request_json_def send_def is_success_def is_server_error_def split: option.splits)
  qed
qed

lemma floor_boundary_bounds:
  "floor_boundary s n \<le> n" "is_char_boundary s (floor_boundary s n)"
  by (induction n) (auto simp: is_char_boundary_def)

lemma floor_boundary_greatest: "i \<le> n \<Longrightarrow> is_char_boundary s i \<Longrightarrow> i \<le> floor_boundary s n"
  by (induction n) (auto simp: le_Suc_eq)

text \<open>
  C21. A request fails with an error the retry loops treat as retryable exactly when no connection
  came up, the request timed out, the venue answered 418 or 429, or its server failed; an answer
  that arrived but does not decode is never retried.
\<close>

theorem errors_say_whether_to_retry:
  assumes "request_json v code decode k r = Inl e"
  shows "is_retryable e \<longleftrightarrow> worth_retrying (vn_net v k r)"
  using assms by (rule request_error)

text \<open>A venue that answers every request alike; for concrete runs.\<close>

definition constant_venue :: "(http_request \<Rightarrow> transport_error + http_response) \<Rightarrow> (string \<Rightarrow> json option) \<Rightarrow> nat venue" where
  "constant_venue net parse =
     \<lparr>vn_base = ''https://venue'', vn_net = (\<lambda>k. net), vn_json = parse, vn_dec = parse_digits 0, vn_one = 1,
      vn_now = seconds 1700000000, vn_pick = (\<lambda>n. n), vn_lost = (\<lambda>symb. False)\<rparr>"

lemma constant_venue_simps [simp]:
  "vn_base (constant_venue net parse) = ''https://venue''"
  "vn_net (constant_venue net parse) = (\<lambda>k. net)"
  "vn_json (constant_venue net parse) = parse"
  "vn_dec (constant_venue net parse) = parse_digits 0"
  "vn_one (constant_venue net parse) = 1"
  "vn_now (constant_venue net parse) = seconds 1700000000"
  "vn_pick (constant_venue net parse) = (\<lambda>n. n)"
  "vn_lost (constant_venue net parse) = (\<lambda>symb. False)"
  by (simp_all add: constant_venue_def)

definition answer :: "nat \<Rightarrow> string \<Rightarrow> http_response" where
  "answer status body = \<lparr>resp_status = status, resp_retry_after = None, resp_body = Some body\<rparr>"

lemma answer_simps [simp]:
  "resp_status (answer st b) = st" "resp_retry_after (answer st b) = None" "resp_body (answer st b) = Some b"
  by (simp_all add: answer_def)

lemma request_json_answer:
  "request_json (constant_venue (\<lambda>r. Inr (answer 200 (reply (rq_url r)))) parse) code decode k r =
     (case Option.bind (parse (reply (rq_url r))) decode of
        None \<Rightarrow> Inl (Schema (method_name r @ '' '' @ rq_url r @ '' decode: ''))
      | Some a \<Rightarrow> Inr a)"
  by (simp add: request_json_def send_def classify_def is_success_def body_json_def)

theorem errors_say_whether_to_retry_witness:
  "is_retryable (Transient ''http_5xx'' ''status 503'')"
proof -
  let ?v = "constant_venue (\<lambda>r. Inr (answer 503 [])) (\<lambda>s. None)"
  have "show_nat 503 = ''503''" by code_simp
  then have "request_json ?v ''okx'' (\<lambda>j. Some ()) 0 (http_get ''/'') = Inl (Transient ''http_5xx'' ''status 503'')"
    by (simp add: request_json_def send_def classify_def is_success_def is_server_error_def)
  from errors_say_whether_to_retry [OF this] show ?thesis by (simp add: is_server_error_def)
qed

end
