(* ===== verification/Adapter_Contract.thy ===== *)
theory Adapter_Contract
  imports Http_Client Fan_Out Collector
begin

text \<open>
  What the collector relies on in an exchange adapter (\<open>oi-core/src/traits.rs\<close>,
  \<open>ExchangeAdapter\<close>), as a record of operations and as a locale of laws, and the pieces the
  adapters share: the filter on the wanted symbols, the tagged quote, the fan-out of one request
  per instrument, the settlement filter of the histories.
\<close>

section \<open>The trait\<close>

record 'd adapter =
  ad_exchange :: exchange
  ad_discover :: "exchange_error + 'd instrument_meta list"
  ad_fetch_oi :: "instrument_id list \<Rightarrow> timestamp \<Rightarrow> exchange_error + 'd raw_oi list"
  ad_fetch_prices :: "instrument_id list \<Rightarrow> exchange_error + 'd price_quote list"
  ad_fetch_funding :: "instrument_id list \<Rightarrow> timestamp \<Rightarrow> exchange_error + 'd funding_bar list"
  ad_fetch_history :: "instrument_id \<Rightarrow> timestamp option \<Rightarrow> exchange_error + 'd funding_event list"

text \<open>The default \<open>fetch_prices\<close> of the trait.\<close>

definition no_prices :: "instrument_id list \<Rightarrow> exchange_error + 'd price_quote list" where
  "no_prices ids = Inr []"

section \<open>Shared pieces\<close>

definition and_try :: "'e + 'a \<Rightarrow> ('a \<Rightarrow> 'e + 'b) \<Rightarrow> 'e + 'b" where
  "and_try x f = (case x of Inl e \<Rightarrow> Inl e | Inr a \<Rightarrow> f a)"

lemma and_try_Inr_iff: "and_try x f = Inr b \<longleftrightarrow> (\<exists>a. x = Inr a \<and> f a = Inr b)"
  by (cases x) (simp_all add: and_try_def)

lemma and_try_simps [simp]: "and_try (Inl e) f = Inl e" "and_try (Inr a) f = f a"
  by (simp_all add: and_try_def)

text \<open>The set of the wanted symbols, asked once per row.\<close>

definition wanted :: "instrument_id list \<Rightarrow> string \<Rightarrow> bool" where
  "wanted ids symb \<longleftrightarrow> symb \<in> id_symbol ` set ids"

definition quote_at :: "exchange \<Rightarrow> string \<Rightarrow> 'd \<Rightarrow> price_source \<Rightarrow> timestamp \<Rightarrow> 'd price_quote" where
  "quote_at ex symb p source ts =
     \<lparr>quote_instrument = new_instrument ex symb, quote_price = p, quote_source = source, quote_ts = ts\<rparr>"

text \<open>
  One task per item with bounded concurrency. A task that panicked or was cancelled joins as
  \<open>None\<close>, the others as the item with the task's result, in the order of completion.
\<close>

definition spawn_all :: "'d venue \<Rightarrow> nat \<Rightarrow> ('i \<Rightarrow> string) \<Rightarrow> ('i \<Rightarrow> 'b) \<Rightarrow> 'i list \<Rightarrow> ('i \<times> 'b) option list" where
  "spawn_all v concurrency key task items =
     map (\<lambda>i. if vn_lost v (key i) then None else Some (i, task i))
       (completions (vn_pick v) 0 (start_sweep items concurrency))"

text \<open>
  One turn of \<open>while let Some(res) = stream.next().await\<close> in the adapters that ask for the open
  interest of one instrument per request.
\<close>

definition coins_reading ::
  "timestamp \<Rightarrow> timestamp \<Rightarrow> (instrument_id \<times> (exchange_error + 'd)) option \<Rightarrow> 'd raw_oi option" where
  "coins_reading bucket now res =
     (case res of
        None \<Rightarrow> None
      | Some (inst, Inr value) \<Rightarrow>
          Some \<lparr>raw_instrument = inst, raw_value = value, raw_unit = Coins, raw_bucket_ts = bucket,
                raw_recv_ts = now, raw_price_hint = None\<rparr>
      | Some (inst, Inl e) \<Rightarrow> None)"

text \<open>
  The price of a ticker row: the mark price when it is published, else the last price, with the
  source it came from; over text fields, and over number fields, where an unreadable mark price
  falls back to the last price but keeps the source.
\<close>

definition mark_or_last :: "(string \<Rightarrow> 'd option) \<Rightarrow> string \<Rightarrow> string \<Rightarrow> ('d \<times> price_source) option" where
  "mark_or_last dec mark last_px =
     (if mark \<noteq> [] then map_option (\<lambda>p. (p, Mark)) (dec mark)
      else if last_px \<noteq> [] then map_option (\<lambda>p. (p, Last)) (dec last_px)
      else None)"

definition number_price :: "(string \<Rightarrow> 'd option) \<Rightarrow> string option \<Rightarrow> string option \<Rightarrow> ('d \<times> price_source) option" where
  "number_price dec mark last_px =
     map_option (\<lambda>p. (p, if mark \<noteq> None then Mark else Last))
       (case Option.bind mark dec of Some p \<Rightarrow> Some p | None \<Rightarrow> Option.bind last_px dec)"

text \<open>The funding intervals MEXC and KuCoin publish per symbol, with 8 hours when none is known.\<close>

type_synonym intervals = "(string, u8) dashmap"

definition interval_or_8 :: "intervals \<Rightarrow> string \<Rightarrow> u8 option" where
  "interval_or_8 known symb = (case dm_get known symb of Some h \<Rightarrow> Some h | None \<Rightarrow> Some 8)"

text \<open>\<open>if let Some(s) = since { if ts <= s { continue; } }\<close>.\<close>

definition newer_than :: "timestamp option \<Rightarrow> timestamp \<Rightarrow> bool" where
  "newer_than since ts = (case since of None \<Rightarrow> True | Some s \<Rightarrow> \<not> ts \<le> s)"

lemma quote_at_simps [simp]:
  "quote_instrument (quote_at ex symb p src t) = new_instrument ex symb"
  "quote_price (quote_at ex symb p src t) = p"
  "quote_ts (quote_at ex symb p src t) = t"
  by (simp_all add: quote_at_def)

lemma in_map_filter: "y \<in> set (List.map_filter f xs) \<longleftrightarrow> (\<exists>x \<in> set xs. f x = Some y)"
  by (force simp: List.map_filter_def)

lemma in_spawn_all:
  "0 < c \<Longrightarrow> Some (i, b) \<in> set (spawn_all v c key task items) \<longleftrightarrow>
     i \<in> set items \<and> \<not> vn_lost v (key i) \<and> b = task i"
  by (auto simp: spawn_all_def image_iff)

lemma coins_reading_Some_iff:
  "coins_reading bucket now res = Some r \<longleftrightarrow>
     (\<exists>inst d. res = Some (inst, Inr d) \<and>
        r = \<lparr>raw_instrument = inst, raw_value = d, raw_unit = Coins, raw_bucket_ts = bucket,
             raw_recv_ts = now, raw_price_hint = None\<rparr>)"
  unfolding coins_reading_def by (cases res) (auto split: sum.splits)

lemma map_filter_of_map: "List.map_filter f (map g xs) = List.map_filter (\<lambda>x. f (g x)) xs"
  by (induction xs) (simp_all add: List.map_filter_simps split: option.split)

text \<open>An order of completion permutes the tasks; nothing is lost or run twice.\<close>

lemma mset_map_filter: "mset xs = mset ys \<Longrightarrow> mset (List.map_filter f xs) = mset (List.map_filter f ys)"
  by (simp add: List.map_filter_def)

lemma mset_spawn_all:
  "0 < c \<Longrightarrow> mset (spawn_all v c key task items) =
     mset (map (\<lambda>i. if vn_lost v (key i) then None else Some (i, task i)) items)"
  by (simp add: spawn_all_def completions_cover)

lemma mset_map_filter_spawn:
  "0 < c \<Longrightarrow> mset (List.map_filter f (spawn_all v c key task items)) =
     mset (List.map_filter (\<lambda>i. f (if vn_lost v (key i) then None else Some (i, task i))) items)"
  using mset_map_filter [OF mset_spawn_all [of c v key task items], of f]
  by (simp only: map_filter_of_map)

section \<open>The contract\<close>

text \<open>
  A reading answers a request when it carries an asked instrument, the asked minute, and a price
  hint for the same instrument.
\<close>

definition reading_for :: "instrument_id list \<Rightarrow> timestamp \<Rightarrow> 'd raw_oi \<Rightarrow> bool" where
  "reading_for ids bucket r \<longleftrightarrow>
     raw_instrument r \<in> set ids \<and> raw_bucket_ts r = bucket \<and>
     (case raw_price_hint r of None \<Rightarrow> True | Some q \<Rightarrow> quote_instrument q = raw_instrument r)"

definition listed_on :: "exchange \<Rightarrow> instrument_id list \<Rightarrow> bool" where
  "listed_on ex ids \<longleftrightarrow> (\<forall>i \<in> set ids. id_exchange i = ex)"

lemma new_instrument_id: "id_exchange i = ex \<Longrightarrow> new_instrument ex (id_symbol i) = i"
  by (metis new_instrument_eq)

lemma wanted_listed: "listed_on ex ids \<Longrightarrow> wanted ids symb \<Longrightarrow> new_instrument ex symb \<in> set ids"
  by (auto simp: listed_on_def wanted_def)

locale exchange_adapter =
  fixes ex :: exchange
    and discover :: "exchange_error + 'd instrument_meta list"
    and fetch_oi :: "instrument_id list \<Rightarrow> timestamp \<Rightarrow> exchange_error + 'd raw_oi list"
    and fetch_prices :: "instrument_id list \<Rightarrow> exchange_error + 'd price_quote list"
    and fetch_funding :: "instrument_id list \<Rightarrow> timestamp \<Rightarrow> exchange_error + 'd funding_bar list"
    and fetch_history :: "instrument_id \<Rightarrow> timestamp option \<Rightarrow> exchange_error + 'd funding_event list"
  assumes discovers: "discover = Inr metas \<Longrightarrow> m \<in> set metas \<Longrightarrow> id_exchange (meta_id m) = ex"
    and reads: "listed_on ex ids \<Longrightarrow> fetch_oi ids bucket = Inr raws \<Longrightarrow> r \<in> set raws \<Longrightarrow> reading_for ids bucket r"
    and quotes: "listed_on ex ids \<Longrightarrow> fetch_prices ids = Inr qs \<Longrightarrow> q \<in> set qs \<Longrightarrow> quote_instrument q \<in> set ids"
    and funds: "listed_on ex ids \<Longrightarrow> fetch_funding ids bucket = Inr bars \<Longrightarrow> b \<in> set bars \<Longrightarrow>
                  fb_instrument b \<in> set ids \<and> fb_bucket_ts b = bucket"
    and settles: "id_exchange i = ex \<Longrightarrow> fetch_history i since = Inr events \<Longrightarrow> e \<in> set events \<Longrightarrow> fe_instrument e = i"
begin

lemma active_listed: "discover = Inr metas \<Longrightarrow> listed_on ex (active_ids metas)"
  using discovers by (auto simp: listed_on_def active_ids_def)

text \<open>
  No reading is dropped by the collector for want of metadata: each is of a discovered, active
  instrument and of the minute of the tick.
\<close>

lemma reading_has_meta:
  assumes "discover = Inr metas" "fetch_oi (active_ids metas) bucket = Inr raws" "r \<in> set raws"
  shows "\<exists>m \<in> set metas. meta_active m \<and> meta_id m = raw_instrument r"
    "find_meta metas (raw_instrument r) \<noteq> None" "raw_bucket_ts r = bucket"
proof -
  have r: "reading_for (active_ids metas) bucket r"
    using reads [OF active_listed] assms by blast
  then show m: "\<exists>m \<in> set metas. meta_active m \<and> meta_id m = raw_instrument r"
    by (auto simp: reading_for_def active_ids_def)
  then show "find_meta metas (raw_instrument r) \<noteq> None"
    by (auto simp: find_meta_def find_None_iff)
  show "raw_bucket_ts r = bucket" using r by (simp add: reading_for_def)
qed

end

end
