(* ===== verification/Adapter_Binance.thy ===== *)
theory Adapter_Binance
  imports Adapter_Contract
begin

text \<open>
  \<open>binance/rest.rs\<close>, the USD-M perpetuals of Binance: one request per instrument for the open
  interest, one for all mark prices and funding rates. And \<open>aster/mod.rs\<close>, whose venue speaks
  the same protocol: it forwards to a Binance adapter and re-tags the answers.
\<close>

section \<open>Rows\<close>

record symbol_info =
  si_symbol :: string
  si_contract_type :: string
  si_base_asset :: string
  si_quote_asset :: string
  si_status :: string
  si_filters :: "json list"

definition de_symbol_info :: "json \<Rightarrow> symbol_info option" where
  "de_symbol_info = struct (\<lambda>v. do {
     symb \<leftarrow> required as_str v ''symbol'';
     contract_type \<leftarrow> required as_str v ''contractType'';
     base_asset \<leftarrow> required as_str v ''baseAsset'';
     quote_asset \<leftarrow> required as_str v ''quoteAsset'';
     status \<leftarrow> required as_str v ''status'';
     filters \<leftarrow> required as_array v ''filters'';
     Some \<lparr>si_symbol = symb, si_contract_type = contract_type, si_base_asset = base_asset,
           si_quote_asset = quote_asset, si_status = status, si_filters = filters\<rparr> })"

definition de_exchange_info :: "json \<Rightarrow> symbol_info list option" where
  "de_exchange_info = struct (\<lambda>v. required (vec_of de_symbol_info) v ''symbols'')"

text \<open>\<open>OpenInterestResp\<close>, of which only the amount is used; the other fields must decode.\<close>

definition de_open_interest :: "json \<Rightarrow> string option" where
  "de_open_interest = struct (\<lambda>v. do {
     _ \<leftarrow> required as_str v ''symbol'';
     oi \<leftarrow> required as_str v ''openInterest'';
     _ \<leftarrow> required as_i64 v ''time'';
     Some oi })"

record mark_price_resp =
  mp_symbol :: string
  mp_mark_price :: string
  mp_last_funding_rate :: string
  mp_next_funding_time :: int
  mp_time :: int

definition de_mark_price :: "json \<Rightarrow> mark_price_resp option" where
  "de_mark_price = struct (\<lambda>v. do {
     symb \<leftarrow> required as_str v ''symbol'';
     mark_price \<leftarrow> required as_str v ''markPrice'';
     last_funding_rate \<leftarrow> defaulted [] as_str v ''lastFundingRate'';
     next_funding_time \<leftarrow> defaulted 0 as_i64 v ''nextFundingTime'';
     time \<leftarrow> required as_i64 v ''time'';
     Some \<lparr>mp_symbol = symb, mp_mark_price = mark_price, mp_last_funding_rate = last_funding_rate,
           mp_next_funding_time = next_funding_time, mp_time = time\<rparr> })"

record binance_funding_row =
  bfr_funding_rate :: string
  bfr_funding_time :: int
  bfr_mark_price :: string

definition de_binance_funding_row :: "json \<Rightarrow> binance_funding_row option" where
  "de_binance_funding_row = struct (\<lambda>v. do {
     funding_rate \<leftarrow> defaulted [] as_str v ''fundingRate'';
     funding_time \<leftarrow> defaulted 0 as_i64 v ''fundingTime'';
     mark_price \<leftarrow> defaulted [] as_str v ''markPrice'';
     Some \<lparr>bfr_funding_rate = funding_rate, bfr_funding_time = funding_time, bfr_mark_price = mark_price\<rparr> })"

section \<open>Discovery\<close>

definition filter_step :: "(string \<Rightarrow> 'd option) \<Rightarrow> json \<Rightarrow> 'd option \<times> 'd option \<Rightarrow> 'd option \<times> 'd option" where
  "filter_step dec f ts =
     (case get_str f ''filterType'' of
        None \<Rightarrow> ts
      | Some ty \<Rightarrow>
          if ty = ''PRICE_FILTER'' then (Option.bind (get_str f ''tickSize'') dec, snd ts)
          else if ty = ''LOT_SIZE'' then (fst ts, Option.bind (get_str f ''stepSize'') dec)
          else ts)"

definition extract_filters :: "(string \<Rightarrow> 'd option) \<Rightarrow> json list \<Rightarrow> 'd option \<times> 'd option" where
  "extract_filters dec filters = fold (filter_step dec) filters (None, None)"

definition binance_meta :: "(string \<Rightarrow> 'd option) \<Rightarrow> symbol_info \<Rightarrow> 'd instrument_meta option" where
  "binance_meta dec s =
     (if \<not> ends_with (si_contract_type s) ''PERPETUAL'' then None
      else
        (let (price_tick, qty_step) = extract_filters dec (si_filters s)
         in Some \<lparr>meta_id = new_instrument Binance (si_symbol s), meta_base_asset = si_base_asset s,
                  meta_quote_asset = si_quote_asset s, meta_is_perpetual = True, meta_native_unit = Coins,
                  meta_contract_multiplier = None, meta_price_tick = price_tick, meta_qty_step = qty_step,
                  meta_active = (si_status s = ''TRADING'')\<rparr>))"

definition binance_discover :: "'d venue \<Rightarrow> exchange_error + 'd instrument_meta list" where
  "binance_discover v =
     and_try (get_json v ''binance'' de_exchange_info 0 (vn_base v @ ''/fapi/v1/exchangeInfo''))
       (\<lambda>symbols. Inr (List.map_filter (binance_meta (vn_dec v)) symbols))"

section \<open>Open interest\<close>

definition binance_fetch_one :: "'d venue \<Rightarrow> string \<Rightarrow> exchange_error + 'd" where
  "binance_fetch_one v symb =
     and_try (get_json v ''binance'' de_open_interest 0 (vn_base v @ ''/fapi/v1/openInterest?symbol='' @ symb))
       (\<lambda>oi. case vn_dec v oi of
               None \<Rightarrow> Inl (Schema (''openInterest '' @ symb @ '': ''))
             | Some d \<Rightarrow> Inr d)"

definition binance_fetch_oi :: "nat \<Rightarrow> 'd venue \<Rightarrow> instrument_id list \<Rightarrow> timestamp \<Rightarrow> exchange_error + 'd raw_oi list" where
  "binance_fetch_oi concurrency v instruments bucket =
     Inr (List.map_filter (coins_reading bucket (vn_now v))
            (spawn_all v concurrency id_symbol (\<lambda>inst. binance_fetch_one v (id_symbol inst)) instruments))"

definition binance_concurrency :: nat where
  "binance_concurrency = 16"

section \<open>Prices and funding\<close>

text \<open>The \<open>?\<close> in the loop: the first wanted row with a bad price or time fails the call.\<close>

fun binance_quotes :: "(string \<Rightarrow> 'd option) \<Rightarrow> instrument_id list \<Rightarrow> mark_price_resp list \<Rightarrow> exchange_error + 'd price_quote list" where
  "binance_quotes dec ids [] = Inr []"
| "binance_quotes dec ids (row # rows) =
     (if \<not> wanted ids (mp_symbol row) then binance_quotes dec ids rows
      else
        (case dec (mp_mark_price row) of
           None \<Rightarrow> Inl (Schema (''mark price '' @ mp_symbol row @ '': ''))
         | Some price \<Rightarrow>
             (case ts_of_ms (mp_time row) of
                None \<Rightarrow> Inl (Schema ''ts: '')
              | Some ts \<Rightarrow>
                  and_try (binance_quotes dec ids rows) (\<lambda>qs. Inr (quote_at Binance (mp_symbol row) price Mark ts # qs)))))"

definition premium_index :: "'d venue \<Rightarrow> exchange_error + mark_price_resp list" where
  "premium_index v = get_json v ''binance'' (vec_of de_mark_price) 0 (vn_base v @ ''/fapi/v1/premiumIndex'')"

definition binance_fetch_prices :: "'d venue \<Rightarrow> instrument_id list \<Rightarrow> exchange_error + 'd price_quote list" where
  "binance_fetch_prices v ids = and_try (premium_index v) (binance_quotes (vn_dec v) ids)"

definition binance_funding_bar ::
  "(string \<Rightarrow> 'd option) \<Rightarrow> instrument_id list \<Rightarrow> timestamp \<Rightarrow> timestamp \<Rightarrow> mark_price_resp \<Rightarrow> 'd funding_bar option" where
  "binance_funding_bar dec ids bucket now row =
     (if \<not> wanted ids (mp_symbol row) then None
      else if mp_last_funding_rate row = [] then None
      else
        (case dec (mp_last_funding_rate row) of
           None \<Rightarrow> None
         | Some rate \<Rightarrow>
             Some \<lparr>fb_instrument = new_instrument Binance (mp_symbol row), fb_bucket_ts = bucket, fb_recv_ts = now,
                   fb_rate = rate, fb_next_funding_ts = next_funding (mp_next_funding_time row),
                   fb_interval_hours = Some 8\<rparr>))"

definition binance_fetch_funding :: "'d venue \<Rightarrow> instrument_id list \<Rightarrow> timestamp \<Rightarrow> exchange_error + 'd funding_bar list" where
  "binance_fetch_funding v ids bucket =
     and_try (premium_index v) (\<lambda>rows. Inr (List.map_filter (binance_funding_bar (vn_dec v) ids bucket (vn_now v)) rows))"

section \<open>Settlement history\<close>

definition binance_history_url :: "string \<Rightarrow> string \<Rightarrow> timestamp option \<Rightarrow> string" where
  "binance_history_url base symb since =
     base @ ''/fapi/v1/fundingRate?symbol='' @ symb @ ''&limit=1000'' @
     (case since of None \<Rightarrow> [] | Some s \<Rightarrow> ''&startTime='' @ show_int (ms_of_ts s))"

definition binance_event :: "(string \<Rightarrow> 'd option) \<Rightarrow> instrument_id \<Rightarrow> binance_funding_row \<Rightarrow> 'd funding_event option" where
  "binance_event dec inst r = do {
     rate \<leftarrow> dec (bfr_funding_rate r);
     ts \<leftarrow> ts_of_ms (bfr_funding_time r);
     Some \<lparr>fe_instrument = inst, fe_settlement_ts = ts, fe_rate = rate,
           fe_mark_price = (if bfr_mark_price r = [] then None else dec (bfr_mark_price r))\<rparr> }"

definition binance_fetch_history :: "'d venue \<Rightarrow> instrument_id \<Rightarrow> timestamp option \<Rightarrow> exchange_error + 'd funding_event list" where
  "binance_fetch_history v inst since =
     and_try (get_json v ''binance'' (vec_of de_binance_funding_row) 0 (binance_history_url (vn_base v) (id_symbol inst) since))
       (\<lambda>rows. Inr (List.map_filter (binance_event (vn_dec v) inst) rows))"

section \<open>Aster\<close>

definition retag :: "exchange \<Rightarrow> instrument_id \<Rightarrow> instrument_id" where
  "retag ex i = i\<lparr>id_exchange := ex\<rparr>"

definition to_binance :: "instrument_id list \<Rightarrow> instrument_id list" where
  "to_binance ids = map (\<lambda>i. new_instrument Binance (id_symbol i)) ids"

definition aster_discover :: "'d venue \<Rightarrow> exchange_error + 'd instrument_meta list" where
  "aster_discover v =
     and_try (binance_discover v) (\<lambda>metas. Inr (map (\<lambda>m. m\<lparr>meta_id := retag Aster (meta_id m)\<rparr>) metas))"

definition aster_reading :: "'d raw_oi \<Rightarrow> 'd raw_oi" where
  "aster_reading r =
     r\<lparr>raw_instrument := retag Aster (raw_instrument r),
       raw_price_hint := map_option (\<lambda>q. q\<lparr>quote_instrument := retag Aster (quote_instrument q)\<rparr>) (raw_price_hint r)\<rparr>"

definition aster_fetch_oi :: "nat \<Rightarrow> 'd venue \<Rightarrow> instrument_id list \<Rightarrow> timestamp \<Rightarrow> exchange_error + 'd raw_oi list" where
  "aster_fetch_oi concurrency v ids bucket =
     and_try (binance_fetch_oi concurrency v (to_binance ids) bucket) (\<lambda>raws. Inr (map aster_reading raws))"

definition aster_fetch_prices :: "'d venue \<Rightarrow> instrument_id list \<Rightarrow> exchange_error + 'd price_quote list" where
  "aster_fetch_prices v ids =
     and_try (binance_fetch_prices v (to_binance ids))
       (\<lambda>qs. Inr (map (\<lambda>q. q\<lparr>quote_instrument := retag Aster (quote_instrument q)\<rparr>) qs))"

definition aster_fetch_funding :: "'d venue \<Rightarrow> instrument_id list \<Rightarrow> timestamp \<Rightarrow> exchange_error + 'd funding_bar list" where
  "aster_fetch_funding v ids bucket =
     and_try (binance_fetch_funding v (to_binance ids) bucket)
       (\<lambda>bars. Inr (map (\<lambda>b. b\<lparr>fb_instrument := retag Aster (fb_instrument b)\<rparr>) bars))"

definition aster_fetch_history :: "'d venue \<Rightarrow> instrument_id \<Rightarrow> timestamp option \<Rightarrow> exchange_error + 'd funding_event list" where
  "aster_fetch_history v inst since =
     and_try (binance_fetch_history v (new_instrument Binance (id_symbol inst)) since)
       (\<lambda>events. Inr (map (\<lambda>e. e\<lparr>fe_instrument := retag Aster (fe_instrument e)\<rparr>) events))"

section \<open>The contract holds\<close>

lemma binance_quotes_wanted:
  "binance_quotes dec ids rows = Inr qs \<Longrightarrow> q \<in> set qs \<Longrightarrow>
     \<exists>symb. wanted ids symb \<and> quote_instrument q = new_instrument Binance symb"
  by (induction rows arbitrary: qs) (auto simp: and_try_Inr_iff split: if_splits option.splits)

lemma in_binance_fetch_oi:
  assumes "0 < c" "binance_fetch_oi c v ids bucket = Inr raws" "r \<in> set raws"
  shows "raw_instrument r \<in> set ids \<and> raw_bucket_ts r = bucket \<and> raw_price_hint r = None"
  using assms by (auto simp: binance_fetch_oi_def in_map_filter coins_reading_Some_iff in_spawn_all)

lemma binance_meta_exchange: "binance_meta dec s = Some m \<Longrightarrow> id_exchange (meta_id m) = Binance"
  by (auto simp: binance_meta_def Let_def split: if_splits prod.splits)

interpretation binance: exchange_adapter Binance "binance_discover v" "binance_fetch_oi binance_concurrency v"
  "binance_fetch_prices v" "binance_fetch_funding v" "binance_fetch_history v" for v
proof
  show "id_exchange (meta_id m) = Binance" if "binance_discover v = Inr metas" "m \<in> set metas" for metas m
    using that by (auto simp: binance_discover_def and_try_Inr_iff in_map_filter dest: binance_meta_exchange)
  show "reading_for ids bucket r"
    if "binance_fetch_oi binance_concurrency v ids bucket = Inr raws" "r \<in> set raws" for ids bucket raws r
    using in_binance_fetch_oi [OF _ that] by (simp add: binance_concurrency_def reading_for_def)
  show "quote_instrument q \<in> set ids"
    if "listed_on Binance ids" "binance_fetch_prices v ids = Inr qs" "q \<in> set qs" for ids qs q
    using that by (auto simp: binance_fetch_prices_def and_try_Inr_iff wanted_listed dest!: binance_quotes_wanted)
  show "fb_instrument b \<in> set ids \<and> fb_bucket_ts b = bucket"
    if "listed_on Binance ids" "binance_fetch_funding v ids bucket = Inr bars" "b \<in> set bars" for ids bucket bars b
    using that by (auto simp: binance_fetch_funding_def and_try_Inr_iff in_map_filter binance_funding_bar_def
        wanted_listed split: if_splits option.splits)
  show "fe_instrument e = i"
    if "binance_fetch_history v i since = Inr events" "e \<in> set events" for i since events e
    using that by (auto simp: binance_fetch_history_def and_try_Inr_iff in_map_filter binance_event_def
        bind_eq_Some_conv)
qed

lemma to_binance_listed: "listed_on Binance (to_binance ids)"
  by (simp add: listed_on_def to_binance_def)

lemma retag_new [simp]: "retag ex (new_instrument ex' symb) = new_instrument ex symb"
  by (simp add: retag_def new_instrument_def)

lemma retag_to_binance: "listed_on Aster ids \<Longrightarrow> i \<in> set (to_binance ids) \<Longrightarrow> retag Aster i \<in> set ids"
  by (auto simp: to_binance_def listed_on_def new_instrument_id)

lemma aster_reading_for:
  "listed_on Aster ids \<Longrightarrow> reading_for (to_binance ids) bucket r \<Longrightarrow> reading_for ids bucket (aster_reading r)"
  by (cases "raw_price_hint r") (auto simp: reading_for_def aster_reading_def retag_to_binance)

interpretation aster: exchange_adapter Aster "aster_discover v" "aster_fetch_oi binance_concurrency v"
  "aster_fetch_prices v" "aster_fetch_funding v" "aster_fetch_history v" for v
proof
  show "id_exchange (meta_id m) = Aster" if "aster_discover v = Inr metas" "m \<in> set metas" for metas m
    using that by (auto simp: aster_discover_def and_try_Inr_iff retag_def)
  show "reading_for ids bucket r"
    if "listed_on Aster ids" "aster_fetch_oi binance_concurrency v ids bucket = Inr raws" "r \<in> set raws" for ids bucket raws r
    using that by (auto simp: aster_fetch_oi_def and_try_Inr_iff intro!: aster_reading_for
        dest: binance.reads [OF to_binance_listed])
  show "quote_instrument q \<in> set ids"
    if "listed_on Aster ids" "aster_fetch_prices v ids = Inr qs" "q \<in> set qs" for ids qs q
    using that binance.quotes [OF to_binance_listed, of v ids]
    by (auto simp: aster_fetch_prices_def and_try_Inr_iff retag_to_binance)
  show "fb_instrument b \<in> set ids \<and> fb_bucket_ts b = bucket"
    if "listed_on Aster ids" "aster_fetch_funding v ids bucket = Inr bars" "b \<in> set bars" for ids bucket bars b
    using that binance.funds [OF to_binance_listed, of v ids bucket]
    by (auto simp: aster_fetch_funding_def and_try_Inr_iff retag_to_binance)
  show "fe_instrument e = i"
    if "id_exchange i = Aster" "aster_fetch_history v i since = Inr events" "e \<in> set events" for i since events e
    using that binance.settles [of "new_instrument Binance (id_symbol i)" v since]
    by (auto simp: aster_fetch_history_def and_try_Inr_iff new_instrument_id)
qed

end
