(* ===== verification/Adapter_Okx.thy ===== *)
theory Adapter_Okx
  imports Adapter_Contract
begin

text \<open>
  \<open>okx/rest.rs\<close>: the linear swaps of OKX. Open interest and tickers come in one request for all
  instruments, funding rates in one request per instrument.
\<close>

section \<open>Rows\<close>

text \<open>\<open>Envelope\<close> and its \<open>check\<close>: the code is compared after the whole body has decoded.\<close>

record 'r okx_envelope =
  oe_code :: string
  oe_msg :: string
  oe_data :: "'r list"

definition de_okx_envelope :: "(json \<Rightarrow> 'r option) \<Rightarrow> json \<Rightarrow> 'r okx_envelope option" where
  "de_okx_envelope de = struct (\<lambda>v. do {
     code \<leftarrow> required as_str v ''code'';
     msg \<leftarrow> defaulted [] as_str v ''msg'';
     data \<leftarrow> required (vec_of de) v ''data'';
     Some \<lparr>oe_code = code, oe_msg = msg, oe_data = data\<rparr> })"

definition okx_check :: "'r okx_envelope \<Rightarrow> exchange_error + 'r list" where
  "okx_check env =
     (if oe_code env = ''0'' then Inr (oe_data env)
      else Inl (Schema (''okx code='' @ oe_code env @ '' msg='' @ oe_msg env)))"

definition okx_get :: "'d venue \<Rightarrow> (json \<Rightarrow> 'r option) \<Rightarrow> string \<Rightarrow> exchange_error + 'r list" where
  "okx_get v de path = and_try (get_json v ''okx'' (de_okx_envelope de) 0 (vn_base v @ path)) okx_check"

record okx_instrument_row =
  oi_inst_id :: string
  oi_quote_ccy :: string
  oi_ct_val :: string
  oi_settle_ccy :: string
  oi_tick_sz :: string
  oi_lot_sz :: string
  oi_state :: string
  oi_ct_type :: string

text \<open>The fields the code does not read (\<open>dead_code\<close>) must decode all the same.\<close>

definition de_okx_instrument :: "json \<Rightarrow> okx_instrument_row option" where
  "de_okx_instrument = struct (\<lambda>v. do {
     inst_id \<leftarrow> required as_str v ''instId'';
     _ \<leftarrow> required as_str v ''instType'';
     _ \<leftarrow> defaulted [] as_str v ''baseCcy'';
     quote_ccy \<leftarrow> defaulted [] as_str v ''quoteCcy'';
     ct_val \<leftarrow> defaulted [] as_str v ''ctVal'';
     _ \<leftarrow> defaulted [] as_str v ''ctValCcy'';
     settle_ccy \<leftarrow> defaulted [] as_str v ''settleCcy'';
     tick_sz \<leftarrow> defaulted [] as_str v ''tickSz'';
     lot_sz \<leftarrow> defaulted [] as_str v ''lotSz'';
     state \<leftarrow> required as_str v ''state'';
     ct_type \<leftarrow> defaulted [] as_str v ''ctType'';
     Some \<lparr>oi_inst_id = inst_id, oi_quote_ccy = quote_ccy, oi_ct_val = ct_val, oi_settle_ccy = settle_ccy,
           oi_tick_sz = tick_sz, oi_lot_sz = lot_sz, oi_state = state, oi_ct_type = ct_type\<rparr> })"

record okx_oi_row =
  or_inst_id :: string
  or_oi :: string
  or_oi_ccy :: string

definition de_okx_oi :: "json \<Rightarrow> okx_oi_row option" where
  "de_okx_oi = struct (\<lambda>v. do {
     inst_id \<leftarrow> required as_str v ''instId'';
     _ \<leftarrow> defaulted [] as_str v ''instType'';
     oi \<leftarrow> defaulted [] as_str v ''oi'';
     oi_ccy \<leftarrow> defaulted [] as_str v ''oiCcy'';
     _ \<leftarrow> defaulted [] as_str v ''ts'';
     Some \<lparr>or_inst_id = inst_id, or_oi = oi, or_oi_ccy = oi_ccy\<rparr> })"

record okx_ticker_row =
  ot_inst_id :: string
  ot_last :: string
  ot_mark_px :: string
  ot_ts :: string

definition de_okx_ticker :: "json \<Rightarrow> okx_ticker_row option" where
  "de_okx_ticker = struct (\<lambda>v. do {
     inst_id \<leftarrow> required as_str v ''instId'';
     last_px \<leftarrow> defaulted [] as_str v ''last'';
     mark_px \<leftarrow> defaulted [] as_str v ''markPx'';
     ts \<leftarrow> defaulted [] as_str v ''ts'';
     Some \<lparr>ot_inst_id = inst_id, ot_last = last_px, ot_mark_px = mark_px, ot_ts = ts\<rparr> })"

record okx_history_row =
  oh_realized_rate :: string
  oh_funding_rate :: string
  oh_funding_time :: string

definition de_okx_history :: "json \<Rightarrow> okx_history_row option" where
  "de_okx_history = struct (\<lambda>v. do {
     realized_rate \<leftarrow> defaulted [] as_str v ''realizedRate'';
     funding_rate \<leftarrow> defaulted [] as_str v ''fundingRate'';
     funding_time \<leftarrow> defaulted [] as_str v ''fundingTime'';
     Some \<lparr>oh_realized_rate = realized_rate, oh_funding_rate = funding_rate, oh_funding_time = funding_time\<rparr> })"

record okx_funding_row =
  ofr_funding_rate :: string
  ofr_next_funding_time :: string

definition de_okx_funding :: "json \<Rightarrow> okx_funding_row option" where
  "de_okx_funding = struct (\<lambda>v. do {
     _ \<leftarrow> required as_str v ''instId'';
     funding_rate \<leftarrow> defaulted [] as_str v ''fundingRate'';
     next_funding_time \<leftarrow> defaulted [] as_str v ''nextFundingTime'';
     _ \<leftarrow> defaulted [] as_str v ''fundingTime'';
     Some \<lparr>ofr_funding_rate = funding_rate, ofr_next_funding_time = next_funding_time\<rparr> })"

section \<open>Discovery\<close>

definition nonempty_decimal :: "(string \<Rightarrow> 'd option) \<Rightarrow> string \<Rightarrow> 'd option" where
  "nonempty_decimal dec s = (if s = [] then None else dec s)"

definition okx_meta_of :: "(string \<Rightarrow> 'd option) \<Rightarrow> okx_instrument_row \<Rightarrow> 'd instrument_meta option" where
  "okx_meta_of dec r =
     (if oi_ct_type r \<noteq> [] \<and> oi_ct_type r \<noteq> ''linear'' then None
      else Some \<lparr>meta_id = new_instrument Okx (oi_inst_id r),
                 meta_base_asset = hd (split_on CHR ''-'' (oi_inst_id r)),
                 meta_quote_asset = (if oi_quote_ccy r = [] then oi_settle_ccy r else oi_quote_ccy r),
                 meta_is_perpetual = True, meta_native_unit = Coins,
                 meta_contract_multiplier = nonempty_decimal dec (oi_ct_val r),
                 meta_price_tick = nonempty_decimal dec (oi_tick_sz r),
                 meta_qty_step = nonempty_decimal dec (oi_lot_sz r),
                 meta_active = (oi_state r = ''live'')\<rparr>)"

definition okx_discover :: "'d venue \<Rightarrow> exchange_error + 'd instrument_meta list" where
  "okx_discover v =
     and_try (okx_get v de_okx_instrument ''/api/v5/public/instruments?instType=SWAP'')
       (\<lambda>rows. Inr (List.map_filter (okx_meta_of (vn_dec v)) rows))"

section \<open>Open interest and prices\<close>

text \<open>The coin amount when it is published, else the number of contracts.\<close>

definition okx_value :: "(string \<Rightarrow> 'd option) \<Rightarrow> okx_oi_row \<Rightarrow> ('d \<times> unit_kind) option" where
  "okx_value dec r =
     (if or_oi_ccy r \<noteq> [] then map_option (\<lambda>x. (x, Coins)) (dec (or_oi_ccy r))
      else if or_oi r \<noteq> [] then map_option (\<lambda>x. (x, Contracts)) (dec (or_oi r))
      else None)"

definition okx_reading ::
  "(string \<Rightarrow> 'd option) \<Rightarrow> instrument_id list \<Rightarrow> timestamp \<Rightarrow> timestamp \<Rightarrow> okx_oi_row \<Rightarrow> 'd raw_oi option" where
  "okx_reading dec ids bucket now r =
     (if \<not> wanted ids (or_inst_id r) then None
      else map_option (\<lambda>(value, unit).
             \<lparr>raw_instrument = new_instrument Okx (or_inst_id r), raw_value = value, raw_unit = unit,
              raw_bucket_ts = bucket, raw_recv_ts = now, raw_price_hint = None\<rparr>) (okx_value dec r))"

definition okx_fetch_oi :: "'d venue \<Rightarrow> instrument_id list \<Rightarrow> timestamp \<Rightarrow> exchange_error + 'd raw_oi list" where
  "okx_fetch_oi v ids bucket =
     and_try (okx_get v de_okx_oi ''/api/v5/public/open-interest?instType=SWAP'')
       (\<lambda>rows. Inr (List.map_filter (okx_reading (vn_dec v) ids bucket (vn_now v)) rows))"

definition okx_quote :: "(string \<Rightarrow> 'd option) \<Rightarrow> instrument_id list \<Rightarrow> timestamp \<Rightarrow> okx_ticker_row \<Rightarrow> 'd price_quote option" where
  "okx_quote dec ids now r =
     (if \<not> wanted ids (ot_inst_id r) then None
      else do {
        raw \<leftarrow> (if ot_mark_px r \<noteq> [] then Some (ot_mark_px r)
                else if ot_last r \<noteq> [] then Some (ot_last r) else None);
        price \<leftarrow> dec raw;
        Some (quote_at Okx (ot_inst_id r) price (if ot_mark_px r \<noteq> [] then Mark else Last)
                (case parse_ms (ot_ts r) of Some ts \<Rightarrow> ts | None \<Rightarrow> now)) })"

definition okx_fetch_prices :: "'d venue \<Rightarrow> instrument_id list \<Rightarrow> exchange_error + 'd price_quote list" where
  "okx_fetch_prices v ids =
     and_try (okx_get v de_okx_ticker ''/api/v5/market/tickers?instType=SWAP'')
       (\<lambda>rows. Inr (List.map_filter (okx_quote (vn_dec v) ids (vn_now v)) rows))"

section \<open>Funding\<close>

definition okx_fetch_one_funding :: "'d venue \<Rightarrow> string \<Rightarrow> exchange_error + ('d \<times> timestamp option) option" where
  "okx_fetch_one_funding v symb =
     and_try (okx_get v de_okx_funding (''/api/v5/public/funding-rate?instId='' @ symb))
       (\<lambda>rows. case rows of
          [] \<Rightarrow> Inr None
        | r # _ \<Rightarrow>
            if ofr_funding_rate r = [] then Inr None
            else (case vn_dec v (ofr_funding_rate r) of
                    None \<Rightarrow> Inl (Schema (''okx fundingRate '' @ symb @ '': ''))
                  | Some rate \<Rightarrow> Inr (Some (rate, parse_ms (ofr_next_funding_time r)))))"

definition okx_funding_concurrency :: nat where
  "okx_funding_concurrency = 8"

definition okx_funding_bar ::
  "timestamp \<Rightarrow> timestamp \<Rightarrow> (instrument_id \<times> (exchange_error + ('d \<times> timestamp option) option)) option \<Rightarrow> 'd funding_bar option" where
  "okx_funding_bar bucket now res =
     (case res of
        Some (inst, Inr (Some (rate, next_ts))) \<Rightarrow>
          Some \<lparr>fb_instrument = inst, fb_bucket_ts = bucket, fb_recv_ts = now, fb_rate = rate,
                fb_next_funding_ts = next_ts, fb_interval_hours = Some 8\<rparr>
      | _ \<Rightarrow> None)"

definition okx_fetch_funding :: "'d venue \<Rightarrow> instrument_id list \<Rightarrow> timestamp \<Rightarrow> exchange_error + 'd funding_bar list" where
  "okx_fetch_funding v ids bucket =
     Inr (List.map_filter (okx_funding_bar bucket (vn_now v))
            (spawn_all v okx_funding_concurrency id_symbol (\<lambda>inst. okx_fetch_one_funding v (id_symbol inst)) ids))"

definition okx_history_path :: "string \<Rightarrow> timestamp option \<Rightarrow> string" where
  "okx_history_path symb since =
     ''/api/v5/public/funding-rate-history?instId='' @ symb @ ''&limit=100'' @
     (case since of None \<Rightarrow> [] | Some s \<Rightarrow> ''&before='' @ show_int (ms_of_ts s))"

definition okx_event :: "(string \<Rightarrow> 'd option) \<Rightarrow> instrument_id \<Rightarrow> okx_history_row \<Rightarrow> 'd funding_event option" where
  "okx_event dec inst r = do {
     rate_str \<leftarrow> (if oh_realized_rate r \<noteq> [] then Some (oh_realized_rate r)
                  else if oh_funding_rate r \<noteq> [] then Some (oh_funding_rate r) else None);
     rate \<leftarrow> dec rate_str;
     ts \<leftarrow> parse_ms (oh_funding_time r);
     Some \<lparr>fe_instrument = inst, fe_settlement_ts = ts, fe_rate = rate, fe_mark_price = None\<rparr> }"

definition okx_fetch_history :: "'d venue \<Rightarrow> instrument_id \<Rightarrow> timestamp option \<Rightarrow> exchange_error + 'd funding_event list" where
  "okx_fetch_history v inst since =
     and_try (okx_get v de_okx_history (okx_history_path (id_symbol inst) since))
       (\<lambda>rows. Inr (List.map_filter (okx_event (vn_dec v) inst) rows))"

section \<open>The contract holds\<close>

lemma okx_funding_bar_SomeD:
  "okx_funding_bar bucket now res = Some b \<Longrightarrow>
     \<exists>inst rate next_ts. res = Some (inst, Inr (Some (rate, next_ts))) \<and> fb_instrument b = inst \<and> fb_bucket_ts b = bucket"
  by (auto simp: okx_funding_bar_def split: option.splits sum.splits prod.splits)

lemma okx_reading_for: "listed_on Okx ids \<Longrightarrow> okx_reading dec ids bucket now row = Some r \<Longrightarrow> reading_for ids bucket r"
  by (auto simp: okx_reading_def reading_for_def wanted_listed split: if_splits)

lemma okx_quote_wanted: "listed_on Okx ids \<Longrightarrow> okx_quote dec ids now row = Some q \<Longrightarrow> quote_instrument q \<in> set ids"
  by (auto simp: okx_quote_def bind_eq_Some_conv wanted_listed split: if_splits)

interpretation okx: exchange_adapter Okx "okx_discover v" "okx_fetch_oi v" "okx_fetch_prices v"
  "okx_fetch_funding v" "okx_fetch_history v" for v
proof
  show "id_exchange (meta_id m) = Okx" if "okx_discover v = Inr metas" "m \<in> set metas" for metas m
    using that by (auto simp: okx_discover_def and_try_Inr_iff in_map_filter okx_meta_of_def split: if_splits)
  show "reading_for ids bucket r"
    if "listed_on Okx ids" "okx_fetch_oi v ids bucket = Inr raws" "r \<in> set raws" for ids bucket raws r
    using that by (auto simp: okx_fetch_oi_def and_try_Inr_iff in_map_filter intro: okx_reading_for)
  show "quote_instrument q \<in> set ids"
    if "listed_on Okx ids" "okx_fetch_prices v ids = Inr qs" "q \<in> set qs" for ids qs q
    using that by (auto simp: okx_fetch_prices_def and_try_Inr_iff in_map_filter intro: okx_quote_wanted)
  show "fb_instrument b \<in> set ids \<and> fb_bucket_ts b = bucket"
    if "okx_fetch_funding v ids bucket = Inr bars" "b \<in> set bars" for ids bucket bars b
    using that by (auto simp: okx_fetch_funding_def okx_funding_concurrency_def in_map_filter in_spawn_all
        dest!: okx_funding_bar_SomeD)
  show "fe_instrument e = i"
    if "okx_fetch_history v i since = Inr events" "e \<in> set events" for i since events e
    using that by (auto simp: okx_fetch_history_def and_try_Inr_iff in_map_filter okx_event_def bind_eq_Some_conv)
qed

end
