(* ===== verification/Adapter_Bybit.thy ===== *)
theory Adapter_Bybit
  imports Adapter_Contract
begin

text \<open>
  \<open>bybit/rest.rs\<close>: the linear perpetuals of Bybit. The instruments come in pages linked by a
  cursor, of which at most 32 are read; one ticker request serves the open interest (with the
  price as a hint), the prices and the funding rates.
\<close>

section \<open>Rows\<close>

definition bybit_rate_limit_codes :: "string list" where
  "bybit_rate_limit_codes = [''10006'', ''10018'', ''10029'']"

record 'r bybit_envelope =
  be_ret_code :: int
  be_ret_msg :: string
  be_result :: 'r

definition de_bybit_envelope :: "(json \<Rightarrow> 'r option) \<Rightarrow> json \<Rightarrow> 'r bybit_envelope option" where
  "de_bybit_envelope de = struct (\<lambda>v. do {
     ret_code \<leftarrow> required as_i64 v ''retCode'';
     ret_msg \<leftarrow> defaulted [] as_str v ''retMsg'';
     result \<leftarrow> required de v ''result'';
     Some \<lparr>be_ret_code = ret_code, be_ret_msg = ret_msg, be_result = result\<rparr> })"

definition bybit_check :: "'r bybit_envelope \<Rightarrow> exchange_error + 'r" where
  "bybit_check env =
     (if be_ret_code env = 0 then Inr (be_result env)
      else if show_int (be_ret_code env) \<in> set bybit_rate_limit_codes then Inl (RateLimited None)
      else Inl (Schema (''bybit retCode='' @ show_int (be_ret_code env) @ '' retMsg='' @ be_ret_msg env)))"

definition bybit_get :: "'d venue \<Rightarrow> (json \<Rightarrow> 'r option) \<Rightarrow> nat \<Rightarrow> string \<Rightarrow> exchange_error + 'r" where
  "bybit_get v de k path = and_try (get_json v ''bybit'' (de_bybit_envelope de) k (vn_base v @ path)) bybit_check"

record bybit_instrument_row =
  bi_symbol :: string
  bi_contract_type :: string
  bi_status :: string
  bi_base_coin :: string
  bi_quote_coin :: string
  bi_tick_size :: "string option"
  bi_qty_step :: "string option"

text \<open>\<open>PriceFilter\<close> and \<open>LotSizeFilter\<close> are objects of one defaulted field each.\<close>

definition de_bybit_instrument :: "json \<Rightarrow> bybit_instrument_row option" where
  "de_bybit_instrument = struct (\<lambda>v. do {
     symb \<leftarrow> required as_str v ''symbol'';
     contract_type \<leftarrow> defaulted [] as_str v ''contractType'';
     status \<leftarrow> required as_str v ''status'';
     base_coin \<leftarrow> defaulted [] as_str v ''baseCoin'';
     quote_coin \<leftarrow> defaulted [] as_str v ''quoteCoin'';
     tick_size \<leftarrow> optional (struct (\<lambda>f. defaulted [] as_str f ''tickSize'')) v ''priceFilter'';
     qty_step \<leftarrow> optional (struct (\<lambda>f. defaulted [] as_str f ''qtyStep'')) v ''lotSizeFilter'';
     Some \<lparr>bi_symbol = symb, bi_contract_type = contract_type, bi_status = status, bi_base_coin = base_coin,
           bi_quote_coin = quote_coin, bi_tick_size = tick_size, bi_qty_step = qty_step\<rparr> })"

record bybit_page =
  bp_list :: "bybit_instrument_row list"
  bp_next_page_cursor :: string

definition de_bybit_page :: "json \<Rightarrow> bybit_page option" where
  "de_bybit_page = struct (\<lambda>v. do {
     rows \<leftarrow> required (vec_of de_bybit_instrument) v ''list'';
     next_page_cursor \<leftarrow> defaulted [] as_str v ''nextPageCursor'';
     Some \<lparr>bp_list = rows, bp_next_page_cursor = next_page_cursor\<rparr> })"

record bybit_ticker_row =
  bt_symbol :: string
  bt_open_interest :: string
  bt_mark_price :: string
  bt_last_price :: string
  bt_funding_rate :: string
  bt_next_funding_time :: string

definition de_bybit_ticker :: "json \<Rightarrow> bybit_ticker_row option" where
  "de_bybit_ticker = struct (\<lambda>v. do {
     symb \<leftarrow> required as_str v ''symbol'';
     open_interest \<leftarrow> defaulted [] as_str v ''openInterest'';
     _ \<leftarrow> defaulted [] as_str v ''openInterestValue'';
     mark_price \<leftarrow> defaulted [] as_str v ''markPrice'';
     last_price \<leftarrow> defaulted [] as_str v ''lastPrice'';
     _ \<leftarrow> defaulted [] as_str v ''indexPrice'';
     funding_rate \<leftarrow> defaulted [] as_str v ''fundingRate'';
     next_funding_time \<leftarrow> defaulted [] as_str v ''nextFundingTime'';
     Some \<lparr>bt_symbol = symb, bt_open_interest = open_interest, bt_mark_price = mark_price,
           bt_last_price = last_price, bt_funding_rate = funding_rate, bt_next_funding_time = next_funding_time\<rparr> })"

definition de_bybit_tickers :: "json \<Rightarrow> bybit_ticker_row list option" where
  "de_bybit_tickers = struct (\<lambda>v. required (vec_of de_bybit_ticker) v ''list'')"

record bybit_history_row =
  bh_funding_rate :: string
  bh_funding_rate_timestamp :: string

definition de_bybit_history_row :: "json \<Rightarrow> bybit_history_row option" where
  "de_bybit_history_row = struct (\<lambda>v. do {
     funding_rate \<leftarrow> defaulted [] as_str v ''fundingRate'';
     funding_rate_timestamp \<leftarrow> defaulted [] as_str v ''fundingRateTimestamp'';
     Some \<lparr>bh_funding_rate = funding_rate, bh_funding_rate_timestamp = funding_rate_timestamp\<rparr> })"

definition de_bybit_history :: "json \<Rightarrow> bybit_history_row list option" where
  "de_bybit_history = struct (\<lambda>v. defaulted [] (vec_of de_bybit_history_row) v ''list'')"

section \<open>Discovery\<close>

definition bybit_meta :: "(string \<Rightarrow> 'd option) \<Rightarrow> bybit_instrument_row \<Rightarrow> 'd instrument_meta option" where
  "bybit_meta dec r =
     (if bi_contract_type r \<noteq> [] \<and> bi_contract_type r \<noteq> ''LinearPerpetual'' then None
      else Some \<lparr>meta_id = new_instrument Bybit (bi_symbol r), meta_base_asset = bi_base_coin r,
                 meta_quote_asset = bi_quote_coin r, meta_is_perpetual = True, meta_native_unit = Coins,
                 meta_contract_multiplier = None,
                 meta_price_tick = Option.bind (bi_tick_size r) dec,
                 meta_qty_step = Option.bind (bi_qty_step r) dec,
                 meta_active = (bi_status r = ''Trading'')\<rparr>)"

definition bybit_page_path :: "string \<Rightarrow> string" where
  "bybit_page_path cursor =
     ''/v5/market/instruments-info?category=linear&limit=1000'' @
     (if cursor = [] then [] else ''&cursor='' @ cursor)"

definition bybit_get_page :: "'d venue \<Rightarrow> nat \<Rightarrow> string \<Rightarrow> exchange_error + bybit_page" where
  "bybit_get_page v k cursor = bybit_get v de_bybit_page k (bybit_page_path cursor)"

text \<open>\<open>for _page in 0..32\<close>: the argument is the number of pages still allowed.\<close>

definition max_pages :: nat where
  "max_pages = 32"

fun bybit_pages ::
  "(nat \<Rightarrow> string \<Rightarrow> exchange_error + bybit_page) \<Rightarrow> (string \<Rightarrow> 'd option) \<Rightarrow> nat \<Rightarrow> nat \<Rightarrow> string
     \<Rightarrow> 'd instrument_meta list \<Rightarrow> exchange_error + 'd instrument_meta list" where
  "bybit_pages get dec 0 k cursor out = Inr out"
| "bybit_pages get dec (Suc left) k cursor out =
     and_try (get k cursor) (\<lambda>page.
       let out' = out @ List.map_filter (bybit_meta dec) (bp_list page)
       in if bp_next_page_cursor page = [] then Inr out'
          else bybit_pages get dec left (Suc k) (bp_next_page_cursor page) out')"

definition bybit_discover :: "'d venue \<Rightarrow> exchange_error + 'd instrument_meta list" where
  "bybit_discover v = bybit_pages (bybit_get_page v) (vn_dec v) max_pages 0 [] []"

section \<open>Open interest, prices, funding\<close>

definition bybit_tickers :: "'d venue \<Rightarrow> exchange_error + bybit_ticker_row list" where
  "bybit_tickers v = bybit_get v de_bybit_tickers 0 ''/v5/market/tickers?category=linear''"

definition bybit_reading ::
  "(string \<Rightarrow> 'd option) \<Rightarrow> instrument_id list \<Rightarrow> timestamp \<Rightarrow> timestamp \<Rightarrow> bybit_ticker_row \<Rightarrow> 'd raw_oi option" where
  "bybit_reading dec ids bucket now r =
     (if \<not> wanted ids (bt_symbol r) \<or> bt_open_interest r = [] then None
      else map_option (\<lambda>value.
             \<lparr>raw_instrument = new_instrument Bybit (bt_symbol r), raw_value = value, raw_unit = Coins,
              raw_bucket_ts = bucket, raw_recv_ts = now,
              raw_price_hint = map_option (\<lambda>(p, source). quote_at Bybit (bt_symbol r) p source now)
                                 (mark_or_last dec (bt_mark_price r) (bt_last_price r))\<rparr>)
             (dec (bt_open_interest r)))"

definition bybit_fetch_oi :: "'d venue \<Rightarrow> instrument_id list \<Rightarrow> timestamp \<Rightarrow> exchange_error + 'd raw_oi list" where
  "bybit_fetch_oi v ids bucket =
     and_try (bybit_tickers v) (\<lambda>rows. Inr (List.map_filter (bybit_reading (vn_dec v) ids bucket (vn_now v)) rows))"

definition bybit_quote :: "(string \<Rightarrow> 'd option) \<Rightarrow> instrument_id list \<Rightarrow> timestamp \<Rightarrow> bybit_ticker_row \<Rightarrow> 'd price_quote option" where
  "bybit_quote dec ids now r =
     (if \<not> wanted ids (bt_symbol r) then None
      else map_option (\<lambda>(p, source). quote_at Bybit (bt_symbol r) p source now)
             (mark_or_last dec (bt_mark_price r) (bt_last_price r)))"

definition bybit_fetch_prices :: "'d venue \<Rightarrow> instrument_id list \<Rightarrow> exchange_error + 'd price_quote list" where
  "bybit_fetch_prices v ids =
     and_try (bybit_tickers v) (\<lambda>rows. Inr (List.map_filter (bybit_quote (vn_dec v) ids (vn_now v)) rows))"

definition bybit_funding_bar ::
  "(string \<Rightarrow> 'd option) \<Rightarrow> instrument_id list \<Rightarrow> timestamp \<Rightarrow> timestamp \<Rightarrow> bybit_ticker_row \<Rightarrow> 'd funding_bar option" where
  "bybit_funding_bar dec ids bucket now r =
     (if \<not> wanted ids (bt_symbol r) \<or> bt_funding_rate r = [] then None
      else map_option (\<lambda>rate.
             \<lparr>fb_instrument = new_instrument Bybit (bt_symbol r), fb_bucket_ts = bucket, fb_recv_ts = now,
              fb_rate = rate, fb_next_funding_ts = Option.bind (parse_sint 64 (bt_next_funding_time r)) next_funding,
              fb_interval_hours = Some 8\<rparr>) (dec (bt_funding_rate r)))"

definition bybit_fetch_funding :: "'d venue \<Rightarrow> instrument_id list \<Rightarrow> timestamp \<Rightarrow> exchange_error + 'd funding_bar list" where
  "bybit_fetch_funding v ids bucket =
     and_try (bybit_tickers v) (\<lambda>rows. Inr (List.map_filter (bybit_funding_bar (vn_dec v) ids bucket (vn_now v)) rows))"

definition bybit_history_path :: "string \<Rightarrow> timestamp \<Rightarrow> timestamp option \<Rightarrow> string" where
  "bybit_history_path symb now since =
     ''/v5/market/funding/history?category=linear&symbol='' @ symb @ ''&limit=200'' @
     (case since of
        None \<Rightarrow> []
      | Some s \<Rightarrow> ''&startTime='' @ show_int (ms_of_ts s) @ ''&endTime='' @ show_int (ms_of_ts now))"

definition bybit_event :: "(string \<Rightarrow> 'd option) \<Rightarrow> instrument_id \<Rightarrow> bybit_history_row \<Rightarrow> 'd funding_event option" where
  "bybit_event dec inst r = do {
     rate \<leftarrow> dec (bh_funding_rate r);
     ts \<leftarrow> parse_ms (bh_funding_rate_timestamp r);
     Some \<lparr>fe_instrument = inst, fe_settlement_ts = ts, fe_rate = rate, fe_mark_price = None\<rparr> }"

definition bybit_fetch_history :: "'d venue \<Rightarrow> instrument_id \<Rightarrow> timestamp option \<Rightarrow> exchange_error + 'd funding_event list" where
  "bybit_fetch_history v inst since =
     and_try (bybit_get v de_bybit_history 0 (bybit_history_path (id_symbol inst) (vn_now v) since))
       (\<lambda>rows. Inr (List.map_filter (bybit_event (vn_dec v) inst) rows))"

section \<open>The contract holds\<close>

lemma bybit_pages_exchange:
  "bybit_pages get dec n k cursor out = Inr metas \<Longrightarrow> \<forall>m \<in> set out. id_exchange (meta_id m) = Bybit \<Longrightarrow>
     \<forall>m \<in> set metas. id_exchange (meta_id m) = Bybit"
proof (induction get dec n k cursor out rule: bybit_pages.induct)
  case (2 get dec left k cursor out)
  from 2(2) obtain page where page: "get k cursor = Inr page" by (auto simp: and_try_Inr_iff)
  have out': "\<forall>m \<in> set (out @ List.map_filter (bybit_meta dec) (bp_list page)). id_exchange (meta_id m) = Bybit"
    using 2(3) by (auto simp: in_map_filter bybit_meta_def split: if_splits)
  show ?case
  proof (cases "bp_next_page_cursor page = []")
    case True
    with 2(2) page out' show ?thesis by simp
  next
    case False
    with 2(1) [OF refl False _ out'] 2(2) page show ?thesis by simp
  qed
qed simp

lemma bybit_reading_for: "listed_on Bybit ids \<Longrightarrow> bybit_reading dec ids bucket now row = Some r \<Longrightarrow> reading_for ids bucket r"
  by (auto simp: bybit_reading_def reading_for_def wanted_listed split: if_splits option.splits)

interpretation bybit: exchange_adapter Bybit "bybit_discover v" "bybit_fetch_oi v" "bybit_fetch_prices v"
  "bybit_fetch_funding v" "bybit_fetch_history v" for v
proof
  show "id_exchange (meta_id m) = Bybit" if "bybit_discover v = Inr metas" "m \<in> set metas" for metas m
    using that bybit_pages_exchange [of "bybit_get_page v" "vn_dec v" max_pages 0 "[]" "[]" metas]
    by (simp add: bybit_discover_def)
  show "reading_for ids bucket r"
    if "listed_on Bybit ids" "bybit_fetch_oi v ids bucket = Inr raws" "r \<in> set raws" for ids bucket raws r
    using that by (auto simp: bybit_fetch_oi_def and_try_Inr_iff in_map_filter intro: bybit_reading_for)
  show "quote_instrument q \<in> set ids"
    if "listed_on Bybit ids" "bybit_fetch_prices v ids = Inr qs" "q \<in> set qs" for ids qs q
    using that by (auto simp: bybit_fetch_prices_def and_try_Inr_iff in_map_filter bybit_quote_def wanted_listed split: if_splits)
  show "fb_instrument b \<in> set ids \<and> fb_bucket_ts b = bucket"
    if "listed_on Bybit ids" "bybit_fetch_funding v ids bucket = Inr bars" "b \<in> set bars" for ids bucket bars b
    using that by (auto simp: bybit_fetch_funding_def and_try_Inr_iff in_map_filter bybit_funding_bar_def wanted_listed
        split: if_splits)
  show "fe_instrument e = i"
    if "bybit_fetch_history v i since = Inr events" "e \<in> set events" for i since events e
    using that by (auto simp: bybit_fetch_history_def and_try_Inr_iff in_map_filter bybit_event_def bind_eq_Some_conv)
qed

section \<open>Pages\<close>

text \<open>The pages a venue serves one after the other, each under the cursor the one before it gave.\<close>

fun linked :: "(nat \<Rightarrow> string \<Rightarrow> exchange_error + bybit_page) \<Rightarrow> nat \<Rightarrow> string \<Rightarrow> bybit_page list \<Rightarrow> bool" where
  "linked get k cursor [] \<longleftrightarrow> False"
| "linked get k cursor [p] \<longleftrightarrow> get k cursor = Inr p"
| "linked get k cursor (p # q # ps) \<longleftrightarrow>
     get k cursor = Inr p \<and> bp_next_page_cursor p \<noteq> [] \<and> linked get (Suc k) (bp_next_page_cursor p) (q # ps)"

lemma map_filter_append: "List.map_filter f (xs @ ys) = List.map_filter f xs @ List.map_filter f ys"
  by (simp add: List.map_filter_def)

lemma bybit_pages_linked:
  "linked get k cursor pages \<Longrightarrow> length pages \<le> n \<Longrightarrow>
     bp_next_page_cursor (List.last pages) = [] \<or> length pages = n \<Longrightarrow>
     bybit_pages get dec n k cursor out = Inr (out @ List.map_filter (bybit_meta dec) (concat (map bp_list pages)))"
proof (induction get k cursor pages arbitrary: n out rule: linked.induct)
  case (2 get k cursor p)
  then obtain n' where n: "n = Suc n'" by (cases n) auto
  with 2 show ?case by (cases n') (auto simp: Let_def)
next
  case (3 get k cursor p q ps)
  then obtain n' where n: "n = Suc n'" by (cases n) auto
  have "bybit_pages get dec n' (Suc k) (bp_next_page_cursor p) (out @ List.map_filter (bybit_meta dec) (bp_list p)) =
    Inr ((out @ List.map_filter (bybit_meta dec) (bp_list p)) @ List.map_filter (bybit_meta dec) (concat (map bp_list (q # ps))))"
    using 3 n by (intro 3(1)) auto
  with 3 n show ?case by (simp add: map_filter_append Let_def)
qed simp

lemma bybit_pages_cap:
  "\<forall>k c. k < k0 + n \<longrightarrow> get k c = get' k c \<Longrightarrow> bybit_pages get dec n k0 cursor out = bybit_pages get' dec n k0 cursor out"
proof (induction n arbitrary: k0 cursor out)
  case (Suc n)
  have "get k0 cursor = get' k0 cursor" using Suc.prems by simp
  moreover have "bybit_pages get dec n (Suc k0) c out' = bybit_pages get' dec n (Suc k0) c out'" for c out'
    using Suc.prems by (intro Suc.IH) auto
  ultimately show ?case by (cases "get' k0 cursor") (simp_all add: Let_def)
qed simp

text \<open>
  C27. Discovery follows the cursors to the end: when the venue serves a chain of pages, at most
  32 of them, the result is the perpetuals of all the pages in their order; a chain that is longer
  is cut after the 32nd page, and no further page is asked for.
\<close>

theorem discovery_follows_the_cursors:
  assumes "linked (bybit_get_page v) 0 [] pages" "length pages \<le> max_pages"
    and "bp_next_page_cursor (List.last pages) = [] \<or> length pages = max_pages"
  shows "bybit_discover v = Inr (List.map_filter (bybit_meta (vn_dec v)) (concat (map bp_list pages))) \<and>
    (\<forall>w. vn_dec w = vn_dec v \<and> (\<forall>k c. k < max_pages \<longrightarrow> bybit_get_page w k c = bybit_get_page v k c)
       \<longrightarrow> bybit_discover w = bybit_discover v)"
proof
  show "bybit_discover v = Inr (List.map_filter (bybit_meta (vn_dec v)) (concat (map bp_list pages)))"
    using bybit_pages_linked [OF assms, of "vn_dec v" "[]"] by (simp add: bybit_discover_def)
  show "\<forall>w. vn_dec w = vn_dec v \<and> (\<forall>k c. k < max_pages \<longrightarrow> bybit_get_page w k c = bybit_get_page v k c)
       \<longrightarrow> bybit_discover w = bybit_discover v"
    by (auto simp: bybit_discover_def intro!: bybit_pages_cap)
qed

text \<open>A venue with two pages of one instrument each.\<close>

definition two_pages :: "string \<Rightarrow> json option" where
  "two_pages url =
     (if url = ''https://venue/v5/market/instruments-info?category=linear&limit=1000''
      then Some (JObject [(''retCode'', JNumber ''0''), (''result'', JObject
             [(''list'', JArray [JObject [(''symbol'', JString ''A''), (''status'', JString ''Trading'')]]),
              (''nextPageCursor'', JString ''B'')])])
      else Some (JObject [(''retCode'', JNumber ''0''), (''result'', JObject
             [(''list'', JArray [JObject [(''symbol'', JString ''B''), (''status'', JString ''Trading'')]])])]))"

definition two_pages_venue :: "nat venue" where
  "two_pages_venue = constant_venue (\<lambda>r. Inr (answer 200 (rq_url r))) two_pages"

definition page_of :: "string \<Rightarrow> string \<Rightarrow> bybit_page" where
  "page_of symb cursor =
     \<lparr>bp_list = [\<lparr>bi_symbol = symb, bi_contract_type = [], bi_status = ''Trading'', bi_base_coin = [], bi_quote_coin = [],
                  bi_tick_size = None, bi_qty_step = None\<rparr>], bp_next_page_cursor = cursor\<rparr>"

lemma two_pages_linked: "linked (bybit_get_page two_pages_venue) 0 [] [page_of ''A'' ''B'', page_of ''B'' []]"
  by code_simp

theorem discovery_follows_the_cursors_witness:
  "bybit_discover two_pages_venue =
     Inr (List.map_filter (bybit_meta (parse_digits 0)) (bp_list (page_of ''A'' ''B'') @ bp_list (page_of ''B'' [])))"
  using discovery_follows_the_cursors [OF two_pages_linked]
  by (simp add: max_pages_def page_of_def two_pages_venue_def)

end
