(* ===== verification/Adapter_Bitget.thy ===== *)
theory Adapter_Bitget
  imports Adapter_Contract
begin

text \<open>
  \<open>bitget/rest.rs\<close>: the USDT-margined perpetuals of Bitget. One ticker request serves open
  interest and funding; the history is filtered on the client.
\<close>

section \<open>Rows\<close>

definition product_type :: string where
  "product_type = ''USDT-FUTURES''"

definition bitget_rate_limit_codes :: "string list" where
  "bitget_rate_limit_codes = [''40018'', ''40429'', ''429'']"

record 'r bitget_envelope =
  ge_code :: string
  ge_msg :: string
  ge_data :: 'r

definition de_bitget_envelope :: "(json \<Rightarrow> 'r option) \<Rightarrow> json \<Rightarrow> 'r bitget_envelope option" where
  "de_bitget_envelope de = struct (\<lambda>v. do {
     code \<leftarrow> required as_str v ''code'';
     msg \<leftarrow> defaulted [] as_str v ''msg'';
     data \<leftarrow> required de v ''data'';
     Some \<lparr>ge_code = code, ge_msg = msg, ge_data = data\<rparr> })"

definition bitget_check :: "'r bitget_envelope \<Rightarrow> exchange_error + 'r" where
  "bitget_check env =
     (if ge_code env = ''00000'' then Inr (ge_data env)
      else if ge_code env \<in> set bitget_rate_limit_codes then Inl (RateLimited None)
      else Inl (Schema (''bitget code='' @ ge_code env @ '' msg='' @ ge_msg env)))"

definition bitget_get :: "'d venue \<Rightarrow> (json \<Rightarrow> 'r option) \<Rightarrow> string \<Rightarrow> exchange_error + 'r list" where
  "bitget_get v de path =
     and_try (get_json v ''bitget'' (de_bitget_envelope (vec_of de)) 0 (vn_base v @ path)) bitget_check"

record bitget_contract_row =
  gc_symbol :: string
  gc_base_coin :: string
  gc_quote_coin :: string
  gc_symbol_type :: string
  gc_symbol_status :: string
  gc_min_trade_num :: string

definition de_bitget_contract :: "json \<Rightarrow> bitget_contract_row option" where
  "de_bitget_contract = struct (\<lambda>v. do {
     symb \<leftarrow> required as_str v ''symbol'';
     base_coin \<leftarrow> defaulted [] as_str v ''baseCoin'';
     quote_coin \<leftarrow> defaulted [] as_str v ''quoteCoin'';
     symbol_type \<leftarrow> defaulted [] as_str v ''symbolType'';
     symbol_status \<leftarrow> defaulted [] as_str v ''symbolStatus'';
     _ \<leftarrow> defaulted [] as_str v ''pricePlace'';
     _ \<leftarrow> defaulted [] as_str v ''priceEndStep'';
     min_trade_num \<leftarrow> defaulted [] as_str v ''minTradeNum'';
     _ \<leftarrow> defaulted [] as_str v ''sizeMultiplier'';
     Some \<lparr>gc_symbol = symb, gc_base_coin = base_coin, gc_quote_coin = quote_coin, gc_symbol_type = symbol_type,
           gc_symbol_status = symbol_status, gc_min_trade_num = min_trade_num\<rparr> })"

record bitget_ticker_row =
  gt_symbol :: string
  gt_holding_amount :: string
  gt_mark_price :: string
  gt_last_pr :: string
  gt_funding_rate :: string
  gt_next_funding_time :: string

definition de_bitget_ticker :: "json \<Rightarrow> bitget_ticker_row option" where
  "de_bitget_ticker = struct (\<lambda>v. do {
     symb \<leftarrow> required as_str v ''symbol'';
     holding_amount \<leftarrow> defaulted [] as_str v ''holdingAmount'';
     mark_price \<leftarrow> defaulted [] as_str v ''markPrice'';
     _ \<leftarrow> defaulted [] as_str v ''indexPrice'';
     last_pr \<leftarrow> defaulted [] as_str v ''lastPr'';
     funding_rate \<leftarrow> defaulted [] as_str v ''fundingRate'';
     next_funding_time \<leftarrow> defaulted [] as_str v ''nextFundingTime'';
     _ \<leftarrow> defaulted [] as_str v ''ts'';
     Some \<lparr>gt_symbol = symb, gt_holding_amount = holding_amount, gt_mark_price = mark_price, gt_last_pr = last_pr,
           gt_funding_rate = funding_rate, gt_next_funding_time = next_funding_time\<rparr> })"

record bitget_history_row =
  gh_funding_rate :: string
  gh_funding_time :: string

definition de_bitget_history :: "json \<Rightarrow> bitget_history_row option" where
  "de_bitget_history = struct (\<lambda>v. do {
     _ \<leftarrow> required as_str v ''symbol'';
     funding_rate \<leftarrow> defaulted [] as_str v ''fundingRate'';
     funding_time \<leftarrow> defaulted [] as_str v ''fundingTime'';
     Some \<lparr>gh_funding_rate = funding_rate, gh_funding_time = funding_time\<rparr> })"

section \<open>Operations\<close>

definition bitget_meta :: "(string \<Rightarrow> 'd option) \<Rightarrow> bitget_contract_row \<Rightarrow> 'd instrument_meta" where
  "bitget_meta dec r =
     \<lparr>meta_id = new_instrument Bitget (gc_symbol r), meta_base_asset = gc_base_coin r,
      meta_quote_asset = gc_quote_coin r, meta_is_perpetual = True, meta_native_unit = Coins,
      meta_contract_multiplier = None, meta_price_tick = None, meta_qty_step = dec (gc_min_trade_num r),
      meta_active = (gc_symbol_status r = ''normal'')\<rparr>"

definition bitget_discover :: "'d venue \<Rightarrow> exchange_error + 'd instrument_meta list" where
  "bitget_discover v =
     and_try (bitget_get v de_bitget_contract (''/api/v2/mix/market/contracts?productType='' @ product_type))
       (\<lambda>rows. Inr (map (bitget_meta (vn_dec v))
                     (filter (\<lambda>r. gc_symbol_type r = [] \<or> gc_symbol_type r = ''perpetual'') rows)))"

definition bitget_tickers :: "'d venue \<Rightarrow> exchange_error + bitget_ticker_row list" where
  "bitget_tickers v = bitget_get v de_bitget_ticker (''/api/v2/mix/market/tickers?productType='' @ product_type)"

definition bitget_reading ::
  "(string \<Rightarrow> 'd option) \<Rightarrow> instrument_id list \<Rightarrow> timestamp \<Rightarrow> timestamp \<Rightarrow> bitget_ticker_row \<Rightarrow> 'd raw_oi option" where
  "bitget_reading dec ids bucket now r =
     (if \<not> wanted ids (gt_symbol r) \<or> gt_holding_amount r = [] then None
      else map_option (\<lambda>value.
             \<lparr>raw_instrument = new_instrument Bitget (gt_symbol r), raw_value = value, raw_unit = Coins,
              raw_bucket_ts = bucket, raw_recv_ts = now,
              raw_price_hint = map_option (\<lambda>(p, source). quote_at Bitget (gt_symbol r) p source now)
                                 (mark_or_last dec (gt_mark_price r) (gt_last_pr r))\<rparr>)
             (dec (gt_holding_amount r)))"

definition bitget_fetch_oi :: "'d venue \<Rightarrow> instrument_id list \<Rightarrow> timestamp \<Rightarrow> exchange_error + 'd raw_oi list" where
  "bitget_fetch_oi v ids bucket =
     and_try (bitget_tickers v) (\<lambda>rows. Inr (List.map_filter (bitget_reading (vn_dec v) ids bucket (vn_now v)) rows))"

definition bitget_funding_bar ::
  "(string \<Rightarrow> 'd option) \<Rightarrow> instrument_id list \<Rightarrow> timestamp \<Rightarrow> timestamp \<Rightarrow> bitget_ticker_row \<Rightarrow> 'd funding_bar option" where
  "bitget_funding_bar dec ids bucket now r =
     (if \<not> wanted ids (gt_symbol r) \<or> gt_funding_rate r = [] then None
      else map_option (\<lambda>rate.
             \<lparr>fb_instrument = new_instrument Bitget (gt_symbol r), fb_bucket_ts = bucket, fb_recv_ts = now,
              fb_rate = rate, fb_next_funding_ts = Option.bind (parse_sint 64 (gt_next_funding_time r)) next_funding,
              fb_interval_hours = Some 8\<rparr>) (dec (gt_funding_rate r)))"

definition bitget_fetch_funding :: "'d venue \<Rightarrow> instrument_id list \<Rightarrow> timestamp \<Rightarrow> exchange_error + 'd funding_bar list" where
  "bitget_fetch_funding v ids bucket =
     and_try (bitget_tickers v) (\<lambda>rows. Inr (List.map_filter (bitget_funding_bar (vn_dec v) ids bucket (vn_now v)) rows))"

definition bitget_event ::
  "(string \<Rightarrow> 'd option) \<Rightarrow> instrument_id \<Rightarrow> timestamp option \<Rightarrow> bitget_history_row \<Rightarrow> 'd funding_event option" where
  "bitget_event dec inst since r = do {
     rate \<leftarrow> dec (gh_funding_rate r);
     ts \<leftarrow> parse_ms (gh_funding_time r);
     if newer_than since ts
     then Some \<lparr>fe_instrument = inst, fe_settlement_ts = ts, fe_rate = rate, fe_mark_price = None\<rparr>
     else None }"

definition bitget_fetch_history :: "'d venue \<Rightarrow> instrument_id \<Rightarrow> timestamp option \<Rightarrow> exchange_error + 'd funding_event list" where
  "bitget_fetch_history v inst since =
     and_try (bitget_get v de_bitget_history
                (''/api/v2/mix/market/history-fund-rate?symbol='' @ id_symbol inst @ ''&productType='' @ product_type @ ''&pageSize=100''))
       (\<lambda>rows. Inr (List.map_filter (bitget_event (vn_dec v) inst since) rows))"

section \<open>The contract holds\<close>

lemma bitget_reading_for: "listed_on Bitget ids \<Longrightarrow> bitget_reading dec ids bucket now row = Some r \<Longrightarrow> reading_for ids bucket r"
  by (auto simp: bitget_reading_def reading_for_def wanted_listed split: if_splits option.splits)

lemma bitget_history_events:
  "bitget_fetch_history v i since = Inr events \<Longrightarrow> e \<in> set events \<Longrightarrow>
     fe_instrument e = i \<and> newer_than since (fe_settlement_ts e)"
  by (auto simp: bitget_fetch_history_def and_try_Inr_iff in_map_filter bitget_event_def bind_eq_Some_conv split: if_splits)

interpretation bitget: exchange_adapter Bitget "bitget_discover v" "bitget_fetch_oi v" no_prices
  "bitget_fetch_funding v" "bitget_fetch_history v" for v
proof
  show "id_exchange (meta_id m) = Bitget" if "bitget_discover v = Inr metas" "m \<in> set metas" for metas m
    using that by (auto simp: bitget_discover_def and_try_Inr_iff bitget_meta_def)
  show "reading_for ids bucket r"
    if "listed_on Bitget ids" "bitget_fetch_oi v ids bucket = Inr raws" "r \<in> set raws" for ids bucket raws r
    using that by (auto simp: bitget_fetch_oi_def and_try_Inr_iff in_map_filter intro: bitget_reading_for)
  show "fb_instrument b \<in> set ids \<and> fb_bucket_ts b = bucket"
    if "listed_on Bitget ids" "bitget_fetch_funding v ids bucket = Inr bars" "b \<in> set bars" for ids bucket bars b
    using that by (auto simp: bitget_fetch_funding_def and_try_Inr_iff in_map_filter bitget_funding_bar_def wanted_listed
        split: if_splits)
qed (auto simp: no_prices_def dest: bitget_history_events)

end
