(* ===== verification/Adapter_Hyperliquid.thy ===== *)
theory Adapter_Hyperliquid
  imports Adapter_Contract
begin

text \<open>
  \<open>hyperliquid/rest.rs\<close>: one POST returns the list of the assets and, position by position, their
  state. \<open>fetch_oi\<close> goes through a hash map by name, whose order of iteration the association
  list stands for.
\<close>

section \<open>Rows\<close>

record universe_entry =
  ue_name :: string
  ue_is_delisted :: bool

definition de_universe_entry :: "json \<Rightarrow> universe_entry option" where
  "de_universe_entry = struct (\<lambda>v. do {
     name \<leftarrow> required as_str v ''name'';
     _ \<leftarrow> required as_u8 v ''szDecimals'';
     _ \<leftarrow> optional as_u32 v ''maxLeverage'';
     is_delisted \<leftarrow> defaulted False as_bool v ''isDelisted'';
     _ \<leftarrow> defaulted False as_bool v ''onlyIsolated'';
     Some \<lparr>ue_name = name, ue_is_delisted = is_delisted\<rparr> })"

record asset_ctx =
  ac_open_interest :: "string option"
  ac_mark_px :: "string option"
  ac_funding :: "string option"

definition de_asset_ctx :: "json \<Rightarrow> asset_ctx option" where
  "de_asset_ctx = struct (\<lambda>v. do {
     open_interest \<leftarrow> optional as_str v ''openInterest'';
     mark_px \<leftarrow> optional as_str v ''markPx'';
     _ \<leftarrow> optional as_str v ''oraclePx'';
     _ \<leftarrow> optional as_str v ''midPx'';
     funding \<leftarrow> optional as_str v ''funding'';
     _ \<leftarrow> optional as_str v ''prevDayPx'';
     _ \<leftarrow> optional as_str v ''dayNtlVlm'';
     _ \<leftarrow> optional as_str v ''premium'';
     Some \<lparr>ac_open_interest = open_interest, ac_mark_px = mark_px, ac_funding = funding\<rparr> })"

text \<open>The untagged tuple: an array of exactly the universe and the states.\<close>

definition de_meta_and_ctxs :: "json \<Rightarrow> (universe_entry list \<times> asset_ctx list) option" where
  "de_meta_and_ctxs v =
     (case as_array v of
        Some [m, cs] \<Rightarrow> do {
          entries \<leftarrow> struct (\<lambda>u. required (vec_of de_universe_entry) u ''universe'') m;
          ctxs \<leftarrow> vec_of de_asset_ctx cs;
          Some (entries, ctxs) }
      | _ \<Rightarrow> None)"

definition meta_and_ctxs :: "'d venue \<Rightarrow> exchange_error + universe_entry list \<times> asset_ctx list" where
  "meta_and_ctxs v =
     post_json v ''hyperliquid'' de_meta_and_ctxs (vn_base v @ ''/info'')
       (JObject [(''type'', JString ''metaAndAssetCtxs'')])"

record hyperliquid_funding_row =
  hf_funding_rate :: string
  hf_time :: int

definition de_hyperliquid_funding :: "json \<Rightarrow> hyperliquid_funding_row option" where
  "de_hyperliquid_funding = struct (\<lambda>v. do {
     _ \<leftarrow> required as_str v ''coin'';
     funding_rate \<leftarrow> defaulted [] as_str v ''fundingRate'';
     time \<leftarrow> required as_i64 v ''time'';
     _ \<leftarrow> defaulted [] as_str v ''premium'';
     Some \<lparr>hf_funding_rate = funding_rate, hf_time = time\<rparr> })"

section \<open>Operations\<close>

definition hyperliquid_meta :: "universe_entry \<Rightarrow> 'd instrument_meta" where
  "hyperliquid_meta u =
     \<lparr>meta_id = new_instrument Hyperliquid (ue_name u), meta_base_asset = ue_name u, meta_quote_asset = ''USD'',
      meta_is_perpetual = True, meta_native_unit = Coins, meta_contract_multiplier = None,
      meta_price_tick = None, meta_qty_step = None, meta_active = (\<not> ue_is_delisted u)\<rparr>"

definition hyperliquid_discover :: "'d venue \<Rightarrow> exchange_error + 'd instrument_meta list" where
  "hyperliquid_discover v = and_try (meta_and_ctxs v) (\<lambda>(entries, _). Inr (map hyperliquid_meta entries))"

text \<open>The states by name: a later entry of the same name replaces an earlier one.\<close>

definition by_name :: "(string \<Rightarrow> 'd option) \<Rightarrow> universe_entry list \<Rightarrow> asset_ctx list \<Rightarrow> (string, asset_ctx \<times> 'd option) dashmap" where
  "by_name dec entries ctxs =
     fold (\<lambda>(u, c). dm_insert (ue_name u) (c, Option.bind (ac_mark_px c) dec)) (zip entries ctxs) []"

definition hyperliquid_reading ::
  "(string \<Rightarrow> 'd option) \<Rightarrow> instrument_id list \<Rightarrow> timestamp \<Rightarrow> timestamp \<Rightarrow> string \<times> asset_ctx \<times> 'd option \<Rightarrow> 'd raw_oi option" where
  "hyperliquid_reading dec ids bucket now entry =
     (let (name, ctx, price) = entry in
      if \<not> wanted ids name then None
      else do {
        oi_s \<leftarrow> ac_open_interest ctx;
        value \<leftarrow> dec oi_s;
        Some \<lparr>raw_instrument = new_instrument Hyperliquid name, raw_value = value, raw_unit = Coins,
              raw_bucket_ts = bucket, raw_recv_ts = now,
              raw_price_hint = map_option (\<lambda>p. quote_at Hyperliquid name p Mark now) price\<rparr> })"

definition hyperliquid_fetch_oi :: "'d venue \<Rightarrow> instrument_id list \<Rightarrow> timestamp \<Rightarrow> exchange_error + 'd raw_oi list" where
  "hyperliquid_fetch_oi v ids bucket =
     and_try (meta_and_ctxs v) (\<lambda>(entries, ctxs).
       if length entries \<noteq> length ctxs
       then Inl (Schema (''universe/ctxs length mismatch: '' @ show_nat (length entries) @ '' vs '' @ show_nat (length ctxs)))
       else Inr (List.map_filter (hyperliquid_reading (vn_dec v) ids bucket (vn_now v)) (by_name (vn_dec v) entries ctxs)))"

definition hyperliquid_quote ::
  "(string \<Rightarrow> 'd option) \<Rightarrow> instrument_id list \<Rightarrow> timestamp \<Rightarrow> universe_entry \<times> asset_ctx \<Rightarrow> 'd price_quote option" where
  "hyperliquid_quote dec ids now uc =
     (if \<not> wanted ids (ue_name (fst uc)) then None
      else do { s \<leftarrow> ac_mark_px (snd uc); price \<leftarrow> dec s; Some (quote_at Hyperliquid (ue_name (fst uc)) price Mark now) })"

definition hyperliquid_fetch_prices :: "'d venue \<Rightarrow> instrument_id list \<Rightarrow> exchange_error + 'd price_quote list" where
  "hyperliquid_fetch_prices v ids =
     and_try (meta_and_ctxs v) (\<lambda>(entries, ctxs).
       if length entries \<noteq> length ctxs then Inr []
       else Inr (List.map_filter (hyperliquid_quote (vn_dec v) ids (vn_now v)) (zip entries ctxs)))"

definition hyperliquid_funding_bar ::
  "(string \<Rightarrow> 'd option) \<Rightarrow> instrument_id list \<Rightarrow> timestamp \<Rightarrow> timestamp \<Rightarrow> universe_entry \<times> asset_ctx \<Rightarrow> 'd funding_bar option" where
  "hyperliquid_funding_bar dec ids bucket now uc =
     (if \<not> wanted ids (ue_name (fst uc)) then None
      else do {
        s \<leftarrow> ac_funding (snd uc);
        rate \<leftarrow> dec s;
        Some \<lparr>fb_instrument = new_instrument Hyperliquid (ue_name (fst uc)), fb_bucket_ts = bucket, fb_recv_ts = now,
              fb_rate = rate, fb_next_funding_ts = None, fb_interval_hours = Some 1\<rparr> })"

definition hyperliquid_fetch_funding :: "'d venue \<Rightarrow> instrument_id list \<Rightarrow> timestamp \<Rightarrow> exchange_error + 'd funding_bar list" where
  "hyperliquid_fetch_funding v ids bucket =
     and_try (meta_and_ctxs v) (\<lambda>(entries, ctxs).
       if length entries \<noteq> length ctxs then Inr []
       else Inr (List.map_filter (hyperliquid_funding_bar (vn_dec v) ids bucket (vn_now v)) (zip entries ctxs)))"

definition funding_history_body :: "string \<Rightarrow> timestamp option \<Rightarrow> timestamp \<Rightarrow> json" where
  "funding_history_body coin since now =
     (let start = (case since of Some s \<Rightarrow> s | None \<Rightarrow> now - minutes (7 * 24 * 60))
      in JObject [(''type'', JString ''fundingHistory''), (''coin'', JString coin),
                  (''startTime'', JNumber (show_int (ms_of_ts start)))])"

definition hyperliquid_event ::
  "(string \<Rightarrow> 'd option) \<Rightarrow> instrument_id \<Rightarrow> timestamp option \<Rightarrow> hyperliquid_funding_row \<Rightarrow> 'd funding_event option" where
  "hyperliquid_event dec inst since r = do {
     rate \<leftarrow> dec (hf_funding_rate r);
     ts \<leftarrow> ts_of_ms (hf_time r);
     if newer_than since ts
     then Some \<lparr>fe_instrument = inst, fe_settlement_ts = ts, fe_rate = rate, fe_mark_price = None\<rparr>
     else None }"

definition hyperliquid_fetch_history :: "'d venue \<Rightarrow> instrument_id \<Rightarrow> timestamp option \<Rightarrow> exchange_error + 'd funding_event list" where
  "hyperliquid_fetch_history v inst since =
     and_try (post_json v ''hyperliquid'' (vec_of de_hyperliquid_funding) (vn_base v @ ''/info'')
                (funding_history_body (id_symbol inst) since (vn_now v)))
       (\<lambda>rows. Inr (List.map_filter (hyperliquid_event (vn_dec v) inst since) rows))"

section \<open>The contract holds\<close>

lemma hyperliquid_reading_for:
  "listed_on Hyperliquid ids \<Longrightarrow> hyperliquid_reading dec ids bucket now entry = Some r \<Longrightarrow> reading_for ids bucket r"
  by (cases entry) (auto simp: hyperliquid_reading_def reading_for_def wanted_listed bind_eq_Some_conv
      split: if_splits option.splits)

lemma hyperliquid_funding_bar_for:
  "hyperliquid_funding_bar dec ids bucket now uc = Some b \<Longrightarrow>
     (listed_on Hyperliquid ids \<longrightarrow> fb_instrument b \<in> set ids) \<and> fb_bucket_ts b = bucket \<and> fb_next_funding_ts b = None"
  by (auto simp: hyperliquid_funding_bar_def bind_eq_Some_conv wanted_listed split: if_splits)

lemma hyperliquid_bars:
  "hyperliquid_fetch_funding v ids bucket = Inr bars \<Longrightarrow> b \<in> set bars \<Longrightarrow>
     (listed_on Hyperliquid ids \<longrightarrow> fb_instrument b \<in> set ids) \<and> fb_bucket_ts b = bucket \<and> fb_next_funding_ts b = None"
  by (auto simp: hyperliquid_fetch_funding_def and_try_Inr_iff in_map_filter split: if_splits
      dest: hyperliquid_funding_bar_for)

lemma hyperliquid_history_events:
  "hyperliquid_fetch_history v i since = Inr events \<Longrightarrow> e \<in> set events \<Longrightarrow>
     fe_instrument e = i \<and> newer_than since (fe_settlement_ts e)"
  by (auto simp: hyperliquid_fetch_history_def and_try_Inr_iff in_map_filter hyperliquid_event_def bind_eq_Some_conv
      split: if_splits)

interpretation hyperliquid: exchange_adapter Hyperliquid "hyperliquid_discover v" "hyperliquid_fetch_oi v"
  "hyperliquid_fetch_prices v" "hyperliquid_fetch_funding v" "hyperliquid_fetch_history v" for v
proof
  show "id_exchange (meta_id m) = Hyperliquid" if "hyperliquid_discover v = Inr metas" "m \<in> set metas" for metas m
    using that by (auto simp: hyperliquid_discover_def and_try_Inr_iff hyperliquid_meta_def)
  show "reading_for ids bucket r"
    if "listed_on Hyperliquid ids" "hyperliquid_fetch_oi v ids bucket = Inr raws" "r \<in> set raws" for ids bucket raws r
    using that by (auto simp: hyperliquid_fetch_oi_def and_try_Inr_iff in_map_filter split: if_splits
        intro: hyperliquid_reading_for)
  show "quote_instrument q \<in> set ids"
    if "listed_on Hyperliquid ids" "hyperliquid_fetch_prices v ids = Inr qs" "q \<in> set qs" for ids qs q
    using that by (auto simp: hyperliquid_fetch_prices_def and_try_Inr_iff in_map_filter hyperliquid_quote_def
        bind_eq_Some_conv wanted_listed split: if_splits)
qed (auto dest: hyperliquid_bars hyperliquid_history_events)

section \<open>One reading per asset\<close>

lemma by_name_ok: "dm_ok (by_name dec entries ctxs)"
proof -
  have gen: "dm_ok (fold (\<lambda>(u, c). dm_insert (ue_name u) (c, Option.bind (ac_mark_px c) dec)) xs m)" if "dm_ok m" for xs m
    using that by (induction xs arbitrary: m) (auto intro: dm.ok_insert)
  show ?thesis unfolding by_name_def by (rule gen) simp
qed

lemma hyperliquid_reading_name:
  "hyperliquid_reading dec ids bucket now entry = Some r \<Longrightarrow> raw_instrument r = new_instrument Hyperliquid (fst entry)"
  by (cases entry) (auto simp: hyperliquid_reading_def bind_eq_Some_conv split: if_splits)

lemma distinct_map_filter:
  assumes "\<And>e r. f e = Some r \<Longrightarrow> g r = h (fst e)" "inj h" "distinct (map fst xs)"
  shows "distinct (map g (List.map_filter f xs))"
  using assms(3)
proof (induction xs)
  case (Cons e xs)
  have "g r \<notin> g ` set (List.map_filter f xs)" if r: "f e = Some r" for r
  proof
    assume "g r \<in> g ` set (List.map_filter f xs)"
    then obtain e' where "e' \<in> set xs" "h (fst e') = h (fst e)"
      using assms(1) r by (auto simp: List.map_filter_def image_iff)
    then have "fst e' = fst e" using assms(2) by (auto dest: injD)
    with \<open>e' \<in> set xs\<close> Cons.prems show False by (auto simp: image_iff)
  qed
  with Cons show ?case by (auto simp: List.map_filter_simps split: option.split)
qed (simp add: List.map_filter_simps)

text \<open>
  Hyperliquid yields at most one reading per instrument, even when the venue lists a name
  twice; lists of different lengths are refused as schema drift instead of being paired up.
\<close>

theorem hyperliquid_reads_each_name_once:
  assumes "hyperliquid_fetch_oi v ids bucket = Inr raws"
  shows "distinct (map raw_instrument raws) \<and>
    (\<exists>entries ctxs. meta_and_ctxs v = Inr (entries, ctxs) \<and> length entries = length ctxs)"
proof -
  obtain entries ctxs where m: "meta_and_ctxs v = Inr (entries, ctxs)" "length entries = length ctxs"
    and raws: "raws = List.map_filter (hyperliquid_reading (vn_dec v) ids bucket (vn_now v)) (by_name (vn_dec v) entries ctxs)"
    using assms by (auto simp: hyperliquid_fetch_oi_def and_try_Inr_iff split: if_splits)
  have "distinct (map raw_instrument raws)"
    unfolding raws using by_name_ok [of "vn_dec v" entries ctxs]
    by (intro distinct_map_filter [where h = "new_instrument Hyperliquid"])
      (auto simp: dm_ok_def inj_def dest: hyperliquid_reading_name)
  with m show ?thesis by blast
qed

text \<open>A venue that lists the same name twice; the last entry counts.\<close>

definition listed_twice :: "string \<Rightarrow> json option" where
  "listed_twice url = Some (JArray
     [JObject [(''universe'', JArray [JObject [(''name'', JString ''A''), (''szDecimals'', JNumber ''1'')],
                                      JObject [(''name'', JString ''A''), (''szDecimals'', JNumber ''1'')]])],
      JArray [JObject [(''openInterest'', JString ''5'')], JObject [(''openInterest'', JString ''7'')]]])"

definition listed_twice_venue :: "nat venue" where
  "listed_twice_venue = constant_venue (\<lambda>r. Inr (answer 200 (rq_url r))) listed_twice"

lemma listed_twice_readings:
  "hyperliquid_fetch_oi listed_twice_venue [new_instrument Hyperliquid ''A''] 60 =
     Inr [\<lparr>raw_instrument = new_instrument Hyperliquid ''A'', raw_value = 7, raw_unit = Coins, raw_bucket_ts = 60,
           raw_recv_ts = seconds 1700000000, raw_price_hint = None\<rparr>]"
  by code_simp

theorem hyperliquid_reads_each_name_once_witness:
  "\<exists>entries ctxs. meta_and_ctxs listed_twice_venue = Inr (entries, ctxs) \<and> length entries = length ctxs"
  using hyperliquid_reads_each_name_once [OF listed_twice_readings] by blast

end
