(* ===== verification/Adapter_Mexc.thy ===== *)
theory Adapter_Mexc
  imports Adapter_Contract
begin

text \<open>
  \<open>mexc/mod.rs\<close>: the perpetuals of MEXC, whose amounts are JSON numbers. Discovery also asks for
  the funding interval of each active symbol and keeps it in a map that \<open>fetch_funding\<close> reads.
\<close>

section \<open>Rows\<close>

record 'r mexc_envelope =
  me_success :: bool
  me_code :: int
  me_data :: 'r

definition de_mexc_envelope :: "(json \<Rightarrow> 'r option) \<Rightarrow> json \<Rightarrow> 'r mexc_envelope option" where
  "de_mexc_envelope de = struct (\<lambda>v. do {
     success \<leftarrow> defaulted False as_bool v ''success'';
     code \<leftarrow> required as_i64 v ''code'';
     data \<leftarrow> required de v ''data'';
     Some \<lparr>me_success = success, me_code = code, me_data = data\<rparr> })"

definition mexc_check :: "'r mexc_envelope \<Rightarrow> exchange_error + 'r" where
  "mexc_check env =
     (if me_code env = 0 \<and> me_success env then Inr (me_data env)
      else if me_code env = 510 \<or> me_code env = 429 then Inl (RateLimited None)
      else Inl (Schema (''mexc code='' @ show_int (me_code env))))"

definition mexc_get :: "'d venue \<Rightarrow> (json \<Rightarrow> 'r option) \<Rightarrow> string \<Rightarrow> exchange_error + 'r" where
  "mexc_get v de path = and_try (get_json v ''mexc'' (de_mexc_envelope de) 0 (vn_base v @ path)) mexc_check"

record mexc_detail_row =
  md_symbol :: string
  md_base_coin :: string
  md_quote_coin :: string
  md_contract_size :: "string option"
  md_price_unit :: "string option"
  md_vol_unit :: "string option"
  md_state :: int

definition de_mexc_detail :: "json \<Rightarrow> mexc_detail_row option" where
  "de_mexc_detail = struct (\<lambda>v. do {
     symb \<leftarrow> required as_str v ''symbol'';
     base_coin \<leftarrow> defaulted [] as_str v ''baseCoin'';
     quote_coin \<leftarrow> defaulted [] as_str v ''quoteCoin'';
     contract_size \<leftarrow> optional as_number v ''contractSize'';
     price_unit \<leftarrow> optional as_number v ''priceUnit'';
     vol_unit \<leftarrow> optional as_number v ''volUnit'';
     state \<leftarrow> defaulted 0 as_i32 v ''state'';
     Some \<lparr>md_symbol = symb, md_base_coin = base_coin, md_quote_coin = quote_coin, md_contract_size = contract_size,
           md_price_unit = price_unit, md_vol_unit = vol_unit, md_state = state\<rparr> })"

record mexc_ticker_row =
  mt_symbol :: string
  mt_hold_vol :: "string option"
  mt_fair_price :: "string option"
  mt_last_price :: "string option"
  mt_funding_rate :: "string option"

definition de_mexc_ticker :: "json \<Rightarrow> mexc_ticker_row option" where
  "de_mexc_ticker = struct (\<lambda>v. do {
     symb \<leftarrow> required as_str v ''symbol'';
     hold_vol \<leftarrow> optional as_number v ''holdVol'';
     fair_price \<leftarrow> optional as_number v ''fairPrice'';
     last_price \<leftarrow> optional as_number v ''lastPrice'';
     _ \<leftarrow> optional as_number v ''indexPrice'';
     funding_rate \<leftarrow> optional as_number v ''fundingRate'';
     _ \<leftarrow> optional as_i64 v ''timestamp'';
     Some \<lparr>mt_symbol = symb, mt_hold_vol = hold_vol, mt_fair_price = fair_price, mt_last_price = last_price,
           mt_funding_rate = funding_rate\<rparr> })"

record mexc_history_row =
  mh_funding_rate :: "string option"
  mh_settle_time :: "int option"

definition de_mexc_history_row :: "json \<Rightarrow> mexc_history_row option" where
  "de_mexc_history_row = struct (\<lambda>v. do {
     _ \<leftarrow> defaulted [] as_str v ''symbol'';
     funding_rate \<leftarrow> optional as_number v ''fundingRate'';
     settle_time \<leftarrow> optional as_i64 v ''settleTime'';
     Some \<lparr>mh_funding_rate = funding_rate, mh_settle_time = settle_time\<rparr> })"

definition de_mexc_page :: "json \<Rightarrow> mexc_history_row list option" where
  "de_mexc_page = struct (\<lambda>v. defaulted [] (vec_of de_mexc_history_row) v ''resultList'')"

section \<open>Discovery and the funding intervals\<close>

text \<open>\<open>Inner\<close> of \<open>refresh_funding_intervals\<close>, and what one finished task does to the map.\<close>

definition de_collect_cycle :: "json \<Rightarrow> u8 option option" where
  "de_collect_cycle = struct (\<lambda>v. optional as_u8 v ''collectCycle'')"

definition mexc_note_interval ::
  "(string \<times> (exchange_error + u8 option mexc_envelope)) option \<Rightarrow> intervals \<Rightarrow> intervals" where
  "mexc_note_interval joined known =
     (case joined of
        Some (symb, Inr env) \<Rightarrow>
          (case mexc_check env of
             Inr (Some c) \<Rightarrow> dm_insert symb c known
           | Inr None \<Rightarrow> known
           | Inl e \<Rightarrow> known)
      | Some (symb, Inl e) \<Rightarrow> known
      | None \<Rightarrow> known)"

definition mexc_interval_concurrency :: nat where
  "mexc_interval_concurrency = 8"

definition mexc_refresh_intervals :: "'d venue \<Rightarrow> string list \<Rightarrow> intervals \<Rightarrow> intervals" where
  "mexc_refresh_intervals v symbols known =
     fold mexc_note_interval
       (spawn_all v mexc_interval_concurrency (\<lambda>symb. symb)
          (\<lambda>symb. get_json v ''mexc'' (de_mexc_envelope de_collect_cycle) 0
                    (vn_base v @ ''/api/v1/contract/funding_rate/'' @ symb)) symbols) known"

definition mexc_meta :: "(string \<Rightarrow> 'd option) \<Rightarrow> mexc_detail_row \<Rightarrow> 'd instrument_meta" where
  "mexc_meta dec r =
     \<lparr>meta_id = new_instrument Mexc (md_symbol r), meta_base_asset = md_base_coin r,
      meta_quote_asset = md_quote_coin r, meta_is_perpetual = True, meta_native_unit = Contracts,
      meta_contract_multiplier = Option.bind (md_contract_size r) dec,
      meta_price_tick = Option.bind (md_price_unit r) dec,
      meta_qty_step = Option.bind (md_vol_unit r) dec,
      meta_active = (md_state r = 0)\<rparr>"

definition active_symbols :: "'d instrument_meta list \<Rightarrow> string list" where
  "active_symbols metas = map (\<lambda>m. id_symbol (meta_id m)) (filter meta_active metas)"

definition mexc_discover :: "'d venue \<Rightarrow> intervals \<Rightarrow> (exchange_error + 'd instrument_meta list) \<times> intervals" where
  "mexc_discover v known =
     (case mexc_get v (vec_of de_mexc_detail) ''/api/v1/contract/detail'' of
        Inl e \<Rightarrow> (Inl e, known)
      | Inr rows \<Rightarrow>
          (let metas = map (mexc_meta (vn_dec v)) rows
           in (Inr metas, mexc_refresh_intervals v (active_symbols metas) known)))"

section \<open>Open interest and funding\<close>

definition mexc_tickers :: "'d venue \<Rightarrow> exchange_error + mexc_ticker_row list" where
  "mexc_tickers v = mexc_get v (vec_of de_mexc_ticker) ''/api/v1/contract/ticker''"

definition mexc_reading ::
  "(string \<Rightarrow> 'd option) \<Rightarrow> instrument_id list \<Rightarrow> timestamp \<Rightarrow> timestamp \<Rightarrow> mexc_ticker_row \<Rightarrow> 'd raw_oi option" where
  "mexc_reading dec ids bucket now r =
     (if \<not> wanted ids (mt_symbol r) then None
      else do {
        n \<leftarrow> mt_hold_vol r;
        value \<leftarrow> dec n;
        Some \<lparr>raw_instrument = new_instrument Mexc (mt_symbol r), raw_value = value, raw_unit = Contracts,
              raw_bucket_ts = bucket, raw_recv_ts = now,
              raw_price_hint = map_option (\<lambda>(p, source). quote_at Mexc (mt_symbol r) p source now)
                                 (number_price dec (mt_fair_price r) (mt_last_price r))\<rparr> })"

definition mexc_fetch_oi :: "'d venue \<Rightarrow> instrument_id list \<Rightarrow> timestamp \<Rightarrow> exchange_error + 'd raw_oi list" where
  "mexc_fetch_oi v ids bucket =
     and_try (mexc_tickers v) (\<lambda>rows. Inr (List.map_filter (mexc_reading (vn_dec v) ids bucket (vn_now v)) rows))"

definition mexc_funding_bar ::
  "(string \<Rightarrow> 'd option) \<Rightarrow> intervals \<Rightarrow> instrument_id list \<Rightarrow> timestamp \<Rightarrow> timestamp \<Rightarrow> mexc_ticker_row \<Rightarrow> 'd funding_bar option" where
  "mexc_funding_bar dec known ids bucket now r =
     (if \<not> wanted ids (mt_symbol r) then None
      else map_option (\<lambda>rate.
             \<lparr>fb_instrument = new_instrument Mexc (mt_symbol r), fb_bucket_ts = bucket, fb_recv_ts = now,
              fb_rate = rate, fb_next_funding_ts = None, fb_interval_hours = interval_or_8 known (mt_symbol r)\<rparr>)
             (Option.bind (mt_funding_rate r) dec))"

definition mexc_fetch_funding :: "'d venue \<Rightarrow> intervals \<Rightarrow> instrument_id list \<Rightarrow> timestamp \<Rightarrow> exchange_error + 'd funding_bar list" where
  "mexc_fetch_funding v known ids bucket =
     and_try (mexc_tickers v) (\<lambda>rows. Inr (List.map_filter (mexc_funding_bar (vn_dec v) known ids bucket (vn_now v)) rows))"

definition mexc_event ::
  "(string \<Rightarrow> 'd option) \<Rightarrow> instrument_id \<Rightarrow> timestamp option \<Rightarrow> mexc_history_row \<Rightarrow> 'd funding_event option" where
  "mexc_event dec inst since r = do {
     rate \<leftarrow> Option.bind (mh_funding_rate r) dec;
     ms \<leftarrow> mh_settle_time r;
     ts \<leftarrow> ts_of_ms ms;
     if newer_than since ts
     then Some \<lparr>fe_instrument = inst, fe_settlement_ts = ts, fe_rate = rate, fe_mark_price = None\<rparr>
     else None }"

definition mexc_fetch_history :: "'d venue \<Rightarrow> instrument_id \<Rightarrow> timestamp option \<Rightarrow> exchange_error + 'd funding_event list" where
  "mexc_fetch_history v inst since =
     and_try (mexc_get v de_mexc_page
                (''/api/v1/contract/funding_rate/history?symbol='' @ id_symbol inst @ ''&page_num=1&page_size=100''))
       (\<lambda>rows. Inr (List.map_filter (mexc_event (vn_dec v) inst since) rows))"

section \<open>The contract holds\<close>

lemma mexc_reading_for: "listed_on Mexc ids \<Longrightarrow> mexc_reading dec ids bucket now row = Some r \<Longrightarrow> reading_for ids bucket r"
  by (auto simp: mexc_reading_def reading_for_def wanted_listed bind_eq_Some_conv split: if_splits option.splits)

lemma mexc_bars:
  "mexc_fetch_funding v known ids bucket = Inr bars \<Longrightarrow> b \<in> set bars \<Longrightarrow>
     (listed_on Mexc ids \<longrightarrow> fb_instrument b \<in> set ids) \<and> fb_bucket_ts b = bucket \<and> fb_next_funding_ts b = None"
  by (auto simp: mexc_fetch_funding_def and_try_Inr_iff in_map_filter mexc_funding_bar_def wanted_listed split: if_splits)

lemma mexc_history_events:
  "mexc_fetch_history v i since = Inr events \<Longrightarrow> e \<in> set events \<Longrightarrow>
     fe_instrument e = i \<and> newer_than since (fe_settlement_ts e)"
  by (auto simp: mexc_fetch_history_def and_try_Inr_iff in_map_filter mexc_event_def bind_eq_Some_conv split: if_splits)

interpretation mexc: exchange_adapter Mexc "fst (mexc_discover v known)" "mexc_fetch_oi v" no_prices
  "mexc_fetch_funding v known" "mexc_fetch_history v" for v known
proof
  show "id_exchange (meta_id m) = Mexc" if "fst (mexc_discover v known) = Inr metas" "m \<in> set metas" for metas m
    using that by (auto simp: mexc_discover_def Let_def mexc_meta_def split: sum.splits)
  show "reading_for ids bucket r"
    if "listed_on Mexc ids" "mexc_fetch_oi v ids bucket = Inr raws" "r \<in> set raws" for ids bucket raws r
    using that by (auto simp: mexc_fetch_oi_def and_try_Inr_iff in_map_filter intro: mexc_reading_for)
qed (auto simp: no_prices_def dest: mexc_bars mexc_history_events)

end
