(* ===== verification/Adapter_Kucoin.thy ===== *)
theory Adapter_Kucoin
  imports Adapter_Contract
begin

text \<open>
  \<open>kucoin/mod.rs\<close>: the linear perpetuals of KuCoin. One request for the active contracts serves
  discovery, open interest and funding; the funding interval of each symbol is asked for during
  discovery and kept in whole hours.
\<close>

section \<open>Rows\<close>

definition kucoin_rate_limit_codes :: "string list" where
  "kucoin_rate_limit_codes = [''429000'', ''429100'', ''429200'']"

record 'r kucoin_envelope =
  ke_code :: string
  ke_msg :: string
  ke_data :: 'r

definition de_kucoin_envelope :: "(json \<Rightarrow> 'r option) \<Rightarrow> json \<Rightarrow> 'r kucoin_envelope option" where
  "de_kucoin_envelope de = struct (\<lambda>v. do {
     code \<leftarrow> required as_str v ''code'';
     msg \<leftarrow> defaulted [] as_str v ''msg'';
     data \<leftarrow> required de v ''data'';
     Some \<lparr>ke_code = code, ke_msg = msg, ke_data = data\<rparr> })"

definition kucoin_check :: "'r kucoin_envelope \<Rightarrow> exchange_error + 'r" where
  "kucoin_check env =
     (if ke_code env = ''200000'' then Inr (ke_data env)
      else if ke_code env \<in> set kucoin_rate_limit_codes then Inl (RateLimited None)
      else Inl (Schema (''kucoin code='' @ ke_code env @ '' msg='' @ ke_msg env)))"

definition kucoin_get :: "'d venue \<Rightarrow> (json \<Rightarrow> 'r option) \<Rightarrow> string \<Rightarrow> exchange_error + 'r list" where
  "kucoin_get v de path =
     and_try (get_json v ''kucoin'' (de_kucoin_envelope (vec_of de)) 0 (vn_base v @ path)) kucoin_check"

record kucoin_contract_row =
  kc_symbol :: string
  kc_base_currency :: string
  kc_quote_currency :: string
  kc_contract_type :: string
  kc_multiplier :: "string option"
  kc_tick_size :: "string option"
  kc_open_interest :: string
  kc_mark_price :: "string option"
  kc_last_trade_price :: "string option"
  kc_status :: string
  kc_is_inverse :: bool
  kc_funding_fee_rate :: "string option"
  kc_next_funding_rate_time :: "int option"

definition de_kucoin_contract :: "json \<Rightarrow> kucoin_contract_row option" where
  "de_kucoin_contract = struct (\<lambda>v. do {
     symb \<leftarrow> required as_str v ''symbol'';
     base_currency \<leftarrow> defaulted [] as_str v ''baseCurrency'';
     quote_currency \<leftarrow> defaulted [] as_str v ''quoteCurrency'';
     _ \<leftarrow> defaulted [] as_str v ''settleCurrency'';
     contract_type \<leftarrow> defaulted [] as_str v ''type'';
     multiplier \<leftarrow> optional as_number v ''multiplier'';
     tick_size \<leftarrow> optional as_number v ''tickSize'';
     open_interest \<leftarrow> defaulted [] as_str v ''openInterest'';
     mark_price \<leftarrow> optional as_number v ''markPrice'';
     last_trade_price \<leftarrow> optional as_number v ''lastTradePrice'';
     _ \<leftarrow> optional as_number v ''indexPrice'';
     status \<leftarrow> defaulted [] as_str v ''status'';
     is_inverse \<leftarrow> defaulted False as_bool v ''isInverse'';
     funding_fee_rate \<leftarrow> optional as_number v ''fundingFeeRate'';
     next_funding_rate_time \<leftarrow> optional as_i64 v ''nextFundingRateTime'';
     Some \<lparr>kc_symbol = symb, kc_base_currency = base_currency, kc_quote_currency = quote_currency,
           kc_contract_type = contract_type, kc_multiplier = multiplier, kc_tick_size = tick_size,
           kc_open_interest = open_interest, kc_mark_price = mark_price, kc_last_trade_price = last_trade_price,
           kc_status = status, kc_is_inverse = is_inverse, kc_funding_fee_rate = funding_fee_rate,
           kc_next_funding_rate_time = next_funding_rate_time\<rparr> })"

record kucoin_history_row =
  kh_funding_rate :: "string option"
  kh_timepoint :: "int option"

definition de_kucoin_history :: "json \<Rightarrow> kucoin_history_row option" where
  "de_kucoin_history = struct (\<lambda>v. do {
     _ \<leftarrow> required as_str v ''symbol'';
     funding_rate \<leftarrow> optional as_number v ''fundingRate'';
     timepoint \<leftarrow> optional as_i64 v ''timepoint'';
     Some \<lparr>kh_funding_rate = funding_rate, kh_timepoint = timepoint\<rparr> })"

definition kucoin_contracts :: "'d venue \<Rightarrow> exchange_error + kucoin_contract_row list" where
  "kucoin_contracts v = kucoin_get v de_kucoin_contract ''/api/v1/contracts/active''"

section \<open>Discovery and the funding intervals\<close>

definition de_granularity :: "json \<Rightarrow> int option option" where
  "de_granularity = struct (\<lambda>v. optional as_i64 v ''granularity'')"

text \<open>\<open>(ms / 3_600_000).clamp(1, 24) as u8\<close>.\<close>

definition hours_of_ms :: "int \<Rightarrow> u8" where
  "hours_of_ms ms = of_int (min 24 (max 1 (trunc_div ms 3600000)))"

definition kucoin_note_interval ::
  "(string \<times> (exchange_error + int option kucoin_envelope)) option \<Rightarrow> intervals \<Rightarrow> intervals" where
  "kucoin_note_interval joined known =
     (case joined of
        Some (symb, Inr env) \<Rightarrow>
          (case kucoin_check env of
             Inr (Some ms) \<Rightarrow> dm_insert symb (hours_of_ms ms) known
           | Inr None \<Rightarrow> known
           | Inl e \<Rightarrow> known)
      | Some (symb, Inl e) \<Rightarrow> known
      | None \<Rightarrow> known)"

definition kucoin_interval_concurrency :: nat where
  "kucoin_interval_concurrency = 4"

definition kucoin_refresh_intervals :: "'d venue \<Rightarrow> string list \<Rightarrow> intervals \<Rightarrow> intervals" where
  "kucoin_refresh_intervals v symbols known =
     fold kucoin_note_interval
       (spawn_all v kucoin_interval_concurrency (\<lambda>symb. symb)
          (\<lambda>symb. get_json v ''kucoin'' (de_kucoin_envelope de_granularity) 0
                    (vn_base v @ ''/api/v1/funding-rate/'' @ symb @ ''/current'')) symbols) known"

definition kucoin_meta :: "(string \<Rightarrow> 'd option) \<Rightarrow> kucoin_contract_row \<Rightarrow> 'd instrument_meta" where
  "kucoin_meta dec r =
     \<lparr>meta_id = new_instrument KuCoin (kc_symbol r), meta_base_asset = kc_base_currency r,
      meta_quote_asset = kc_quote_currency r, meta_is_perpetual = True, meta_native_unit = Contracts,
      meta_contract_multiplier = Option.bind (kc_multiplier r) dec,
      meta_price_tick = Option.bind (kc_tick_size r) dec, meta_qty_step = None,
      meta_active = (kc_status r = ''Open'')\<rparr>"

definition kucoin_discover :: "'d venue \<Rightarrow> intervals \<Rightarrow> (exchange_error + 'd instrument_meta list) \<times> intervals" where
  "kucoin_discover v known =
     (case kucoin_contracts v of
        Inl e \<Rightarrow> (Inl e, known)
      | Inr rows \<Rightarrow>
          (let metas = map (kucoin_meta (vn_dec v))
                 (filter (\<lambda>r. kc_contract_type r = [] \<or> kc_contract_type r = ''FFWCSX'')
                   (filter (\<lambda>r. \<not> kc_is_inverse r) rows));
               active = map (\<lambda>m. id_symbol (meta_id m)) (filter meta_active metas)
           in (Inr metas, kucoin_refresh_intervals v active known)))"

section \<open>Open interest and funding\<close>

definition kucoin_reading ::
  "(string \<Rightarrow> 'd option) \<Rightarrow> instrument_id list \<Rightarrow> timestamp \<Rightarrow> timestamp \<Rightarrow> kucoin_contract_row \<Rightarrow> 'd raw_oi option" where
  "kucoin_reading dec ids bucket now r =
     (if \<not> wanted ids (kc_symbol r) \<or> kc_open_interest r = [] then None
      else map_option (\<lambda>value.
             \<lparr>raw_instrument = new_instrument KuCoin (kc_symbol r), raw_value = value, raw_unit = Contracts,
              raw_bucket_ts = bucket, raw_recv_ts = now,
              raw_price_hint = map_option (\<lambda>(p, source). quote_at KuCoin (kc_symbol r) p source now)
                                 (number_price dec (kc_mark_price r) (kc_last_trade_price r))\<rparr>)
             (dec (kc_open_interest r)))"

definition kucoin_fetch_oi :: "'d venue \<Rightarrow> instrument_id list \<Rightarrow> timestamp \<Rightarrow> exchange_error + 'd raw_oi list" where
  "kucoin_fetch_oi v ids bucket =
     and_try (kucoin_contracts v) (\<lambda>rows. Inr (List.map_filter (kucoin_reading (vn_dec v) ids bucket (vn_now v)) rows))"

definition kucoin_funding_bar ::
  "(string \<Rightarrow> 'd option) \<Rightarrow> intervals \<Rightarrow> instrument_id list \<Rightarrow> timestamp \<Rightarrow> timestamp \<Rightarrow> kucoin_contract_row \<Rightarrow> 'd funding_bar option" where
  "kucoin_funding_bar dec known ids bucket now r =
     (if \<not> wanted ids (kc_symbol r) then None
      else map_option (\<lambda>rate.
             \<lparr>fb_instrument = new_instrument KuCoin (kc_symbol r), fb_bucket_ts = bucket, fb_recv_ts = now,
              fb_rate = rate, fb_next_funding_ts = Option.bind (kc_next_funding_rate_time r) next_funding,
              fb_interval_hours = interval_or_8 known (kc_symbol r)\<rparr>)
             (Option.bind (kc_funding_fee_rate r) dec))"

definition kucoin_fetch_funding :: "'d venue \<Rightarrow> intervals \<Rightarrow> instrument_id list \<Rightarrow> timestamp \<Rightarrow> exchange_error + 'd funding_bar list" where
  "kucoin_fetch_funding v known ids bucket =
     and_try (kucoin_contracts v) (\<lambda>rows. Inr (List.map_filter (kucoin_funding_bar (vn_dec v) known ids bucket (vn_now v)) rows))"

definition kucoin_history_path :: "string \<Rightarrow> timestamp option \<Rightarrow> timestamp \<Rightarrow> string" where
  "kucoin_history_path symb since now =
     (let from_ts = (case since of Some s \<Rightarrow> s | None \<Rightarrow> now - minutes (7 * 24 * 60))
      in ''/api/v1/contract/funding-rates?symbol='' @ symb @ ''&from='' @ show_int (ms_of_ts from_ts) @
         ''&to='' @ show_int (ms_of_ts now))"

definition kucoin_event ::
  "(string \<Rightarrow> 'd option) \<Rightarrow> instrument_id \<Rightarrow> timestamp option \<Rightarrow> kucoin_history_row \<Rightarrow> 'd funding_event option" where
  "kucoin_event dec inst since r = do {
     rate \<leftarrow> Option.bind (kh_funding_rate r) dec;
     ms \<leftarrow> kh_timepoint r;
     ts \<leftarrow> ts_of_ms ms;
     if newer_than since ts
     then Some \<lparr>fe_instrument = inst, fe_settlement_ts = ts, fe_rate = rate, fe_mark_price = None\<rparr>
     else None }"

definition kucoin_fetch_history :: "'d venue \<Rightarrow> instrument_id \<Rightarrow> timestamp option \<Rightarrow> exchange_error + 'd funding_event list" where
  "kucoin_fetch_history v inst since =
     and_try (kucoin_get v de_kucoin_history (kucoin_history_path (id_symbol inst) since (vn_now v)))
       (\<lambda>rows. Inr (List.map_filter (kucoin_event (vn_dec v) inst since) rows))"

section \<open>The contract holds\<close>

lemma kucoin_reading_for: "listed_on KuCoin ids \<Longrightarrow> kucoin_reading dec ids bucket now row = Some r \<Longrightarrow> reading_for ids bucket r"
  by (auto simp: kucoin_reading_def reading_for_def wanted_listed split: if_splits option.splits)

lemma kucoin_history_events:
  "kucoin_fetch_history v i since = Inr events \<Longrightarrow> e \<in> set events \<Longrightarrow>
     fe_instrument e = i \<and> newer_than since (fe_settlement_ts e)"
  by (auto simp: kucoin_fetch_history_def and_try_Inr_iff in_map_filter kucoin_event_def bind_eq_Some_conv split: if_splits)

interpretation kucoin: exchange_adapter KuCoin "fst (kucoin_discover v known)" "kucoin_fetch_oi v" no_prices
  "kucoin_fetch_funding v known" "kucoin_fetch_history v" for v known
proof
  show "id_exchange (meta_id m) = KuCoin" if "fst (kucoin_discover v known) = Inr metas" "m \<in> set metas" for metas m
    using that by (auto simp: kucoin_discover_def Let_def kucoin_meta_def split: sum.splits)
  show "reading_for ids bucket r"
    if "listed_on KuCoin ids" "kucoin_fetch_oi v ids bucket = Inr raws" "r \<in> set raws" for ids bucket raws r
    using that by (auto simp: kucoin_fetch_oi_def and_try_Inr_iff in_map_filter intro: kucoin_reading_for)
  show "fb_instrument b \<in> set ids \<and> fb_bucket_ts b = bucket"
    if "listed_on KuCoin ids" "kucoin_fetch_funding v known ids bucket = Inr bars" "b \<in> set bars" for ids bucket bars b
    using that by (auto simp: kucoin_fetch_funding_def and_try_Inr_iff in_map_filter kucoin_funding_bar_def wanted_listed
        split: if_splits)
qed (auto simp: no_prices_def dest: kucoin_history_events)

section \<open>Intervals\<close>

text \<open>An interval in the map is a whole number of hours between one and a day.\<close>

definition whole_hours :: "intervals \<Rightarrow> bool" where
  "whole_hours known \<longleftrightarrow> (\<forall>symb h. dm_get known symb = Some h \<longrightarrow> 1 \<le> h \<and> h \<le> 24)"

lemma unat_hours_of_ms: "unat (hours_of_ms ms) = nat (min 24 (max 1 (trunc_div ms 3600000)))"
proof -
  let ?k = "min 24 (max 1 (trunc_div ms 3600000))"
  have "?k mod 256 = ?k" by (intro mod_pos_pos_trivial) auto
  then show ?thesis
    unfolding hours_of_ms_def unat_eq_nat_uint unsigned_of_int by (simp add: take_bit_eq_mod)
qed

lemma hours_of_ms_bounds: "1 \<le> hours_of_ms ms" "hours_of_ms ms \<le> 24"
  by (simp_all add: word_le_nat_alt unat_hours_of_ms)

lemma dm_get_insert: "dm_get (dm_insert k v m) k' = (if k' = k then Some v else dm_get m k')"
  by (simp add: dm_get_def dm_insert_def update_conv)

lemma note_interval_hours: "whole_hours known \<Longrightarrow> whole_hours (kucoin_note_interval joined known)"
  by (auto simp: kucoin_note_interval_def whole_hours_def dm_get_insert hours_of_ms_bounds
      split: option.split sum.split prod.split)

lemma refresh_intervals_hours: "whole_hours known \<Longrightarrow> whole_hours (kucoin_refresh_intervals v symbols known)"
proof -
  have "whole_hours (fold kucoin_note_interval js known)" if "whole_hours known" for js known
    using that by (induction js arbitrary: known) (simp_all add: note_interval_hours)
  then show "whole_hours known \<Longrightarrow> whole_hours (kucoin_refresh_intervals v symbols known)"
    by (simp add: kucoin_refresh_intervals_def)
qed

lemma discover_hours: "whole_hours known \<Longrightarrow> whole_hours (snd (kucoin_discover v known))"
  by (simp add: kucoin_discover_def Let_def refresh_intervals_hours split: sum.split)

lemma interval_or_8_hours: "whole_hours known \<Longrightarrow> \<exists>h. interval_or_8 known symb = Some h \<and> 1 \<le> h \<and> h \<le> 24"
  by (auto simp: interval_or_8_def whole_hours_def split: option.split)

text \<open>
  Whatever granularity KuCoin publishes, negative and absurdly large ones included, every
  funding bar carries an interval of at least one and at most 24 hours: discovery keeps the map
  of intervals within those bounds, and a symbol without an entry gets 8.
\<close>

theorem kucoin_bars_have_whole_hours:
  assumes "whole_hours known"
    and "kucoin_fetch_funding v (snd (kucoin_discover w known)) ids bucket = Inr bars"
    and "b \<in> set bars"
  shows "\<exists>h. fb_interval_hours b = Some h \<and> 1 \<le> h \<and> h \<le> 24"
proof -
  have "\<exists>symb. fb_interval_hours b = interval_or_8 (snd (kucoin_discover w known)) symb"
    using assms(2,3) by (auto simp: kucoin_fetch_funding_def and_try_Inr_iff in_map_filter kucoin_funding_bar_def
        split: if_splits) blast
  with interval_or_8_hours [OF discover_hours [OF assms(1), of w]] show ?thesis by metis
qed

text \<open>A contract list with one symbol, whose published granularity is negative.\<close>

definition negative_interval :: "string \<Rightarrow> json option" where
  "negative_interval url =
     (if url = ''https://venue/api/v1/contracts/active''
      then Some (JObject [(''code'', JString ''200000''),
             (''data'', JArray [JObject [(''symbol'', JString ''A''), (''status'', JString ''Open''),
                (''fundingFeeRate'', JNumber ''7'')]])])
      else Some (JObject [(''code'', JString ''200000''), (''data'', JObject [(''granularity'', JNumber ''-5'')])]))"

definition negative_interval_venue :: "nat venue" where
  "negative_interval_venue = constant_venue (\<lambda>r. Inr (answer 200 (rq_url r))) negative_interval"

lemma negative_interval_bars:
  "kucoin_fetch_funding negative_interval_venue (snd (kucoin_discover negative_interval_venue [])) [new_instrument KuCoin ''A''] 60 =
     Inr [\<lparr>fb_instrument = new_instrument KuCoin ''A'', fb_bucket_ts = 60, fb_recv_ts = seconds 1700000000,
           fb_rate = 7, fb_next_funding_ts = None, fb_interval_hours = Some 1\<rparr>]"
  by code_simp

theorem kucoin_bars_have_whole_hours_witness: "\<exists>h. Some (1 :: u8) = Some h \<and> 1 \<le> h \<and> h \<le> 24"
  using kucoin_bars_have_whole_hours [OF _ negative_interval_bars]
  by (simp add: whole_hours_def dm_get_def)

end
