(* ===== verification/Adapter_Bingx.thy ===== *)
theory Adapter_Bingx
  imports Adapter_Contract
begin

text \<open>
  \<open>bingx/mod.rs\<close>: the perpetuals of BingX: one request per instrument for the open interest, one
  premium-index request for prices and funding, a history filtered on the client.
\<close>

section \<open>Rows\<close>

record 'r bingx_envelope =
  xe_code :: int
  xe_msg :: string
  xe_data :: 'r

definition de_bingx_envelope :: "(json \<Rightarrow> 'r option) \<Rightarrow> json \<Rightarrow> 'r bingx_envelope option" where
  "de_bingx_envelope de = struct (\<lambda>v. do {
     code \<leftarrow> required as_i64 v ''code'';
     msg \<leftarrow> defaulted [] as_str v ''msg'';
     data \<leftarrow> required de v ''data'';
     Some \<lparr>xe_code = code, xe_msg = msg, xe_data = data\<rparr> })"

definition bingx_check :: "'r bingx_envelope \<Rightarrow> exchange_error + 'r" where
  "bingx_check env =
     (if xe_code env = 0 then Inr (xe_data env)
      else if xe_code env \<in> {100410, 80014, 429} then Inl (RateLimited None)
      else Inl (Schema (''bingx code='' @ show_int (xe_code env) @ '' msg='' @ xe_msg env)))"

definition bingx_get :: "'d venue \<Rightarrow> (json \<Rightarrow> 'r option) \<Rightarrow> string \<Rightarrow> exchange_error + 'r" where
  "bingx_get v de path = and_try (get_json v ''bingx'' (de_bingx_envelope de) 0 (vn_base v @ path)) bingx_check"

record bingx_contract_row =
  xc_symbol :: string
  xc_asset :: string
  xc_currency :: string
  xc_status :: int
  xc_price_precision :: int

definition de_bingx_contract :: "json \<Rightarrow> bingx_contract_row option" where
  "de_bingx_contract = struct (\<lambda>v. do {
     symb \<leftarrow> required as_str v ''symbol'';
     asset \<leftarrow> defaulted [] as_str v ''asset'';
     currency \<leftarrow> defaulted [] as_str v ''currency'';
     status \<leftarrow> defaulted 0 as_i32 v ''status'';
     _ \<leftarrow> defaulted 0 as_i32 v ''quantityPrecision'';
     price_precision \<leftarrow> defaulted 0 as_i32 v ''pricePrecision'';
     _ \<leftarrow> optional as_number v ''tradeMinLimit'';
     Some \<lparr>xc_symbol = symb, xc_asset = asset, xc_currency = currency, xc_status = status,
           xc_price_precision = price_precision\<rparr> })"

definition de_bingx_open_interest :: "json \<Rightarrow> string option" where
  "de_bingx_open_interest = struct (\<lambda>v. do {
     _ \<leftarrow> defaulted [] as_str v ''symbol'';
     open_interest \<leftarrow> defaulted [] as_str v ''openInterest'';
     _ \<leftarrow> defaulted 0 as_i64 v ''time'';
     Some open_interest })"

record bingx_premium_row =
  xp_symbol :: string
  xp_mark_price :: string
  xp_last_funding_rate :: string
  xp_next_funding_time :: int

definition de_bingx_premium :: "json \<Rightarrow> bingx_premium_row option" where
  "de_bingx_premium = struct (\<lambda>v. do {
     symb \<leftarrow> required as_str v ''symbol'';
     mark_price \<leftarrow> defaulted [] as_str v ''markPrice'';
     _ \<leftarrow> defaulted [] as_str v ''indexPrice'';
     last_funding_rate \<leftarrow> defaulted [] as_str v ''lastFundingRate'';
     next_funding_time \<leftarrow> defaulted 0 as_i64 v ''nextFundingTime'';
     Some \<lparr>xp_symbol = symb, xp_mark_price = mark_price, xp_last_funding_rate = last_funding_rate,
           xp_next_funding_time = next_funding_time\<rparr> })"

record bingx_history_row =
  xh_funding_rate :: string
  xh_funding_time :: int

definition de_bingx_history :: "json \<Rightarrow> bingx_history_row option" where
  "de_bingx_history = struct (\<lambda>v. do {
     _ \<leftarrow> required as_str v ''symbol'';
     funding_rate \<leftarrow> defaulted [] as_str v ''fundingRate'';
     funding_time \<leftarrow> defaulted 0 as_i64 v ''fundingTime'';
     Some \<lparr>xh_funding_rate = funding_rate, xh_funding_time = funding_time\<rparr> })"

section \<open>Operations\<close>

text \<open>A price precision of \<open>p > 0\<close> digits is the tick \<open>0.0\<dots>01\<close>.\<close>

definition tick_text :: "int \<Rightarrow> string" where
  "tick_text precision = ''0.'' @ replicate (nat (precision - 1)) (CHR ''0'') @ ''1''"

definition bingx_meta :: "'d venue \<Rightarrow> bingx_contract_row \<Rightarrow> 'd instrument_meta" where
  "bingx_meta v r =
     \<lparr>meta_id = new_instrument BingX (xc_symbol r), meta_base_asset = xc_asset r, meta_quote_asset = xc_currency r,
      meta_is_perpetual = True, meta_native_unit = Coins, meta_contract_multiplier = None,
      meta_price_tick = (if 0 < xc_price_precision r then vn_dec v (tick_text (xc_price_precision r)) else Some (vn_one v)),
      meta_qty_step = None, meta_active = (xc_status r = 1)\<rparr>"

definition bingx_discover :: "'d venue \<Rightarrow> exchange_error + 'd instrument_meta list" where
  "bingx_discover v =
     and_try (bingx_get v (vec_of de_bingx_contract) ''/openApi/swap/v2/quote/contracts'')
       (\<lambda>rows. Inr (map (bingx_meta v) rows))"

definition bingx_fetch_one :: "'d venue \<Rightarrow> string \<Rightarrow> exchange_error + 'd" where
  "bingx_fetch_one v symb =
     and_try (bingx_get v de_bingx_open_interest (''/openApi/swap/v2/quote/openInterest?symbol='' @ symb))
       (\<lambda>oi. case vn_dec v oi of
               None \<Rightarrow> Inl (Schema (''bingx openInterest '' @ symb @ '': ''))
             | Some d \<Rightarrow> Inr d)"

definition bingx_concurrency :: nat where
  "bingx_concurrency = 8"

definition bingx_fetch_oi :: "'d venue \<Rightarrow> instrument_id list \<Rightarrow> timestamp \<Rightarrow> exchange_error + 'd raw_oi list" where
  "bingx_fetch_oi v instruments bucket =
     Inr (List.map_filter (coins_reading bucket (vn_now v))
            (spawn_all v bingx_concurrency id_symbol (\<lambda>inst. bingx_fetch_one v (id_symbol inst)) instruments))"

definition bingx_premiums :: "'d venue \<Rightarrow> exchange_error + bingx_premium_row list" where
  "bingx_premiums v = bingx_get v (vec_of de_bingx_premium) ''/openApi/swap/v2/quote/premiumIndex''"

definition bingx_quote :: "(string \<Rightarrow> 'd option) \<Rightarrow> instrument_id list \<Rightarrow> timestamp \<Rightarrow> bingx_premium_row \<Rightarrow> 'd price_quote option" where
  "bingx_quote dec ids now r =
     (if \<not> wanted ids (xp_symbol r) then None
      else map_option (\<lambda>price. quote_at BingX (xp_symbol r) price Mark now) (dec (xp_mark_price r)))"

definition bingx_fetch_prices :: "'d venue \<Rightarrow> instrument_id list \<Rightarrow> exchange_error + 'd price_quote list" where
  "bingx_fetch_prices v ids =
     and_try (bingx_premiums v) (\<lambda>rows. Inr (List.map_filter (bingx_quote (vn_dec v) ids (vn_now v)) rows))"

definition bingx_funding_bar ::
  "(string \<Rightarrow> 'd option) \<Rightarrow> instrument_id list \<Rightarrow> timestamp \<Rightarrow> timestamp \<Rightarrow> bingx_premium_row \<Rightarrow> 'd funding_bar option" where
  "bingx_funding_bar dec ids bucket now r =
     (if \<not> wanted ids (xp_symbol r) \<or> xp_last_funding_rate r = [] then None
      else map_option (\<lambda>rate.
             \<lparr>fb_instrument = new_instrument BingX (xp_symbol r), fb_bucket_ts = bucket, fb_recv_ts = now,
              fb_rate = rate, fb_next_funding_ts = next_funding (xp_next_funding_time r),
              fb_interval_hours = Some 8\<rparr>) (dec (xp_last_funding_rate r)))"

definition bingx_fetch_funding :: "'d venue \<Rightarrow> instrument_id list \<Rightarrow> timestamp \<Rightarrow> exchange_error + 'd funding_bar list" where
  "bingx_fetch_funding v ids bucket =
     and_try (bingx_premiums v) (\<lambda>rows. Inr (List.map_filter (bingx_funding_bar (vn_dec v) ids bucket (vn_now v)) rows))"

definition bingx_history_path :: "string \<Rightarrow> timestamp option \<Rightarrow> string" where
  "bingx_history_path symb since =
     ''/openApi/swap/v2/quote/fundingRate?symbol='' @ symb @ ''&limit=1000'' @
     (case since of None \<Rightarrow> [] | Some s \<Rightarrow> ''&startTime='' @ show_int (ms_of_ts s))"

definition bingx_event ::
  "(string \<Rightarrow> 'd option) \<Rightarrow> instrument_id \<Rightarrow> timestamp option \<Rightarrow> bingx_history_row \<Rightarrow> 'd funding_event option" where
  "bingx_event dec inst since r = do {
     rate \<leftarrow> dec (xh_funding_rate r);
     ts \<leftarrow> ts_of_ms (xh_funding_time r);
     if newer_than since ts
     then Some \<lparr>fe_instrument = inst, fe_settlement_ts = ts, fe_rate = rate, fe_mark_price = None\<rparr>
     else None }"

definition bingx_fetch_history :: "'d venue \<Rightarrow> instrument_id \<Rightarrow> timestamp option \<Rightarrow> exchange_error + 'd funding_event list" where
  "bingx_fetch_history v inst since =
     and_try (bingx_get v (vec_of de_bingx_history) (bingx_history_path (id_symbol inst) since))
       (\<lambda>rows. Inr (List.map_filter (bingx_event (vn_dec v) inst since) rows))"

section \<open>The contract holds\<close>

lemma bingx_history_events:
  "bingx_fetch_history v i since = Inr events \<Longrightarrow> e \<in> set events \<Longrightarrow>
     fe_instrument e = i \<and> newer_than since (fe_settlement_ts e)"
  by (auto simp: bingx_fetch_history_def and_try_Inr_iff in_map_filter bingx_event_def bind_eq_Some_conv split: if_splits)

interpretation bingx: exchange_adapter BingX "bingx_discover v" "bingx_fetch_oi v" "bingx_fetch_prices v"
  "bingx_fetch_funding v" "bingx_fetch_history v" for v
proof
  show "id_exchange (meta_id m) = BingX" if "bingx_discover v = Inr metas" "m \<in> set metas" for metas m
    using that by (auto simp: bingx_discover_def and_try_Inr_iff bingx_meta_def)
  show "reading_for ids bucket r"
    if "bingx_fetch_oi v ids bucket = Inr raws" "r \<in> set raws" for ids bucket raws r
    using that by (auto simp: bingx_fetch_oi_def bingx_concurrency_def in_map_filter coins_reading_Some_iff in_spawn_all
        reading_for_def)
  show "quote_instrument q \<in> set ids"
    if "listed_on BingX ids" "bingx_fetch_prices v ids = Inr qs" "q \<in> set qs" for ids qs q
    using that by (auto simp: bingx_fetch_prices_def and_try_Inr_iff in_map_filter bingx_quote_def wanted_listed split: if_splits)
  show "fb_instrument b \<in> set ids \<and> fb_bucket_ts b = bucket"
    if "listed_on BingX ids" "bingx_fetch_funding v ids bucket = Inr bars" "b \<in> set bars" for ids bucket bars b
    using that by (auto simp: bingx_fetch_funding_def and_try_Inr_iff in_map_filter bingx_funding_bar_def wanted_listed
        split: if_splits)
qed (auto dest: bingx_history_events)

end
