(* ===== verification/Adapters.thy ===== *)
theory Adapters
  imports Adapter_Binance Adapter_Okx Adapter_Bybit Adapter_Bitget Adapter_Hyperliquid Adapter_Mexc Adapter_Kucoin Adapter_Bingx
begin

text \<open>
  The adapters together: \<open>adapter_for\<close> of \<open>backfill.rs\<close> chooses the adapter of an exchange, and
  the contract of the trait carries over to whichever is chosen. The properties that span the
  venues and their use by the collector are here.
\<close>

section \<open>The adapter of an exchange\<close>

fun adapter_for :: "exchange \<Rightarrow> 'd venue \<Rightarrow> intervals \<Rightarrow> 'd adapter" where
  "adapter_for Binance v known =
     \<lparr>ad_exchange = Binance, ad_discover = binance_discover v, ad_fetch_oi = binance_fetch_oi binance_concurrency v,
      ad_fetch_prices = binance_fetch_prices v, ad_fetch_funding = binance_fetch_funding v, ad_fetch_history = binance_fetch_history v\<rparr>"
| "adapter_for Bybit v known =
     \<lparr>ad_exchange = Bybit, ad_discover = bybit_discover v, ad_fetch_oi = bybit_fetch_oi v,
      ad_fetch_prices = bybit_fetch_prices v, ad_fetch_funding = bybit_fetch_funding v, ad_fetch_history = bybit_fetch_history v\<rparr>"
| "adapter_for Hyperliquid v known =
     \<lparr>ad_exchange = Hyperliquid, ad_discover = hyperliquid_discover v, ad_fetch_oi = hyperliquid_fetch_oi v,
      ad_fetch_prices = hyperliquid_fetch_prices v, ad_fetch_funding = hyperliquid_fetch_funding v,
      ad_fetch_history = hyperliquid_fetch_history v\<rparr>"
| "adapter_for Okx v known =
     \<lparr>ad_exchange = Okx, ad_discover = okx_discover v, ad_fetch_oi = okx_fetch_oi v,
      ad_fetch_prices = okx_fetch_prices v, ad_fetch_funding = okx_fetch_funding v, ad_fetch_history = okx_fetch_history v\<rparr>"
| "adapter_for Bitget v known =
     \<lparr>ad_exchange = Bitget, ad_discover = bitget_discover v, ad_fetch_oi = bitget_fetch_oi v,
      ad_fetch_prices = no_prices, ad_fetch_funding = bitget_fetch_funding v, ad_fetch_history = bitget_fetch_history v\<rparr>"
| "adapter_for Mexc v known =
     \<lparr>ad_exchange = Mexc, ad_discover = fst (mexc_discover v known), ad_fetch_oi = mexc_fetch_oi v,
      ad_fetch_prices = no_prices, ad_fetch_funding = mexc_fetch_funding v known, ad_fetch_history = mexc_fetch_history v\<rparr>"
| "adapter_for Aster v known =
     \<lparr>ad_exchange = Aster, ad_discover = aster_discover v, ad_fetch_oi = aster_fetch_oi binance_concurrency v,
      ad_fetch_prices = aster_fetch_prices v, ad_fetch_funding = aster_fetch_funding v, ad_fetch_history = aster_fetch_history v\<rparr>"
| "adapter_for BingX v known =
     \<lparr>ad_exchange = BingX, ad_discover = bingx_discover v, ad_fetch_oi = bingx_fetch_oi v,
      ad_fetch_prices = bingx_fetch_prices v, ad_fetch_funding = bingx_fetch_funding v, ad_fetch_history = bingx_fetch_history v\<rparr>"
| "adapter_for KuCoin v known =
     \<lparr>ad_exchange = KuCoin, ad_discover = fst (kucoin_discover v known), ad_fetch_oi = kucoin_fetch_oi v,
      ad_fetch_prices = no_prices, ad_fetch_funding = kucoin_fetch_funding v known, ad_fetch_history = kucoin_fetch_history v\<rparr>"

lemma adapter_for_contract:
  "exchange_adapter ex (ad_discover (adapter_for ex v known)) (ad_fetch_oi (adapter_for ex v known))
     (ad_fetch_prices (adapter_for ex v known)) (ad_fetch_funding (adapter_for ex v known))
     (ad_fetch_history (adapter_for ex v known))"
  by (cases ex)
    (simp_all add: binance.exchange_adapter_axioms bybit.exchange_adapter_axioms hyperliquid.exchange_adapter_axioms
      okx.exchange_adapter_axioms bitget.exchange_adapter_axioms mexc.exchange_adapter_axioms
      aster.exchange_adapter_axioms bingx.exchange_adapter_axioms kucoin.exchange_adapter_axioms)

interpretation venue: exchange_adapter ex "ad_discover (adapter_for ex v known)" "ad_fetch_oi (adapter_for ex v known)"
  "ad_fetch_prices (adapter_for ex v known)" "ad_fetch_funding (adapter_for ex v known)"
  "ad_fetch_history (adapter_for ex v known)" for ex v known
  by (rule adapter_for_contract)

section \<open>From the venue to the store\<close>

lemma observe_raws_enriched:
  "observe_raws mul pp metas agg rs = Ret agg' \<Longrightarrow> r \<in> set rs \<Longrightarrow> find_meta metas (raw_instrument r) = Some meta \<Longrightarrow>
     \<exists>x. enrich mul r meta (sample_price pp meta r) = Ret x"
proof (induction rs arbitrary: agg)
  case (Cons r' rs)
  then show ?case by (auto split: option.splits rust.splits sum.splits)
qed simp

lemma enrich_Inr: "enrich mul r meta price = Ret x \<Longrightarrow> raw_instrument r = meta_id meta \<Longrightarrow> \<exists>smp. x = Inr smp"
  by (auto simp: enrich_def Let_def bind_rust_Ret_iff)

lemma find_meta_id: "find_meta metas i = Some m \<Longrightarrow> meta_id m = i"
  by (auto simp: find_meta_def find_Some_iff)

lemma readings_are_usable:
  assumes "ad_discover (adapter_for ex v known) = Inr (col_metas col)"
    and "mr_oi rep = ad_fetch_oi (adapter_for ex w known') (active_ids (col_metas col)) (tick_bucket_ts tick)"
    and "mr_oi rep = Inr raws"
    and "collect_minute mul repo tick rep col s = Ret (col', s')"
  obtains agg' snaps where "minute_batch mul tick rep col = Ret (Some (agg', snaps))" "s' = after_batch repo rep col snaps s"
    "\<forall>r \<in> set raws. raw_bucket_ts r = tick_bucket_ts tick \<and> usable mul (minute_prices rep col) (col_metas col) r \<and>
       raw_instrument r \<in> set (active_ids (col_metas col))"
proof -
  let ?metas = "col_metas col" and ?pp = "minute_prices rep col"
  have listed: "listed_on ex (active_ids ?metas)" using assms(1) by (rule venue.active_listed)
  have read: "reading_for (active_ids ?metas) (tick_bucket_ts tick) r" if "r \<in> set raws" for r
    using venue.reads [OF listed _ that] assms(2,3) by metis
  obtain agg' snaps where b: "minute_batch mul tick rep col = Ret (Some (agg', snaps))"
    and s': "s' = after_batch repo rep col snaps s"
    using collect_minute_Ret [OF assms(4,3)] by blast
  have use: "usable mul ?pp ?metas r" if r: "r \<in> set raws" for r
  proof -
    obtain m where m: "m \<in> set ?metas" "meta_id m = raw_instrument r"
      using read [OF r] by (auto simp: reading_for_def active_ids_def)
    then obtain meta where meta: "find_meta ?metas (raw_instrument r) = Some meta"
      by (cases "find_meta ?metas (raw_instrument r)") (auto simp: find_meta_def find_None_iff)
    obtain agg where "observe_raws mul ?pp ?metas (col_agg col) raws = Ret agg"
      using b assms(3) by (auto simp: minute_batch_def map_rust_Ret_iff)
    with observe_raws_enriched [OF _ r meta] enrich_Inr find_meta_id [OF meta] meta show ?thesis
      unfolding usable_def by metis
  qed
  have "\<forall>r \<in> set raws. raw_bucket_ts r = tick_bucket_ts tick \<and> usable mul ?pp ?metas r \<and>
      raw_instrument r \<in> set (active_ids ?metas)"
    using read use by (auto simp: reading_for_def)
  with b s' show thesis by (rule that)
qed


text \<open>
  C19. Prices, funding rates and settlements are of the instruments the collector asked about, on
  every exchange: a quote or a bar never carries a foreign or unknown instrument, a bar is of the
  asked minute, a settlement is of the one instrument of its request.
\<close>

theorem answers_are_about_what_was_asked:
  assumes "listed_on ex ids" "id_exchange i = ex"
  shows "(\<forall>qs. ad_fetch_prices (adapter_for ex v known) ids = Inr qs \<longrightarrow> (\<forall>q \<in> set qs. quote_instrument q \<in> set ids)) \<and>
         (\<forall>bars. ad_fetch_funding (adapter_for ex v known) ids bucket = Inr bars \<longrightarrow>
            (\<forall>b \<in> set bars. fb_instrument b \<in> set ids \<and> fb_bucket_ts b = bucket)) \<and>
         (\<forall>events. ad_fetch_history (adapter_for ex v known) i since = Inr events \<longrightarrow>
            (\<forall>e \<in> set events. fe_instrument e = i))"
  using venue.quotes [OF assms(1)] venue.funds [OF assms(1)] venue.settles [OF assms(2)] by blast

text \<open>A KuCoin venue that lists one contract, with an open interest and a funding rate.\<close>

definition one_contract :: "string \<Rightarrow> json option" where
  "one_contract url =
     Some (JObject [(''code'', JString ''200000''),
       (''data'', JArray [JObject [(''symbol'', JString ''A''), (''status'', JString ''Open''),
          (''openInterest'', JString ''7''), (''fundingFeeRate'', JNumber ''3'')]])])"

definition one_contract_venue :: "nat venue" where
  "one_contract_venue = constant_venue (\<lambda>r. Inr (answer 200 (rq_url r))) one_contract"

definition one_contract_meta :: "nat instrument_meta" where
  "one_contract_meta =
     \<lparr>meta_id = new_instrument KuCoin ''A'', meta_base_asset = [], meta_quote_asset = [], meta_is_perpetual = True,
      meta_native_unit = Contracts, meta_contract_multiplier = None, meta_price_tick = None, meta_qty_step = None,
      meta_active = True\<rparr>"

definition one_contract_reading :: "nat raw_oi" where
  "one_contract_reading =
     \<lparr>raw_instrument = new_instrument KuCoin ''A'', raw_value = 7, raw_unit = Contracts, raw_bucket_ts = 0,
      raw_recv_ts = seconds 1700000000, raw_price_hint = None\<rparr>"

definition one_contract_collector :: "nat collector" where
  "one_contract_collector =
     \<lparr>col_metas = [one_contract_meta], col_prices = with_tolerance (minutes 5), col_agg = [], col_cursor = [], col_symbols = []\<rparr>"

definition one_contract_replies :: "nat minute_replies" where
  "one_contract_replies = \<lparr>mr_prices = Inr [], mr_oi = Inr [one_contract_reading], mr_funding = Inr [], mr_refresh = None\<rparr>"

lemma one_contract_discovered: "fst (kucoin_discover one_contract_venue []) = Inr [one_contract_meta]"
  by code_simp

lemma one_contract_read: "kucoin_fetch_oi one_contract_venue [new_instrument KuCoin ''A''] 0 = Inr [one_contract_reading]"
  by code_simp

lemma one_contract_collected:
  "\<exists>col' s'. collect_minute (\<lambda>a b. Panic) repo (ex_tick 0) one_contract_replies one_contract_collector s = Ret (col', s')"
  by (simp add: collect_minute_def one_contract_replies_def one_contract_collector_def find_meta_def one_contract_meta_def
      one_contract_reading_def enrich_def write_funding_def refresh_metas_def Let_def split: prod.split)


definition one_contract_rate :: "nat funding_bar" where
  "one_contract_rate =
     \<lparr>fb_instrument = new_instrument KuCoin ''A'', fb_bucket_ts = 60, fb_recv_ts = seconds 1700000000, fb_rate = 3,
      fb_next_funding_ts = None, fb_interval_hours = Some 8\<rparr>"

lemma one_contract_funded:
  "kucoin_fetch_funding one_contract_venue [] [new_instrument KuCoin ''A''] 60 = Inr [one_contract_rate]"
  by code_simp

theorem answers_are_about_what_was_asked_witness:
  "kucoin_fetch_funding one_contract_venue [] [new_instrument KuCoin ''A''] 60 = Inr [one_contract_rate] \<and>
   fb_instrument one_contract_rate \<in> {new_instrument KuCoin ''A''} \<and> fb_bucket_ts one_contract_rate = 60"
  using one_contract_funded answers_are_about_what_was_asked
    [of KuCoin "[new_instrument KuCoin ''A'']" "new_instrument KuCoin ''A''" one_contract_venue "[]" 60 None]
  by (simp add: listed_on_def)

section \<open>Histories\<close>

text \<open>
  The five adapters that filter on the client return only settlements strictly after the
  cursor they are given, whatever the venue answers.
\<close>

theorem filtered_histories_are_newer:
  assumes "ex \<in> {Bitget, Hyperliquid, Mexc, KuCoin, BingX}"
    and "ad_fetch_history (adapter_for ex v known) i (Some t) = Inr events" "e \<in> set events"
  shows "t < fe_settlement_ts e"
proof -
  have "newer_than (Some t) (fe_settlement_ts e)"
    using assms bitget_history_events hyperliquid_history_events mexc_history_events
      kucoin_history_events bingx_history_events by fastforce
  then show ?thesis by (simp add: newer_than_def)
qed

text \<open>A BingX history of two settlements, and a Hyperliquid funding rate.\<close>

definition two_settlements :: "string \<Rightarrow> json option" where
  "two_settlements url =
     Some (JObject [(''code'', JNumber ''0''), (''data'', JArray
       [JObject [(''symbol'', JString ''A''), (''fundingRate'', JString ''3''), (''fundingTime'', JNumber ''1'')],
        JObject [(''symbol'', JString ''A''), (''fundingRate'', JString ''4''), (''fundingTime'', JNumber ''2'')]])])"

lemma two_settlements_filtered:
  "bingx_fetch_history (constant_venue (\<lambda>r. Inr (answer 200 (rq_url r))) two_settlements) (new_instrument BingX ''A'') (Some 1000000) =
     Inr [\<lparr>fe_instrument = new_instrument BingX ''A'', fe_settlement_ts = 2000000, fe_rate = 4, fe_mark_price = None\<rparr>]"
  by code_simp

theorem filtered_histories_are_newer_witness: "(1000000 :: timestamp) < 2000000"
  using filtered_histories_are_newer
    [of BingX "constant_venue (\<lambda>r. Inr (answer 200 (rq_url r))) two_settlements" "[]" "new_instrument BingX ''A''" 1000000]
  by (simp add: two_settlements_filtered)

lemma derive_events_none:
  "\<forall>b \<in> set bars. fb_next_funding_ts b = None \<Longrightarrow> derive_events cursor bars = (cursor, [])"
  by (induction bars arbitrary: cursor) simp_all

text \<open>
  MEXC and Hyperliquid publish no time of the next settlement, so the collector derives no
  settlement event from their funding bars and leaves its cursor as it is: their settlements come
  from the history sweep alone.
\<close>

theorem no_events_from_venues_without_next_funding:
  assumes "ex \<in> {Mexc, Hyperliquid}" "ad_fetch_funding (adapter_for ex v known) ids bucket = Inr bars"
  shows "derive_events cursor bars = (cursor, [])"
proof (rule derive_events_none)
  show "\<forall>b \<in> set bars. fb_next_funding_ts b = None"
    using assms mexc_bars [of v known ids bucket bars] hyperliquid_bars [of v ids bucket bars] by auto
qed

definition one_rate :: "string \<Rightarrow> json option" where
  "one_rate url = Some (JArray
     [JObject [(''universe'', JArray [JObject [(''name'', JString ''A''), (''szDecimals'', JNumber ''1'')]])],
      JArray [JObject [(''funding'', JString ''5'')]]])"

lemma one_rate_bars:
  "hyperliquid_fetch_funding (constant_venue (\<lambda>r. Inr (answer 200 (rq_url r))) one_rate) [new_instrument Hyperliquid ''A''] 60 =
     Inr [\<lparr>fb_instrument = new_instrument Hyperliquid ''A'', fb_bucket_ts = 60, fb_recv_ts = seconds 1700000000, fb_rate = 5,
           fb_next_funding_ts = None, fb_interval_hours = Some 1\<rparr>]"
  by code_simp

theorem no_events_from_venues_without_next_funding_witness:
  "derive_events []
     [\<lparr>fb_instrument = new_instrument Hyperliquid ''A'', fb_bucket_ts = 60, fb_recv_ts = seconds 1700000000, fb_rate = 5 :: nat,
       fb_next_funding_ts = None, fb_interval_hours = Some 1\<rparr>] = ([], [])"
  using no_events_from_venues_without_next_funding
    [of Hyperliquid "constant_venue (\<lambda>r. Inr (answer 200 (rq_url r))) one_rate" "[]" "[new_instrument Hyperliquid ''A'']" 60]
  by (simp add: one_rate_bars)

section \<open>Partial results\<close>

text \<open>What the request for one instrument contributes.\<close>

definition reading_of ::
  "timestamp \<Rightarrow> 'd venue \<Rightarrow> (string \<Rightarrow> exchange_error + 'd) \<Rightarrow> instrument_id \<Rightarrow> 'd raw_oi option" where
  "reading_of bucket v ask i =
     (if vn_lost v (id_symbol i) then None
      else (case ask (id_symbol i) of
              Inl e \<Rightarrow> None
            | Inr d \<Rightarrow> Some \<lparr>raw_instrument = i, raw_value = d, raw_unit = Coins, raw_bucket_ts = bucket,
                              raw_recv_ts = vn_now v, raw_price_hint = None\<rparr>))"

lemma coins_reading_of:
  "coins_reading bucket (vn_now v) (if vn_lost v (id_symbol i) then None else Some (i, ask (id_symbol i))) = reading_of bucket v ask i"
  by (simp add: coins_reading_def reading_of_def)

text \<open>
  C17. A failing symbol costs its own reading and nothing else: on the venues that are asked
  symbol by symbol the call always succeeds, and the readings are those of the symbols whose
  request succeeded and whose task did not die, each once, whatever the order of completion.
\<close>

theorem a_failing_symbol_costs_one_reading:
  "(\<exists>raws. binance_fetch_oi binance_concurrency v ids bucket = Inr raws \<and>
      mset raws = mset (List.map_filter (reading_of bucket v (binance_fetch_one v)) ids)) \<and>
   (\<exists>raws. bingx_fetch_oi v ids bucket = Inr raws \<and>
      mset raws = mset (List.map_filter (reading_of bucket v (bingx_fetch_one v)) ids))"
  by (simp add: binance_fetch_oi_def bingx_fetch_oi_def mset_map_filter_spawn coins_reading_of
      binance_concurrency_def bingx_concurrency_def)

lemma wanted_to_binance [simp]: "wanted (to_binance ids) symb = wanted ids symb"
  by (force simp: wanted_def to_binance_def image_iff)

lemma binance_quotes_same: "binance_quotes dec (to_binance ids) rows = binance_quotes dec ids rows"
  by (induction rows) (simp_all split: option.split)

lemma binance_quotes_bad_price:
  "\<exists>row \<in> set rows. wanted ids (mp_symbol row) \<and> dec (mp_mark_price row) = None \<Longrightarrow> \<exists>m. binance_quotes dec ids rows = Inl (Schema m)"
proof (induction rows)
  case (Cons row rows)
  then show ?case by (force split: option.split)
qed simp

text \<open>
  The price call of Binance (and of Aster through it) is not partial: one wanted row whose
  mark price does not parse fails the prices of all instruments with a schema error.
\<close>

theorem one_bad_price_fails_all:
  assumes "premium_index v = Inr rows" "row \<in> set rows" "wanted ids (mp_symbol row)" "vn_dec v (mp_mark_price row) = None"
  shows "\<exists>m. binance_fetch_prices v ids = Inl (Schema m) \<and> aster_fetch_prices v ids = Inl (Schema m)"
proof -
  obtain m where "binance_quotes (vn_dec v) ids rows = Inl (Schema m)"
    using binance_quotes_bad_price assms(2,3,4) by blast
  then show ?thesis by (simp add: binance_fetch_prices_def aster_fetch_prices_def assms(1) binance_quotes_same)
qed

definition bad_price :: "string \<Rightarrow> json option" where
  "bad_price url = Some (JArray
     [JObject [(''symbol'', JString ''A''), (''markPrice'', JString ''x''), (''time'', JNumber ''1'')],
      JObject [(''symbol'', JString ''B''), (''markPrice'', JString ''2''), (''time'', JNumber ''1'')]])"

definition bad_price_venue :: "nat venue" where
  "bad_price_venue = constant_venue (\<lambda>r. Inr (answer 200 (rq_url r))) bad_price"

lemma bad_price_rows:
  "premium_index bad_price_venue =
     Inr [\<lparr>mp_symbol = ''A'', mp_mark_price = ''x'', mp_last_funding_rate = [], mp_next_funding_time = 0, mp_time = 1\<rparr>,
          \<lparr>mp_symbol = ''B'', mp_mark_price = ''2'', mp_last_funding_rate = [], mp_next_funding_time = 0, mp_time = 1\<rparr>]"
  by code_simp

theorem one_bad_price_fails_all_witness:
  "\<exists>m. binance_fetch_prices bad_price_venue [new_instrument Binance ''A'', new_instrument Binance ''B''] = Inl (Schema m)"
proof -
  have "wanted [new_instrument Binance ''A'', new_instrument Binance ''B''] ''A''" by (simp add: wanted_def)
  moreover have "vn_dec bad_price_venue ''x'' = None" by code_simp
  ultimately show ?thesis using one_bad_price_fails_all [OF bad_price_rows] by fastforce
qed

end
