(* ===== verification/Ws_Supervisor.thy ===== *)
theory Ws_Supervisor
  imports Json Timestamps "HOL-Library.Monad_Syntax"
begin

text \<open>
  \<open>oi-exchanges/src/common/ws.rs\<close>: one WebSocket connection and the supervisor that keeps
  reconnecting. A handler is what it sends on connect and how it reacts to a message. A turn of
  the select loop is an event that carries the outcome of the sends it causes; a connection is a
  list of events, a supervisor a list of sessions.
\<close>

section \<open>Messages, frames, handlers\<close>

datatype ws_message = Text_Frame string | Binary_Frame string | Ping_Frame string | Pong_Frame string | Close_Frame | Raw_Frame

datatype frame = Payload json | Raw string

text \<open>
  What \<open>on_message\<close> does: send a reply and swallow the message, surface a frame, swallow, or
  fail with an error.
\<close>

datatype reaction = Reply ws_message | Emit frame | Swallow | Broken string

record ws_handler =
  wh_name :: string
  wh_subscribe :: "ws_message list"
  wh_on_message :: "ws_message \<Rightarrow> reaction"
  wh_ping_interval :: duration
  wh_idle_timeout :: duration

text \<open>The defaults of the trait.\<close>

definition default_ping_interval :: duration where
  "default_ping_interval = seconds 20"

definition default_idle_timeout :: duration where
  "default_idle_timeout = seconds 60"

section \<open>The loop of a connection\<close>

text \<open>
  A turn: the ping tick, silence for the idle timeout, the end of the stream, a read error, or a
  message. The flags tell whether a send on the socket was accepted and whether the consumer took
  a frame.
\<close>

datatype conn_event =
    Ping_Tick bool
  | Silence
  | Stream_End
  | Read_Error
  | Inbound ws_message (reply_sent: bool) (frame_taken: bool)

datatype closing = Closed string | Failed string

record conn =
  cn_sent :: "ws_message list"
  cn_frames :: "frame list"

fun conn_turn :: "ws_handler \<Rightarrow> conn_event \<Rightarrow> conn \<Rightarrow> conn \<times> closing option" where
  "conn_turn h (Ping_Tick ok) c =
     (if ok then (c\<lparr>cn_sent := cn_sent c @ [Ping_Frame []]\<rparr>, None) else (c, Some (Closed ''ping send failed: '')))"
| "conn_turn h Silence c = (c, Some (Closed ''idle timeout''))"
| "conn_turn h Stream_End c = (c, Some (Closed ''stream ended''))"
| "conn_turn h Read_Error c = (c, Some (Failed ''ws read error: ''))"
| "conn_turn h (Inbound (Ping_Frame p) sent taken) c =
     (if sent then c\<lparr>cn_sent := cn_sent c @ [Pong_Frame p]\<rparr> else c, None)"
| "conn_turn h (Inbound (Pong_Frame p) sent taken) c = (c, None)"
| "conn_turn h (Inbound Close_Frame sent taken) c = (c, Some (Closed ''close frame: ''))"
| "conn_turn h (Inbound m sent taken) c =
     (case wh_on_message h m of
        Reply r \<Rightarrow> if sent then (c\<lparr>cn_sent := cn_sent c @ [r]\<rparr>, None) else (c, Some (Failed []))
      | Swallow \<Rightarrow> (c, None)
      | Broken e \<Rightarrow> (c, Some (Failed e))
      | Emit f \<Rightarrow> if taken then (c\<lparr>cn_frames := cn_frames c @ [f]\<rparr>, None) else (c, Some (Closed ''consumer dropped'')))"

fun conn_loop :: "ws_handler \<Rightarrow> conn_event list \<Rightarrow> conn \<Rightarrow> conn \<times> closing option" where
  "conn_loop h [] c = (c, None)"
| "conn_loop h (ev # evs) c =
     (case conn_turn h ev c of
        (c', Some why) \<Rightarrow> (c', Some why)
      | (c', None) \<Rightarrow> conn_loop h evs c')"

section \<open>A session\<close>

datatype dial = Connected | Dial_Timeout | Dial_Failed

text \<open>
  One turn of the supervisor: whether the consumer is still there, how the handshake goes, at
  which subscription message the send fails, if one does, and the events of the connection.
\<close>

record session =
  se_consumer :: bool
  se_dial :: dial
  se_failed_send :: "nat option"
  se_events :: "conn_event list"

definition on_connect :: "ws_handler \<Rightarrow> nat option \<Rightarrow> ws_message list \<times> bool" where
  "on_connect h failed_send =
     (case failed_send of
        Some k \<Rightarrow> if k < length (wh_subscribe h) then (take k (wh_subscribe h), False) else (wh_subscribe h, True)
      | None \<Rightarrow> (wh_subscribe h, True))"

definition connect_once :: "ws_handler \<Rightarrow> session \<Rightarrow> conn \<times> closing option" where
  "connect_once h s =
     (case se_dial s of
        Dial_Timeout \<Rightarrow> (\<lparr>cn_sent = [], cn_frames = []\<rparr>, Some (Failed ''ws connect timeout''))
      | Dial_Failed \<Rightarrow> (\<lparr>cn_sent = [], cn_frames = []\<rparr>, Some (Failed []))
      | Connected \<Rightarrow>
          (let (sent, ok) = on_connect h (se_failed_send s)
           in if ok then conn_loop h (se_events s) \<lparr>cn_sent = sent, cn_frames = []\<rparr>
              else (\<lparr>cn_sent = sent, cn_frames = []\<rparr>, Some (Failed []))))"

section \<open>The supervisor\<close>

text \<open>\<open>backoff k\<close> is the k-th delay the backoff iterator yields; it is built once.\<close>

record supervised =
  sv_conns :: "conn list"
  sv_delays :: "duration list"
  sv_running :: bool

fun run_supervisor :: "ws_handler \<Rightarrow> (nat \<Rightarrow> duration) \<Rightarrow> nat \<Rightarrow> session list \<Rightarrow> supervised" where
  "run_supervisor h backoff n [] = \<lparr>sv_conns = [], sv_delays = [], sv_running = True\<rparr>"
| "run_supervisor h backoff n (s # ss) =
     (if \<not> se_consumer s then \<lparr>sv_conns = [], sv_delays = [], sv_running = False\<rparr>
      else
        (case connect_once h s of
           (c, None) \<Rightarrow> \<lparr>sv_conns = [c], sv_delays = [], sv_running = True\<rparr>
         | (c, Some why) \<Rightarrow>
             (let rest = run_supervisor h backoff (Suc n) ss
              in rest\<lparr>sv_conns := c # sv_conns rest, sv_delays := backoff n # sv_delays rest\<rparr>)))"

section \<open>What a connection delivers\<close>

text \<open>The frame an event surfaces, and the events that end the connection.\<close>

fun surfaced :: "ws_handler \<Rightarrow> conn_event \<Rightarrow> frame option" where
  "surfaced h (Inbound (Text_Frame t) sent taken) = (case wh_on_message h (Text_Frame t) of Emit f \<Rightarrow> Some f | _ \<Rightarrow> None)"
| "surfaced h (Inbound (Binary_Frame b) sent taken) = (case wh_on_message h (Binary_Frame b) of Emit f \<Rightarrow> Some f | _ \<Rightarrow> None)"
| "surfaced h (Inbound Raw_Frame sent taken) = (case wh_on_message h Raw_Frame of Emit f \<Rightarrow> Some f | _ \<Rightarrow> None)"
| "surfaced h _ = None"

definition ends :: "ws_handler \<Rightarrow> conn_event \<Rightarrow> bool" where
  "ends h ev \<longleftrightarrow> snd (conn_turn h ev \<lparr>cn_sent = [], cn_frames = []\<rparr>) \<noteq> None"

lemma conn_turn_closing: "snd (conn_turn h ev c) = snd (conn_turn h ev c')"
  by (induction h ev c rule: conn_turn.induct) (simp_all split: reaction.split)

lemma ends_iff: "ends h ev \<longleftrightarrow> snd (conn_turn h ev c) \<noteq> None"
  unfolding ends_def using conn_turn_closing by metis

lemma conn_turn_frames:
  "cn_frames (fst (conn_turn h ev c)) =
     (if ends h ev then cn_frames c else cn_frames c @ (case surfaced h ev of None \<Rightarrow> [] | Some f \<Rightarrow> [f]))"
  by (induction h ev c rule: conn_turn.induct) (simp_all add: ends_def split: reaction.split)

lemma conn_turn_sent: "\<exists>more. cn_sent (fst (conn_turn h ev c)) = cn_sent c @ more"
  by (induction h ev c rule: conn_turn.induct) (simp_all split: reaction.split)

lemma conn_loop_frames:
  "cn_frames (fst (conn_loop h evs c)) = cn_frames c @ List.map_filter (surfaced h) (takeWhile (\<lambda>ev. \<not> ends h ev) evs)"
proof (induction evs arbitrary: c)
  case (Cons ev evs)
  obtain c' why where t: "conn_turn h ev c = (c', why)" by (cases "conn_turn h ev c")
  with conn_turn_frames [of h ev c] ends_iff [of h ev c] Cons.IH [of c'] show ?case
    by (cases why) (auto simp: List.map_filter_simps split: option.splits)
qed (simp add: List.map_filter_simps)

lemma conn_loop_sent: "\<exists>more. cn_sent (fst (conn_loop h evs c)) = cn_sent c @ more"
proof (induction evs arbitrary: c)
  case (Cons ev evs)
  obtain c' why where t: "conn_turn h ev c = (c', why)" by (cases "conn_turn h ev c")
  obtain m1 where "cn_sent c' = cn_sent c @ m1" using conn_turn_sent [of h ev c] t by auto
  moreover obtain m2 where "cn_sent (fst (conn_loop h evs c')) = cn_sent c' @ m2" using Cons.IH by blast
  ultimately show ?case using t by (cases why) auto
qed simp

text \<open>
  C29. A connection delivers to the collector exactly the frames its handler surfaces, once each
  and in the order of arrival, up to the event that ends it, and it says its whole subscription
  before anything else it sends.
\<close>

theorem a_connection_delivers_what_it_surfaces:
  assumes "se_dial s = Connected" "se_failed_send s = None"
  shows "cn_frames (fst (connect_once h s)) =
           List.map_filter (surfaced h) (takeWhile (\<lambda>ev. \<not> ends h ev) (se_events s)) \<and>
         (\<exists>more. cn_sent (fst (connect_once h s)) = wh_subscribe h @ more)"
  using assms conn_loop_frames [of h "se_events s" "\<lparr>cn_sent = wh_subscribe h, cn_frames = []\<rparr>"]
    conn_loop_sent [of h "se_events s" "\<lparr>cn_sent = wh_subscribe h, cn_frames = []\<rparr>"]
  by (simp add: connect_once_def on_connect_def)

text \<open>
  C30. The supervisor gives up for one reason only: as long as the consumer is there, every
  connection that ends, however it ends, is followed by a delay and another attempt, and the
  delays are those of one backoff sequence that no success ever resets.
\<close>

theorem the_supervisor_never_gives_up:
  assumes "\<forall>s \<in> set sessions. se_consumer s \<and> snd (connect_once h s) \<noteq> None"
  shows "run_supervisor h backoff n sessions =
    \<lparr>sv_conns = map (\<lambda>s. fst (connect_once h s)) sessions,
     sv_delays = map backoff [n ..< n + length sessions], sv_running = True\<rparr>"
  using assms
proof (induction sessions arbitrary: n)
  case (Cons s ss)
  obtain c why where c: "connect_once h s = (c, Some why)"
    using Cons.prems by (cases "connect_once h s") auto
  have "[n ..< n + length (s # ss)] = n # [Suc n ..< Suc n + length ss]" by (simp add: upt_rec)
  with Cons.IH [of "Suc n"] Cons.prems c show ?case by (simp add: Let_def)
qed simp

definition echo_handler :: ws_handler where
  "echo_handler =
     \<lparr>wh_name = ''echo'', wh_subscribe = [Text_Frame ''sub''], wh_on_message = (\<lambda>m. case m of Text_Frame t \<Rightarrow> Emit (Raw t) | _ \<Rightarrow> Swallow),
      wh_ping_interval = default_ping_interval, wh_idle_timeout = default_idle_timeout\<rparr>"

definition dropped_after :: "string \<Rightarrow> session" where
  "dropped_after t =
     \<lparr>se_consumer = True, se_dial = Connected, se_failed_send = None, se_events = [Inbound (Text_Frame t) True True, Stream_End]\<rparr>"

theorem a_connection_delivers_what_it_surfaces_witness:
  "cn_frames (fst (connect_once echo_handler (dropped_after ''x''))) = [Raw ''x'']"
  using a_connection_delivers_what_it_surfaces [of "dropped_after ''x''" echo_handler]
  by (simp add: dropped_after_def ends_def echo_handler_def List.map_filter_simps)

theorem the_supervisor_never_gives_up_witness:
  "sv_delays (run_supervisor echo_handler (\<lambda>k. seconds (int k)) 0 [dropped_after ''x'', dropped_after ''y'']) = [0, seconds 1]"
  using the_supervisor_never_gives_up
    [of "[dropped_after ''x'', dropped_after ''y'']" echo_handler "\<lambda>k. seconds (int k)" 0]
  by (simp add: dropped_after_def connect_once_def on_connect_def echo_handler_def seconds_def)

end
