(* ===== verification/Ws_Handlers.thy ===== *)
theory Ws_Handlers
  imports Ws_Supervisor Live
begin

text \<open>
  The WebSocket handlers of the five venues: \<open>okx/ws.rs\<close>, \<open>bitget/ws.rs\<close>, \<open>bybit/ws.rs\<close>,
  \<open>hyperliquid/ws.rs\<close> and \<open>binance/ws.rs\<close>. Parsing and printing JSON text are the parameters
  \<open>parse\<close> and \<open>print\<close>.
\<close>

section \<open>Lossy UTF-8\<close>

text \<open>
  \<open>String::from_utf8_lossy\<close>: a maximal prefix of a broken sequence becomes one replacement
  character (U+FFFD).
\<close>

definition byte_in :: "nat \<Rightarrow> nat \<Rightarrow> char \<Rightarrow> bool" where
  "byte_in lo hi c \<longleftrightarrow> lo \<le> of_char c \<and> of_char c \<le> hi"

definition continuations :: "char \<Rightarrow> nat" where
  "continuations b =
     (if byte_in 194 223 b then 1 else if byte_in 224 239 b then 2 else if byte_in 240 244 b then 3 else 0)"

definition second_ok :: "char \<Rightarrow> char \<Rightarrow> bool" where
  "second_ok b c =
     (if byte_in 224 224 b then byte_in 160 191 c
      else if byte_in 237 237 b then byte_in 128 159 c
      else if byte_in 240 240 b then byte_in 144 191 c
      else if byte_in 244 244 b then byte_in 128 143 c
      else byte_in 128 191 c)"

definition matched :: "char \<Rightarrow> string \<Rightarrow> nat" where
  "matched b rest =
     (case rest of
        [] \<Rightarrow> 0
      | c # cs \<Rightarrow> if second_ok b c then Suc (length (takeWhile (byte_in 128 191) (take (continuations b - 1) cs))) else 0)"

definition replacement :: string where
  "replacement = [char_of (239 :: nat), char_of (191 :: nat), char_of (189 :: nat)]"

function from_utf8_lossy :: "string \<Rightarrow> string" where
  "from_utf8_lossy [] = []"
| "from_utf8_lossy (b # rest) =
     (if byte_in 0 127 b then b # from_utf8_lossy rest
      else if continuations b = 0 then replacement @ from_utf8_lossy rest
      else
        (let m = matched b rest
         in (if m = continuations b then b # take m rest else replacement) @ from_utf8_lossy (drop m rest)))"
  by pat_completeness auto
termination
  by (relation "measure length") auto

declare from_utf8_lossy.simps [simp del]

lemma from_utf8_lossy_ascii: "\<forall>c \<in> set s. byte_in 0 127 c \<Longrightarrow> from_utf8_lossy s = s"
  by (induction s) (simp_all add: from_utf8_lossy.simps)

section \<open>OKX and Bitget\<close>

definition max_okx_args :: nat where
  "max_okx_args = 40"

definition okx_subscribe :: "string list \<Rightarrow> json" where
  "okx_subscribe inst_ids =
     JObject [(''op'', JString ''subscribe''),
       (''args'', JArray (map (\<lambda>i. JObject [(''channel'', JString ''open-interest''), (''instId'', JString i)]) inst_ids))]"

definition okx_on_connect :: "(json \<Rightarrow> string) \<Rightarrow> string list \<Rightarrow> ws_message list" where
  "okx_on_connect print inst_ids = map (\<lambda>chunk. Text_Frame (print (okx_subscribe chunk))) (chunks max_okx_args inst_ids)"

text \<open>The two \<open>on_message\<close> are the same text.\<close>

definition okx_on_message :: "(string \<Rightarrow> json option) \<Rightarrow> ws_message \<Rightarrow> reaction" where
  "okx_on_message parse m =
     (case m of
        Text_Frame t \<Rightarrow>
          if t = ''pong'' then Swallow
          else if t = ''ping'' then Reply (Text_Frame ''pong'')
          else (case parse t of
                  None \<Rightarrow> Broken []
                | Some v \<Rightarrow>
                    if json_get v ''event'' \<noteq> None then Swallow
                    else if json_get v ''arg'' \<noteq> None then Emit (Payload v)
                    else Swallow)
      | _ \<Rightarrow> Swallow)"

definition okx_handler :: "(json \<Rightarrow> string) \<Rightarrow> (string \<Rightarrow> json option) \<Rightarrow> string list \<Rightarrow> ws_handler" where
  "okx_handler print parse inst_ids =
     \<lparr>wh_name = ''okx-open-interest'', wh_subscribe = okx_on_connect print inst_ids, wh_on_message = okx_on_message parse,
      wh_ping_interval = seconds 20, wh_idle_timeout = seconds 60\<rparr>"

definition max_bitget_args :: nat where
  "max_bitget_args = 50"

definition bitget_subscribe :: "string list \<Rightarrow> json" where
  "bitget_subscribe inst_ids =
     JObject [(''op'', JString ''subscribe''),
       (''args'', JArray (map (\<lambda>i. JObject [(''instType'', JString ''USDT-FUTURES''), (''channel'', JString ''ticker''),
                                           (''instId'', JString i)]) inst_ids))]"

definition bitget_on_connect :: "(json \<Rightarrow> string) \<Rightarrow> string list \<Rightarrow> ws_message list" where
  "bitget_on_connect print inst_ids = map (\<lambda>chunk. Text_Frame (print (bitget_subscribe chunk))) (chunks max_bitget_args inst_ids)"

definition bitget_on_message :: "(string \<Rightarrow> json option) \<Rightarrow> ws_message \<Rightarrow> reaction" where
  "bitget_on_message parse m = okx_on_message parse m"

definition bitget_handler :: "(json \<Rightarrow> string) \<Rightarrow> (string \<Rightarrow> json option) \<Rightarrow> string list \<Rightarrow> ws_handler" where
  "bitget_handler print parse inst_ids =
     \<lparr>wh_name = ''bitget-ticker'', wh_subscribe = bitget_on_connect print inst_ids, wh_on_message = bitget_on_message parse,
      wh_ping_interval = seconds 25, wh_idle_timeout = seconds 60\<rparr>"

section \<open>Bybit\<close>

definition max_bybit_args :: nat where
  "max_bybit_args = 10"

definition bybit_topics :: "string list \<Rightarrow> string list" where
  "bybit_topics symbols = map (\<lambda>s. ''tickers.'' @ s) symbols"

definition bybit_op :: "string \<Rightarrow> string list option \<Rightarrow> json" where
  "bybit_op op args =
     JObject ((''op'', JString op) # (case args of None \<Rightarrow> [] | Some ts \<Rightarrow> [(''args'', JArray (map JString ts))]))"

definition bybit_on_connect :: "(json \<Rightarrow> string) \<Rightarrow> string list \<Rightarrow> ws_message list" where
  "bybit_on_connect print topics =
     map (\<lambda>chunk. Text_Frame (print (bybit_op ''subscribe'' (Some chunk)))) (chunks max_bybit_args topics)"

definition bybit_on_message :: "(json \<Rightarrow> string) \<Rightarrow> (string \<Rightarrow> json option) \<Rightarrow> ws_message \<Rightarrow> reaction" where
  "bybit_on_message print parse m =
     (case (case m of Text_Frame t \<Rightarrow> Some t | Binary_Frame b \<Rightarrow> Some (from_utf8_lossy b) | _ \<Rightarrow> None) of
        None \<Rightarrow> Swallow
      | Some text \<Rightarrow>
          (case parse text of
             None \<Rightarrow> Broken ''bybit ws decode: ''
           | Some v \<Rightarrow>
               (let op = get_str v ''op'';
                    data = (if json_get v ''topic'' \<noteq> None then Emit (Payload v) else Emit (Raw text))
                in case op of
                     Some o' \<Rightarrow>
                       if o' = ''ping'' then Reply (Text_Frame (print (bybit_op ''pong'' None)))
                       else if o' \<in> {''pong'', ''subscribe'', ''unsubscribe'', ''auth''} then Swallow
                       else data
                   | None \<Rightarrow> data)))"

definition bybit_handler :: "(json \<Rightarrow> string) \<Rightarrow> (string \<Rightarrow> json option) \<Rightarrow> string list \<Rightarrow> ws_handler" where
  "bybit_handler print parse symbols =
     \<lparr>wh_name = ''bybit-tickers'', wh_subscribe = bybit_on_connect print (bybit_topics symbols),
      wh_on_message = bybit_on_message print parse, wh_ping_interval = seconds 20, wh_idle_timeout = seconds 60\<rparr>"

section \<open>Hyperliquid and Binance\<close>

definition hyperliquid_on_connect :: "(json \<Rightarrow> string) \<Rightarrow> string list \<Rightarrow> ws_message list" where
  "hyperliquid_on_connect print coins =
     map (\<lambda>coin. Text_Frame (print (JObject [(''method'', JString ''subscribe''),
            (''subscription'', JObject [(''type'', JString ''activeAssetCtx''), (''coin'', JString coin)])]))) coins @
     [Text_Frame (print (JObject [(''method'', JString ''ping'')]))]"

definition hyperliquid_on_message :: "(json \<Rightarrow> string) \<Rightarrow> (string \<Rightarrow> json option) \<Rightarrow> ws_message \<Rightarrow> reaction" where
  "hyperliquid_on_message print parse m =
     (case m of
        Text_Frame t \<Rightarrow>
          (case parse t of
             None \<Rightarrow> Broken []
           | Some v \<Rightarrow>
               (let channel = get_str v ''channel''
                in if channel \<in> {Some ''pong'', Some ''subscriptionResponse'', Some ''error''} then Swallow
                   else if get_str v ''method'' = Some ''ping''
                        then Reply (Text_Frame (print (JObject [(''method'', JString ''pong'')])))
                   else if channel \<noteq> None then Emit (Payload v)
                   else Swallow))
      | _ \<Rightarrow> Swallow)"

definition hyperliquid_handler :: "(json \<Rightarrow> string) \<Rightarrow> (string \<Rightarrow> json option) \<Rightarrow> string list \<Rightarrow> ws_handler" where
  "hyperliquid_handler print parse coins =
     \<lparr>wh_name = ''hyperliquid-activeassetctx'', wh_subscribe = hyperliquid_on_connect print coins,
      wh_on_message = hyperliquid_on_message print parse, wh_ping_interval = seconds 20, wh_idle_timeout = seconds 60\<rparr>"

definition binance_on_message :: "(string \<Rightarrow> json option) \<Rightarrow> ws_message \<Rightarrow> reaction" where
  "binance_on_message parse m =
     (case (case m of Text_Frame t \<Rightarrow> Some t | Binary_Frame b \<Rightarrow> Some b | _ \<Rightarrow> None) of
        None \<Rightarrow> Swallow
      | Some bytes \<Rightarrow> (case parse bytes of None \<Rightarrow> Broken [] | Some v \<Rightarrow> Emit (Payload v)))"

definition binance_handler :: "(string \<Rightarrow> json option) \<Rightarrow> ws_handler" where
  "binance_handler parse =
     \<lparr>wh_name = ''binance-markprice'', wh_subscribe = [], wh_on_message = binance_on_message parse,
      wh_ping_interval = default_ping_interval, wh_idle_timeout = seconds 30\<rparr>"

section \<open>Subscriptions\<close>

lemma shards_of:
  assumes "0 < n"
  shows "concat (chunks n xs) = xs \<and> (\<forall>c \<in> set (chunks n xs). c \<noteq> [] \<and> length c \<le> n)"
  using concat_chunks [OF assms, of xs] chunk_sizes [of _ n xs] chunks_nonempty [OF assms, of _ xs] by blast

lemma okx_groups:
  "\<exists>gs. okx_on_connect print ids = map (\<lambda>c. Text_Frame (print (okx_subscribe c))) gs \<and> concat gs = ids \<and>
     (\<forall>c \<in> set gs. c \<noteq> [] \<and> length c \<le> 40)"
  using shards_of [of 40 ids] by (intro exI [of _ "chunks 40 ids"]) (simp add: okx_on_connect_def max_okx_args_def)

lemma bitget_groups:
  "\<exists>gs. bitget_on_connect print ids = map (\<lambda>c. Text_Frame (print (bitget_subscribe c))) gs \<and> concat gs = ids \<and>
     (\<forall>c \<in> set gs. c \<noteq> [] \<and> length c \<le> 50)"
  using shards_of [of 50 ids] by (intro exI [of _ "chunks 50 ids"]) (simp add: bitget_on_connect_def max_bitget_args_def)

lemma bybit_groups:
  "\<exists>gs. bybit_on_connect print (bybit_topics ids) = map (\<lambda>c. Text_Frame (print (bybit_op ''subscribe'' (Some c)))) gs \<and>
     concat gs = map (\<lambda>s. ''tickers.'' @ s) ids \<and> (\<forall>c \<in> set gs. c \<noteq> [] \<and> length c \<le> 10)"
  using shards_of [of 10 "bybit_topics ids"]
  by (intro exI [of _ "chunks 10 (bybit_topics ids)"]) (simp add: bybit_on_connect_def max_bybit_args_def bybit_topics_def)

section \<open>From the socket to the bars\<close>

text \<open>\<open>let Frame::Payload(value) = frame else { continue }\<close>.\<close>

definition payloads :: "frame list \<Rightarrow> json list" where
  "payloads = List.map_filter (\<lambda>f. case f of Payload v \<Rightarrow> Some v | Raw b \<Rightarrow> None)"

text \<open>The payloads of a connection, each with the time at which the task takes it.\<close>

definition received :: "(nat \<Rightarrow> timestamp) \<Rightarrow> ws_handler \<Rightarrow> session \<Rightarrow> (timestamp \<times> json) list" where
  "received clock h s =
     (let values = payloads (cn_frames (fst (connect_once h s)))
      in zip (map clock [0 ..< length values]) values)"

lemma received_values [simp]: "map snd (received clock h s) = payloads (cn_frames (fst (connect_once h s)))"
  by (simp add: received_def Let_def)

text \<open>
  The open interest of an instrument in an event of a connection: a data message, not a control
  message.
\<close>

definition oi_in ::
  "(string \<Rightarrow> json option) \<Rightarrow> (string \<Rightarrow> json \<Rightarrow> bool) \<Rightarrow> (json \<Rightarrow> (string \<times> 'd \<times> 'd option) option) \<Rightarrow> string \<Rightarrow> conn_event
     \<Rightarrow> 'd option" where
  "oi_in parse control pull i ev =
     (case ev of
        Inbound (Text_Frame t) sent taken \<Rightarrow>
          (case parse t of None \<Rightarrow> None | Some v \<Rightarrow> if control t v then None else value_of pull i v)
      | _ \<Rightarrow> None)"

definition okx_control :: "string \<Rightarrow> json \<Rightarrow> bool" where
  "okx_control t v \<longleftrightarrow> t = ''pong'' \<or> t = ''ping'' \<or> json_get v ''event'' \<noteq> None"

definition hyperliquid_control :: "string \<Rightarrow> json \<Rightarrow> bool" where
  "hyperliquid_control t v \<longleftrightarrow> get_str v ''method'' = Some ''ping''"

lemma map_filter_map_filter:
  "List.map_filter f (List.map_filter g xs) = List.map_filter (\<lambda>x. Option.bind (g x) f) xs"
  by (induction xs) (auto simp: List.map_filter_simps split: option.splits)

text \<open>
  When what the handler surfaces of an event holds the value the event carries, the payloads of
  the connection hold the values of its events up to the one that ends it.
\<close>

definition payload_of :: "frame \<Rightarrow> json option" where
  "payload_of f = (case f of Payload v \<Rightarrow> Some v | Raw b \<Rightarrow> None)"

lemma values_received:
  assumes "se_dial s = Connected" "se_failed_send s = None"
    and "\<And>ev. Option.bind (Option.bind (surfaced h ev) payload_of) f = g ev"
  shows "List.map_filter f (payloads (cn_frames (fst (connect_once h s)))) =
    List.map_filter g (takeWhile (\<lambda>ev. \<not> ends h ev) (se_events s))"
proof -
  have "cn_frames (fst (connect_once h s)) = List.map_filter (surfaced h) (takeWhile (\<lambda>ev. \<not> ends h ev) (se_events s))"
    using assms(1,2) conn_loop_frames by (simp add: connect_once_def on_connect_def)
  then have "List.map_filter f (payloads (cn_frames (fst (connect_once h s)))) =
      List.map_filter (\<lambda>ev. Option.bind (Option.bind (surfaced h ev) payload_of) f) (takeWhile (\<lambda>ev. \<not> ends h ev) (se_events s))"
    by (simp add: payloads_def payload_of_def [abs_def] map_filter_map_filter)
  then show ?thesis by (simp only: assms(3))
qed

lemma text_events:
  assumes "\<And>t sent taken. surfaced h (Inbound (Text_Frame t) sent taken) = react t"
    and "\<And>ev. (\<forall>t sent taken. ev \<noteq> Inbound (Text_Frame t) sent taken) \<Longrightarrow> surfaced h ev = None"
    and "\<And>t. Option.bind (Option.bind (react t) payload_of) (value_of pull i) =
           (case parse t of None \<Rightarrow> None | Some v \<Rightarrow> if control t v then None else value_of pull i v)"
  shows "Option.bind (Option.bind (surfaced h ev) payload_of) (value_of pull i) = oi_in parse control pull i ev"
proof (cases "\<exists>t sent taken. ev = Inbound (Text_Frame t) sent taken")
  case True
  with assms(1,3) show ?thesis by (auto simp: oi_in_def)
next
  case False
  with assms(2) [of ev] show ?thesis by (auto simp: oi_in_def split: conn_event.split ws_message.split)
qed

lemma okx_silent: "\<forall>t. m \<noteq> Text_Frame t \<Longrightarrow> okx_on_message parse m = Swallow"
  by (cases m) (simp_all add: okx_on_message_def)

lemma hyperliquid_silent: "\<forall>t. m \<noteq> Text_Frame t \<Longrightarrow> hyperliquid_on_message print parse m = Swallow"
  by (cases m) (simp_all add: hyperliquid_on_message_def)

lemma no_other_event:
  assumes "\<And>m. \<forall>t. m \<noteq> Text_Frame t \<Longrightarrow> wh_on_message h m = Swallow"
    and "\<forall>t sent taken. ev \<noteq> Inbound (Text_Frame t) sent taken"
  shows "surfaced h ev = None"
  using assms(2) by (cases "(h, ev)" rule: surfaced.cases) (simp_all add: assms(1))

lemma argument_of:
  "okx_extract dec v \<noteq> None \<Longrightarrow> json_get v ''arg'' \<noteq> None"
  "bitget_extract dec v \<noteq> None \<Longrightarrow> json_get v ''arg'' \<noteq> None"
  "hyperliquid_extract dec v \<noteq> None \<Longrightarrow> get_str v ''channel'' = Some ''activeAssetCtx''"
  by (auto simp: okx_extract_def bitget_extract_def hyperliquid_extract_def bind_eq_Some_conv split: if_split_asm)

lemma value_of_None: "pull v = None \<Longrightarrow> value_of pull i v = None"
  by (simp add: value_of_def)

lemma okx_surfaced:
  assumes "wh_on_message h = okx_on_message parse" "\<And>v. json_get v ''arg'' = None \<Longrightarrow> pull v = None"
  shows "Option.bind (Option.bind (surfaced h ev) payload_of) (value_of pull i) = oi_in parse okx_control pull i ev"
proof (rule text_events [where react = "\<lambda>t. case okx_on_message parse (Text_Frame t) of Emit f \<Rightarrow> Some f | _ \<Rightarrow> None"])
  show "surfaced h (Inbound (Text_Frame t) sent taken) = (case okx_on_message parse (Text_Frame t) of Emit f \<Rightarrow> Some f | _ \<Rightarrow> None)"
    for t sent taken by (simp add: assms(1))
  show "surfaced h ev = None" if "\<forall>t sent taken. ev \<noteq> Inbound (Text_Frame t) sent taken" for ev
    by (rule no_other_event [OF _ that]) (simp add: assms(1) okx_silent)
  show "Option.bind (Option.bind (case okx_on_message parse (Text_Frame t) of Emit f \<Rightarrow> Some f | _ \<Rightarrow> None) payload_of) (value_of pull i) =
      (case parse t of None \<Rightarrow> None | Some v \<Rightarrow> if okx_control t v then None else value_of pull i v)" for t
  proof (cases "parse t")
    case (Some v)
    then show ?thesis using assms(2) [of v] value_of_None [of pull v i]
      by (cases "json_get v ''arg''") (simp_all add: okx_on_message_def okx_control_def payload_of_def)
  qed (simp add: okx_on_message_def)
qed

lemma hyperliquid_surfaced:
  "Option.bind (Option.bind (surfaced (hyperliquid_handler print parse ids) ev) payload_of) (value_of (hyperliquid_extract dec) i) =
     oi_in parse hyperliquid_control (hyperliquid_extract dec) i ev"
proof (rule text_events [where react = "\<lambda>t. case hyperliquid_on_message print parse (Text_Frame t) of Emit f \<Rightarrow> Some f | _ \<Rightarrow> None"])
  show "surfaced (hyperliquid_handler print parse ids) ev = None"
    if "\<forall>t sent taken. ev \<noteq> Inbound (Text_Frame t) sent taken" for ev
    by (rule no_other_event [OF _ that]) (simp add: hyperliquid_handler_def hyperliquid_silent)
  show "Option.bind (Option.bind (case hyperliquid_on_message print parse (Text_Frame t) of Emit f \<Rightarrow> Some f | _ \<Rightarrow> None) payload_of)
      (value_of (hyperliquid_extract dec) i) =
      (case parse t of None \<Rightarrow> None | Some v \<Rightarrow> if hyperliquid_control t v then None else value_of (hyperliquid_extract dec) i v)" for t
  proof (cases "parse t")
    case (Some v)
    then show ?thesis
      using argument_of(3) [of dec v] value_of_None [of "hyperliquid_extract dec" v i]
      by (cases "hyperliquid_extract dec v"; cases "get_str v ''channel''")
        (auto simp: hyperliquid_on_message_def hyperliquid_control_def payload_of_def Let_def)
  qed (simp add: hyperliquid_on_message_def)
qed (simp add: hyperliquid_handler_def)

text \<open>
  C13. From the socket to the bars: over any connection to OKX, Bitget or Hyperliquid, with its
  pings, acks and data in any interleaving, the live task returns (when no product overflows),
  and what it folds into the aggregator for an instrument is the sequence of the open interests
  in the data messages of that instrument, with repetitions removed, up to the event that ends
  the connection; a follower publishes none of it.
\<close>

theorem socket_to_bars:
  assumes "se_dial s = Connected" "se_failed_send s = None" "dm_ok (lv_last lv)" "\<And>a b. mul a b \<noteq> Panic"
  shows "let okx = okx_handler print parse ids; bitget = bitget_handler print parse ids;
             hyperliquid = hyperliquid_handler print parse ids in
         folds_the_changes Okx lease lv (okx_run dec lease (received clock okx s) lv)
           (\<lambda>i. List.map_filter (oi_in parse okx_control (\<lambda>v. unpriced (okx_extract dec v)) i)
              (takeWhile (\<lambda>ev. \<not> ends okx ev) (se_events s))) \<and>
         folds_the_changes Bitget lease lv (bitget_run mul dec lease (received clock bitget s) lv)
           (\<lambda>i. List.map_filter (oi_in parse okx_control (bitget_extract dec) i)
              (takeWhile (\<lambda>ev. \<not> ends bitget ev) (se_events s))) \<and>
         folds_the_changes Hyperliquid lease lv (hyperliquid_run mul dec lease (received clock hyperliquid s) lv)
           (\<lambda>i. List.map_filter (oi_in parse hyperliquid_control (hyperliquid_extract dec) i)
              (takeWhile (\<lambda>ev. \<not> ends hyperliquid ev) (se_events s)))"
proof -
  define okx where "okx = okx_handler print parse ids"
  define bitget where "bitget = bitget_handler print parse ids"
  define hyperliquid where "hyperliquid = hyperliquid_handler print parse ids"
  have arg: "unpriced (okx_extract dec v) = None" if "json_get v ''arg'' = None" for v
    using argument_of(1) [of dec v] that by (cases "okx_extract dec v") (auto simp: unpriced_def)
  have arg2: "bitget_extract dec v = None" if "json_get v ''arg'' = None" for v
    using argument_of(2) [of dec v] that by (cases "bitget_extract dec v") auto
  have 1: "folds_the_changes Okx lease lv (okx_run dec lease (received clock okx s) lv)
      (\<lambda>i. List.map_filter (oi_in parse okx_control (\<lambda>v. unpriced (okx_extract dec v)) i)
        (takeWhile (\<lambda>ev. \<not> ends okx ev) (se_events s)))"
    using live_changes(1) [OF assms(3), of lease dec "received clock okx s"]
      values_received [OF assms(1,2) okx_surfaced [OF _ arg]]
    by (simp add: okx_def okx_handler_def)
  have 2: "folds_the_changes Bitget lease lv (bitget_run mul dec lease (received clock bitget s) lv)
      (\<lambda>i. List.map_filter (oi_in parse okx_control (bitget_extract dec) i)
        (takeWhile (\<lambda>ev. \<not> ends bitget ev) (se_events s)))"
    using live_changes(2) [where mul = mul and lease = lease and parse = dec and frames = "received clock bitget s", OF assms(3,4)]
      values_received [OF assms(1,2) okx_surfaced [OF _ arg2]]
    by (simp add: bitget_def bitget_handler_def bitget_on_message_def [abs_def])
  have 3: "folds_the_changes Hyperliquid lease lv (hyperliquid_run mul dec lease (received clock hyperliquid s) lv)
      (\<lambda>i. List.map_filter (oi_in parse hyperliquid_control (hyperliquid_extract dec) i)
        (takeWhile (\<lambda>ev. \<not> ends hyperliquid ev) (se_events s)))"
    using live_changes(3) [where mul = mul and lease = lease and parse = dec and frames = "received clock hyperliquid s", OF assms(3,4)]
      values_received [OF assms(1,2) hyperliquid_surfaced [where print = print and parse = parse and ids = ids and dec = dec]]
    by (simp add: hyperliquid_def)
  from 1 2 3 show ?thesis by (simp add: Let_def okx_def bitget_def hyperliquid_def)
qed

text \<open>
  No heartbeat, ack or malformed frame of a venue reaches the collector as data: what the
  handlers of OKX, Bitget and Hyperliquid surface is always a parsed text message that carries
  the venue's data field and no control field, and a ping of the server is always answered.
\<close>

theorem control_messages_are_not_data:
  "(okx_on_message parse m = Emit f \<longrightarrow>
      (\<exists>t v. m = Text_Frame t \<and> t \<noteq> ''ping'' \<and> parse t = Some v \<and> f = Payload v \<and>
         json_get v ''event'' = None \<and> json_get v ''arg'' \<noteq> None)) \<and>
   (hyperliquid_on_message print parse m = Emit f \<longrightarrow>
      (\<exists>t v c. m = Text_Frame t \<and> parse t = Some v \<and> f = Payload v \<and> get_str v ''channel'' = Some c \<and>
         c \<notin> {''pong'', ''subscriptionResponse'', ''error''} \<and> get_str v ''method'' \<noteq> Some ''ping'')) \<and>
   bitget_on_message parse m = okx_on_message parse m \<and>
   okx_on_message parse (Text_Frame ''ping'') = Reply (Text_Frame ''pong'')"
proof (intro conjI impI)
  assume "okx_on_message parse m = Emit f"
  then show "\<exists>t v. m = Text_Frame t \<and> t \<noteq> ''ping'' \<and> parse t = Some v \<and> f = Payload v \<and>
      json_get v ''event'' = None \<and> json_get v ''arg'' \<noteq> None"
    by (cases m) (auto simp: okx_on_message_def split: option.splits if_splits)
next
  assume "hyperliquid_on_message print parse m = Emit f"
  then obtain t v where t: "m = Text_Frame t" "parse t = Some v"
    and e: "hyperliquid_on_message print parse (Text_Frame t) = Emit f"
    by (cases m) (auto simp: hyperliquid_on_message_def split: option.splits)
  from e t show "\<exists>t v c. m = Text_Frame t \<and> parse t = Some v \<and> f = Payload v \<and> get_str v ''channel'' = Some c \<and>
      c \<notin> {''pong'', ''subscriptionResponse'', ''error''} \<and> get_str v ''method'' \<noteq> Some ''ping''"
    unfolding hyperliquid_on_message_def Let_def
    by (cases "get_str v ''channel''") (simp_all split: if_split_asm)
qed (simp_all add: okx_on_message_def bitget_on_message_def)

theorem control_messages_are_not_data_witness:
  "\<exists>v. JObject [(''arg'', JNull)] = v \<and> json_get v ''arg'' \<noteq> None"
  using control_messages_are_not_data
    [of "\<lambda>t. Some (JObject [(''arg'', JNull)])" "Text_Frame ''x''" "Payload (JObject [(''arg'', JNull)])" "\<lambda>j. []"]
  by (simp add: okx_on_message_def)

definition okx_session :: session where
  "okx_session =
     \<lparr>se_consumer = True, se_dial = Connected, se_failed_send = None,
      se_events = [Inbound (Text_Frame ''ping'') True True, Inbound (Text_Frame ''12'') True True,
                   Inbound (Text_Frame ''345'') True True, Stream_End]\<rparr>"

text \<open>A venue whose text \<open>s\<close> stands for a push of \<open>length s\<close> coins.\<close>

definition push_of :: "string \<Rightarrow> json option" where
  "push_of s = Some (okx_push s)"

theorem socket_to_bars_witness:
  "\<exists>lv' (ss :: nat oi_sample list).
     okx_run text_length (Some False) [(0, okx_push ''12''), (60, okx_push ''345'')] \<lparr>lv_last = [], lv_agg = [], lv_published = []\<rparr>
       = Ret lv' \<and> lv_published lv' = [] \<and>
     map s_native_value (filter (\<lambda>smp. s_instrument smp = new_instrument Okx ''BTC-USDT-SWAP'') ss) = [2, 3 :: nat]"
proof -
  let ?lv = "\<lparr>lv_last = [], lv_agg = [], lv_published = []\<rparr> :: nat live"
  let ?h = "okx_handler (\<lambda>j. []) push_of []" and ?clock = "\<lambda>k. int (60 * k)"
  have p: "received ?clock ?h okx_session = [(0, okx_push ''12''), (60, okx_push ''345'')]"
    by (simp add: received_def okx_session_def connect_once_def on_connect_def okx_handler_def okx_on_message_def push_of_def
        okx_push_def payloads_def List.map_filter_simps)
  have v: "List.map_filter (oi_in push_of okx_control (\<lambda>v. unpriced (okx_extract text_length v)) ''BTC-USDT-SWAP'')
      (takeWhile (\<lambda>ev. \<not> ends ?h ev) (se_events okx_session)) = [2, 3]"
    by (simp add: okx_session_def ends_def okx_handler_def okx_on_message_def push_of_def oi_in_def okx_control_def value_of_def
        unpriced_def okx_extract_push List.map_filter_simps, simp add: okx_push_def okx_extract_push [unfolded okx_push_def])
  have "se_dial okx_session = Connected" "se_failed_send okx_session = None" "dm_ok (lv_last ?lv)"
    "\<And>a b. (\<lambda>a b. Ret (a * b)) a b \<noteq> (Panic :: nat rust)"
    by (simp_all add: okx_session_def)
  from socket_to_bars [OF this, of "\<lambda>j. []" push_of "[]" "Some False" text_length ?clock]
  have "folds_the_changes Okx (Some False) ?lv (okx_run text_length (Some False) [(0, okx_push ''12''), (60, okx_push ''345'')] ?lv)
      (\<lambda>i. List.map_filter (oi_in push_of okx_control (\<lambda>v. unpriced (okx_extract text_length v)) i)
        (takeWhile (\<lambda>ev. \<not> ends ?h ev) (se_events okx_session)))"
    unfolding Let_def p by blast
  then obtain lv' and ss :: "nat oi_sample list" where
    r: "okx_run text_length (Some False) [(0, okx_push ''12''), (60, okx_push ''345'')] ?lv = Ret lv'"
    and all: "\<forall>i. map s_native_value (filter (\<lambda>s. s_instrument s = new_instrument Okx i) ss) =
      changes (dm_get (lv_last ?lv) i) (List.map_filter (oi_in push_of okx_control (\<lambda>v. unpriced (okx_extract text_length v)) i)
        (takeWhile (\<lambda>ev. \<not> ends ?h ev) (se_events okx_session)))"
    and pub: "\<not> may_publish (Some False) \<longrightarrow> lv_published lv' = lv_published ?lv"
    unfolding folds_the_changes_def by blast
  have "map s_native_value (filter (\<lambda>s. s_instrument s = new_instrument Okx ''BTC-USDT-SWAP'') ss) = changes None [2, 3]"
    using spec [OF all, of "''BTC-USDT-SWAP''"] unfolding v by simp
  with r pub show ?thesis by (intro exI [of _ lv'] exI [of _ ss]) (simp add: may_publish_def)
qed

section \<open>The idle timeout\<close>

text \<open>
  The timers of the select loop while nothing arrives. The ping tick is armed once per period,
  the idle timeout anew in every turn (\<open>timeout(idle, src.next())\<close> inside the \<open>select!\<close>), so it
  runs from \<open>now\<close>, the start of the turn. \<open>lag k\<close> is what sending a ping takes. The result is the
  first \<open>n\<close> turns of a connection on which every ping is accepted.
\<close>

fun silent_turns :: "ws_handler \<Rightarrow> (nat \<Rightarrow> duration) \<Rightarrow> nat \<Rightarrow> timestamp \<Rightarrow> timestamp \<Rightarrow> conn_event list" where
  "silent_turns h lag 0 now tick = []"
| "silent_turns h lag (Suc n) now tick =
     (if tick < now + wh_idle_timeout h
      then Ping_Tick True # silent_turns h lag n (max now tick + lag n) (tick + wh_ping_interval h)
      else [Silence])"

definition silent_connection :: "ws_handler \<Rightarrow> (nat \<Rightarrow> duration) \<Rightarrow> nat \<Rightarrow> timestamp \<Rightarrow> conn_event list" where
  "silent_connection h lag n connected_at = silent_turns h lag n connected_at (connected_at + wh_ping_interval h)"

definition venue_handlers :: "(json \<Rightarrow> string) \<Rightarrow> (string \<Rightarrow> json option) \<Rightarrow> string list \<Rightarrow> ws_handler list" where
  "venue_handlers print parse ids =
     [okx_handler print parse ids, bitget_handler print parse ids, bybit_handler print parse ids,
      hyperliquid_handler print parse ids, binance_handler parse]"

lemma silent_turns_pings:
  assumes "wh_ping_interval h < wh_idle_timeout h" "\<And>k. 0 \<le> lag k"
  shows "tick \<le> now + wh_ping_interval h \<Longrightarrow> silent_turns h lag n now tick = replicate n (Ping_Tick True)"
proof (induction n arbitrary: now tick)
  case (Suc n)
  have "tick + wh_ping_interval h \<le> max now tick + lag n + wh_ping_interval h" using assms(2) [of n] by linarith
  with Suc assms(1) show ?case by simp
qed simp

lemma conn_loop_pings: "snd (conn_loop h (replicate n (Ping_Tick True)) c) = None"
  by (induction n arbitrary: c) simp_all

lemma venue_handlers_timing: "h \<in> set (venue_handlers print parse ids) \<Longrightarrow> wh_ping_interval h < wh_idle_timeout h"
  by (auto simp: venue_handlers_def okx_handler_def bitget_handler_def bybit_handler_def hyperliquid_handler_def
      binance_handler_def default_ping_interval_def seconds_def)

text \<open>
  C40. The idle timeout of a venue connection cannot fire: every ping interval is shorter than the
  idle timeout and each ping restarts it, so a connection on which nothing ever arrives again
  goes on pinging for any number of turns, as long as the socket takes the pings, and the
  supervisor never reconnects.
\<close>

theorem silence_never_ends_a_connection:
  assumes "h \<in> set (venue_handlers print parse ids)" "\<And>k. 0 \<le> lag k"
  shows "silent_connection h lag n connected_at = replicate n (Ping_Tick True) \<and>
         snd (conn_loop h (silent_connection h lag n connected_at) c) = None"
  using silent_turns_pings [OF venue_handlers_timing [OF assms(1)], of lag "connected_at + wh_ping_interval h" connected_at n] assms(2)
  by (simp add: silent_connection_def conn_loop_pings)

theorem silence_never_ends_a_connection_witness:
  "silent_connection (binance_handler (\<lambda>t. None)) (\<lambda>k. 0) 3 0 = [Ping_Tick True, Ping_Tick True, Ping_Tick True]"
  using silence_never_ends_a_connection [of "binance_handler (\<lambda>t. None)" "\<lambda>j. []" "\<lambda>t. None" "[]" "\<lambda>k. 0" 3 0]
  by (simp add: venue_handlers_def numeral_3_eq_3)

end
