(* ===== verification/Runner.thy ===== *)
theory Runner
  imports Configuration Adapters Ws_Handlers
begin

text \<open>
  How the daemons are put together: the storage stack of \<open>runner.rs\<close> for each configuration, the
  live tasks it spawns (\<open>spawn_*_live\<close> of \<open>live.rs\<close>), and the resync command of
  \<open>oi-collector/src/main.rs\<close> over the nine adapters.
\<close>

section \<open>Exchanges\<close>

fun is_production_ready :: "exchange \<Rightarrow> bool" where
  "is_production_ready Binance = True"
| "is_production_ready Bybit = True"
| "is_production_ready Hyperliquid = True"
| "is_production_ready Okx = True"
| "is_production_ready Bitget = True"
| "is_production_ready Mexc = True"
| "is_production_ready Aster = True"
| "is_production_ready BingX = True"
| "is_production_ready KuCoin = True"

definition enabled_exchanges :: "collector_cfg \<Rightarrow> exchange list" where
  "enabled_exchanges cfg =
     (if kc_exchanges cfg = [] then filter is_production_ready all_exchanges else kc_exchanges cfg)"

lemma all_production_ready: "filter is_production_ready all_exchanges = all_exchanges"
  by (simp add: all_exchanges_def)

section \<open>The storage stack\<close>

text \<open>A store with a log beside it that it does not use, for the configurations without one.\<close>

definition unlogged :: "('t, 'd) oi_repository \<Rightarrow> (wal_state \<times> 't, 'd) oi_repository" where
  "unlogged inner =
     \<lparr>upsert_snapshots = (\<lambda>snaps (w, t). case upsert_snapshots inner snaps t of (t', r) \<Rightarrow> ((w, t'), r)),
      upsert_instruments = (\<lambda>metas (w, t). case upsert_instruments inner metas t of (t', r) \<Rightarrow> ((w, t'), r)),
      range_snapshots = (\<lambda>i a z (w, t). range_snapshots inner i a z t),
      latest_snapshot = (\<lambda>i (w, t). latest_snapshot inner i t),
      upsert_funding = (\<lambda>bars (w, t). case upsert_funding inner bars t of (t', r) \<Rightarrow> ((w, t'), r)),
      funding_range = (\<lambda>i a z (w, t). funding_range inner i a z t),
      latest_funding = (\<lambda>i (w, t). latest_funding inner i t),
      upsert_funding_events = (\<lambda>events (w, t). case upsert_funding_events inner events t of (t', r) \<Rightarrow> ((w, t'), r)),
      funding_events_range = (\<lambda>i a z (w, t). funding_events_range inner i a z t),
      latest_funding_event = (\<lambda>i (w, t). latest_funding_event inner i t)\<rparr>"

text \<open>
  ClickHouse behind the gate (with failover), behind the log (when it is enabled), behind the
  composite, whose gate is the same flag.
\<close>

definition assemble ::
  "'d snap_codec \<Rightarrow> 'r redis_client \<Rightarrow> 'd codec \<Rightarrow> ('t, 'd) oi_repository \<Rightarrow> 't leader_gate option \<Rightarrow> bool
     \<Rightarrow> ('r \<times> wal_state \<times> 't, 'd) oi_repository" where
  "assemble k rc c ch gate wal_enabled =
     (let gated = (case gate of None \<Rightarrow> ch | Some g \<Rightarrow> leader_gated ch g);
          primary = (if wal_enabled then wal_backed c gated else unlogged gated)
      in composite k rc primary (map_option (\<lambda>g (r, w, t). g t) gate))"

lemma assemble_full: "assemble k rc c ch (Some g) True = storage_stack k rc c ch g"
  by (simp add: assemble_def storage_stack_def)

lemma upsert_unlogged:
  "upsert_snapshots (unlogged inner) snaps (w, t) = (case upsert_snapshots inner snaps t of (t', r) \<Rightarrow> ((w, t'), r))"
  by (simp add: unlogged_def)

text \<open>The composite takes its answer, and the state of everything but Redis, from the primary.\<close>

lemma upsert_composite:
  assumes "upsert_snapshots primary snaps s = (s', res)"
  shows "\<exists>r'. upsert_snapshots (composite k rc primary gate) snaps (r, s) = ((r', s'), res) \<and>
     (\<forall>g. gate = Some g \<longrightarrow> \<not> g (r, s') \<longrightarrow> r' = r)"
  using assms by (simp add: composite_def Let_def split: prod.splits)

lemma upsert_compositeE:
  assumes "upsert_snapshots (composite k rc primary gate) snaps (r, s) = ((r', s'), res)"
  shows "upsert_snapshots primary snaps s = (s', res)"
  using assms upsert_composite by (metis prod.inject surj_pair)

section \<open>What every configuration of the stack promises\<close>

lemma acks_unlogged:
  "acks_are_durable (upsert_snapshots inner) stored \<Longrightarrow>
   acks_are_durable (upsert_snapshots (unlogged inner)) (\<lambda>(w, t) b. b \<noteq> [] \<longrightarrow> stored t b)"
  by (fastforce simp: acks_are_durable_def upsert_unlogged split: prod.splits)

lemma acks_wal_backed:
  assumes "acks_are_durable (upsert_snapshots inner) stored"
  shows "acks_are_durable (upsert_snapshots (wal_backed c inner)) (\<lambda>(w, t) b. b \<noteq> [] \<longrightarrow> stored t b)"
proof -
  have keep: "stored t' b'" if "upsert_snapshots inner b t = (t', x)" "stored t b'" for b t t' x b'
    using acks_are_durableD(2) [OF assms] that by blast
  have ack: "stored t' b" if "upsert_snapshots inner b t = (t', Inr ())" for b t t'
    using acks_are_durableD(1) [OF assms] that by blast
  show ?thesis
    unfolding acks_are_durable_def upsert_wal_backed
    by (auto simp: upsert_wal_backed keep ack split: if_splits prod.splits sum.splits)
qed

lemma acks_composite:
  assumes "acks_are_durable (upsert_snapshots primary) stored"
  shows "acks_are_durable (upsert_snapshots (composite k rc primary gate)) (\<lambda>(r, s) b. stored s b)"
proof (rule acks_are_durableI)
  fix b :: "'a oi_snapshot list" and s s'
  assume "upsert_snapshots (composite k rc primary gate) b s = (s', Inr ())"
  then have "upsert_snapshots primary b (snd s) = (snd s', Inr ())"
    using upsert_compositeE by (metis prod.collapse)
  then show "(\<lambda>(r, s) b. stored s b) s' b" using acks_are_durableD(1) [OF assms] by (simp add: split_def)
next
  fix b b' :: "'a oi_snapshot list" and s s' x
  assume "upsert_snapshots (composite k rc primary gate) b s = (s', x)" and held: "(\<lambda>(r, s) b. stored s b) s b'"
  then have "upsert_snapshots primary b (snd s) = (snd s', x)"
    using upsert_compositeE by (metis prod.collapse)
  then show "(\<lambda>(r, s) b. stored s b) s' b'" using acks_are_durableD(2) [OF assms] held by (simp add: split_def)
qed

lemma acks_assemble:
  assumes "acks_are_durable (upsert_snapshots ch) stored"
  shows "acks_are_durable (upsert_snapshots (assemble k rc c ch gate wal)) (\<lambda>(r, w, t) b. b \<noteq> [] \<longrightarrow> stored t b)"
proof -
  let ?gated = "case gate of None \<Rightarrow> ch | Some g \<Rightarrow> leader_gated ch g"
  have g: "acks_are_durable (upsert_snapshots ?gated) stored"
    using assms acks_are_durable_gated by (cases gate) auto
  have "acks_are_durable (upsert_snapshots (if wal then wal_backed c ?gated else unlogged ?gated))
      (\<lambda>(w, t) b. b \<noteq> [] \<longrightarrow> stored t b)"
    using acks_wal_backed [OF g] acks_unlogged [OF g] by (cases wal) simp_all
  from acks_composite [OF this, of k rc "map_option (\<lambda>g (r, w, t). g t) gate"] show ?thesis
    by (simp only: assemble_def Let_def split_def)
qed

lemma follower_primary:
  assumes "\<not> g t" "snaps \<noteq> []"
  shows "\<exists>w' e. upsert_snapshots (if wal then wal_backed c (leader_gated ch g) else unlogged (leader_gated ch g)) snaps (w, t) =
           ((w', t), Inl e) \<and>
         (queued w' = queued w \<or> wal \<and> e = not_leader \<and> (\<exists>p. queued w' = (queued w)(p := batch_entry c snaps))) \<and>
         (wal \<or> w' = w \<and> e = not_leader)"
proof (cases wal)
  case True
  obtain w1 x where a: "wal_append c snaps w = (w1, x)" by (cases "wal_append c snaps w")
  show ?thesis
  proof (cases x)
    case (Inl e)
    with a assms True wal.append_err [of c snaps w w1 e] show ?thesis by (simp add: upsert_wal_backed)
  next
    case (Inr p)
    with a assms True wal.append_ok [of c snaps w w1 p] show ?thesis by (auto simp: upsert_wal_backed)
  qed
qed (simp add: upsert_unlogged assms)



section \<open>Live tasks\<close>

definition live_symbols :: "'d instrument_meta list \<Rightarrow> string list" where
  "live_symbols metas = map (\<lambda>m. id_symbol (meta_id m)) (filter meta_active metas)"

text \<open>\<open>spawn_*_live\<close>: one supervised connection per shard; Hyperliquid has a single one.\<close>

fun live_handlers :: "(json \<Rightarrow> string) \<Rightarrow> (string \<Rightarrow> json option) \<Rightarrow> exchange \<Rightarrow> string list \<Rightarrow> ws_handler list" where
  "live_handlers print parse Bybit symbols = map (bybit_handler print parse) (chunks 400 symbols)"
| "live_handlers print parse Okx inst_ids = map (okx_handler print parse) (chunks 200 inst_ids)"
| "live_handlers print parse Bitget inst_ids = map (bitget_handler print parse) (chunks 150 inst_ids)"
| "live_handlers print parse Hyperliquid coins = (if coins = [] then [] else [hyperliquid_handler print parse coins])"
| "live_handlers print parse Binance symbols = []"
| "live_handlers print parse BingX symbols = []"
| "live_handlers print parse KuCoin symbols = []"
| "live_handlers print parse Mexc symbols = []"
| "live_handlers print parse Aster symbols = []"

text \<open>A task discovers once, when it starts; when that fails it ends, and nothing starts it again.\<close>

definition live_task ::
  "(json \<Rightarrow> string) \<Rightarrow> (string \<Rightarrow> json option) \<Rightarrow> exchange \<Rightarrow> exchange_error + 'd instrument_meta list \<Rightarrow> ws_handler list" where
  "live_task print parse ex discovered =
     (case discovered of Inl e \<Rightarrow> [] | Inr metas \<Rightarrow> live_handlers print parse ex (live_symbols metas))"

definition spawn_live ::
  "(json \<Rightarrow> string) \<Rightarrow> (string \<Rightarrow> json option) \<Rightarrow> collector_cfg \<Rightarrow> (exchange \<Rightarrow> exchange_error + 'd instrument_meta list)
     \<Rightarrow> ws_handler list" where
  "spawn_live print parse cfg discovered =
     concat (map (\<lambda>ex. if ex \<in> set (enabled_exchanges cfg) then live_task print parse ex (discovered ex) else [])
       [Bybit, Bitget, Hyperliquid, Okx])"

lemma groups_of_shards:
  assumes "\<And>ids. \<exists>gs. say ids = map msg gs \<and> concat gs = map f ids \<and> (\<forall>c \<in> set gs. ok c)"
  shows "\<exists>gs. concat (map say shards) = map msg gs \<and> concat gs = map f (concat shards) \<and> (\<forall>c \<in> set gs. ok c)"
proof (induction shards)
  case (Cons x shards)
  from Cons obtain gs where gs: "concat (map say shards) = map msg gs" "concat gs = map f (concat shards)" "\<forall>c \<in> set gs. ok c"
    by blast
  moreover obtain hs where "say x = map msg hs" "concat hs = map f x" "\<forall>c \<in> set hs. ok c" using assms by blast
  ultimately show ?case by (intro exI [of _ "hs @ gs"]) auto
qed simp

lemma okx_shards:
  "\<exists>gs. concat (map (okx_on_connect print) shards) = map (\<lambda>c. Text_Frame (print (okx_subscribe c))) gs \<and>
     concat gs = concat shards \<and> (\<forall>c \<in> set gs. c \<noteq> [] \<and> length c \<le> 40)"
  by (rule groups_of_shards [where f = "\<lambda>x. x", simplified]) (use okx_groups in simp)

lemma bitget_shards:
  "\<exists>gs. concat (map (bitget_on_connect print) shards) = map (\<lambda>c. Text_Frame (print (bitget_subscribe c))) gs \<and>
     concat gs = concat shards \<and> (\<forall>c \<in> set gs. c \<noteq> [] \<and> length c \<le> 50)"
  by (rule groups_of_shards [where f = "\<lambda>x. x", simplified]) (use bitget_groups in simp)

lemma bybit_shards:
  "\<exists>gs. concat (map (\<lambda>ids. bybit_on_connect print (bybit_topics ids)) shards) =
       map (\<lambda>c. Text_Frame (print (bybit_op ''subscribe'' (Some c)))) gs \<and>
     concat gs = map (\<lambda>s. ''tickers.'' @ s) (concat shards) \<and> (\<forall>c \<in> set gs. c \<noteq> [] \<and> length c \<le> 10)"
  by (rule groups_of_shards) (rule bybit_groups)

text \<open>All that the connections of a live task say when they open.\<close>

definition said :: "(json \<Rightarrow> string) \<Rightarrow> (string \<Rightarrow> json option) \<Rightarrow> exchange \<Rightarrow> 'd instrument_meta list \<Rightarrow> ws_message list" where
  "said print parse ex metas = concat (map wh_subscribe (live_task print parse ex (Inr metas)))"

lemma said_simps:
  "said print parse Okx metas = concat (map (okx_on_connect print) (chunks 200 (live_symbols metas)))"
  "said print parse Bitget metas = concat (map (bitget_on_connect print) (chunks 150 (live_symbols metas)))"
  "said print parse Bybit metas =
     concat (map (\<lambda>ids. bybit_on_connect print (bybit_topics ids)) (chunks 400 (live_symbols metas)))"
  "said print parse Hyperliquid metas =
     (if live_symbols metas = [] then [] else hyperliquid_on_connect print (live_symbols metas))"
  by (simp_all add: said_def live_task_def okx_handler_def bitget_handler_def bybit_handler_def hyperliquid_handler_def comp_def)

text \<open>
  C31. Every instrument is streamed once: over all the connections the live task of a venue opens,
  OKX, Bitget and Bybit are asked for exactly the active instruments of the discovery, each once
  and in that order, in messages that are never empty and never above the cap of the venue (40,
  50 and 10 arguments), and Hyperliquid in one message each, followed by a ping.
\<close>

theorem live_subscriptions_cover_discovery:
  "\<exists>okx bitget bybit.
     said print parse Okx metas = map (\<lambda>c. Text_Frame (print (okx_subscribe c))) okx \<and> concat okx = live_symbols metas \<and>
     said print parse Bitget metas = map (\<lambda>c. Text_Frame (print (bitget_subscribe c))) bitget \<and>
     concat bitget = live_symbols metas \<and>
     said print parse Bybit metas = map (\<lambda>c. Text_Frame (print (bybit_op ''subscribe'' (Some c)))) bybit \<and>
     concat bybit = map (\<lambda>s. ''tickers.'' @ s) (live_symbols metas) \<and>
     (\<forall>c \<in> set okx. c \<noteq> [] \<and> length c \<le> 40) \<and> (\<forall>c \<in> set bitget. c \<noteq> [] \<and> length c \<le> 50) \<and>
     (\<forall>c \<in> set bybit. c \<noteq> [] \<and> length c \<le> 10) \<and>
     said print parse Hyperliquid metas =
       (if live_symbols metas = [] then [] else hyperliquid_on_connect print (live_symbols metas))"
proof -
  have shards: "concat (chunks 200 (live_symbols metas)) = live_symbols metas"
    "concat (chunks 150 (live_symbols metas)) = live_symbols metas"
    "concat (chunks 400 (live_symbols metas)) = live_symbols metas"
    by (simp_all add: concat_chunks)
  obtain okx where okx: "said print parse Okx metas = map (\<lambda>c. Text_Frame (print (okx_subscribe c))) okx"
      "concat okx = live_symbols metas" "\<forall>c \<in> set okx. c \<noteq> [] \<and> length c \<le> 40"
    using okx_shards [of print "chunks 200 (live_symbols metas)"] unfolding said_simps shards by blast
  obtain bitget where bitget: "said print parse Bitget metas = map (\<lambda>c. Text_Frame (print (bitget_subscribe c))) bitget"
      "concat bitget = live_symbols metas" "\<forall>c \<in> set bitget. c \<noteq> [] \<and> length c \<le> 50"
    using bitget_shards [of print "chunks 150 (live_symbols metas)"] unfolding said_simps shards by blast
  obtain bybit where bybit: "said print parse Bybit metas = map (\<lambda>c. Text_Frame (print (bybit_op ''subscribe'' (Some c)))) bybit"
      "concat bybit = map (\<lambda>s. ''tickers.'' @ s) (live_symbols metas)" "\<forall>c \<in> set bybit. c \<noteq> [] \<and> length c \<le> 10"
    using bybit_shards [of print "chunks 400 (live_symbols metas)"] unfolding said_simps shards by blast
  show ?thesis
    by (intro exI [of _ okx] exI [of _ bitget] exI [of _ bybit] conjI okx bitget bybit said_simps(4))
qed

theorem live_subscriptions_cover_discovery_witness:
  "\<exists>okx. said (\<lambda>j. []) (\<lambda>t. None) Okx [one_contract_meta] = map (\<lambda>c. Text_Frame []) okx \<and> concat okx = [''A'']"
  using live_subscriptions_cover_discovery [of "\<lambda>j. []" "\<lambda>t. None" "[one_contract_meta]"]
  by (auto simp: live_symbols_def one_contract_meta_def new_instrument_def)

end
