(* ===== verification/Resync.thy ===== *)
theory Resync
  imports Runner
begin

text \<open>
  The resync command of \<open>oi-collector/src/main.rs\<close> over the adapters, and what it does to the
  cache of the latest bar. \<open>world ex bucket\<close> is the adapter of an exchange as the call for that
  bucket sees it; RFC 3339 parsing is the parameter \<open>parse_ts\<close>.
\<close>

section \<open>The command\<close>

definition resync_with ::
  "('d \<Rightarrow> 'd \<Rightarrow> 'd rust) \<Rightarrow> ('s, 'd) oi_repository \<Rightarrow> 'd adapter \<Rightarrow> timestamp \<Rightarrow> 's \<Rightarrow> ('s \<times> (core_error + nat)) rust" where
  "resync_with mul repo a bucket s =
     (let ids = (case ad_discover a of Inr metas \<Rightarrow> active_ids metas | Inl _ \<Rightarrow> [])
      in resync_bucket mul repo (ad_discover a) (ad_fetch_prices a ids) (ad_fetch_oi a ids) bucket s)"

definition resync_exchanges :: "string \<Rightarrow> string + exchange list" where
  "resync_exchanges raw =
     (if to_ascii_lowercase raw = ''all'' then Inr (filter is_production_ready all_exchanges)
      else map_sum id (\<lambda>ex. [ex]) (exchange_from_str raw))"

text \<open>One exchange of the loop: the one bucket, or the last minutes, whose failures are only logged.\<close>

definition resync_one ::
  "('d \<Rightarrow> 'd \<Rightarrow> 'd rust) \<Rightarrow> ('s, 'd) oi_repository \<Rightarrow> (exchange \<Rightarrow> timestamp \<Rightarrow> 'd adapter) \<Rightarrow> timestamp
     \<Rightarrow> (string + timestamp) option \<Rightarrow> u32 \<Rightarrow> exchange \<Rightarrow> 's \<Rightarrow> ('s \<times> (string + nat)) rust" where
  "resync_one mul repo world now bucket mins ex s =
     (case bucket of
        Some (Inl e) \<Rightarrow> Ret (s, Inl e)
      | Some (Inr ts) \<Rightarrow> map_rust (\<lambda>(s', r). (s', map_sum show_core_error id r)) (resync_with mul repo (world ex ts) ts s)
      | None \<Rightarrow> map_rust (\<lambda>(s', n). (s', Inr n)) (resync_recent (\<lambda>b. resync_with mul repo (world ex b) b) now mins s))"

fun resync_loop ::
  "(exchange \<Rightarrow> 's \<Rightarrow> ('s \<times> (string + nat)) rust) \<Rightarrow> exchange list \<Rightarrow> nat \<Rightarrow> 's \<Rightarrow> ('s \<times> (string + nat)) rust" where
  "resync_loop f [] acc s = Ret (s, Inr acc)"
| "resync_loop f (ex # exs) acc s =
     bind_rust (f ex s) (\<lambda>(s', r). case r of Inl e \<Rightarrow> Ret (s', Inl e) | Inr n \<Rightarrow> resync_loop f exs (acc + n) s')"

definition run_resync ::
  "('d \<Rightarrow> 'd \<Rightarrow> 'd rust) \<Rightarrow> ('s, 'd) oi_repository \<Rightarrow> (exchange \<Rightarrow> timestamp \<Rightarrow> 'd adapter) \<Rightarrow> timestamp
     \<Rightarrow> (string \<Rightarrow> string + timestamp) \<Rightarrow> string \<Rightarrow> string option \<Rightarrow> u32 option \<Rightarrow> 's \<Rightarrow> ('s \<times> (string + nat)) rust" where
  "run_resync mul repo world now parse_ts raw bucket mins s =
     (if bucket = None \<and> mins = None then Ret (s, Inl ''resync: must specify either --bucket or --minutes'')
      else if bucket \<noteq> None \<and> mins \<noteq> None then Ret (s, Inl ''resync: --bucket and --minutes are mutually exclusive'')
      else
        (case resync_exchanges raw of
           Inl e \<Rightarrow> Ret (s, Inl e)
         | Inr exs \<Rightarrow>
             resync_loop (resync_one mul repo world now (map_option parse_ts bucket) (case mins of Some n \<Rightarrow> n | None \<Rightarrow> 0))
               exs 0 s))"

section \<open>What a resynced bucket holds\<close>

definition flat_bar :: "'d raw_oi \<Rightarrow> timestamp \<Rightarrow> 'd oi_snapshot \<Rightarrow> bool" where
  "flat_bar r bucket b \<longleftrightarrow>
     b_instrument b = raw_instrument r \<and> b_bucket_ts b = bucket \<and> b_samples b = 1 \<and>
     b_native_open b = raw_value r \<and> b_native_high b = raw_value r \<and> b_native_low b = raw_value r \<and>
     b_native_close b = raw_value r"

lemma find_SomeD: "find P xs = Some x \<Longrightarrow> x \<in> set xs \<and> P x"
  by (induction xs) (auto split: if_splits)

lemma last_by_SomeD: "last_by key xs i = Some x \<Longrightarrow> x \<in> set xs \<and> key x = i"
  using find_SomeD [of _ "rev xs" x] by (fastforce simp: last_by_def)

lemma last_by_present: "m \<in> set xs \<Longrightarrow> key m = i \<Longrightarrow> \<exists>x. last_by key xs i = Some x"
  by (cases "last_by key xs i") (auto simp: last_by_def find_None_iff)

lemma enriched_flat:
  assumes "enrich mul r meta price = Ret (Inr s)" "raw_bucket_ts r = bucket"
  shows "flat_bar r bucket (start_from_sample s)"
  using assms by (auto simp: enrich_def Let_def bind_rust_Ret_iff flat_bar_def start_from_sample_def split: if_splits)

lemma resync_snaps_meta:
  assumes "last_by meta_id metas (raw_instrument r) = Some meta" "resync_snaps mul metas prices (r # rs) = Ret snaps"
  shows "\<exists>price x snaps'. enrich mul r meta price = Ret x \<and> resync_snaps mul metas prices rs = Ret snaps' \<and>
    snaps = (case x of Inr s \<Rightarrow> start_from_sample s # snaps' | Inl _ \<Rightarrow> snaps')"
proof -
  let ?price = "case map_option quote_price (raw_price_hint r) of
      Some p \<Rightarrow> Some p
    | None \<Rightarrow> map_option quote_price (last_by quote_instrument prices (raw_instrument r))"
  from assms have "bind_rust (enrich mul r meta ?price) (\<lambda>e. bind_rust (resync_snaps mul metas prices rs)
      (\<lambda>snaps. case e of Inr s \<Rightarrow> Ret (start_from_sample s # snaps) | Inl _ \<Rightarrow> Ret snaps)) = Ret snaps"
    by (simp only: resync_snaps.simps Let_def option.case)
  then obtain x where x: "enrich mul r meta ?price = Ret x" and "bind_rust (resync_snaps mul metas prices rs)
      (\<lambda>snaps. case x of Inr s \<Rightarrow> Ret (start_from_sample s # snaps) | Inl _ \<Rightarrow> Ret snaps) = Ret snaps"
    by (simp only: bind_rust_Ret_iff) blast
  then obtain snaps' where "resync_snaps mul metas prices rs = Ret snaps'"
      "(case x of Inr s \<Rightarrow> Ret (start_from_sample s # snaps') | Inl _ \<Rightarrow> Ret snaps') = Ret snaps"
    by (simp only: bind_rust_Ret_iff) blast
  with x show ?thesis by (intro exI [of _ ?price] exI [of _ x] exI [of _ snaps']) (cases x, simp_all)
qed

lemma resync_snaps_flat:
  assumes "\<And>r. r \<in> set rs \<Longrightarrow> raw_bucket_ts r = bucket \<and> (\<exists>m \<in> set metas. meta_id m = raw_instrument r)"
    and "resync_snaps mul metas prices rs = Ret snaps"
  shows "list_all2 (\<lambda>r b. flat_bar r bucket b) rs snaps"
  using assms
proof (induction rs arbitrary: snaps)
  case (Cons r rs)
  obtain m where "m \<in> set metas" "meta_id m = raw_instrument r" using Cons.prems(1) [of r] by auto
  then obtain meta where meta: "last_by meta_id metas (raw_instrument r) = Some meta"
    using last_by_present [of m metas meta_id "raw_instrument r"] by auto
  from last_by_SomeD [OF this] have same: "raw_instrument r = meta_id meta" by simp
  obtain price x snaps' where x: "enrich mul r meta price = Ret x" "resync_snaps mul metas prices rs = Ret snaps'"
      "snaps = (case x of Inr s \<Rightarrow> start_from_sample s # snaps' | Inl _ \<Rightarrow> snaps')"
    using resync_snaps_meta [OF meta Cons.prems(2)] by blast
  obtain s where s: "x = Inr s" using enrich_Inr [OF x(1) same] by blast
  have "flat_bar r bucket (start_from_sample s)" using enriched_flat [of mul r meta price s bucket] x(1) s Cons.prems(1) [of r] by simp
  with Cons.IH [OF _ x(2)] Cons.prems(1) x(3) s show ?case by simp
qed simp

lemma resync_bucket_Ret:
  assumes "resync_bucket mul repo (Inr metas) prices oi bucket s = Ret (s', Inr n)"
  shows "\<exists>s1 raws snaps p. upsert_instruments repo metas s = (s1, Inr ()) \<and> oi bucket = Inr raws \<and>
    resync_snaps mul metas p raws = Ret snaps \<and> upsert_snapshots repo snaps s1 = (s', Inr ()) \<and> n = length snaps"
proof -
  obtain s1 x where u: "upsert_instruments repo metas s = (s1, x)" by (cases "upsert_instruments repo metas s")
  with assms obtain raws where o': "x = Inr ()" "oi bucket = Inr raws"
    by (cases x; cases "oi bucket") (auto simp: resync_bucket_def)
  let ?p = "case prices of Inr p \<Rightarrow> p | Inl _ \<Rightarrow> []"
  from assms u o' obtain snaps where snaps: "resync_snaps mul metas ?p raws = Ret snaps"
      "(case upsert_snapshots repo snaps s1 of (s2, Inl e) \<Rightarrow> Ret (s2, Inl e) | (s2, Inr _) \<Rightarrow> Ret (s2, Inr (length snaps))) =
         Ret (s', Inr n)"
    by (auto simp only: resync_bucket_def sum.case prod.case bind_rust_Ret_iff)
  obtain s2 y where y: "upsert_snapshots repo snaps s1 = (s2, y)" by (cases "upsert_snapshots repo snaps s1")
  with snaps(2) have "y = Inr ()" "s2 = s'" "n = length snaps" by (cases y; simp)+
  with u o' snaps(1) y show ?thesis by blast
qed

text \<open>
  C32. A resync that succeeds wrote what it counts, for each of the nine exchanges: the adapter
  answered the discovery and the open interest, the instruments were registered first, and the one
  batch handed to the repository holds, reading by reading, a flat bar of one sample (open, high,
  low and close are the value read now) of exactly the bucket that was asked for, and its length
  is the number reported.
\<close>

theorem resync_writes_a_flat_bar_per_reading:
  assumes "resync_with mul repo (adapter_for ex v known) bucket s = Ret (s', Inr n)"
  shows "\<exists>metas raws s1 snaps.
     ad_discover (adapter_for ex v known) = Inr metas \<and>
     ad_fetch_oi (adapter_for ex v known) (active_ids metas) bucket = Inr raws \<and>
     upsert_instruments repo metas s = (s1, Inr ()) \<and> upsert_snapshots repo snaps s1 = (s', Inr ()) \<and>
     list_all2 (\<lambda>r b. flat_bar r bucket b) raws snaps \<and> n = length raws"
proof -
  let ?a = "adapter_for ex v known"
  obtain metas where d: "ad_discover ?a = Inr metas"
    using assms by (cases "ad_discover ?a") (auto simp: resync_with_def resync_bucket_def)
  then obtain s1 raws snaps p where r: "upsert_instruments repo metas s = (s1, Inr ())"
      "ad_fetch_oi ?a (active_ids metas) bucket = Inr raws" "resync_snaps mul metas p raws = Ret snaps"
      "upsert_snapshots repo snaps s1 = (s', Inr ())" "n = length snaps"
    using assms resync_bucket_Ret [of mul repo metas _ "ad_fetch_oi ?a (active_ids metas)" bucket s s' n]
    by (simp add: resync_with_def Let_def) blast
  have "raw_bucket_ts x = bucket \<and> (\<exists>m \<in> set metas. meta_id m = raw_instrument x)" if "x \<in> set raws" for x
    using venue.reading_has_meta [OF d r(2) that] by blast
  from resync_snaps_flat [OF this r(3)] have flat: "list_all2 (\<lambda>r b. flat_bar r bucket b) raws snaps" by simp
  with list_all2_lengthD [OF this] d r show ?thesis by auto
qed

section \<open>The latest bar\<close>

text \<open>
  What is relied on of Redis within the time to live: a pipeline of \<open>SET EX\<close> is answered and its
  last value per key is what \<open>GET\<close> returns, other keys are left alone, and so does \<open>PUBLISH\<close>.
\<close>

definition redis_works :: "'r redis_client \<Rightarrow> bool" where
  "redis_works rc \<longleftrightarrow>
     (\<forall>cmds r. \<exists>r'. rd_pipe_set_ex rc cmds r = (r', Inr ()) \<and>
        (\<forall>key. rd_get rc key r' =
           (case map_of (rev (map (\<lambda>(k, b, ttl). (k, b)) cmds)) key of Some b \<Rightarrow> Inr (Some b) | None \<Rightarrow> rd_get rc key r))) \<and>
     (\<forall>msgs r key. rd_get rc key (fst (rd_pipe_publish rc msgs r)) = rd_get rc key r)"

lemma map_of_rev_last:
  "map_of (rev (map (\<lambda>x. (f (key x), g x)) xs)) (f i) = map_option g (last_by key xs i)" if "inj f"
proof -
  have "map_of (map (\<lambda>x. (f (key x), g x)) ys) (f i) = map_option g (find (\<lambda>x. key x = i) ys)" for ys
    by (induction ys) (auto simp: inj_eq [OF that])
  from this [of "rev xs"] show ?thesis by (simp add: last_by_def rev_map)
qed

lemma get_after_publish: "redis_works rc \<Longrightarrow> rd_get rc key (fst (publish k rc snaps r)) = rd_get rc key r"
  by (auto simp: redis_works_def publish_def split: sum.splits prod.splits) (metis fst_conv)+

lemma get_after_set:
  assumes "redis_works rc" "\<And>b. b \<in> set snaps \<Longrightarrow> enc_snap k b = Inr (bytes b)"
  shows "rd_get rc (latest_key i) (fst (bulk_set_latest k rc snaps r)) =
    (case last_by b_instrument snaps i of Some b \<Rightarrow> Inr (Some (bytes b)) | None \<Rightarrow> rd_get rc (latest_key i) r)"
proof (cases "snaps = []")
  case False
  let ?cmds = "map (\<lambda>b. (latest_key (b_instrument b), bytes b, latest_ttl_secs)) snaps"
  have "build_pipe (\<lambda>s. map_sum id (\<lambda>bytes. [(latest_key (b_instrument s), bytes, latest_ttl_secs)]) (enc_snap k s)) snaps =
      Inr (concat (map (\<lambda>b. [(latest_key (b_instrument b), bytes b, latest_ttl_secs)]) snaps))"
    by (rule build_pipe_Inr) (simp add: assms(2))
  moreover have "concat (map (\<lambda>b. [(latest_key (b_instrument b), bytes b, latest_ttl_secs)]) snaps) = ?cmds"
    by (induction snaps) simp_all
  ultimately have b: "bulk_set_latest k rc snaps r = (case rd_pipe_set_ex rc ?cmds r of (r', res) \<Rightarrow> (r', map_sum redis_err id res))"
    using False by (simp add: bulk_set_latest_def)
  obtain r' where r': "rd_pipe_set_ex rc ?cmds r = (r', Inr ())"
      "rd_get rc (latest_key i) r' = (case map_of (rev (map (\<lambda>(k, b, ttl). (k, b)) ?cmds)) (latest_key i) of
         Some b \<Rightarrow> Inr (Some b) | None \<Rightarrow> rd_get rc (latest_key i) r)"
    using assms(1) unfolding redis_works_def by meson
  have m: "map (\<lambda>(k, b, ttl). (k, b)) ?cmds = map (\<lambda>b. (latest_key (b_instrument b), bytes b)) snaps" by simp
  have "inj latest_key" by (rule injI) simp
  from map_of_rev_last [OF this, of b_instrument bytes snaps i] b r' show ?thesis
    unfolding m by (simp split: option.split)
qed (simp add: bulk_set_latest_def last_by_def)


section \<open>Concrete runs\<close>

definition one_contract_bar :: "nat oi_snapshot" where
  "one_contract_bar = start_from_sample
     \<lparr>s_instrument = new_instrument KuCoin ''A'', s_bucket_ts = 0, s_recv_ts = seconds 1700000000, s_native_value = 7,
      s_native_unit = Contracts, s_oi_coins = None, s_oi_usd = None, s_price_used = None\<rparr>"

lemma one_contract_resync:
  "resync_with (\<lambda>a b. Panic) recording_repo (adapter_for KuCoin one_contract_venue []) 0 [] = Ret ([[one_contract_bar]], Inr 1)"
proof -
  have r: "resync_snaps (\<lambda>a b. Panic) [one_contract_meta] [] [one_contract_reading] = Ret [one_contract_bar]"
    by (simp add: last_by_def one_contract_meta_def one_contract_reading_def one_contract_bar_def enrich_def Let_def)
  have ids: "active_ids [one_contract_meta] = [new_instrument KuCoin ''A'']"
    by (simp add: active_ids_def one_contract_meta_def)
  have "upsert_instruments recording_repo [one_contract_meta] [] = ([], Inr ())"
    by (simp add: recording_repo_def without_funding_def)
  then show ?thesis
    by (simp add: resync_with_def resync_bucket_def one_contract_discovered one_contract_read ids no_prices_def r
        recording_repo_upsert del: resync_snaps.simps)
qed

theorem resync_writes_a_flat_bar_per_reading_witness:
  "\<exists>snaps :: nat oi_snapshot list.
     upsert_snapshots recording_repo snaps [] = ([[one_contract_bar]], Inr ()) \<and>
     list_all2 (\<lambda>r b. flat_bar r 0 b) [one_contract_reading] snaps"
proof -
  obtain metas raws and s1 :: "nat oi_snapshot list list" and snaps where
    w: "ad_discover (adapter_for KuCoin one_contract_venue []) = Inr metas"
      "ad_fetch_oi (adapter_for KuCoin one_contract_venue []) (active_ids metas) 0 = Inr raws"
      "upsert_instruments recording_repo metas [] = (s1, Inr ())"
      "upsert_snapshots recording_repo snaps s1 = ([[one_contract_bar]], Inr ())"
      "list_all2 (\<lambda>r b. flat_bar r 0 b) raws snaps"
    using resync_writes_a_flat_bar_per_reading [OF one_contract_resync] by blast
  have m: "metas = [one_contract_meta]" using w(1) one_contract_discovered by simp
  then have "active_ids metas = [new_instrument KuCoin ''A'']" by (simp add: active_ids_def one_contract_meta_def)
  with w(2) one_contract_read have "raws = [one_contract_reading]" by simp
  moreover have "s1 = []" using w(3) by (simp add: recording_repo_def without_funding_def)
  ultimately show ?thesis using w(4,5) by blast
qed

definition map_redis :: "(string \<Rightarrow> u8 list option) redis_client" where
  "map_redis =
     \<lparr>rd_pipe_set_ex = (\<lambda>cmds r. (fold (\<lambda>(k, b, ttl) r. r(k := Some b)) cmds r, Inr ())), rd_get = (\<lambda>k r. Inr (r k)),
      rd_pipe_publish = (\<lambda>_ r. (r, Inr ())), rd_ping = (\<lambda>_. Inr ''PONG'')\<rparr>"

lemma fold_set:
  "fold (\<lambda>(k, b, ttl) r. r(k := Some b)) cmds r key =
     (case map_of (rev (map (\<lambda>(k, b, ttl). (k, b)) cmds)) key of Some b \<Rightarrow> Some b | None \<Rightarrow> r key)"
  by (induction cmds arbitrary: r) (auto simp: map_add_def split: option.split)

lemma map_redis_works: "redis_works map_redis"
  by (simp add: redis_works_def map_redis_def fold_set split: option.split)

text \<open>Two bars of one instrument, an hour apart, and a codec for them.\<close>

definition later_bar :: "nat oi_snapshot" where
  "later_bar = (nat_bar 9)\<lparr>b_bucket_ts := minutes 60\<rparr>"

definition two_bars :: "nat snap_codec" where
  "two_bars =
     \<lparr>enc_snap = (\<lambda>b. Inr [if b = later_bar then 9 else 5]),
      dec_snap = (\<lambda>bs. Inr (if bs = [9] then later_bar else nat_bar 5))\<rparr>"


end
