(* ===== verification/Clickhouse_Admin.thy ===== *)
theory Clickhouse_Admin
  imports Clickhouse Schema_Sql "HOL-Library.Multiset"
begin

text \<open>
  The inherent methods of \<open>ClickHouseRepo\<close> in \<open>oi-storage/src/clickhouse.rs\<close>: the liveness probe,
  the creation of the schema and the sizes of the tables. The server is a parameter: what it
  answers to a statement, and its table \<open>system.parts\<close>.
\<close>

section \<open>Probe and schema\<close>

definition ch_probe :: "string + unit \<Rightarrow> core_error + unit" where
  "ch_probe answer = map_sum ch_err id answer"

text \<open>The statements in order; the first that is refused ends the run.\<close>

fun execute_all :: "(string \<Rightarrow> 't \<Rightarrow> 't \<times> (string + unit)) \<Rightarrow> string list \<Rightarrow> ('t, unit) io" where
  "execute_all exec [] t = (t, Inr ())"
| "execute_all exec (s # ss) t =
     (case exec s t of
        (t', Inl e) \<Rightarrow> (t', Inl (ch_err e))
      | (t', Inr _) \<Rightarrow> execute_all exec ss t')"

definition ensure_schema :: "(string \<Rightarrow> 't \<Rightarrow> 't \<times> (string + unit)) \<Rightarrow> string \<Rightarrow> ('t, unit) io" where
  "ensure_schema exec sql = execute_all exec (split_sql sql)"

text \<open>
  ``Safe to re-run'': \<open>CREATE ... IF NOT EXISTS\<close> makes something exist when it succeeds, has no
  effect where it exists, and removes nothing.
\<close>

definition creates :: "(string \<Rightarrow> 't \<Rightarrow> 't \<times> (string + unit)) \<Rightarrow> (string \<Rightarrow> 't \<Rightarrow> bool) \<Rightarrow> bool" where
  "creates exec exists \<longleftrightarrow>
     (\<forall>s t. (snd (exec s t) = Inr () \<longrightarrow> exists s (fst (exec s t))) \<and> (exists s t \<longrightarrow> fst (exec s t) = t) \<and>
        (\<forall>s'. exists s' t \<longrightarrow> exists s' (fst (exec s t))))"

lemma execute_all_creates:
  "creates exec exists \<Longrightarrow> execute_all exec ss t = (t', Inr ()) \<Longrightarrow>
     (\<forall>s \<in> set ss. exists s t') \<and> (\<forall>s. exists s t \<longrightarrow> exists s t')"
proof (induction ss arbitrary: t)
  case (Cons s ss)
  obtain t1 r where x: "exec s t = (t1, r)" by (cases "exec s t")
  with Cons.prems(2) have r: "r = Inr ()" "execute_all exec ss t1 = (t', Inr ())"
    by (auto split: sum.splits)
  have "exists s t1" "\<And>s'. exists s' t \<Longrightarrow> exists s' t1"
    using Cons.prems(1) x r(1) unfolding creates_def by (metis fst_conv snd_conv)+
  with Cons.IH [OF Cons.prems(1) r(2)] show ?case by auto
qed simp

lemma execute_all_existing:
  "creates exec exists \<Longrightarrow> \<forall>s \<in> set ss. exists s t \<Longrightarrow> fst (execute_all exec ss t) = t"
proof (induction ss)
  case (Cons s ss)
  have "fst (exec s t) = t" using Cons.prems unfolding creates_def by (metis list.set_intros(1))
  with Cons show ?case by (cases "exec s t") (auto split: sum.split)
qed simp

lemma schema_rerun_changes_nothing:
  assumes "creates exec exists" "ensure_schema exec sql t = (t', Inr ())"
  shows "fst (ensure_schema exec sql t') = t'"
  using execute_all_existing [OF assms(1)] execute_all_creates [OF assms(1)] assms(2) by (metis ensure_schema_def)

section \<open>Sizes of the tables\<close>

record part =
  pt_database :: string
  pt_table :: string
  pt_active :: bool
  pt_rows :: u64
  pt_compressed :: u64
  pt_uncompressed :: u64

record table_size =
  ts_table :: string
  ts_rows :: u64
  ts_compressed :: u64
  ts_uncompressed :: u64

text \<open>
  The query: \<open>sum\<close> over \<open>UInt64\<close> wraps around, and \<open>ORDER BY\<close> leaves open in which order groups of
  equal size come; \<open>groups\<close> is the order in which the server yields the distinct names.
\<close>

definition our_parts :: "part list \<Rightarrow> part list" where
  "our_parts parts = filter (\<lambda>p. pt_active p \<and> pt_database p = ''oi'') parts"

definition size_row :: "part list \<Rightarrow> string \<Rightarrow> table_size" where
  "size_row parts t =
     (let mine = filter (\<lambda>p. pt_table p = t) parts
      in \<lparr>ts_table = t, ts_rows = sum_list (map pt_rows mine), ts_compressed = sum_list (map pt_compressed mine),
          ts_uncompressed = sum_list (map pt_uncompressed mine)\<rparr>)"

definition select_sizes :: "(string list \<Rightarrow> string list) \<Rightarrow> part list \<Rightarrow> table_size list" where
  "select_sizes groups parts =
     (let ours = our_parts parts
      in rev (sort_key ts_compressed (map (size_row ours) (groups (map pt_table ours)))))"

definition table_sizes :: "(string list \<Rightarrow> string list) \<Rightarrow> string + part list \<Rightarrow> core_error + table_size list" where
  "table_sizes groups answer = map_sum ch_err (select_sizes groups) answer"

lemma unat_sum_list:
  fixes ws :: "u64 list"
  shows "sum_list (map unat ws) < 2 ^ 64 \<Longrightarrow> unat (sum_list ws) = sum_list (map unat ws)"
  by (induction ws) (simp_all add: unat_word_ariths)

lemma sum_over_groups:
  fixes f :: "'a \<Rightarrow> nat"
  assumes "finite T"
  shows "g ` set xs \<subseteq> T \<Longrightarrow> (\<Sum>t\<in>T. sum_list (map f (filter (\<lambda>x. g x = t) xs))) = sum_list (map f xs)"
proof (induction xs)
  case (Cons x xs)
  have "(\<Sum>t\<in>T. sum_list (map f (filter (\<lambda>x. g x = t) (x # xs)))) =
      (\<Sum>t\<in>T. (if g x = t then f x else 0) + sum_list (map f (filter (\<lambda>x. g x = t) xs)))"
    by (intro sum.cong) auto
  also have "\<dots> = f x + sum_list (map f xs)" using Cons assms by (simp add: sum.distrib)
  finally show ?case by simp
qed simp

lemma sum_list_filter_le: "sum_list (map f (filter P xs)) \<le> sum_list (map f xs)" for f :: "'a \<Rightarrow> nat"
  by (induction xs) auto

text \<open>
  The panel adds up: whatever the server answers in which order, the table sizes name every
  table of the database with an active part once, the largest first, and their compressed sizes
  sum up to the size of the active parts.
\<close>

theorem table_sizes_add_up:
  assumes "set (groups (map pt_table (our_parts parts))) = pt_table ` set (our_parts parts)"
    and "distinct (groups (map pt_table (our_parts parts)))"
    and "sum_list (map (\<lambda>p. unat (pt_compressed p)) (our_parts parts)) < 2 ^ 64"
    and "table_sizes groups (Inr parts) = Inr sizes"
  shows "ts_table ` set sizes = pt_table ` set (our_parts parts) \<and> distinct (map ts_table sizes) \<and>
    sorted_wrt (\<lambda>a b. ts_compressed b \<le> ts_compressed a) sizes \<and>
    sum_list (map (\<lambda>r. unat (ts_compressed r)) sizes) = sum_list (map (\<lambda>p. unat (pt_compressed p)) (our_parts parts))"
proof -
  let ?ours = "our_parts parts"
  let ?ts = "groups (map pt_table ?ours)"
  let ?rows = "map (size_row ?ours) ?ts"
  have sizes: "sizes = rev (sort_key ts_compressed ?rows)" using assms(4) by (simp add: table_sizes_def select_sizes_def Let_def)
  have mset: "mset sizes = mset ?rows" by (simp only: sizes mset_rev mset_sort)
  have name: "ts_table (size_row ?ours t) = t" for t by (simp add: size_row_def Let_def)
  have "set sizes = set ?rows" using mset by (metis set_mset_mset)
  then have names: "ts_table ` set sizes = pt_table ` set ?ours" using assms(1) name by (simp add: image_image)
  have "mset (map ts_table sizes) = mset (map ts_table ?rows)" by (simp only: mset_map mset)
  also have "map ts_table ?rows = ?ts" using name by (simp add: comp_def)
  finally have "distinct (map ts_table sizes)" using assms(2) by (metis mset_eq_imp_distinct_iff)
  moreover have "sorted_wrt (\<lambda>a b. ts_compressed b \<le> ts_compressed a) sizes"
    using sorted_sort_key [of ts_compressed ?rows] by (simp add: sizes sorted_wrt_rev sorted_wrt_map)
  moreover have "sum_list (map (\<lambda>r. unat (ts_compressed r)) sizes) = sum_list (map (\<lambda>p. unat (pt_compressed p)) ?ours)"
  proof -
    have "sum_mset (mset (map (\<lambda>r. unat (ts_compressed r)) sizes)) = sum_mset (mset (map (\<lambda>r. unat (ts_compressed r)) ?rows))"
      by (simp only: mset_map mset)
    then have "sum_list (map (\<lambda>r. unat (ts_compressed r)) sizes) = sum_list (map (\<lambda>r. unat (ts_compressed r)) ?rows)"
      by (simp only: sum_mset_sum_list)
    also have "\<dots> = (\<Sum>t\<in>set ?ts. unat (ts_compressed (size_row ?ours t)))"
      using assms(2) by (simp add: sum_list_distinct_conv_sum_set comp_def)
    also have "\<dots> = (\<Sum>t\<in>set ?ts. sum_list (map (\<lambda>p. unat (pt_compressed p)) (filter (\<lambda>p. pt_table p = t) ?ours)))"
    proof (rule sum.cong)
      fix t
      have "sum_list (map (\<lambda>p. unat (pt_compressed p)) (filter (\<lambda>p. pt_table p = t) ?ours)) < 2 ^ 64"
        using sum_list_filter_le assms(3) by (rule le_less_trans)
      then show "unat (ts_compressed (size_row ?ours t)) =
          sum_list (map (\<lambda>p. unat (pt_compressed p)) (filter (\<lambda>p. pt_table p = t) ?ours))"
        using unat_sum_list [of "map pt_compressed (filter (\<lambda>p. pt_table p = t) ?ours)"]
        by (simp add: size_row_def Let_def comp_def)
    qed simp
    also have "\<dots> = sum_list (map (\<lambda>p. unat (pt_compressed p)) ?ours)"
      by (rule sum_over_groups) (simp_all add: assms(1))
    finally show ?thesis .
  qed
  ultimately show ?thesis using names by simp
qed

theorem table_sizes_add_up_witness:
  "\<exists>sizes. table_sizes remdups (Inr
       [\<lparr>pt_database = ''oi'', pt_table = ''a'', pt_active = True, pt_rows = 1, pt_compressed = 5, pt_uncompressed = 9\<rparr>,
        \<lparr>pt_database = ''oi'', pt_table = ''b'', pt_active = True, pt_rows = 1, pt_compressed = 7, pt_uncompressed = 9\<rparr>,
        \<lparr>pt_database = ''oi'', pt_table = ''b'', pt_active = False, pt_rows = 1, pt_compressed = 7, pt_uncompressed = 9\<rparr>]) = Inr sizes \<and>
     sum_list (map (\<lambda>r. unat (ts_compressed r)) sizes) = 12"
proof -
  let ?parts =
    "[\<lparr>pt_database = ''oi'', pt_table = ''a'', pt_active = True, pt_rows = 1, pt_compressed = 5, pt_uncompressed = 9\<rparr>,
      \<lparr>pt_database = ''oi'', pt_table = ''b'', pt_active = True, pt_rows = 1, pt_compressed = 7, pt_uncompressed = 9\<rparr>,
      \<lparr>pt_database = ''oi'', pt_table = ''b'', pt_active = False, pt_rows = 1, pt_compressed = 7, pt_uncompressed = 9\<rparr>]"
  obtain sizes where s: "table_sizes remdups (Inr ?parts) = Inr sizes" by (simp add: table_sizes_def)
  have "sum_list (map (\<lambda>r. unat (ts_compressed r)) sizes) = sum_list (map (\<lambda>p. unat (pt_compressed p)) (our_parts ?parts))"
    using table_sizes_add_up [OF _ _ _ s] by (simp add: our_parts_def)
  then have "sum_list (map (\<lambda>r. unat (ts_compressed r)) sizes) = 12" by (simp add: our_parts_def)
  with s show ?thesis by blast
qed

end
