(* ===== verification/Api_System.thy ===== *)
theory Api_System
  imports Clickhouse_Admin
begin

text \<open>
  \<open>oi-api/src/sysmetrics.rs\<close>: what \<open>/v1/system/metrics\<close> answers, as a function of what the
  operating system and ClickHouse report. Single-precision numbers are the type \<open>'f\<close>; the one
  computation with them, \<open>used as f32 / total as f32 * 100\<close>, is the parameter \<open>pct\<close>, zero is
  \<open>zero\<close>; the load averages (\<open>f64\<close>) are the type \<open>'g\<close>.
\<close>

section \<open>Disks and memory\<close>

definition saturating_sub :: "u64 \<Rightarrow> u64 \<Rightarrow> u64" where
  "saturating_sub a b = (if b \<le> a then a - b else 0)"

record disk_probe =
  dp_mount :: string
  dp_total :: u64
  dp_free :: u64

record 'f disk_metrics =
  dk_mount :: string
  dk_total_bytes :: u64
  dk_used_bytes :: u64
  dk_free_bytes :: u64
  dk_used_pct :: 'f

definition disk_candidate :: "(u64 \<Rightarrow> u64 \<Rightarrow> 'f) \<Rightarrow> 'f \<Rightarrow> disk_probe \<Rightarrow> 'f disk_metrics" where
  "disk_candidate pct zero d =
     (let used = saturating_sub (dp_total d) (dp_free d)
      in \<lparr>dk_mount = dp_mount d, dk_total_bytes = dp_total d, dk_used_bytes = used, dk_free_bytes = dp_free d,
          dk_used_pct = (if 0 < dp_total d then pct used (dp_total d) else zero)\<rparr>)"

fun best_disk :: "(u64 \<Rightarrow> u64 \<Rightarrow> 'f) \<Rightarrow> 'f \<Rightarrow> disk_probe list \<Rightarrow> 'f disk_metrics option \<Rightarrow> 'f disk_metrics option" where
  "best_disk pct zero [] best = best"
| "best_disk pct zero (d # ds) best =
     (let cand = disk_candidate pct zero d
      in best_disk pct zero ds
           (case best of
              None \<Rightarrow> Some cand
            | Some b \<Rightarrow> if dk_total_bytes b < dk_total_bytes cand then Some cand else best))"

definition disk_of :: "(u64 \<Rightarrow> u64 \<Rightarrow> 'f) \<Rightarrow> 'f \<Rightarrow> disk_probe list \<Rightarrow> 'f disk_metrics" where
  "disk_of pct zero ds =
     (case best_disk pct zero ds None of
        Some d \<Rightarrow> d
      | None \<Rightarrow> \<lparr>dk_mount = ''unknown'', dk_total_bytes = 0, dk_used_bytes = 0, dk_free_bytes = 0, dk_used_pct = zero\<rparr>)"

record 'f mem_metrics =
  mm_total_bytes :: u64
  mm_used_bytes :: u64
  mm_available_bytes :: u64
  mm_used_pct :: 'f

definition mem_of :: "(u64 \<Rightarrow> u64 \<Rightarrow> 'f) \<Rightarrow> 'f \<Rightarrow> u64 \<Rightarrow> u64 \<Rightarrow> 'f mem_metrics" where
  "mem_of pct zero total_mem avail_mem =
     (let used_mem = saturating_sub total_mem avail_mem
      in \<lparr>mm_total_bytes = total_mem, mm_used_bytes = used_mem, mm_available_bytes = avail_mem,
          mm_used_pct = (if 0 < total_mem then pct used_mem total_mem else zero)\<rparr>)"

section \<open>The peak of the CPU usage\<close>

text \<open>
  The requests share one atomic cell. Where a request stands: it has measured its usage (in
  hundredths of a percent), it is in the compare-and-swap loop with the value \<open>prev\<close> it last saw,
  it has left the loop, it has read the cell again to show it.
\<close>

datatype peak_request = Measured u32 | Trying u32 u32 | Settled u32 | Shown u32 u32

text \<open>Its next access to the cell; \<open>spurious\<close> says that a weak exchange fails although the value is the expected one.\<close>

fun peak_step :: "bool \<Rightarrow> u32 \<Rightarrow> peak_request \<Rightarrow> u32 \<times> peak_request" where
  "peak_step spurious cell (Measured centi) = (cell, Trying centi cell)"
| "peak_step spurious cell (Trying centi prev) =
     (if prev < centi
      then (if cell = prev \<and> \<not> spurious then (centi, Settled centi) else (cell, Trying centi cell))
      else (cell, Settled centi))"
| "peak_step spurious cell (Settled centi) = (cell, Shown centi cell)"
| "peak_step spurious cell (Shown centi p) = (cell, Shown centi p)"

text \<open>The requests of a process under any interleaving: which of them moves next, and whether it fails spuriously.\<close>

fun peak_run :: "(nat \<times> bool) list \<Rightarrow> u32 \<times> peak_request list \<Rightarrow> u32 \<times> peak_request list" where
  "peak_run [] st = st"
| "peak_run ((i, spurious) # moves) (cell, rs) =
     (if i < length rs
      then (let (cell', r) = peak_step spurious cell (rs ! i) in peak_run moves (cell', rs[i := r]))
      else peak_run moves (cell, rs))"

definition num_cpus :: "nat \<Rightarrow> nat" where
  "num_cpus n = (if n = 0 then 1 else n)"

section \<open>Tables\<close>

record table_usage =
  tu_table :: string
  tu_rows :: u64
  tu_compressed_bytes :: u64
  tu_uncompressed_bytes :: u64

definition tables_of :: "(core_error + table_size list) option \<Rightarrow> table_usage list" where
  "tables_of sizes =
     (case sizes of
        Some (Inr rows) \<Rightarrow>
          map (\<lambda>r. \<lparr>tu_table = ts_table r, tu_rows = ts_rows r, tu_compressed_bytes = ts_compressed r,
                    tu_uncompressed_bytes = ts_uncompressed r\<rparr>) rows
      | Some (Inl e) \<Rightarrow> []
      | None \<Rightarrow> [])"

section \<open>The handler\<close>

text \<open>What \<open>sysinfo\<close> reports of the host.\<close>

record ('f, 'g) host =
  ho_name :: "string option"
  ho_uptime :: u64
  ho_cpus :: nat
  ho_usage :: 'f
  ho_load :: "'g \<times> 'g \<times> 'g"
  ho_total_mem :: u64
  ho_avail_mem :: u64
  ho_disks :: "disk_probe list"

record ('f, 'g) cpu_metrics =
  cm_cores :: nat
  cm_usage_pct :: 'f
  cm_peak_pct :: 'f
  cm_load1 :: 'g
  cm_load5 :: 'g
  cm_load15 :: 'g

record ('f, 'g) system_metrics =
  sm_hostname :: string
  sm_uptime_secs :: u64
  sm_cpu :: "('f, 'g) cpu_metrics"
  sm_mem :: "'f mem_metrics"
  sm_disk :: "'f disk_metrics"
  sm_tables :: "table_usage list"

text \<open>The body of the answer, given what the request shows as peak; \<open>of_centi\<close> is \<open>p as f32 / 100.0\<close>.\<close>

definition system_metrics_body ::
  "(u64 \<Rightarrow> u64 \<Rightarrow> 'f) \<Rightarrow> 'f \<Rightarrow> (u32 \<Rightarrow> 'f) \<Rightarrow> ('f, 'g) host \<Rightarrow> u32 \<Rightarrow> (core_error + table_size list) option
     \<Rightarrow> ('f, 'g) system_metrics" where
  "system_metrics_body pct zero of_centi h peak sizes =
     (let (one, five, fifteen) = ho_load h
      in \<lparr>sm_hostname = (case ho_name h of Some n \<Rightarrow> n | None \<Rightarrow> ''unknown''), sm_uptime_secs = ho_uptime h,
          sm_cpu = \<lparr>cm_cores = num_cpus (ho_cpus h), cm_usage_pct = ho_usage h, cm_peak_pct = of_centi peak,
                    cm_load1 = one, cm_load5 = five, cm_load15 = fifteen\<rparr>,
          sm_mem = mem_of pct zero (ho_total_mem h) (ho_avail_mem h), sm_disk = disk_of pct zero (ho_disks h),
          sm_tables = tables_of sizes\<rparr>)"

section \<open>What the page shows\<close>

lemma unat_saturating_sub: "unat (saturating_sub a b) = unat a - unat b"
  by (auto simp: saturating_sub_def unat_sub word_le_nat_alt)

lemma used_within_total: "unat (dk_used_bytes (disk_candidate pct zero d)) \<le> unat (dk_total_bytes (disk_candidate pct zero d))"
  by (simp add: disk_candidate_def Let_def unat_saturating_sub)

lemma best_disk_largest:
  assumes "best_disk pct zero ds best = Some b"
  shows "(\<forall>d \<in> set ds. dp_total d \<le> dk_total_bytes b) \<and> (\<forall>b0. best = Some b0 \<longrightarrow> dk_total_bytes b0 \<le> dk_total_bytes b) \<and>
    (best = Some b \<or> b \<in> disk_candidate pct zero ` set ds)"
  using assms
proof (induction ds arbitrary: best)
  case (Cons d ds)
  have total: "dk_total_bytes (disk_candidate pct zero d) = dp_total d" by (simp add: disk_candidate_def Let_def)
  show ?case
  proof (cases best)
    case None
    with Cons.prems Cons.IH [of "Some (disk_candidate pct zero d)"] total show ?thesis by (auto simp: Let_def)
  next
    case (Some b0)
    show ?thesis
    proof (cases "dk_total_bytes b0 < dp_total d")
      case True
      with Some Cons.prems Cons.IH [of "Some (disk_candidate pct zero d)"] total show ?thesis by (auto simp: Let_def)
    next
      case False
      with Some Cons.prems Cons.IH [of "Some b0"] total show ?thesis by (auto simp: Let_def)
    qed
  qed
qed simp

text \<open>
  The disk of the page is the largest one there is, or \<open>unknown\<close> when there is none, and no more
  of it is used than it has.
\<close>

theorem the_largest_disk_is_shown:
  "(ds = [] \<and> dk_mount (disk_of pct zero ds) = ''unknown'') \<or>
   (disk_of pct zero ds \<in> disk_candidate pct zero ` set ds \<and> (\<forall>d \<in> set ds. dp_total d \<le> dk_total_bytes (disk_of pct zero ds)) \<and>
    unat (dk_used_bytes (disk_of pct zero ds)) \<le> unat (dk_total_bytes (disk_of pct zero ds)))"
proof (cases "best_disk pct zero ds None")
  case None
  have "ds = []"
  proof (rule ccontr)
    assume "ds \<noteq> []"
    have "best_disk pct zero xs (Some b) \<noteq> None" for xs b
      by (induction xs arbitrary: b) (simp_all add: Let_def)
    with None \<open>ds \<noteq> []\<close> show False by (cases ds) (simp_all add: Let_def)
  qed
  then show ?thesis by (simp add: disk_of_def)
next
  case (Some b)
  with best_disk_largest [OF Some] show ?thesis by (auto simp: disk_of_def used_within_total)
qed

subsection \<open>The shared peak\<close>

fun standing :: "u32 \<Rightarrow> u32 \<Rightarrow> peak_request \<Rightarrow> bool" where
  "standing cell c (Measured c') \<longleftrightarrow> c' = c"
| "standing cell c (Trying c' prev) \<longleftrightarrow> c' = c \<and> prev \<le> cell"
| "standing cell c (Settled c') \<longleftrightarrow> c' = c \<and> c \<le> cell"
| "standing cell c (Shown c' p) \<longleftrightarrow> c' = c \<and> c \<le> p \<and> p \<le> cell"

lemma standing_mono: "standing cell c r \<Longrightarrow> cell \<le> cell' \<Longrightarrow> standing cell' c r"
  by (cases r) auto

lemma peak_step_standing:
  assumes "standing cell c r" "peak_step spurious cell r = (cell', r')"
  shows "standing cell' c r' \<and> cell \<le> cell' \<and> (cell' = cell \<or> cell' = c)"
  using assms by (cases r) (auto split: if_splits)

lemma peak_run_standing:
  assumes "list_all2 (standing cell) cs rs" "cell = 0 \<or> cell \<in> set cs" "peak_run moves (cell, rs) = (cell', rs')"
  shows "list_all2 (standing cell') cs rs' \<and> (cell' = 0 \<or> cell' \<in> set cs)"
  using assms
proof (induction moves arbitrary: cell rs)
  case (Cons move moves)
  obtain i spurious where move: "move = (i, spurious)" by (cases move)
  show ?case
  proof (cases "i < length rs")
    case True
    obtain cell1 r where r: "peak_step spurious cell (rs ! i) = (cell1, r)" by (cases "peak_step spurious cell (rs ! i)")
    have i: "i < length cs" using True Cons.prems(1) list_all2_lengthD by fastforce
    have st: "standing cell1 (cs ! i) r" "cell \<le> cell1" "cell1 = cell \<or> cell1 = cs ! i"
      using peak_step_standing [OF list_all2_nthD2 [OF Cons.prems(1) True] r] by blast+
    have "list_all2 (standing cell1) (cs[i := cs ! i]) (rs[i := r])"
      using Cons.prems(1) st(1,2) standing_mono by (intro list_all2_update_cong) (auto elim: list_all2_mono)
    moreover have "cell1 = 0 \<or> cell1 \<in> set cs" using st(3) Cons.prems(2) i by auto
    ultimately show ?thesis using Cons.IH [of cell1 "rs[i := r]"] Cons.prems(3) True r move by simp
  next
    case False
    then show ?thesis using Cons move by simp
  qed
qed simp

text \<open>
  C39. However the requests of the page interleave on the shared peak, and however often a weak
  exchange fails, each shows a peak that is no lower than the usage it measured and no higher than
  the one kept; what is kept was measured by some request, or is the zero of the start; and once
  all have shown theirs it is the highest usage of all.
\<close>

theorem the_peak_is_the_highest_usage:
  assumes "peak_run moves (0, map Measured cs) = (cell, rs)"
  shows "length rs = length cs \<and>
    (\<forall>i c p. i < length cs \<and> rs ! i = Shown c p \<longrightarrow> c = cs ! i \<and> c \<le> p \<and> p \<le> cell) \<and>
    (cell = 0 \<or> cell \<in> set cs) \<and>
    ((\<forall>r \<in> set rs. \<exists>c p. r = Shown c p) \<longrightarrow> cell = Max (insert 0 (set cs)))"
proof -
  have "list_all2 (standing 0) cs (map Measured cs)" by (simp add: list_all2_conv_all_nth)
  from peak_run_standing [OF this _ assms] have inv: "list_all2 (standing cell) cs rs" "cell = 0 \<or> cell \<in> set cs" by simp_all
  have shown: "c = cs ! i \<and> c \<le> p \<and> p \<le> cell" if "i < length cs" "rs ! i = Shown c p" for i c p
    using list_all2_nthD [OF inv(1) that(1)] that(2) by auto
  have "cell = Max (insert 0 (set cs))" if all: "\<forall>r \<in> set rs. \<exists>c p. r = Shown c p"
  proof (rule sym, rule Max_eqI)
    fix y assume "y \<in> insert 0 (set cs)"
    then show "y \<le> cell"
    proof
      assume "y \<in> set cs"
      then obtain i where i: "i < length cs" "cs ! i = y" by (auto simp: in_set_conv_nth)
      with inv(1) have "rs ! i \<in> set rs" by (simp add: list_all2_lengthD)
      with all obtain c p where "rs ! i = Shown c p" by blast
      from shown [OF i(1) this] i(2) show ?thesis by (metis order.trans)
    qed simp
  qed (use inv(2) in auto)
  then have all: "(\<forall>r \<in> set rs. \<exists>c p. r = Shown c p) \<longrightarrow> cell = Max (insert 0 (set cs))" ..
  show ?thesis
    using inv(2) shown list_all2_lengthD [OF inv(1)] by (intro conjI all) auto
qed

text \<open>Two requests: the higher one overtakes the lower one between its load and its exchange.\<close>

theorem the_peak_is_the_highest_usage_witness:
  "fst (peak_run [(0, False), (1, False), (1, False), (0, False), (0, False), (0, False), (1, False)] (0, map Measured [30, 75])) = 75 \<and>
   snd (peak_run [(0, False), (1, False), (1, False), (0, False), (0, False), (0, False), (1, False)] (0, map Measured [30, 75])) =
     [Shown 30 75, Shown 75 75]"
proof -
  let ?moves = "[(0, False), (1, False), (1, False), (0, False), (0, False), (0, False), (1, False)]"
  have run: "peak_run ?moves (0, map Measured [30, 75]) = (75, [Shown 30 75, Shown 75 75])" by simp
  from the_peak_is_the_highest_usage [OF run] run show ?thesis by simp
qed

end
