(* ===== verification/Push.thy ===== *)
theory Push
  imports Wire
begin

text \<open>
  The way of a bar from the writer to a browser: \<open>pubsub.rs\<close> publishes it, the broadcaster of
  \<open>oi-api/src/ws.rs\<close> (\<open>spawn_pubsub_broadcaster\<close>) takes it from the firehose channel and sends it
  to the loop of every WebSocket client.
\<close>

section \<open>The broadcaster\<close>

text \<open>
  One turn of its loop: the subscription fails, or it lasts until the stream ends, with the messages
  Redis delivered in it. After either it waits two seconds and subscribes again.
\<close>

datatype redis_session = Subscribe_Failed string | Subscribed "(string \<times> u8 list) list"

fun broadcaster :: "'d snap_codec \<Rightarrow> redis_session list \<Rightarrow> 'd oi_snapshot list \<times> duration" where
  "broadcaster k [] = ([], 0)"
| "broadcaster k (session # rest) =
     (let (sent, waited) = broadcaster k rest
      in (case session of
            Subscribe_Failed e \<Rightarrow> (sent, seconds 2 + waited)
          | Subscribed messages \<Rightarrow> (subscribe k firehose_channel messages @ sent, seconds 2 + waited)))"

lemma broadcaster_sent:
  "fst (broadcaster k sessions) =
     concat (map (\<lambda>s. case s of Subscribe_Failed e \<Rightarrow> [] | Subscribed ms \<Rightarrow> subscribe k firehose_channel ms) sessions)"
  by (induction sessions) (simp_all add: Let_def split_def split: redis_session.split)

lemma broadcaster_waits: "snd (broadcaster k sessions) = seconds (2 * int (length sessions))"
  by (induction sessions) (simp_all add: Let_def split_def seconds_def split: redis_session.split)

section \<open>From the writer to the client\<close>

text \<open>The bars a session carries: none when it failed, else those of the batches published in it.\<close>

definition carries :: "'d snap_codec \<Rightarrow> redis_session \<Rightarrow> 'd oi_snapshot list \<Rightarrow> bool" where
  "carries k session snaps =
     (case session of Subscribe_Failed e \<Rightarrow> snaps = [] | Subscribed ms \<Rightarrow> publish_commands k snaps = Inr ms)"

definition snapshots_in :: "'d ws_event list \<Rightarrow> 'd oi_snapshot list" where
  "snapshots_in = List.map_filter (\<lambda>ev. case ev of Snapshot s f \<Rightarrow> Some s | _ \<Rightarrow> None)"

lemma carried_back:
  assumes "\<forall>s \<in> set snaps. \<exists>bytes. enc_snap k s = Inr bytes \<and> dec_snap k bytes = Inr s" "carries k session snaps"
  shows "(case session of Subscribe_Failed e \<Rightarrow> [] | Subscribed ms \<Rightarrow> subscribe k firehose_channel ms) = snaps"
  using assms subscribe_published(1) [of snaps k] by (cases session) (auto simp: carries_def)

lemma broadcast_back:
  assumes "list_all2 (carries k) sessions batches"
    and "\<forall>s \<in> set (concat batches). \<exists>bytes. enc_snap k s = Inr bytes \<and> dec_snap k bytes = Inr s"
  shows "fst (broadcaster k sessions) = concat batches"
  using assms
proof (induction rule: list_all2_induct)
  case (Cons session sessions snaps batches)
  have "(case session of Subscribe_Failed e \<Rightarrow> [] | Subscribed ms \<Rightarrow> subscribe k firehose_channel ms) = snaps"
    using Cons.prems Cons.hyps(1) by (intro carried_back) auto
  moreover have "fst (broadcaster k sessions) = concat batches" using Cons.IH Cons.prems by simp
  ultimately show ?case by (simp only: broadcaster_sent list.map concat.simps)
qed simp

lemma build_pipe_encodes: "build_pipe f ss = Inr cs \<Longrightarrow> s \<in> set ss \<Longrightarrow> \<exists>c. f s = Inr c"
  by (induction ss arbitrary: cs) (auto split: sum.splits)

lemma carried_encodes:
  assumes "list_all2 (carries k) sessions batches" "s \<in> set (concat batches)"
  shows "\<exists>bytes. enc_snap k s = Inr bytes"
proof -
  obtain snaps where "snaps \<in> set batches" "s \<in> set snaps" using assms(2) by auto
  then obtain session where "carries k session snaps" using assms(1) by (metis in_set_conv_nth list_all2_conv_all_nth)
  with \<open>s \<in> set snaps\<close> obtain ms where "publish_commands k snaps = Inr ms"
    by (cases session) (auto simp: carries_def)
  from build_pipe_encodes [OF this [unfolded publish_commands_def] \<open>s \<in> set snaps\<close>] show ?thesis
    by (cases "enc_snap k s") simp_all
qed

lemma frames_of_snapshots:
  "List.map_filter (frame_of to_json flt) evs =
     List.map_filter (\<lambda>s. if flt = {} \<or> b_instrument s \<in> flt then to_json s else None) (snapshots_in evs)"
  by (induction evs) (auto simp: snapshots_in_def List.map_filter_simps split: ws_event.splits option.splits)

lemma map_filter_guarded:
  "(\<And>s. s \<in> set ss \<Longrightarrow> f s = Some (g s)) \<Longrightarrow>
   List.map_filter (\<lambda>s. if P s then f s else None) ss = map g (filter P ss)"
  by (induction ss) (simp_all add: List.map_filter_simps)

lemma no_end: "\<forall>ev \<in> set evs. \<not> ends_connection to_json flt ev \<Longrightarrow> takeWhile (\<lambda>ev. \<not> ends_connection to_json flt ev) evs = evs"
  by simp


text \<open>One bar, published after a failed subscription, between two heartbeats.\<close>

definition nat_bar_tree :: "nat \<Rightarrow> json" where
  "nat_bar_tree n = the (put_snapshot nat_leaves (nat_bar n))"


end
