(* ===== verification/Api_Server.thy ===== *)
theory Api_Server
  imports Api_Rest Api_Ws Api_Grpc Api_System Configuration
begin

text \<open>
  \<open>oi-api/src/server.rs\<close>, with the table of routes of \<open>rest.rs\<close>: what the server answers to a
  request under a configuration. Opening sockets, TLS and the extractors of the framework are
  parameters: a request carries what the extractors make of its query and its body (or the
  status with which they refuse them), and \<open>decode\<close> undoes the percent encoding of a segment.
\<close>

section \<open>Routes\<close>

datatype http_method = Get | Head | Post | Other_Method

datatype endpoint =
    Health | Health_Live | Health_Ready
  | Latest string string | Range string string
  | Funding_Latest string string | Funding_Range string string
  | Event_Latest string string | Event_Range string string
  | Range_Batch | Funding_Range_Batch | Event_Range_Batch
  | System_Metrics

text \<open>The segments of a path after its leading slash; a captured segment is not empty.\<close>

definition segments :: "string \<Rightarrow> string list option" where
  "segments path = (case split_on CHR ''/'' path of [] # segs \<Rightarrow> Some segs | _ \<Rightarrow> None)"

definition capture :: "(string \<Rightarrow> string \<Rightarrow> endpoint) \<Rightarrow> string \<Rightarrow> string \<Rightarrow> endpoint option" where
  "capture e ex symb = (if ex = [] \<or> symb = [] then None else Some (e ex symb))"

definition route_of :: "string list \<Rightarrow> endpoint option" where
  "route_of segs =
     (case segs of
        [a] \<Rightarrow> if a = ''health'' then Some Health else None
      | [a, b] \<Rightarrow>
          if a = ''health'' \<and> b = ''live'' then Some Health_Live
          else if a = ''health'' \<and> b = ''ready'' then Some Health_Ready
          else None
      | [a, b, e] \<Rightarrow> if a = ''v1'' \<and> b = ''system'' \<and> e = ''metrics'' then Some System_Metrics else None
      | [a, b, e, f] \<Rightarrow>
          if a = ''v1'' \<and> b = ''oi'' \<and> e = ''range'' \<and> f = ''batch'' then Some Range_Batch
          else if a = ''v1'' \<and> b = ''funding'' \<and> e = ''range'' \<and> f = ''batch'' then Some Funding_Range_Batch
          else None
      | [a, b, e, f, g] \<Rightarrow>
          if a = ''v1'' \<and> b = ''oi'' \<and> e = ''latest'' then capture Latest f g
          else if a = ''v1'' \<and> b = ''oi'' \<and> e = ''range'' then capture Range f g
          else if a = ''v1'' \<and> b = ''funding'' \<and> e = ''latest'' then capture Funding_Latest f g
          else if a = ''v1'' \<and> b = ''funding'' \<and> e = ''range'' then capture Funding_Range f g
          else if a = ''v1'' \<and> b = ''funding'' \<and> e = ''events'' \<and> f = ''range'' \<and> g = ''batch'' then Some Event_Range_Batch
          else None
      | [a, b, e, f, g, h] \<Rightarrow>
          if a = ''v1'' \<and> b = ''funding'' \<and> e = ''events'' \<and> f = ''latest'' then capture Event_Latest g h
          else if a = ''v1'' \<and> b = ''funding'' \<and> e = ''events'' \<and> f = ''range'' then capture Event_Range g h
          else None
      | _ \<Rightarrow> None)"

definition route :: "string \<Rightarrow> endpoint option" where
  "route path = Option.bind (segments path) route_of"

text \<open>\<open>get\<close> routes also answer \<open>HEAD\<close>; \<open>post\<close> routes only \<open>POST\<close>.\<close>

definition allowed :: "http_method \<Rightarrow> endpoint \<Rightarrow> bool" where
  "allowed m e =
     (if e \<in> {Range_Batch, Funding_Range_Batch, Event_Range_Batch} then m = Post else m \<in> {Get, Head})"

section \<open>The router\<close>

record 'h api_request = "'h request" +
  rq_method :: http_method
  rq_query :: "nat + range_query"
  rq_ws :: subscribe_params
  rq_body :: "nat + (batch_item list \<times> string option)"

datatype 'm answer =
    Text_Answer nat string
  | Ready_Answer "nat \<times> (string \<times> string)"
  | Bar_Answer "bar_dto reply"
  | Bars_Answer "(bar_dto, oi_columns) range_body reply"
  | Funding_Answer "funding_dto reply"
  | Fundings_Answer "(funding_dto, funding_columns) range_body reply"
  | Event_Answer "funding_event_dto reply"
  | Events_Answer "funding_event_dto list reply"
  | Bars_Batch_Answer "(bar_dto list batch_entry list, oi_columns batch_entry list) sum reply"
  | Fundings_Batch_Answer "(funding_dto list batch_entry list, funding_columns batch_entry list) sum reply"
  | Events_Batch_Answer "funding_event_dto list batch_entry list reply"
  | Metrics_Answer 'm

text \<open>\<open>RestState\<close> as one request finds it: the repository, the probes, the answer of the metrics page.\<close>

record ('s, 'd, 'm) rest_state =
  rs_text :: "'d rest_text"
  rs_repo :: "('s, 'd) oi_repository"
  rs_store :: 's
  rs_clickhouse :: "(core_error + unit) option"
  rs_redis :: "(core_error + unit) option"
  rs_sched :: "nat \<Rightarrow> nat"
  rs_metrics :: 'm

definition with_path ::
  "(string \<Rightarrow> string option) \<Rightarrow> (string \<Rightarrow> string \<Rightarrow> 'm answer) \<Rightarrow> string \<Rightarrow> string \<Rightarrow> 'm answer" where
  "with_path decode f ex symb =
     (case decode ex of
        None \<Rightarrow> Text_Answer 400 ''Invalid URL''
      | Some ex \<Rightarrow> (case decode symb of None \<Rightarrow> Text_Answer 400 ''Invalid URL'' | Some symb \<Rightarrow> f ex symb))"

definition with_query :: "nat + range_query \<Rightarrow> (range_query \<Rightarrow> 'm answer) \<Rightarrow> 'm answer" where
  "with_query q f = (case q of Inl status \<Rightarrow> Text_Answer status ''query'' | Inr q \<Rightarrow> f q)"

definition with_body :: "nat + 'b \<Rightarrow> ('b \<Rightarrow> 'm answer rust) \<Rightarrow> 'm answer rust" where
  "with_body b f = (case b of Inl status \<Rightarrow> Ret (Text_Answer status ''body'') | Inr b \<Rightarrow> f b)"

fun handle :: "(string \<Rightarrow> string option) \<Rightarrow> ('s, 'd, 'm) rest_state \<Rightarrow> 'h api_request \<Rightarrow> endpoint \<Rightarrow> 'm answer rust" where
  "handle decode st req Health = Ret (Text_Answer 200 ''ok'')"
| "handle decode st req Health_Live = Ret (Text_Answer 200 ''live'')"
| "handle decode st req Health_Ready = Ret (Ready_Answer (ready (rs_clickhouse st) (rs_redis st)))"
| "handle decode st req (Latest ex symb) =
     Ret (with_path decode (\<lambda>ex symb. Bar_Answer (latest (rs_text st) (rs_repo st) (rs_store st) ex symb)) ex symb)"
| "handle decode st req (Range ex symb) =
     Ret (with_path decode (\<lambda>ex symb. with_query (rq_query req) (\<lambda>q.
       Bars_Answer (range_reply (rs_text st) (rs_repo st) (rs_store st) ex symb q))) ex symb)"
| "handle decode st req (Funding_Latest ex symb) =
     Ret (with_path decode (\<lambda>ex symb. Funding_Answer (funding_latest (rs_text st) (rs_repo st) (rs_store st) ex symb)) ex symb)"
| "handle decode st req (Funding_Range ex symb) =
     Ret (with_path decode (\<lambda>ex symb. with_query (rq_query req) (\<lambda>q.
       Fundings_Answer (funding_range_reply (rs_text st) (rs_repo st) (rs_store st) ex symb q))) ex symb)"
| "handle decode st req (Event_Latest ex symb) =
     Ret (with_path decode (\<lambda>ex symb. Event_Answer (funding_event_latest (rs_text st) (rs_repo st) (rs_store st) ex symb)) ex symb)"
| "handle decode st req (Event_Range ex symb) =
     Ret (with_path decode (\<lambda>ex symb. with_query (rq_query req) (\<lambda>q.
       Events_Answer (funding_event_range_reply (rs_text st) (rs_repo st) (rs_store st) ex symb q))) ex symb)"
| "handle decode st req Range_Batch =
     with_body (rq_body req) (\<lambda>(items, fmt).
       map_rust Bars_Batch_Answer (range_batch (rs_sched st) (rs_text st) (rs_repo st) (rs_store st) items fmt))"
| "handle decode st req Funding_Range_Batch =
     with_body (rq_body req) (\<lambda>(items, fmt).
       map_rust Fundings_Batch_Answer (funding_range_batch (rs_sched st) (rs_text st) (rs_repo st) (rs_store st) items fmt))"
| "handle decode st req Event_Range_Batch =
     with_body (rq_body req) (\<lambda>(items, fmt).
       map_rust Events_Batch_Answer (funding_event_range_batch (rs_sched st) (rs_text st) (rs_repo st) (rs_store st) items))"
| "handle decode st req System_Metrics = Ret (Metrics_Answer (rs_metrics st))"

definition rest_router :: "(string \<Rightarrow> string option) \<Rightarrow> ('s, 'd, 'm) rest_state \<Rightarrow> 'h api_request \<Rightarrow> 'm answer rust" where
  "rest_router decode st req =
     (case route (req_path req) of
        None \<Rightarrow> Ret (Text_Answer 404 [])
      | Some e \<Rightarrow> if allowed (rq_method req) e then handle decode st req e else Ret (Text_Answer 405 []))"

section \<open>gRPC\<close>

datatype grpc_request =
    G_Latest "pb_instrument list" | G_Range pb_range_request | G_Subscribe "pb_instrument list"
  | G_Latest_Funding "pb_instrument list" | G_Funding_Range pb_range_request
  | G_Latest_Event "pb_instrument list" | G_Event_Range pb_range_request

datatype grpc_reply =
    G_Bars "status + pb_bar list" | G_Stream "status + (status + pb_bar) list"
  | G_Fundings "status + pb_funding list" | G_Events "status + pb_funding_event list"

fun grpc_service ::
  "(timestamp \<Rightarrow> bool) \<Rightarrow> 'd decimal_text \<Rightarrow> ('s, 'd) oi_repository \<Rightarrow> 's \<Rightarrow> (core_error + 'd oi_snapshot list) \<Rightarrow> grpc_request
     \<Rightarrow> grpc_reply" where
  "grpc_service in_calendar d repo st connect (G_Latest insts) = G_Bars (grpc_latest d repo st insts)"
| "grpc_service in_calendar d repo st connect (G_Range req) = G_Bars (grpc_range in_calendar d repo st req)"
| "grpc_service in_calendar d repo st connect (G_Subscribe insts) = G_Stream (grpc_subscribe d connect insts)"
| "grpc_service in_calendar d repo st connect (G_Latest_Funding insts) = G_Fundings (grpc_latest_funding d repo st insts)"
| "grpc_service in_calendar d repo st connect (G_Funding_Range req) = G_Fundings (grpc_funding_range in_calendar d repo st req)"
| "grpc_service in_calendar d repo st connect (G_Latest_Event insts) = G_Events (grpc_latest_funding_event d repo st insts)"
| "grpc_service in_calendar d repo st connect (G_Event_Range req) = G_Events (grpc_funding_event_range in_calendar d repo st req)"

section \<open>The server of a configuration\<close>

definition auth_state_of :: "auth_cfg \<Rightarrow> auth_state" where
  "auth_state_of auth = \<lparr>auth_tokens = ac_tokens auth\<rparr>"

definition api_app ::
  "auth_cfg \<Rightarrow> ('h \<Rightarrow> string option) \<Rightarrow> (string \<Rightarrow> string option) \<Rightarrow> ('s, 'd, 'm) rest_state \<Rightarrow> 'h api_request
     \<Rightarrow> 'm answer rust app_reply response" where
  "api_app auth to_str decode st = app (ac_enabled auth) to_str (auth_state_of auth) (rest_router decode st) rq_ws"

definition grpc_call ::
  "auth_cfg \<Rightarrow> ('h \<Rightarrow> string option) \<Rightarrow> (grpc_request \<Rightarrow> grpc_reply) \<Rightarrow> 'h option \<Rightarrow> grpc_request \<Rightarrow> grpc_reply response" where
  "grpc_call auth to_str service authorization req =
     (if ac_enabled auth
      then (case grpc_auth_interceptor to_str (auth_state_of auth) authorization of
              Inl e \<Rightarrow> Unauthenticated e
            | Inr _ \<Rightarrow> Served (service req))
      else Served (service req))"

text \<open>
  \<open>run_async\<close>: the first step that fails ends the process. A task is its address and what it
  terminates TLS with; \<open>identity\<close> reads the two files and builds the latter. When both tasks
  fail, \<open>select!\<close> reports either; they fail alike, since both load the same two files.
\<close>

definition grpc_task :: "(string \<Rightarrow> string \<Rightarrow> string + 'i) \<Rightarrow> 'a \<Rightarrow> tls_cfg \<Rightarrow> string + 'a \<times> 'i option" where
  "grpc_task identity grpc_addr tls =
     (if tc_enabled tls
      then (case identity (tc_cert_path tls) (tc_key_path tls) of Inl e \<Rightarrow> Inl e | Inr i \<Rightarrow> Inr (grpc_addr, Some i))
      else Inr (grpc_addr, None))"

definition rest_task :: "(string \<Rightarrow> string \<Rightarrow> string + 'i) \<Rightarrow> 'a \<Rightarrow> tls_cfg \<Rightarrow> string + 'a \<times> 'i option" where
  "rest_task identity rest_addr tls =
     (if tc_enabled tls
      then (case identity (tc_cert_path tls) (tc_key_path tls) of Inl e \<Rightarrow> Inl e | Inr i \<Rightarrow> Inr (rest_addr, Some i))
      else Inr (rest_addr, None))"

definition start_api ::
  "(string \<Rightarrow> string + unit) \<Rightarrow> (string \<Rightarrow> string + 'a) \<Rightarrow> (string \<Rightarrow> string \<Rightarrow> string + 'i) \<Rightarrow> api_cfg
     \<Rightarrow> string + ('a \<times> 'i option) \<times> ('a \<times> 'i option) \<times> auth_cfg" where
  "start_api redis addr identity cfg =
     (case redis (pc_redis cfg) of
        Inl e \<Rightarrow> Inl e
      | Inr _ \<Rightarrow>
     (case addr (pc_grpc_addr cfg) of
        Inl e \<Rightarrow> Inl e
      | Inr grpc_addr \<Rightarrow>
     (case addr (pc_rest_addr cfg) of
        Inl e \<Rightarrow> Inl e
      | Inr rest_addr \<Rightarrow>
     (case grpc_task identity grpc_addr (pc_tls cfg) of
        Inl e \<Rightarrow> Inl e
      | Inr grpc \<Rightarrow>
     (case rest_task identity rest_addr (pc_tls cfg) of
        Inl e \<Rightarrow> Inl e
      | Inr rest \<Rightarrow> Inr (grpc, rest, pc_auth cfg))))))"

text \<open>Both protocols are in the clear, or both behind the certificate: never one of them alone.\<close>

lemma tls_on_both:
  "start_api redis addr identity cfg = Inr (grpc, rest, auth) \<Longrightarrow>
     snd grpc = snd rest \<and> (snd grpc \<noteq> None \<longleftrightarrow> tc_enabled (pc_tls cfg)) \<and> auth = pc_auth cfg"
  by (auto simp: start_api_def grpc_task_def rest_task_def split: sum.splits if_splits)

section \<open>The table of routes\<close>

lemma route_of_first:
  "route_of segs = Some e \<Longrightarrow> hd segs = ''v1'' \<or> hd segs = ''health'' \<and> e \<in> {Health, Health_Live, Health_Ready}"
  by (auto simp: route_of_def capture_def split: list.splits if_splits)

lemma starts_withD: "starts_with s p \<Longrightarrow> \<exists>x. s = p @ x"
  by (metis append_take_drop_id starts_with_def)

lemma public_routes: "is_public_path path \<Longrightarrow> route path = Some e \<Longrightarrow> e \<in> {Health, Health_Live, Health_Ready}"
proof -
  assume p: "is_public_path path" and r: "route path = Some e"
  from r obtain segs where segs: "segments path = Some segs" "route_of segs = Some e"
    by (auto simp: route_def bind_eq_Some_conv)
  have "hd segs \<noteq> ''v1''"
  proof -
    have health: "segments (''/health/'' @ x) = Some (''health'' # split_on CHR ''/'' x)" for x
      using split_on_append [of "CHR ''/''" "''health''" x] by (simp add: segments_def)
    have ws: "segments (''/ws/'' @ x) = Some (''ws'' # split_on CHR ''/'' x)" for x
      using split_on_append [of "CHR ''/''" "''ws''" x] by (simp add: segments_def)
    consider "path = ''/health''" | x where "path = ''/health/'' @ x" | "path = ''/metrics''" | x where "path = ''/ws/'' @ x"
      using p starts_withD [of path "''/health/''"] starts_withD [of path "''/ws/''"] unfolding is_public_path_def by blast
    then show ?thesis
      by cases (use segs(1) health ws in \<open>auto simp: segments_def\<close>)
  qed
  with route_of_first [OF segs(2)] show ?thesis by blast
qed

lemma route_range:
  assumes "CHR ''/'' \<notin> set ex" "CHR ''/'' \<notin> set symb" "ex \<noteq> []" "symb \<noteq> []"
  shows "route (''/v1/oi/range/'' @ ex @ ''/'' @ symb) = Some (Range ex symb)"
  using assms split_on_append [OF assms(1), of symb]
  by (simp add: route_def segments_def split_on_no_sep route_of_def capture_def)

section \<open>Who gets an answer\<close>

text \<open>What a stranger may see: that the service is up, and that a path or a method does not exist.\<close>

definition without_data :: "'m answer rust \<Rightarrow> bool" where
  "without_data a \<longleftrightarrow>
     a \<in> range (\<lambda>rep. Ret (Ready_Answer rep)) \<or> a \<in> Ret ` {Text_Answer 200 ''ok'', Text_Answer 200 ''live'', Text_Answer 404 [], Text_Answer 405 []}"

lemma public_answers: "is_public_path (req_path req) \<Longrightarrow> without_data (rest_router decode st req)"
proof (cases "route (req_path req)")
  case (Some e)
  assume "is_public_path (req_path req)"
  from public_routes [OF this Some] have "e = Health \<or> e = Health_Live \<or> e = Health_Ready" by simp
  with Some show ?thesis by (elim disjE) (auto simp: rest_router_def without_data_def)
qed (simp add: rest_router_def without_data_def)

lemma admitted:
  assumes "\<not> ac_enabled auth \<or> (\<exists>t \<in> set (ac_tokens auth). Option.bind (req_authorization req) to_str = Some (''Bearer '' @ t))"
    and "req_path req \<noteq> ws_route"
  shows "api_app auth to_str decode st req = Served (RestReply (rest_router decode st req))"
  using assms by (auto simp: api_app_def app_def middleware_guard dispatch_def carries_token_def auth_state_of_def)


definition page_request :: "string option \<Rightarrow> string api_request" where
  "page_request authorization =
     \<lparr>req_path = ''/v1/system/metrics'', req_authorization = authorization, rq_method = Get, rq_query = Inl 400,
      rq_ws = \<lparr>p_instruments = [], p_token = None\<rparr>, rq_body = Inl 415\<rparr>"

definition idle_state :: "(unit, nat, nat) rest_state" where
  "idle_state =
     \<lparr>rs_text = demo_text, rs_repo = demo_repo, rs_store = (), rs_clickhouse = None, rs_redis = None, rs_sched = (\<lambda>n. 0),
      rs_metrics = 7\<rparr>"


end
