(* ===== verification/Written_Bars.thy ===== *)
theory Written_Bars
  imports Collector
begin

text \<open>
  What the loop of an exchange writes over its whole life, with the samples that the live task of
  the exchange observes in the same aggregator between its iterations (\<open>runner.rs\<close>, \<open>live.rs\<close>).
\<close>

section \<open>The loop beside its live task\<close>

datatype 'd loop_event = Live_Sample "'d oi_sample" | Iteration minute_tick "'d minute_replies"

fun shared_loop ::
  "('d::linorder \<Rightarrow> 'd \<Rightarrow> 'd rust) \<Rightarrow> ('s, 'd) oi_repository \<Rightarrow> 'd loop_event list \<Rightarrow> 'd collector \<Rightarrow> 's \<Rightarrow> ('d collector \<times> 's) rust" where
  "shared_loop mul repo [] col s = Ret (col, s)"
| "shared_loop mul repo (Live_Sample smp # es) col s =
     shared_loop mul repo es (col\<lparr>col_agg := fst (agg_observe (col_agg col) smp)\<rparr>) s"
| "shared_loop mul repo (Iteration tick rep # es) col s =
     bind_rust (collect_minute mul repo tick rep col s) (\<lambda>(col', s'). shared_loop mul repo es col' s')"

text \<open>Without live samples it is the loop alone.\<close>

lemma shared_loop_alone:
  "shared_loop mul repo (map (\<lambda>(tick, rep). Iteration tick rep) run) col s = run_exchange_loop mul repo run col s"
proof (induction run arbitrary: col s)
  case (Cons x run)
  then show ?case by (cases x; cases "collect_minute mul repo (fst x) (snd x) col s") auto
qed simp

section \<open>The bars of a batch\<close>

text \<open>Every open bar is of an instant with property \<open>P\<close>.\<close>

definition open_buckets :: "(timestamp \<Rightarrow> bool) \<Rightarrow> ('d::linorder) aggregator \<Rightarrow> bool" where
  "open_buckets P agg \<longleftrightarrow> (\<forall>i b. dm_get agg i = Some b \<longrightarrow> P (b_bucket_ts b))"

lemma open_buckets_observe:
  assumes "agg_ok agg" "open_buckets P agg" "P (s_bucket_ts smp)"
  shows "open_buckets P (fst (agg_observe agg smp))"
  unfolding open_buckets_def
proof (intro allI impI)
  fix i b assume b: "dm_get (fst (agg_observe agg smp)) i = Some b"
  show "P (b_bucket_ts b)"
  proof (cases "i = s_instrument smp")
    case True
    with b agg_observe_bucket_of [OF assms(1), of smp] assms(3) show ?thesis by auto
  next
    case False
    with b agg_observe_other [OF assms(1) False] assms(2) show ?thesis by (auto simp: open_buckets_def)
  qed
qed

lemma open_buckets_raws:
  "agg_ok agg \<Longrightarrow> open_buckets P agg \<Longrightarrow> \<forall>r \<in> set rs. P (raw_bucket_ts r) \<Longrightarrow>
     observe_raws mul pp metas agg rs = Ret agg' \<Longrightarrow> open_buckets P agg'"
proof (induction rs arbitrary: agg)
  case (Cons r rs)
  show ?case
  proof (cases "usable mul pp metas r")
    case True
    obtain smp where s: "observe_raws mul pp metas (fst (agg_observe agg smp)) rs = Ret agg'"
        "s_instrument smp = raw_instrument r" "s_bucket_ts smp = raw_bucket_ts r"
      by (rule observe_raws_usable [OF Cons.prems(4) True])
    have "open_buckets P (fst (agg_observe agg smp))"
      using Cons.prems s(3) by (intro open_buckets_observe) auto
    then show ?thesis using Cons.prems s(1) by (intro Cons.IH [OF agg_ok_observe]) auto
  next
    case False
    with Cons.prems show ?thesis by (intro Cons.IH [OF _ _ _ observe_raws_unusable]) auto
  qed
qed simp

lemma batch_buckets:
  assumes "agg_ok (col_agg col)" "open_buckets P (col_agg col)" "mr_oi rep = Inr raws"
    and "\<forall>r \<in> set raws. P (raw_bucket_ts r)" "minute_batch mul tick rep col = Ret (Some (agg', snaps))" "b \<in> set snaps"
  shows "P (b_bucket_ts b)"
proof -
  obtain agg where o': "observe_raws mul (minute_prices rep col) (col_metas col) (col_agg col) raws = Ret agg"
    and f: "flush_through agg (tick_bucket_ts tick) = (agg', snaps)"
    using assms(3,5) by (auto simp: minute_batch_def map_rust_Ret_iff)
  have dm: "dm_ok agg" by (rule agg_ok_dm_ok [OF observe_raws_ok [OF assms(1) o']])
  from flush_through_out [OF dm, of "tick_bucket_ts tick"] f assms(6) obtain k where "dm_get agg k = Some b"
    using dm_get_iff [OF dm] by force
  with open_buckets_raws [OF assms(1,2,4) o'] show ?thesis by (auto simp: open_buckets_def)
qed

lemma batch_wf:
  assumes "agg_ok (col_agg col)" "minute_batch mul tick rep col = Ret (Some (agg', snaps))"
  shows "agg_ok agg' \<and> distinct (map b_instrument snaps) \<and> (\<forall>b \<in> set snaps. bar_ok b \<and> b_bucket_ts b \<le> tick_bucket_ts tick) \<and>
    open_buckets (\<lambda>t. tick_bucket_ts tick < t) agg'"
proof -
  let ?t = "tick_bucket_ts tick"
  obtain raws agg where o': "observe_raws mul (minute_prices rep col) (col_metas col) (col_agg col) raws = Ret agg"
    and f: "flush_through agg ?t = (agg', snaps)"
    using assms(2) by (auto simp: minute_batch_def map_rust_Ret_iff split: sum.splits)
  have ok: "agg_ok agg" by (rule observe_raws_ok [OF assms(1) o'])
  then have dm: "dm_ok agg" by (rule agg_ok_dm_ok)
  let ?closed = "filter (\<lambda>(k, b). b_bucket_ts b \<le> ?t) agg"
  have out: "snaps = map snd ?closed" using flush_through_out [OF dm, of ?t] f by simp
  have entry: "b_instrument b = k \<and> bar_ok b" if "(k, b) \<in> set agg" for k b
    using ok that dm_get_iff [OF dm] by (auto simp: agg_ok_def)
  have "map b_instrument snaps = map fst ?closed" using entry by (auto simp: out)
  moreover have "distinct (map fst ?closed)" using distinct_flush_keys [OF dm, of ?t] by (simp add: flush_keys_def)
  ultimately have "distinct (map b_instrument snaps)" by metis
  moreover have "agg_ok agg'" using agg_ok_flush_remove [OF ok, of "flush_keys agg ?t"] f by (simp add: flush_through_def)
  moreover have "open_buckets (\<lambda>t. ?t < t) agg'"
    using flush_through_get [OF dm, of ?t] f by (auto simp: open_buckets_def split: option.splits if_splits)
  moreover have "\<forall>b \<in> set snaps. bar_ok b \<and> b_bucket_ts b \<le> ?t" using entry by (auto simp: out)
  ultimately show ?thesis by blast
qed

lemma recorded: "after_batch recording_repo rep col snaps log = log @ [snaps]"
proof -
  have "snd (write_funding recording_repo cursor reply log) = log" for cursor reply log
    by (auto simp: write_funding_def recording_repo_def without_funding_def Let_def split: sum.split prod.split)
  moreover have "snd (refresh_metas recording_repo reply col log) = log" for reply log
    by (auto simp: refresh_metas_keeps recording_repo_def without_funding_def split: option.split sum.split)
  ultimately show ?thesis by (simp add: after_batch_def recording_repo_upsert Let_def)
qed

text \<open>The two outcomes of an iteration for the aggregator and the record of batches.\<close>

lemma iteration_cases:
  assumes "collect_minute mul recording_repo tick rep col log = Ret (col', log')"
  obtains (failed) e where "mr_oi rep = Inl e" "col_agg col' = col_agg col" "log' = log"
    | (wrote) raws snaps where "mr_oi rep = Inr raws" "minute_batch mul tick rep col = Ret (Some (col_agg col', snaps))" "log' = log @ [snaps]"
proof (cases "mr_oi rep")
  case (Inl e)
  with assms have "col' = col\<lparr>col_prices := minute_prices rep col\<rparr>" "log' = log"
    by (simp_all add: collect_minute_def minute_prices_def Let_def)
  then show ?thesis using failed [OF Inl] by simp
next
  case (Inr raws)
  from collect_minute_Ret [OF assms Inr] show ?thesis using wrote [OF Inr] by (auto simp: recorded)
qed

section \<open>Every written bar is a candle\<close>

text \<open>
  C10. Whatever the venue answers and whatever its stream delivers in between, every batch the loop
  of an exchange hands to the repository holds at most one bar per instrument, and each of them is
  a well-formed candle (low bounds open and close from below, high from above, in the native column
  and in each priced one, which is wholly present or wholly absent; at least one sample); and the
  map of open bars stays well formed.
\<close>

theorem only_candles_are_written:
  assumes "agg_ok (col_agg col)" "shared_loop mul recording_repo events col log = Ret (col', log')"
  shows "agg_ok (col_agg col') \<and>
    (\<exists>batches. log' = log @ batches \<and> (\<forall>batch \<in> set batches. distinct (map b_instrument batch) \<and> (\<forall>b \<in> set batch. bar_ok b)))"
  using assms
proof (induction events arbitrary: col log)
  case (Cons ev events)
  show ?case
  proof (cases ev)
    case (Live_Sample smp)
    with Cons.prems show ?thesis by (intro Cons.IH [of "col\<lparr>col_agg := fst (agg_observe (col_agg col) smp)\<rparr>"]) (simp_all add: agg_ok_observe)
  next
    case (Iteration tick rep)
    then obtain col1 log1 where it: "collect_minute mul recording_repo tick rep col log = Ret (col1, log1)"
      and rest: "shared_loop mul recording_repo events col1 log1 = Ret (col', log')"
      using Cons.prems(2) by (auto simp: bind_rust_Ret_iff)
    from it show ?thesis
    proof (cases rule: iteration_cases)
      case (failed e)
      then show ?thesis using Cons.IH [OF _ rest] Cons.prems(1) by simp
    next
      case (wrote raws snaps)
      from batch_wf [OF Cons.prems(1) wrote(2)] have ok: "agg_ok (col_agg col1)"
        and snaps: "distinct (map b_instrument snaps) \<and> (\<forall>b \<in> set snaps. bar_ok b)" by auto
      from Cons.IH [OF ok rest] obtain batches where "agg_ok (col_agg col')" "log' = log1 @ batches"
        "\<forall>batch \<in> set batches. distinct (map b_instrument batch) \<and> (\<forall>b \<in> set batch. bar_ok b)" by blast
      with wrote(3) snaps show ?thesis by (intro conjI exI [of _ "snaps # batches"]) auto
    qed
  qed
qed simp

theorem only_candles_are_written_witness:
  "\<exists>col' log'. shared_loop ex_mul recording_repo [Iteration (ex_tick 0) (ex_replies (Inr [ex_reading 7 0]))] (ex_collector []) [] = Ret (col', log') \<and>
     agg_ok (col_agg col') \<and> (\<forall>batch \<in> set log'. distinct (map b_instrument batch))"
proof -
  have c: "shared_loop ex_mul recording_repo [Iteration (ex_tick 0) (ex_replies (Inr [ex_reading 7 0]))] (ex_collector []) []
      = Ret (ex_collector [], [[ex_bar 7 0]])"
    using ex_collect [of "[]" 0 1 0 7 "[]"] by simp
  from only_candles_are_written [OF _ c] show ?thesis using c by auto
qed

section \<open>No minute is written twice\<close>

text \<open>
  The order of a run after the flush of the minute \<open>prev\<close>: iterations come in the order of their
  minutes and their readings are of the minute of their tick, and no sample arrives for a minute
  that was flushed.
\<close>

fun orderly :: "timestamp \<Rightarrow> 'd loop_event list \<Rightarrow> bool" where
  "orderly prev [] \<longleftrightarrow> True"
| "orderly prev (Live_Sample smp # es) \<longleftrightarrow> prev < s_bucket_ts smp \<and> orderly prev es"
| "orderly prev (Iteration tick rep # es) \<longleftrightarrow>
     prev < tick_bucket_ts tick \<and>
     (case mr_oi rep of
        Inl e \<Rightarrow> orderly prev es
      | Inr raws \<Rightarrow> (\<forall>r \<in> set raws. raw_bucket_ts r = tick_bucket_ts tick) \<and> orderly (tick_bucket_ts tick) es)"

definition bar_key :: "'d oi_snapshot \<Rightarrow> instrument_id \<times> timestamp" where
  "bar_key b = (b_instrument b, b_bucket_ts b)"

lemma distinct_keys: "distinct (map b_instrument snaps) \<Longrightarrow> distinct (map bar_key snaps)"
  by (induction snaps) (auto simp: bar_key_def)

lemma shared_loop_keys:
  "agg_ok (col_agg col) \<Longrightarrow> open_buckets (\<lambda>t. prev < t) (col_agg col) \<Longrightarrow> orderly prev events \<Longrightarrow>
     shared_loop mul recording_repo events col log = Ret (col', log') \<Longrightarrow>
     \<exists>batches. log' = log @ batches \<and> distinct (map bar_key (concat batches)) \<and>
       (\<forall>b \<in> set (concat batches). prev < b_bucket_ts b)"
proof (induction events arbitrary: prev col log)
  case (Cons ev events)
  show ?case
  proof (cases ev)
    case (Live_Sample smp)
    with Cons.prems show ?thesis
      by (intro Cons.IH [of "col\<lparr>col_agg := fst (agg_observe (col_agg col) smp)\<rparr>"])
        (simp_all add: agg_ok_observe open_buckets_observe)
  next
    case (Iteration tick rep)
    then obtain col1 log1 where it: "collect_minute mul recording_repo tick rep col log = Ret (col1, log1)"
      and rest: "shared_loop mul recording_repo events col1 log1 = Ret (col', log')"
      using Cons.prems(4) by (auto simp: bind_rust_Ret_iff)
    have tick: "prev < tick_bucket_ts tick" using Cons.prems(3) Iteration by simp
    from it show ?thesis
    proof (cases rule: iteration_cases)
      case (failed e)
      with Cons.prems Iteration show ?thesis using Cons.IH [OF _ _ _ rest, of prev] by simp
    next
      case (wrote raws snaps)
      have raws: "\<forall>r \<in> set raws. raw_bucket_ts r = tick_bucket_ts tick" and later: "orderly (tick_bucket_ts tick) events"
        using Cons.prems(3) Iteration wrote(1) by simp_all
      from batch_wf [OF Cons.prems(1) wrote(2)] have ok: "agg_ok (col_agg col1)"
        and d: "distinct (map bar_key snaps)" and t: "\<forall>b \<in> set snaps. b_bucket_ts b \<le> tick_bucket_ts tick"
        and o': "open_buckets (\<lambda>t. tick_bucket_ts tick < t) (col_agg col1)"
        by (auto intro: distinct_keys)
      have "\<forall>r \<in> set raws. prev < raw_bucket_ts r" using raws tick by simp
      then have new: "\<forall>b \<in> set snaps. prev < b_bucket_ts b"
        using batch_buckets [OF Cons.prems(1,2) wrote(1) _ wrote(2)] by blast
      obtain batches where b: "log' = log1 @ batches" "distinct (map bar_key (concat batches))"
        "\<forall>b \<in> set (concat batches). tick_bucket_ts tick < b_bucket_ts b"
        using Cons.IH [OF ok o' later rest] by blast
      have "bar_key ` set snaps \<inter> bar_key ` set (concat batches) = {}"
        using t b(3) by (fastforce simp: bar_key_def)
      with d b(2) have "distinct (map bar_key (concat (snaps # batches)))" by simp
      moreover have "\<forall>b \<in> set (concat (snaps # batches)). prev < b_bucket_ts b" using new b(3) tick by fastforce
      ultimately show ?thesis using b(1) wrote(3) by (intro exI [of _ "snaps # batches"]) simp
    qed
  qed
qed simp



end
