(* ===== verification/End_To_End.thy ===== *)
theory End_To_End
  imports Api_Server Runner Written_Bars
begin

text \<open>
  From the venue to the screen: an iteration of the collector over the assembled store, then a
  request to the API that reads the same ClickHouse.
\<close>

section \<open>A single reading\<close>

text \<open>The four native values of a bar are one and the same.\<close>

definition flat_at :: "'d \<Rightarrow> 'd oi_snapshot \<Rightarrow> bool" where
  "flat_at v b \<longleftrightarrow> b_native_open b = v \<and> b_native_high b = v \<and> b_native_low b = v \<and> b_native_close b = v"

lemma observe_raws_others:
  "agg_ok agg \<Longrightarrow> \<forall>r \<in> set rs. raw_instrument r \<noteq> i \<Longrightarrow> observe_raws mul pp metas agg rs = Ret agg' \<Longrightarrow>
     dm_get agg' i = dm_get agg i"
proof (induction rs arbitrary: agg)
  case (Cons r rs)
  show ?case
  proof (cases "usable mul pp metas r")
    case True
    obtain smp where s: "observe_raws mul pp metas (fst (agg_observe agg smp)) rs = Ret agg'"
        "s_instrument smp = raw_instrument r" "s_bucket_ts smp = raw_bucket_ts r"
      by (rule observe_raws_usable [OF Cons.prems(3) True])
    from Cons.prems s have "dm_get agg' i = dm_get (fst (agg_observe agg smp)) i"
      by (intro Cons.IH [OF agg_ok_observe]) auto
    also have "\<dots> = dm_get agg i" using Cons.prems s(2) by (intro agg_observe_other) auto
    finally show ?thesis .
  next
    case False
    with Cons.prems show ?thesis by (intro Cons.IH [OF _ _ observe_raws_unusable]) auto
  qed
qed simp

lemma observe_raws_single:
  assumes "agg_ok agg" "filter (\<lambda>x. raw_instrument x = raw_instrument r) rs = [r]" "usable mul pp metas r"
    and "dm_get agg (raw_instrument r) = None" "observe_raws mul pp metas agg rs = Ret agg'"
  shows "\<exists>b. dm_get agg' (raw_instrument r) = Some b \<and> flat_at (raw_value r) b"
  using assms
proof (induction rs arbitrary: agg)
  case (Cons x rs)
  show ?case
  proof (cases "raw_instrument x = raw_instrument r")
    case True
    with Cons.prems(2) have x: "x = r" and rest: "\<forall>y \<in> set rs. raw_instrument y \<noteq> raw_instrument r"
      by (auto simp: filter_empty_conv)
    obtain meta smp where u: "find_meta metas (raw_instrument r) = Some meta"
        "enrich mul r meta (sample_price pp meta r) = Ret (Inr smp)"
      using Cons.prems(3) by (auto simp: usable_def)
    have s: "s_instrument smp = raw_instrument r" "s_native_value smp = raw_value r"
      using u(2) by (auto simp: enrich_def Let_def bind_rust_Ret_iff split: if_splits)
    have "observe_raws mul pp metas (fst (agg_observe agg smp)) rs = Ret agg'" using Cons.prems(5) u x by simp
    from observe_raws_others [OF agg_ok_observe [OF Cons.prems(1)] rest this]
    have "dm_get agg' (raw_instrument r) = Some (start_from_sample smp)"
      using Cons.prems(1,4) s(1) by (simp add: agg_observe_vacant dm.get_insert [OF agg_ok_dm_ok])
    then show ?thesis using s(2) by (simp add: flat_at_def start_from_sample_def)
  next
    case False
    show ?thesis
    proof (cases "usable mul pp metas x")
      case True
      obtain smp where s: "observe_raws mul pp metas (fst (agg_observe agg smp)) rs = Ret agg'"
          "s_instrument smp = raw_instrument x" "s_bucket_ts smp = raw_bucket_ts x"
        by (rule observe_raws_usable [OF Cons.prems(5) True])
      have "dm_get (fst (agg_observe agg smp)) (raw_instrument r) = None"
        using Cons.prems(1,4) False s(2) by (simp add: agg_observe_other)
      with Cons.prems s(1) False show ?thesis by (intro Cons.IH [OF agg_ok_observe]) auto
    next
      case unusable: False
      with Cons.prems False show ?thesis by (intro Cons.IH [OF _ _ _ _ observe_raws_unusable]) auto
    qed
  qed
qed simp

section \<open>What the assembled store does to ClickHouse\<close>

text \<open>An insert into another table leaves the bars alone.\<close>

definition tables_apart :: "'t ch_client \<Rightarrow> bool" where
  "tables_apart c \<longleftrightarrow>
     (\<forall>rows t. scan_oi c (fst (ins_instruments c rows t)) = scan_oi c t) \<and>
     (\<forall>rows t. scan_oi c (fst (ins_funding c rows t)) = scan_oi c t) \<and>
     (\<forall>rows t. scan_oi c (fst (ins_events c rows t)) = scan_oi c t)"

definition bar_rows :: "'t ch_client \<Rightarrow> 'r \<times> wal_state \<times> 't \<Rightarrow> string + oi_row list" where
  "bar_rows c s = scan_oi c (snd (snd s))"

lemma insert_elsewhere:
  "(\<And>rows. scan (fst (ins rows t)) = scan t) \<Longrightarrow> scan (fst (insert_block ins rows t)) = scan t"
  by (auto simp: insert_block_def split: prod.split) (metis fst_conv)

lemma clickhouse_elsewhere:
  assumes "tables_apart c"
  shows "scan_oi c (fst (upsert_funding (clickhouse_repo d c) bars t)) = scan_oi c t"
    "scan_oi c (fst (upsert_funding_events (clickhouse_repo d c) events t)) = scan_oi c t"
    "scan_oi c (fst (upsert_instruments (clickhouse_repo d c) metas t)) = scan_oi c t"
  using assms by (simp_all add: clickhouse_repo_def tables_apart_def insert_elsewhere)

text \<open>The other writes of the stack reach ClickHouse as they are, or not at all.\<close>

lemma assemble_passes:
  "(\<exists>t' x. upsert_funding (assemble k rc c inner gate wal) bars (r, w, t) = ((r, w, t'), x) \<and>
      (t' = t \<or> t' = fst (upsert_funding inner bars t))) \<and>
   (\<exists>t' x. upsert_funding_events (assemble k rc c inner gate wal) events (r, w, t) = ((r, w, t'), x) \<and>
      (t' = t \<or> t' = fst (upsert_funding_events inner events t))) \<and>
   (\<exists>t' x. upsert_instruments (assemble k rc c inner gate wal) metas (r, w, t) = ((r, w, t'), x) \<and>
      (t' = t \<or> t' = fst (upsert_instruments inner metas t)))"
  by (cases gate; cases wal; cases "upsert_funding inner bars t"; cases "upsert_funding_events inner events t";
      cases "upsert_instruments inner metas t")
    (simp_all add: assemble_def composite_def wal_backed_def unlogged_def leader_gated_def Let_def)

lemma assemble_elsewhere:
  assumes "tables_apart ch"
  shows "bar_rows ch (fst (upsert_funding (assemble k rc c (clickhouse_repo d ch) gate wal) bars s)) = bar_rows ch s" (is ?F)
    and "bar_rows ch (fst (upsert_funding_events (assemble k rc c (clickhouse_repo d ch) gate wal) events s)) = bar_rows ch s" (is ?E)
    and "bar_rows ch (fst (upsert_instruments (assemble k rc c (clickhouse_repo d ch) gate wal) metas s)) = bar_rows ch s" (is ?I)
proof -
  obtain r w t where s: "s = (r, w, t)" by (metis prod_cases3)
  note apart = clickhouse_elsewhere [OF assms, of d]
  show ?F using assemble_passes [of k rc c "clickhouse_repo d ch" gate wal bars r w t "[]" "[]"] apart(1) [of bars t]
    by (auto simp: s bar_rows_def)
  show ?E using assemble_passes [of k rc c "clickhouse_repo d ch" gate wal "[]" r w t events "[]"] apart(2) [of events t]
    by (auto simp: s bar_rows_def)
  show ?I using assemble_passes [of k rc c "clickhouse_repo d ch" gate wal "[]" r w t "[]" metas] apart(3) [of metas t]
    by (auto simp: s bar_rows_def)
qed

lemma assemble_stores:
  assumes "adds_part ch" "bar_rows ch s = Inr (map (snap_to_row d) old)"
    and "upsert_snapshots (assemble k rc c (clickhouse_repo d ch) gate wal) snaps s = (s', Inr ())"
  shows "bar_rows ch s' = Inr (map (snap_to_row d) (old @ snaps))"
proof -
  obtain r w t r' w' t' where s: "s = (r, w, t)" "s' = (r', w', t')" by (metis prod_cases3)
  let ?gated = "case gate of None \<Rightarrow> clickhouse_repo d ch | Some g \<Rightarrow> leader_gated (clickhouse_repo d ch) g"
  have p: "upsert_snapshots (if wal then wal_backed c ?gated else unlogged ?gated) snaps (w, t) = ((w', t'), Inr ())"
    by (rule upsert_compositeE [OF assms(3) [unfolded assemble_def Let_def s]])
  have inner: "upsert_snapshots ?gated snaps t = (t', Inr ()) \<or> snaps = [] \<and> t' = t"
    using p by (auto simp: upsert_wal_backed upsert_unlogged split: if_splits prod.splits sum.splits)
  moreover have "upsert_snapshots (clickhouse_repo d ch) snaps t = (t', Inr ())"
    if "upsert_snapshots ?gated snaps t = (t', Inr ())"
    using that by (cases gate) (auto simp: leader_gated_def split: if_splits)
  ultimately show ?thesis
    using upsert_adds_rows [OF assms(1), of t d old snaps t'] assms(2) s by (auto simp: bar_rows_def)
qed

lemma after_batch_rows:
  assumes "tables_apart ch"
  shows "bar_rows ch (after_batch (assemble k rc c (clickhouse_repo d ch) gate wal) rep col snaps s) =
    bar_rows ch (fst (upsert_snapshots (assemble k rc c (clickhouse_repo d ch) gate wal) snaps s))"
proof -
  let ?repo = "assemble k rc c (clickhouse_repo d ch) gate wal"
  note apart = assemble_elsewhere [OF assms, of k rc c d gate wal]
  have "bar_rows ch (snd (write_funding ?repo cursor reply s1)) = bar_rows ch s1" for cursor reply s1
    by (simp add: write_funding_def apart Let_def split: sum.split prod.split)
  moreover have "bar_rows ch (snd (refresh_metas ?repo reply col s1)) = bar_rows ch s1" for reply s1
    by (simp add: refresh_metas_keeps(2) apart split: option.split sum.split)
  ultimately show ?thesis by (simp add: after_batch_def Let_def)
qed

section \<open>What the API answers\<close>

text \<open>The API's own repository over the ClickHouse of the collector, and a request for the bars of an instrument.\<close>

definition api_state ::
  "'d rest_text \<Rightarrow> 'd snap_codec \<Rightarrow> 'q redis_client \<Rightarrow> 't ch_client \<Rightarrow> 'q \<Rightarrow> 't \<Rightarrow> 'm \<Rightarrow> ('q \<times> 't, 'd, 'm) rest_state" where
  "api_state x k rc ch q t page =
     \<lparr>rs_text = x, rs_repo = composite k rc (clickhouse_repo (decimals x) ch) None, rs_store = (q, t),
      rs_clickhouse = Some (Inr ()), rs_redis = Some (Inr ()), rs_sched = (\<lambda>n. 0), rs_metrics = page\<rparr>"

definition range_request :: "(string \<Rightarrow> string) \<Rightarrow> instrument_id \<Rightarrow> string \<Rightarrow> string \<Rightarrow> 'h option \<Rightarrow> 'h api_request" where
  "range_request encode i from to authorization =
     \<lparr>req_path = ''/v1/oi/range/'' @ exchange_code (id_exchange i) @ ''/'' @ encode (id_symbol i),
      req_authorization = authorization, rq_method = Get,
      rq_query = Inr \<lparr>q_from = from, q_to = to, q_fmt = None\<rparr>,
      rq_ws = \<lparr>p_instruments = [], p_token = None\<rparr>, rq_body = Inl 415\<rparr>"

text \<open>Percent encoding leaves no slash in a symbol and nothing to decode in a code.\<close>

definition path_coding :: "(string \<Rightarrow> string) \<Rightarrow> (string \<Rightarrow> string option) \<Rightarrow> instrument_id \<Rightarrow> bool" where
  "path_coding encode decode i \<longleftrightarrow>
     encode (id_symbol i) \<noteq> [] \<and> CHR ''/'' \<notin> set (encode (id_symbol i)) \<and>
     decode (encode (id_symbol i)) = Some (id_symbol i) \<and> decode (exchange_code (id_exchange i)) = Some (exchange_code (id_exchange i))"

lemma code_no_slash: "CHR ''/'' \<notin> set (exchange_code e)"
  by (cases e) simp_all

lemma range_served:
  assumes "path_coding encode decode i" "rfc3339_parse x from = Inr a" "rfc3339_parse x to = Inr z"
    and "decimal_roundtrip (decimals x)" "scan_oi ch t = Inr (map (snap_to_row (decimals x)) bars)"
    and "\<forall>b \<in> set bars. whole_millis (b_bucket_ts b)" "whole_millis a" "whole_millis z"
  shows "rest_router decode (api_state x k rc ch q t page) (range_request encode i from to authorization) =
     Ret (Bars_Answer (200, Inr (Rows (map (bar_dto_of x) (bars_between i a z bars)))))"
proof -
  have route: "route (req_path (range_request encode i from to authorization)) =
      Some (Range (exchange_code (id_exchange i)) (encode (id_symbol i)))"
    using assms(1) route_range [OF code_no_slash, of "encode (id_symbol i)" "id_exchange i"]
    by (simp add: range_request_def path_coding_def)
  have id: "parse_id (exchange_code (id_exchange i)) (id_symbol i) = Inr i"
    by (simp add: parse_id_def exchange_from_str_code_lower new_instrument_def)
  have "range_snapshots (clickhouse_repo (decimals x) ch) i a z t = Inr (bars_between i a z bars)"
    by (rule range_of_scan [OF assms(4-8)])
  then have "range_snapshots (rs_repo (api_state x k rc ch q t page)) i a z (rs_store (api_state x k rc ch q t page)) =
      Inr (bars_between i a z bars)"
    by (simp add: api_state_def composite_def)
  moreover have "allowed (rq_method (range_request encode i from to authorization)) (Range (exchange_code (id_exchange i)) (encode (id_symbol i)))"
    by (simp add: allowed_def range_request_def)
  moreover have "rs_text (api_state x k rc ch q t page) = x" by (simp add: api_state_def)
  ultimately show ?thesis
    unfolding rest_router_def route option.case
    using assms(1-3) id
    by (simp add: with_path_def with_query_def range_reply_def parse_rfc3339_def path_coding_def)
      (simp add: range_request_def parse_rfc3339_def)
qed

section \<open>From the venue to the screen\<close>

lemma batch_flat:
  assumes "agg_ok (col_agg col)" "mr_oi rep = Inr raws" "minute_batch mul tick rep col = Ret (Some (agg', snaps))"
    and "usable mul (minute_prices rep col) (col_metas col) r" "filter (\<lambda>y. raw_instrument y = raw_instrument r) raws = [r]"
    and "agg_current (col_agg col) (raw_instrument r) = None" "b \<in> set snaps" "b_instrument b = raw_instrument r"
  shows "flat_at (raw_value r) b"
proof -
  obtain agg where o': "observe_raws mul (minute_prices rep col) (col_metas col) (col_agg col) raws = Ret agg"
    and f: "flush_through agg (tick_bucket_ts tick) = (agg', snaps)"
    using assms(2,3) by (auto simp: minute_batch_def map_rust_Ret_iff)
  have ok: "agg_ok agg" by (rule observe_raws_ok [OF assms(1) o'])
  have dm: "dm_ok agg" by (rule agg_ok_dm_ok [OF ok])
  from flush_through_out [OF dm, of "tick_bucket_ts tick"] f assms(7) obtain key where key: "dm_get agg key = Some b"
    using dm_get_iff [OF dm] by force
  with ok assms(8) have "key = raw_instrument r" by (auto simp: agg_ok_def)
  with observe_raws_single [OF assms(1,5,4) _ o'] assms(6) key show ?thesis by (auto simp: agg_current_def)
qed


text \<open>The KuCoin contract, collected by a single node without a log and asked for without authentication.\<close>

definition any_text :: "nat rest_text" where
  "any_text =
     \<lparr>decimals = unary_text, rfc3339_format = (\<lambda>t. None), ts_display = (\<lambda>t. []),
      rfc3339_parse = (\<lambda>s. Inr (if s = ''from'' then 0 else minutes 1))\<rparr>"

abbreviation one_store :: "(unit \<times> wal_state \<times> oi_row list, nat) oi_repository" where
  "one_store \<equiv> assemble no_snap_codec dead_redis test_codec (clickhouse_repo unary_text list_client) None False"

lemma one_store_acknowledges: "snd (upsert_snapshots one_store snaps s) = Inr ()"
  by (cases s) (simp add: assemble_def composite_def unlogged_def upsert_list_client Let_def split: prod.split)


end
