(* ===== verification/Drainer.thy ===== *)
theory Drainer
  imports Durability
begin

text \<open>
  The loop of \<open>spawn_drainer_with_gate\<close> in \<open>oi-storage/src/wal.rs\<close>, with the gauges it refreshes,
  running beside the writers of the same log. Whole calls interleave; within a call the file
  system may fail at every step.
\<close>

section \<open>The loop\<close>

text \<open>
  \<open>refresh_metrics\<close>: the values it sets the two gauges to (the number of pending files, the age of
  the oldest in milliseconds, which the code shows in seconds), or \<open>None\<close> when it sets none.
\<close>

definition refresh_metrics :: "wal_state \<Rightarrow> wal_state \<times> (nat \<times> nat) option" where
  "refresh_metrics w =
     (case wal_pending w of
        (w', Inl e) \<Rightarrow> (w', None)
      | (w', Inr ps) \<Rightarrow>
          (w', Some (length ps,
             case ps of [] \<Rightarrow> 0
             | p # _ \<Rightarrow> (case parse_ts_ms p of None \<Rightarrow> 0 | Some ts_ms \<Rightarrow> saturating_age (wal_clock w') ts_ms))))"

text \<open>
  One turn, after the sleep; \<open>gate\<close> is what the leader gate answers in it. Errors are only logged.
\<close>

definition drainer_tick ::
  "'d codec \<Rightarrow> ('d, 't) sink \<Rightarrow> bool option \<Rightarrow> nat option \<Rightarrow> wal_state \<times> 't \<Rightarrow> wal_state \<times> 't" where
  "drainer_tick c upsert gate follower_max_age s =
     (let w = fst (refresh_metrics (fst s));
          may_drain = (case gate of None \<Rightarrow> True | Some leading \<Rightarrow> leading)
      in if \<not> may_drain
         then (case follower_max_age of
                 Some max_age \<Rightarrow> (fst (reap_older_than max_age w), snd s)
               | None \<Rightarrow> (w, snd s))
         else (let (w1, t1) = fst (drain_once c upsert (w, snd s)) in (fst (refresh_metrics w1), t1)))"

text \<open>What happens to a log: a turn of the drainer at a time of day, or a batch handed to the repository.\<close>

datatype 'd log_event = Turn int "bool option" | Batch "'d oi_snapshot list"

fun log_run ::
  "'d codec \<Rightarrow> ('t, 'd) oi_repository \<Rightarrow> nat option \<Rightarrow> 'd log_event list \<Rightarrow> wal_state \<times> 't \<Rightarrow> wal_state \<times> 't" where
  "log_run c inner max_age [] s = s"
| "log_run c inner max_age (Turn clock gate # events) (w, t) =
     log_run c inner max_age events (drainer_tick c (upsert_snapshots inner) gate max_age (w\<lparr>wal_clock := clock\<rparr>, t))"
| "log_run c inner max_age (Batch snaps # events) s =
     log_run c inner max_age events (fst (upsert_snapshots (wal_backed c inner) snaps s))"

section \<open>Names are never issued twice\<close>

definition ids :: "wal_state \<Rightarrow> u64 \<times> nat" where
  "ids w = (wal_counter w, wal_pid w)"

definition keeps_ids :: "(wal_state \<Rightarrow> wal_state \<times> 'a) \<Rightarrow> bool" where
  "keeps_ids p \<longleftrightarrow> (\<forall>w. ids (fst (p w)) = ids w)"

lemma keeps_idsD: "keeps_ids p \<Longrightarrow> p w = (w', r) \<Longrightarrow> ids w' = ids w"
  by (metis fst_conv keeps_ids_def)

lemma ids_simps [simp]:
  "ids (put_file n bs w) = ids w" "ids (drop_file n w) = ids w" "ids (w\<lparr>wal_faults := fs\<rparr>) = ids w"
  "ids (w\<lparr>wal_clock := clock\<rparr>) = ids w"
  by (simp_all add: ids_def put_file_def drop_file_def)

lemma keeps_ids_os [simp, intro]:
  "keeps_ids (os_create n)" "keeps_ids (os_write n bs)" "keeps_ids (os_sync n)" "keeps_ids (os_rename a b)"
  "keeps_ids (os_remove n)" "keeps_ids (os_read n)" "keeps_ids os_list"
  by (auto simp: keeps_ids_def os_create_def os_write_def os_sync_def os_rename_def os_remove_def os_read_def os_list_def faulty_def
      split: list.split fault.split option.split)

lemma keeps_ids_labelled [simp, intro]: "keeps_ids p \<Longrightarrow> keeps_ids (labelled m p)"
  by (simp add: keeps_ids_def labelled_def split: prod.split) (metis fst_conv)

lemma keeps_ids_and_then [simp, intro]: "keeps_ids p \<Longrightarrow> (\<And>a. keeps_ids (f a)) \<Longrightarrow> keeps_ids (and_then p f)"
  by (simp add: keeps_ids_def and_then_def split: prod.split sum.split) (metis fst_conv)

lemma keeps_ids_Ret [simp, intro]: "keeps_ids (\<lambda>w. (w, f w))"
  by (simp add: keeps_ids_def)

lemma keeps_ids_wal [simp, intro]: "keeps_ids wal_pending" "keeps_ids (wal_ack p)" "keeps_ids (wal_read c p)"
proof -
  show "keeps_ids wal_pending" by (auto simp: wal_pending_def)
  show "keeps_ids (wal_read c p)" by (auto simp: wal_read_def)
  have "ids (fst (os_remove p w)) = ids w" for w using keeps_ids_os(5) by (simp add: keeps_ids_def)
  then show "keeps_ids (wal_ack p)"
    by (auto simp: keeps_ids_def wal_ack_def split: prod.split sum.split io_error.split) (metis fst_conv)+
qed

lemma keeps_ids_reap [simp, intro]: "keeps_ids (reap_older_than m)"
proof -
  have r: "ids (fst (os_remove p w)) = ids w" for p w using keeps_ids_os(5) by (simp add: keeps_ids_def)
  have "ids (fst (reap_files now m ps k w)) = ids w" for now ps k w
  proof (induction ps arbitrary: k w)
    case (Cons p ps)
    obtain w1 x where x: "os_remove p w = (w1, x)" by (cases "os_remove p w")
    with r [of p w] have "ids w1 = ids w" by simp
    with x Cons.IH show ?case by (auto split: option.split sum.split io_error.split)
  qed simp
  then show ?thesis unfolding reap_older_than_def by (intro keeps_ids_and_then keeps_ids_wal) (simp add: keeps_ids_def)
qed

lemma ids_quarantine [simp]: "ids (quarantine p w) = ids w"
  using keeps_ids_os(4) by (simp add: quarantine_def keeps_ids_def)

lemma ids_refresh [simp]: "ids (fst (refresh_metrics w)) = ids w"
proof -
  obtain w1 x where x: "wal_pending w = (w1, x)" by (cases "wal_pending w")
  with keeps_idsD [OF keeps_ids_wal(1)] show ?thesis by (cases x) (simp_all add: refresh_metrics_def)
qed

lemma ids_drain_files: "ids (fst (fst (drain_files c upsert ps (w, t)))) = ids w"
proof (induction ps arbitrary: w t)
  case (Cons p ps)
  obtain w1 x where x: "wal_read c p w = (w1, x)" by (cases "wal_read c p w")
  then have w1: "ids w1 = ids w" by (rule keeps_idsD [OF keeps_ids_wal(3)])
  show ?case
  proof (cases x)
    case (Inl e)
    with x w1 Cons.IH show ?thesis by simp
  next
    case (Inr snaps)
    obtain t1 y where y: "upsert snaps t = (t1, y)" by (cases "upsert snaps t")
    obtain w2 z where z: "wal_ack p w1 = (w2, z)" by (cases "wal_ack p w1")
    then have "ids w2 = ids w" using w1 keeps_idsD [OF keeps_ids_wal(2)] by metis
    with x Inr y z w1 Cons.IH show ?thesis by (cases y; cases z) simp_all
  qed
qed simp

lemma ids_drain_once: "ids (fst (fst (drain_once c upsert (w, t)))) = ids w"
proof -
  obtain w1 x where x: "wal_pending w = (w1, x)" by (cases "wal_pending w")
  moreover have "ids w1 = ids w" using x by (rule keeps_idsD [OF keeps_ids_wal(1)])
  ultimately show ?thesis using ids_drain_files [of c upsert _ w1 t] by (cases x) (simp_all add: drain_once_def)
qed

lemma ids_tick: "ids (fst (drainer_tick c upsert gate m (w, t))) = ids w"
proof -
  obtain w1 t1 x where d: "drain_once c upsert (fst (refresh_metrics w), t) = ((w1, t1), x)" by (metis prod.exhaust)
  with ids_drain_once [of c upsert "fst (refresh_metrics w)" t] have "ids w1 = ids w" by simp
  moreover have "ids (fst (reap_older_than a w)) = ids w" for a w using keeps_ids_reap by (simp add: keeps_ids_def)
  ultimately show ?thesis by (auto simp: drainer_tick_def Let_def d split: option.split)
qed

lemma wal_append_ids:
  "ids (fst (wal_append c snaps w)) \<in> {ids w, (wal_counter w + 1, wal_pid w)}"
proof (cases "enc_batch c snaps")
  case (Inr payload)
  show ?thesis
  proof (cases "wal_clock w < 0")
    case False
    define w1 where "w1 = fst (uuid_v4 w)"
    have w1: "ids w1 = (wal_counter w + 1, wal_pid w)" by (simp add: w1_def uuid_v4_def ids_def)
    define final where "final = final_name (nat (wal_clock w)) (snd (uuid_v4 w))"
    define p where "p = and_then (labelled ''wal create'' (os_create (tmp_name final))) (\<lambda>_.
        and_then (labelled ''wal write magic'' (os_write (tmp_name final) frame_magic)) (\<lambda>_.
        and_then (labelled ''wal write crc'' (os_write (tmp_name final) (to_be_bytes (crc32 c payload)))) (\<lambda>_.
        and_then (labelled ''wal write payload'' (os_write (tmp_name final) payload)) (\<lambda>_.
        and_then (labelled ''wal fsync'' (os_sync (tmp_name final))) (\<lambda>_.
        and_then (labelled ''wal rename'' (os_rename (tmp_name final) final)) (\<lambda>_ s. (s, Inr final)))))))"
    have "keeps_ids p" unfolding p_def by auto
    moreover have "wal_append c snaps w = p w1"
      using Inr False by (simp add: wal_append_def p_def w1_def final_def Let_def split_def)
    ultimately show ?thesis using w1 by (simp add: keeps_ids_def)
  qed (simp add: wal_append_def Inr)
qed (simp add: wal_append_def)

lemma upsert_ids:
  "ids (fst (fst (upsert_snapshots (wal_backed c inner) snaps (w, t)))) \<in> {ids w, (wal_counter w + 1, wal_pid w)}"
proof -
  obtain w1 x where a: "wal_append c snaps w = (w1, x)" by (cases "wal_append c snaps w")
  with wal_append_ids [of c snaps w] have "ids w1 \<in> {ids w, (wal_counter w + 1, wal_pid w)}" by simp
  with a keeps_idsD [OF keeps_ids_wal(2)] show ?thesis
    by (cases x) (auto simp: upsert_wal_backed split: prod.splits sum.splits)
qed

text \<open>\<open>n\<close> is the name of an earlier append of this process.\<close>

definition issued :: "wal_state \<Rightarrow> string \<Rightarrow> bool" where
  "issued w n \<longleftrightarrow> (\<exists>w0. n = next_name w0 \<and> wal_pid w0 = wal_pid w \<and> wal_counter w0 < wal_counter w)"

lemma issued_next: "issued w n \<Longrightarrow> n \<noteq> next_name w"
  using file_names_are_unique by (auto simp: issued_def)

lemma issued_step:
  assumes "issued w n" "ids w' \<in> {ids w, (wal_counter w + 1, wal_pid w)}" "unat (wal_counter w) + 1 < 2 ^ 64"
  shows "issued w' n" "unat (wal_counter w') \<le> unat (wal_counter w) + 1"
proof -
  have up: "wal_counter w < wal_counter w + 1" "unat (wal_counter w + 1) = unat (wal_counter w) + 1"
    using assms(3) by (simp_all add: word_less_nat_alt unat_word_ariths)
  from assms(1,2) up(1) show "issued w' n" by (auto simp: issued_def ids_def intro: less_trans)
  from assms(2) up(2) show "unat (wal_counter w') \<le> unat (wal_counter w) + 1" by (auto simp: ids_def)
qed

section \<open>No entry of the log is lost\<close>

lemma refresh_unchanged: "unchanged_outside {} w (fst (refresh_metrics w))"
proof -
  obtain w1 x where x: "wal_pending w = (w1, x)" by (cases "wal_pending w")
  with wal_pending_effect [OF x] show ?thesis by (cases x) (simp_all add: refresh_metrics_def)
qed

lemma refresh_clock: "wal_clock (fst (refresh_metrics w)) = wal_clock w"
proof -
  obtain w1 x where x: "wal_pending w = (w1, x)" by (cases "wal_pending w")
  with wal_pending_clock [OF x] show ?thesis by (cases x) (simp_all add: refresh_metrics_def)
qed

lemma reap_accounted:
  assumes "is_pending n" "accounted c stored n bytes w t" "reap_older_than m w = (w', r)"
  shows "accounted c stored n bytes w' t \<or> (\<exists>ts. parse_ts_ms n = Some ts \<and> m < nat (wal_clock w) - ts)"
proof -
  obtain w1 rp where p: "wal_pending w = (w1, rp)" by (cases "wal_pending w")
  have same: "unchanged_outside {} w w1" using wal_pending_effect [OF p] by simp
  show ?thesis
  proof (cases rp)
    case (Inl e)
    with assms p same have "w' = w1" by (simp add: reap_older_than_def)
    with assms(2) same show ?thesis by (auto intro: accounted_unchanged)
  next
    case (Inr ps)
    then have run: "reap_files (nat (wal_clock w)) m ps 0 w1 = (w', r)" and ps: "\<forall>q \<in> set ps. is_pending q"
      using assms(3) p wal_pending_clock [OF p] wal_pending_effect [OF p] by (simp_all add: reap_older_than_def)
    have corrupt: "wal_file w' (with_extension n ''corrupt'') = wal_file w1 (with_extension n ''corrupt'')"
      using reap_files_safe [OF run, of "with_extension n ''corrupt''"] ps corrupt_not_pending [OF assms(1)] by blast
    show ?thesis
    proof (cases "wal_file w' n = wal_file w1 n")
      case True
      with corrupt assms(2) same show ?thesis by (auto simp: accounted_def unchanged_outside_def)
    next
      case False
      with reap_files_safe [OF run, of n] show ?thesis by blast
    qed
  qed
qed

lemma tick_accounted:
  assumes "acks_are_durable upsert stored" "is_pending n" "accounted c stored n bytes w t"
    and "drainer_tick c upsert gate max_age (w\<lparr>wal_clock := clock\<rparr>, t) = (w', t')"
  shows "accounted c stored n bytes w' t' \<or>
    (gate = Some False \<and> (\<exists>m ts. max_age = Some m \<and> parse_ts_ms n = Some ts \<and> m < nat clock - ts))"
proof -
  define w0 where "w0 = fst (refresh_metrics (w\<lparr>wal_clock := clock\<rparr>))"
  have "unchanged_outside {} (w\<lparr>wal_clock := clock\<rparr>) w0" unfolding w0_def by (rule refresh_unchanged)
  then have a: "accounted c stored n bytes w0 t"
    using assms(3) by (auto simp: accounted_def unchanged_outside_def wal_file_def)
  have clock: "wal_clock w0 = clock" by (simp add: w0_def refresh_clock)
  show ?thesis
  proof (cases "gate = Some False")
    case True
    show ?thesis
    proof (cases max_age)
      case None
      with assms(4) True a show ?thesis by (simp add: drainer_tick_def w0_def)
    next
      case (Some m)
      obtain w1 r where r: "reap_older_than m w0 = (w1, r)" by (cases "reap_older_than m w0")
      with assms(4) True Some have "w' = w1" "t' = t" by (simp_all add: drainer_tick_def w0_def)
      with reap_accounted [OF assms(2) a r] True Some clock show ?thesis by auto
    qed
  next
    case False
    obtain w1 t1 r where d: "drain_once c upsert (w0, t) = ((w1, t1), r)" by (metis prod.exhaust)
    with assms(4) False have w': "w' = fst (refresh_metrics w1)" "t' = t1"
      by (auto simp: drainer_tick_def w0_def Let_def split: option.splits)
    have "accounted c stored n bytes w1 t1" by (rule drain_once_accounted [OF assms(1,2) a d])
    with refresh_unchanged [of w1] w' show ?thesis by (auto intro: accounted_unchanged)
  qed
qed

lemma append_accounted:
  assumes "is_pending n" "n \<noteq> next_name w" "accounted c stored n bytes w t" "wal_append c' snaps w = (w', r)"
  shows "accounted c stored n bytes w' t"
proof -
  have next_pending: "is_pending (next_name w)" by (simp add: next_name_def)
  have tmp: "\<not> is_pending (tmp_name (next_name w))" "hd (tmp_name (next_name w)) = CHR ''.''"
    by (simp_all add: tmp_name_def is_pending_def starts_with_def)
  have corrupt: "with_extension n ''corrupt'' \<noteq> tmp_name (next_name w)"
  proof
    assume eq: "with_extension n ''corrupt'' = tmp_name (next_name w)"
    obtain a where n: "n = a @ pending_suffix" using assms(1) by (auto simp: pending_split)
    then have "a @ ''.corrupt'' = tmp_name (next_name w)" using eq corrupt_name [of a] by (simp add: pending_suffix_def)
    then have "last (a @ ''.corrupt'') = last (tmp_name (next_name w))" by (rule arg_cong)
    then show False by (simp add: tmp_name_def)
  qed
  have "with_extension n ''corrupt'' \<noteq> next_name w" using corrupt_not_pending [OF assms(1)] next_pending by metis
  moreover have "n \<noteq> tmp_name (next_name w)" using tmp(1) assms(1) by metis
  ultimately show ?thesis
    using wal_append_effect [OF assms(4)] assms(2,3) corrupt by (auto intro: accounted_unchanged)
qed

lemma upsert_accounted:
  assumes "acks_are_durable (upsert_snapshots inner) stored" "is_pending n" "n \<noteq> next_name w"
    and "accounted c stored n bytes w t" "upsert_snapshots (wal_backed c inner) snaps (w, t) = ((w', t'), r)"
  shows "accounted c stored n bytes w' t'"
proof (cases "snaps = []")
  case True
  with assms show ?thesis by (simp add: upsert_wal_backed)
next
  case False
  obtain w1 x where a: "wal_append c snaps w = (w1, x)" by (cases "wal_append c snaps w")
  have w1: "accounted c stored n bytes w1 t" by (rule append_accounted [OF assms(2,3,4) a])
  show ?thesis
  proof (cases x)
    case (Inl e)
    with assms(5) False a w1 show ?thesis by (simp add: upsert_wal_backed)
  next
    case (Inr p)
    obtain t1 y where u: "upsert_snapshots inner snaps t = (t1, y)" by (cases "upsert_snapshots inner snaps t")
    have t1: "accounted c stored n bytes w1 t1"
      using w1 acks_are_durableD(2) [OF assms(1) u] by (auto simp: accounted_def)
    show ?thesis
    proof (cases y)
      case (Inl e)
      with assms(5) False a Inr u t1 show ?thesis by (simp add: upsert_wal_backed)
    next
      case ok: (Inr v)
      obtain w2 z where k: "wal_ack p w1 = (w2, z)" by (cases "wal_ack p w1")
      have p: "p = next_name w" using wal_append_effect [OF a] Inr by auto
      then have "is_pending p" "p \<noteq> n" using assms(3) by (simp_all add: next_name_def)
      then have "accounted c stored n bytes w2 t1" using ack_accounted [OF assms(2) _ t1 k] by blast
      with assms(5) False a Inr u ok k show ?thesis by (simp add: upsert_wal_backed)
    qed
  qed
qed

lemma log_run_accounted:
  assumes "acks_are_durable (upsert_snapshots inner) stored" "is_pending n"
  shows "issued w n \<Longrightarrow> unat (wal_counter w) + length events < 2 ^ 64 \<Longrightarrow> accounted c stored n bytes w t \<Longrightarrow>
    log_run c inner max_age events (w, t) = (w', t') \<Longrightarrow>
    accounted c stored n bytes w' t' \<or>
    (\<exists>clock m ts. Turn clock (Some False) \<in> set events \<and> max_age = Some m \<and> parse_ts_ms n = Some ts \<and> m < nat clock - ts)"
proof (induction events arbitrary: w t)
  case (Cons ev events)
  show ?case
  proof (cases ev)
    case (Turn clock gate)
    obtain w1 t1 where s: "drainer_tick c (upsert_snapshots inner) gate max_age (w\<lparr>wal_clock := clock\<rparr>, t) = (w1, t1)"
      by (metis prod.exhaust)
    with ids_tick [of c "upsert_snapshots inner" gate max_age "w\<lparr>wal_clock := clock\<rparr>" t] have same: "ids w1 = ids w" by simp
    from tick_accounted [OF assms Cons.prems(3) s] show ?thesis
    proof
      assume "accounted c stored n bytes w1 t1"
      moreover have "issued w1 n" "wal_counter w1 = wal_counter w" using Cons.prems(1) same by (simp_all add: issued_def ids_def)
      moreover have "log_run c inner max_age events (w1, t1) = (w', t')" using Cons.prems(4) Turn s by simp
      ultimately show ?thesis using Cons.IH [of w1 t1] Cons.prems(2) by fastforce
    qed (use Turn in auto)
  next
    case (Batch snaps)
    obtain w1 t1 r where s: "upsert_snapshots (wal_backed c inner) snaps (w, t) = ((w1, t1), r)" by (metis prod.exhaust)
    have i: "ids w1 \<in> {ids w, (wal_counter w + 1, wal_pid w)}" using upsert_ids [of c inner snaps w t] s by simp
    have room: "unat (wal_counter w) + 1 < 2 ^ 64" using Cons.prems(2) by simp
    have "issued w1 n" "unat (wal_counter w1) + length events < 2 ^ 64"
      using issued_step [OF Cons.prems(1) i room] Cons.prems(2) by simp_all
    moreover have "accounted c stored n bytes w1 t1"
      by (rule upsert_accounted [OF assms issued_next [OF Cons.prems(1)] Cons.prems(3) s])
    moreover have "log_run c inner max_age events (w1, t1) = (w', t')" using Cons.prems(4) Batch s by simp
    ultimately show ?thesis using Cons.IH [of w1 t1] by fastforce
  qed
qed simp


lemma next_name_empty: "next_name (empty_log fs) = ''7-7-0.mpk''"
  by (simp add: next_name_def final_name_def uuid_v4_def empty_log_def pending_suffix_def)


end
