(* ===== verification/Startup.thy ===== *)
theory Startup
  imports Runner Clickhouse_Admin
begin

text \<open>
  \<open>run_async\<close> of \<open>oi-collector/src/runner.rs\<close>: the steps of the start, the first of which that
  fails ends the process, and the tasks that run afterwards. What a step meets (the servers, the
  directory of the log, the construction of an HTTP client) is a parameter; the Prometheus
  endpoint may fail to start, which is only logged.
\<close>

section \<open>The tasks\<close>

text \<open>
  The drainer (its interval and age limit in seconds, and whether it asks the lease), the side task
  of a streaming venue, the sweep over the settlements (its period in seconds and its concurrency),
  and the loop of an exchange.
\<close>

datatype collector_task =
    Drain_Worker nat "nat option" bool
  | Live_Side exchange
  | Event_Sweep exchange nat nat
  | Minute_Loop exchange

datatype start_error =
    No_Schema core_error
  | No_Redis core_error
  | No_Lease core_error
  | No_Log core_error
  | No_Adapter exchange exchange_error

definition live_exchanges :: "collector_cfg \<Rightarrow> exchange list" where
  "live_exchanges cfg = filter (\<lambda>ex. ex \<in> set (enabled_exchanges cfg)) [Bybit, Bitget, Hyperliquid, Okx]"

text \<open>For each listed exchange its adapter, then the sweep and the loop.\<close>

fun spawn_loops :: "(exchange \<Rightarrow> exchange_error + unit) \<Rightarrow> exchange list \<Rightarrow> collector_task list \<times> (start_error + unit)" where
  "spawn_loops new_adapter [] = ([], Inr ())"
| "spawn_loops new_adapter (ex # exs) =
     (case new_adapter ex of
        Inl e \<Rightarrow> ([], Inl (No_Adapter ex e))
      | Inr _ \<Rightarrow>
          (let (tasks, r) = spawn_loops new_adapter exs
           in (Event_Sweep ex (30 * 60) 8 # Minute_Loop ex # tasks, r)))"

section \<open>The start\<close>

record start_world =
  sw_schema :: "core_error + unit"
  sw_redis :: "core_error + unit"
  sw_lease :: "lease_config \<Rightarrow> core_error + unit"
  sw_mkdir :: "string \<Rightarrow> string + unit"
  sw_adapter :: "exchange \<Rightarrow> exchange_error + unit"

text \<open>\<open>FileWal::open\<close>; the path is printed in quotes (with escapes, which a path without quotes and backslashes has none of).\<close>

definition wal_open :: "(string \<Rightarrow> string + unit) \<Rightarrow> string \<Rightarrow> core_error + unit" where
  "wal_open mkdir dir = map_sum (\<lambda>e. Storage (''wal mkdir '' @ [CHR 0x22] @ dir @ [CHR 0x22] @ '': '' @ e)) id (mkdir dir)"

definition acquire_lease :: "start_world \<Rightarrow> string \<Rightarrow> collector_cfg \<Rightarrow> start_error + bool" where
  "acquire_lease sw uuid cfg =
     (case lease_config_of uuid cfg of
        None \<Rightarrow> Inr False
      | Some lc \<Rightarrow> map_sum No_Lease (\<lambda>_. True) (sw_lease sw lc))"

definition drain_tasks :: "start_world \<Rightarrow> bool \<Rightarrow> collector_cfg \<Rightarrow> start_error + collector_task list" where
  "drain_tasks sw gated cfg =
     (let wal = kc_wal cfg
      in if wc_enabled wal
         then map_sum No_Log (\<lambda>_. [Drain_Worker (wc_drain_interval_secs wal) (wc_follower_max_age_secs wal) gated])
                (wal_open (sw_mkdir sw) (wc_dir wal))
         else Inr [])"

text \<open>The tasks that were spawned, and whether the start went through.\<close>

definition run_async :: "start_world \<Rightarrow> string \<Rightarrow> collector_cfg \<Rightarrow> collector_task list \<times> (start_error + unit)" where
  "run_async sw uuid cfg =
     (case sw_schema sw of
        Inl e \<Rightarrow> ([], Inl (No_Schema e))
      | Inr _ \<Rightarrow>
     (case sw_redis sw of
        Inl e \<Rightarrow> ([], Inl (No_Redis e))
      | Inr _ \<Rightarrow>
     (case acquire_lease sw uuid cfg of
        Inl e \<Rightarrow> ([], Inl e)
      | Inr gated \<Rightarrow>
     (case drain_tasks sw gated cfg of
        Inl e \<Rightarrow> ([], Inl e)
      | Inr drain \<Rightarrow>
          (let (loops, r) = spawn_loops (sw_adapter sw) (enabled_exchanges cfg)
           in (drain @ map Live_Side (live_exchanges cfg) @ loops, r))))))"

text \<open>The repository of a configuration; \<open>g\<close> reads the flag of the lease.\<close>

definition collector_store ::
  "'d snap_codec \<Rightarrow> 'r redis_client \<Rightarrow> 'd codec \<Rightarrow> ('t, 'd) oi_repository \<Rightarrow> 't leader_gate \<Rightarrow> collector_cfg
     \<Rightarrow> ('r \<times> wal_state \<times> 't, 'd) oi_repository" where
  "collector_store k rc c ch g cfg =
     assemble k rc c ch (if oc_enabled (kc_failover cfg) then Some g else None) (wc_enabled (kc_wal cfg))"

section \<open>What a started collector runs\<close>

lemma spawn_live_exchanges:
  "spawn_live print parse cfg discovered = concat (map (\<lambda>ex. live_task print parse ex (discovered ex)) (live_exchanges cfg))"
  by (simp add: spawn_live_def live_exchanges_def)

lemma spawn_loops_ok:
  "spawn_loops new_adapter exs = (tasks, Inr ()) \<Longrightarrow>
     tasks = concat (map (\<lambda>ex. [Event_Sweep ex (30 * 60) 8, Minute_Loop ex]) exs) \<and> (\<forall>ex \<in> set exs. new_adapter ex = Inr ())"
  by (induction exs arbitrary: tasks) (auto split: sum.splits prod.splits)

lemma spawn_loops_prefix:
  "spawn_loops new_adapter exs = (tasks, Inl e) \<Longrightarrow>
     \<exists>pre ex suf x. exs = pre @ ex # suf \<and> e = No_Adapter ex x \<and> new_adapter ex = Inl x \<and>
       tasks = concat (map (\<lambda>ex. [Event_Sweep ex (30 * 60) 8, Minute_Loop ex]) pre)"
proof (induction exs arbitrary: tasks)
  case (Cons ex exs)
  show ?case
  proof (cases "new_adapter ex")
    case (Inl x)
    with Cons.prems show ?thesis by (intro exI [of _ "[]"] exI [of _ ex] exI [of _ exs] exI [of _ x]) simp
  next
    case (Inr u)
    obtain tasks1 r where rest: "spawn_loops new_adapter exs = (tasks1, r)" by (cases "spawn_loops new_adapter exs")
    with Cons.prems Inr have t: "tasks = Event_Sweep ex (30 * 60) 8 # Minute_Loop ex # tasks1" "r = Inl e" by simp_all
    with Cons.IH rest obtain pre ex1 suf x where
      "exs = pre @ ex1 # suf" "e = No_Adapter ex1 x" "new_adapter ex1 = Inl x"
      "tasks1 = concat (map (\<lambda>ex. [Event_Sweep ex (30 * 60) 8, Minute_Loop ex]) pre)" by blast
    with t(1) show ?thesis by (intro exI [of _ "ex # pre"] exI [of _ ex1] exI [of _ suf] exI [of _ x]) simp
  qed
qed simp

lemma count_loops:
  "count_list (concat (map (\<lambda>ex. [Event_Sweep ex p k, Minute_Loop ex]) exs)) (Minute_Loop ex) = count_list exs ex \<and>
   count_list (concat (map (\<lambda>ex. [Event_Sweep ex p k, Minute_Loop ex]) exs)) (Event_Sweep ex p k) = count_list exs ex"
  by (induction exs) auto

lemma count_other: "(\<And>y. f y \<noteq> x) \<Longrightarrow> count_list (map f ys) x = 0"
  by (induction ys) auto

lemma count_live: "count_list (map Live_Side exs) (Live_Side ex) = count_list exs ex"
  by (induction exs) auto

lemma run_async_ok:
  assumes "run_async sw uuid cfg = (tasks, Inr ())"
  shows "\<exists>gated drain. acquire_lease sw uuid cfg = Inr gated \<and> drain_tasks sw gated cfg = Inr drain \<and>
    tasks = drain @ map Live_Side (live_exchanges cfg) @
      concat (map (\<lambda>ex. [Event_Sweep ex (30 * 60) 8, Minute_Loop ex]) (enabled_exchanges cfg))"
  using assms spawn_loops_ok by (auto simp: run_async_def split: sum.splits prod.splits)

lemma map_sum_constant: "map_sum f (\<lambda>_. c) x = Inr y \<Longrightarrow> y = c"
  by (cases x) simp_all

lemma acquired: "acquire_lease sw uuid cfg = Inr gated \<Longrightarrow> gated = oc_enabled (kc_failover cfg)"
  by (auto simp: acquire_lease_def lease_config_of_def Let_def dest: map_sum_constant split: option.splits if_splits)

text \<open>
  C34. What a started collector runs: for every exchange as many minute loops and settlement sweeps
  as the exchange is listed, and one live task for each enabled venue that streams; and, exactly
  when the log is enabled, one drainer, which asks the lease exactly when failover is enabled, as
  the stores do. So the loop of an exchange is the only one that flushes its aggregator exactly
  when no exchange is listed twice; nothing refuses a list that does.
\<close>

theorem a_started_collector_runs_its_configuration:
  assumes "run_async sw uuid cfg = (tasks, Inr ())"
  shows "count_list tasks (Minute_Loop ex) = count_list (enabled_exchanges cfg) ex \<and>
    count_list tasks (Event_Sweep ex 1800 8) = count_list (enabled_exchanges cfg) ex \<and>
    count_list tasks (Live_Side ex) =
      (if ex \<in> set (enabled_exchanges cfg) \<and> ex \<in> {Bybit, Bitget, Hyperliquid, Okx} then 1 else 0) \<and>
    filter (\<lambda>t. case t of Drain_Worker _ _ _ \<Rightarrow> True | _ \<Rightarrow> False) tasks =
      (if wc_enabled (kc_wal cfg)
       then [Drain_Worker (wc_drain_interval_secs (kc_wal cfg)) (wc_follower_max_age_secs (kc_wal cfg))
               (oc_enabled (kc_failover cfg))]
       else [])"
proof -
  obtain gated drain where a: "acquire_lease sw uuid cfg = Inr gated" and d: "drain_tasks sw gated cfg = Inr drain"
    and tasks: "tasks = drain @ map Live_Side (live_exchanges cfg) @
      concat (map (\<lambda>ex. [Event_Sweep ex (30 * 60) 8, Minute_Loop ex]) (enabled_exchanges cfg))"
    using run_async_ok [OF assms] by blast
  have drain: "drain = (if wc_enabled (kc_wal cfg)
       then [Drain_Worker (wc_drain_interval_secs (kc_wal cfg)) (wc_follower_max_age_secs (kc_wal cfg))
               (oc_enabled (kc_failover cfg))]
       else [])"
    using d acquired [OF a] by (auto simp: drain_tasks_def Let_def dest: map_sum_constant split: if_splits)
  let ?loops = "concat (map (\<lambda>ex. [Event_Sweep ex (30 * 60) 8, Minute_Loop ex]) (enabled_exchanges cfg))"
  have live: "count_list (live_exchanges cfg) ex =
      (if ex \<in> set (enabled_exchanges cfg) \<and> ex \<in> {Bybit, Bitget, Hyperliquid, Okx} then 1 else 0)"
    by (auto simp: live_exchanges_def)
  have none: "count_list ?loops (Live_Side ex) = 0" by (simp add: count_list_0_iff)
  have drainers: "filter (\<lambda>t. case t of Drain_Worker _ _ _ \<Rightarrow> True | _ \<Rightarrow> False) (map Live_Side (live_exchanges cfg) @ ?loops) = []"
    by (auto simp: filter_empty_conv)
  have "count_list tasks (Minute_Loop ex) = count_list (enabled_exchanges cfg) ex"
    using count_loops [of "30 * 60" 8 "enabled_exchanges cfg" ex] by (simp add: tasks drain count_other)
  moreover have "count_list tasks (Event_Sweep ex 1800 8) = count_list (enabled_exchanges cfg) ex"
    using count_loops [of 1800 8 "enabled_exchanges cfg" ex] by (simp add: tasks drain count_other)
  moreover have "count_list tasks (Live_Side ex) =
      (if ex \<in> set (enabled_exchanges cfg) \<and> ex \<in> {Bybit, Bitget, Hyperliquid, Okx} then 1 else 0)"
    unfolding live [symmetric] using none by (simp add: tasks drain count_live)
  moreover have "filter (\<lambda>t. case t of Drain_Worker _ _ _ \<Rightarrow> True | _ \<Rightarrow> False) tasks = drain"
    using drainers by (simp add: tasks drain)
  ultimately show ?thesis using drain by simp
qed

text \<open>OKX listed twice: two loops share its aggregator.\<close>

theorem a_started_collector_runs_its_configuration_witness:
  "\<exists>tasks. run_async \<lparr>sw_schema = Inr (), sw_redis = Inr (), sw_lease = (\<lambda>_. Inr ()), sw_mkdir = (\<lambda>_. Inr ()), sw_adapter = (\<lambda>_. Inr ())\<rparr>
       ''a'' (minimal_collector\<lparr>kc_exchanges := [Okx, Okx]\<rparr>) = (tasks, Inr ()) \<and>
     count_list tasks (Minute_Loop Okx) = 2 \<and> count_list tasks (Live_Side Okx) = 1"
proof -
  let ?sw = "\<lparr>sw_schema = Inr (), sw_redis = Inr (), sw_lease = (\<lambda>_. Inr ()), sw_mkdir = (\<lambda>_. Inr ()), sw_adapter = (\<lambda>_. Inr ())\<rparr>"
  let ?cfg = "minimal_collector\<lparr>kc_exchanges := [Okx, Okx]\<rparr>"
  obtain tasks where t: "run_async ?sw ''a'' ?cfg = (tasks, Inr ())"
    by (simp add: run_async_def acquire_lease_def drain_tasks_def lease_config_of_def minimal_collector_def
        default_failover_cfg_def default_wal_cfg_def enabled_exchanges_def)
  moreover have "enabled_exchanges ?cfg = [Okx, Okx]" by (simp add: enabled_exchanges_def)
  ultimately show ?thesis using a_started_collector_runs_its_configuration [OF t, of Okx] by auto
qed

section \<open>The store of a configuration\<close>

lemma collector_store_keeps_its_promises:
  "acks_are_durable (upsert_snapshots ch) stored \<Longrightarrow>
     acks_are_durable (upsert_snapshots (collector_store k rc c ch g cfg)) (\<lambda>(r, w, t) b. b \<noteq> [] \<longrightarrow> stored t b)"
  unfolding collector_store_def by (rule acks_assemble)

end
