(* ===== verification/Tests_Core.thy ===== *)
theory Tests_Core
  imports Complex_Main Bars
begin

text \<open>
  The unit tests of \<open>oi-core\<close> and of \<open>common/bucket.rs\<close>, run on the model: each test function is
  a closed truth value, its assertions in their order, and the kernel evaluates it. Decimals are
  rationals, whose product never panics. (The tests that print a value as JSON and read it back are
  subsumed by the round trips proved of the encodings.)
\<close>

section \<open>Literals\<close>

definition rat_mul :: "rat \<Rightarrow> rat \<Rightarrow> rat rust" where
  "rat_mul a b = Ret (a * b)"

text \<open>\<open>dec!\<close> and \<open>Decimal::from_str\<close> on a plain decimal numeral.\<close>

fun dec_digits :: "int \<Rightarrow> string \<Rightarrow> int option" where
  "dec_digits acc [] = Some acc"
| "dec_digits acc (c # cs) =
     (let n = of_char c :: int in if 48 \<le> n \<and> n \<le> 57 then dec_digits (10 * acc + (n - 48)) cs else None)"

definition parse_unsigned_dec :: "string \<Rightarrow> rat option" where
  "parse_unsigned_dec s =
     (let (a, b) = (case split_first CHR ''.'' s of None \<Rightarrow> (s, []) | Some ab \<Rightarrow> ab)
      in if a @ b = [] then None
         else map_option (\<lambda>n. of_int n / 10 ^ length b) (dec_digits 0 (a @ b)))"

definition parse_dec :: "string \<Rightarrow> rat option" where
  "parse_dec s =
     (case s of
        [] \<Rightarrow> None
      | c # cs \<Rightarrow> if c = CHR ''-'' then map_option uminus (parse_unsigned_dec cs) else parse_unsigned_dec s)"

definition dec_lit :: "string \<Rightarrow> rat" where
  "dec_lit s = the (parse_dec s)"

text \<open>\<open>datetime!(y-m-d h:mi:s UTC)\<close>: days of the proleptic Gregorian calendar since the epoch.\<close>

definition utc :: "int \<Rightarrow> int \<Rightarrow> int \<Rightarrow> int \<Rightarrow> int \<Rightarrow> int \<Rightarrow> timestamp" where
  "utc y m d h mi s =
     (let y' = (if m \<le> 2 then y - 1 else y);
          era = y' div 400;
          yoe = y' - era * 400;
          doy = (153 * (if m > 2 then m - 3 else m + 9) + 2) div 5 + d - 1;
          days = era * 146097 + yoe * 365 + yoe div 4 - yoe div 100 + doy - 719468
      in seconds (((days * 24 + h) * 60 + mi) * 60 + s))"

lemma utc_epoch: "utc 1970 1 1 0 0 0 = 0" "utc 2000 3 1 0 0 0 = seconds 951868800"
  by (simp_all add: utc_def seconds_def Let_def)

definition is_ok :: "'e + 'a \<Rightarrow> bool" where
  "is_ok r = (case r of Inl e \<Rightarrow> False | Inr a \<Rightarrow> True)"

definition is_schema :: "exchange_error + 'a \<Rightarrow> bool" where
  "is_schema r = (case r of Inl (Schema m) \<Rightarrow> True | _ \<Rightarrow> False)"

section \<open>\<open>exchange.rs\<close>\<close>

definition code_roundtrip_for_every_exchange :: bool where
  "code_roundtrip_for_every_exchange \<longleftrightarrow> list_all (\<lambda>ex. exchange_from_str (exchange_code ex) = Inr ex) all_exchanges"

definition from_str_is_case_insensitive :: bool where
  "from_str_is_case_insensitive \<longleftrightarrow>
     exchange_from_str ''BINANCE'' = Inr Binance \<and> exchange_from_str ''BinGx'' = Inr BingX"

definition unknown_exchange_errors :: bool where
  "unknown_exchange_errors \<longleftrightarrow> \<not> is_ok (exchange_from_str ''deribit'')"

lemma exchange_tests: "code_roundtrip_for_every_exchange" "from_str_is_case_insensitive" "unknown_exchange_errors"
  by code_simp+

section \<open>\<open>unit.rs\<close>\<close>

definition coins_to_usd_uses_price :: bool where
  "coins_to_usd_uses_price \<longleftrightarrow> to_usd rat_mul Coins 10 None (Some 2000) = Ret (Some 20000)"

definition contracts_to_coins_requires_multiplier :: bool where
  "contracts_to_coins_requires_multiplier \<longleftrightarrow>
     to_coins rat_mul Contracts 100 (Some (1 / 100)) = Ret (Some 1) \<and> to_coins rat_mul Contracts 100 None = Ret None"

definition contracts_to_usd_multiplies_both :: bool where
  "contracts_to_usd_multiplies_both \<longleftrightarrow>
     to_usd rat_mul Contracts 100 (Some (1 / 100)) (Some 50000) = Ret (Some 50000)"

definition usd_native_returns_itself :: bool where
  "usd_native_returns_itself \<longleftrightarrow> to_usd rat_mul Usd 123456 None None = Ret (Some 123456)"

definition usd_cannot_be_converted_back_to_coins_without_price :: bool where
  "usd_cannot_be_converted_back_to_coins_without_price \<longleftrightarrow> to_coins rat_mul Usd 1000 None = Ret None"

lemma unit_tests:
  "coins_to_usd_uses_price" "contracts_to_coins_requires_multiplier" "contracts_to_usd_multiplies_both"
  "usd_native_returns_itself" "usd_cannot_be_converted_back_to_coins_without_price"
  by code_simp+

section \<open>\<open>instrument.rs\<close>, \<open>error.rs\<close>, \<open>common/bucket.rs\<close>\<close>

definition id_key_is_exchange_colon_symbol :: bool where
  "id_key_is_exchange_colon_symbol \<longleftrightarrow> instrument_key (new_instrument Binance ''BTCUSDT'') = ''binance:BTCUSDT''"

definition transient_and_ratelimited_are_retryable :: bool where
  "transient_and_ratelimited_are_retryable \<longleftrightarrow>
     is_retryable (Transient ''http'' ''502 bad gateway'') \<and> is_retryable (RateLimited (Some 1)) \<and>
     \<not> is_retryable (Auth ''bad sig'') \<and> \<not> is_retryable (Schema ''unknown field'')"

definition floor_zeroes_seconds_and_nanos :: bool where
  "floor_zeroes_seconds_and_nanos \<longleftrightarrow>
     floor_to_minute (utc 2026 4 24 10 15 37 + 123456000) = utc 2026 4 24 10 15 0"

definition floor_is_idempotent :: bool where
  "floor_is_idempotent \<longleftrightarrow> (let t = utc 2026 4 24 10 15 0 in floor_to_minute (floor_to_minute t) = t)"

definition next_minute_is_strictly_after :: bool where
  "next_minute_is_strictly_after \<longleftrightarrow>
     next_minute_after (utc 2026 4 24 10 15 0) = utc 2026 4 24 10 16 0 \<and>
     next_minute_after (utc 2026 4 24 10 15 59 + 999000000) = utc 2026 4 24 10 16 0"

lemma small_tests:
  "id_key_is_exchange_colon_symbol" "transient_and_ratelimited_are_retryable"
  "floor_zeroes_seconds_and_nanos" "floor_is_idempotent" "next_minute_is_strictly_after"
  by code_simp+

section \<open>\<open>snapshot.rs\<close>\<close>

definition meta_contracts :: "rat instrument_meta" where
  "meta_contracts =
     \<lparr>meta_id = new_instrument Okx ''BTC-USDT-SWAP'', meta_base_asset = ''BTC'', meta_quote_asset = ''USDT'',
      meta_is_perpetual = True, meta_native_unit = Contracts, meta_contract_multiplier = Some (1 / 100),
      meta_price_tick = Some (1 / 10), meta_qty_step = Some (1 / 100), meta_active = True\<rparr>"

definition raw_at :: "rat \<Rightarrow> timestamp \<Rightarrow> rat raw_oi" where
  "raw_at v recv_ts =
     \<lparr>raw_instrument = meta_id meta_contracts, raw_value = v, raw_unit = Contracts,
      raw_bucket_ts = utc 2026 4 24 10 0 0, raw_recv_ts = recv_ts, raw_price_hint = None\<rparr>"

definition sample_enrich_contracts_with_price_fills_both_columns :: bool where
  "sample_enrich_contracts_with_price_fills_both_columns \<longleftrightarrow>
     (case enrich rat_mul (raw_at 1000 (utc 2026 4 24 10 0 2)) meta_contracts (Some 50000) of
        Ret (Inr s) \<Rightarrow> s_oi_coins s = Some 10 \<and> s_oi_usd s = Some 500000
      | _ \<Rightarrow> False)"

definition sample_enrich_rejects_mismatched_instrument :: bool where
  "sample_enrich_rejects_mismatched_instrument \<longleftrightarrow>
     (let raw = (raw_at 1 (utc 2026 4 24 10 0 0))\<lparr>raw_instrument := new_instrument Binance ''BTCUSDT'', raw_unit := Coins\<rparr>
      in case enrich rat_mul raw meta_contracts None of Ret r \<Rightarrow> is_schema r | Panic \<Rightarrow> False)"

definition mk_sample :: "rat \<Rightarrow> rat option \<Rightarrow> timestamp \<Rightarrow> rat oi_sample" where
  "mk_sample v coins recv =
     \<lparr>s_instrument = meta_id meta_contracts, s_bucket_ts = utc 2026 4 24 10 0 0, s_recv_ts = recv, s_native_value = v,
      s_native_unit = Contracts, s_oi_coins = coins, s_oi_usd = None, s_price_used = None\<rparr>"

definition one_sample_yields_o_eq_h_eq_l_eq_c :: bool where
  "one_sample_yields_o_eq_h_eq_l_eq_c \<longleftrightarrow>
     (let bar = start_from_sample (mk_sample 100 (Some 1) (utc 2026 4 24 10 0 2))
      in b_samples bar = 1 \<and> b_native_open bar = 100 \<and> b_native_high bar = 100 \<and> b_native_low bar = 100 \<and>
         b_native_close bar = 100 \<and> b_oi_coins_open bar = Some 1 \<and> b_oi_coins_close bar = Some 1)"

definition ohlc_tracks_extremes_across_a_run_of_samples :: bool where
  "ohlc_tracks_extremes_across_a_run_of_samples \<longleftrightarrow>
     (case observe_all (start_from_sample (mk_sample 100 (Some 10) (utc 2026 4 24 10 0 1)))
             [mk_sample 105 (Some 11) (utc 2026 4 24 10 0 15), mk_sample 95 (Some 9) (utc 2026 4 24 10 0 30),
              mk_sample 102 (Some (102 / 10)) (utc 2026 4 24 10 0 45)] of
        Inl e \<Rightarrow> False
      | Inr bar \<Rightarrow>
          b_samples bar = 4 \<and> b_native_open bar = 100 \<and> b_native_high bar = 105 \<and> b_native_low bar = 95 \<and>
          b_native_close bar = 102 \<and> b_oi_coins_open bar = Some 10 \<and> b_oi_coins_high bar = Some 11 \<and>
          b_oi_coins_low bar = Some 9 \<and> b_oi_coins_close bar = Some (102 / 10) \<and>
          b_first_recv_ts bar = utc 2026 4 24 10 0 1 \<and> b_last_recv_ts bar = utc 2026 4 24 10 0 45)"

definition first_priced_sample_in_bar_initializes_optional_ohlc_after_unpriced_open :: bool where
  "first_priced_sample_in_bar_initializes_optional_ohlc_after_unpriced_open \<longleftrightarrow>
     (let bar = start_from_sample (mk_sample 100 None (utc 2026 4 24 10 0 1))
      in b_oi_coins_open bar = None \<and>
         (case observe bar (mk_sample 101 (Some 20) (utc 2026 4 24 10 0 15)) of
            Inl e \<Rightarrow> False
          | Inr bar \<Rightarrow> b_oi_coins_open bar = Some 20 \<and> b_oi_coins_high bar = Some 20 \<and> b_oi_coins_low bar = Some 20 \<and>
                       b_oi_coins_close bar = Some 20))"

definition observe_rejects_cross_bucket_sample :: bool where
  "observe_rejects_cross_bucket_sample \<longleftrightarrow>
     (let bar = start_from_sample (mk_sample 1 None (utc 2026 4 24 10 0 0));
          wrong = (mk_sample 2 None (utc 2026 4 24 10 1 0))\<lparr>s_bucket_ts := utc 2026 4 24 10 1 0\<rparr>
      in is_schema (observe bar wrong))"

lemma snapshot_tests:
  "sample_enrich_contracts_with_price_fills_both_columns" "sample_enrich_rejects_mismatched_instrument"
  "one_sample_yields_o_eq_h_eq_l_eq_c" "observe_rejects_cross_bucket_sample"
  by code_simp+

lemma ohlc_tests:
  "ohlc_tracks_extremes_across_a_run_of_samples"
  "first_priced_sample_in_bar_initializes_optional_ohlc_after_unpriced_open"
  by (simp_all add: ohlc_tracks_extremes_across_a_run_of_samples_def
      first_priced_sample_in_bar_initializes_optional_ohlc_after_unpriced_open_def
      mk_sample_def meta_contracts_def observe_def start_from_sample_def saturating_add_u32_def Let_def)

end
