(* ===== verification/Tests_Collector.thy ===== *)
theory Tests_Collector
  imports Tests_Core Aggregator Price_Provider Scheduler
begin

text \<open>
  The unit tests of \<open>price_provider.rs\<close>, \<open>aggregator.rs\<close> and \<open>scheduler.rs\<close>, run on the model.
\<close>

section \<open>\<open>price_provider.rs\<close>\<close>

definition mark_quote :: "exchange \<Rightarrow> string \<Rightarrow> int \<Rightarrow> timestamp \<Rightarrow> int price_quote" where
  "mark_quote ex symb price ts =
     \<lparr>quote_instrument = new_instrument ex symb, quote_price = price, quote_source = Mark, quote_ts = ts\<rparr>"

text \<open>A provider with a tolerance of five minutes, instruments registered in order, quotes ingested in order.\<close>

definition provider :: "(instrument_id \<times> string \<times> string) list \<Rightarrow> int price_quote list \<Rightarrow> int price_provider" where
  "provider insts quotes =
     ingest (fold (\<lambda>(i, b, q) p. register_instrument p i b q) insts (with_tolerance (minutes 5))) quotes"

definition recent_price_is_returned :: bool where
  "recent_price_is_returned \<longleftrightarrow>
     price_usd (provider [] [mark_quote Binance ''BTCUSDT'' 65000 (utc 2026 4 25 10 0 0)])
       (new_instrument Binance ''BTCUSDT'') (utc 2026 4 25 10 1 0) = Some 65000"

definition stale_price_is_suppressed :: bool where
  "stale_price_is_suppressed \<longleftrightarrow>
     price_usd (provider [] [mark_quote Binance ''BTCUSDT'' 65000 (utc 2026 4 25 10 0 0)])
       (new_instrument Binance ''BTCUSDT'') (utc 2026 4 25 11 0 0) = None"

definition fallback_finds_same_quote_family_first :: bool where
  "fallback_finds_same_quote_family_first \<longleftrightarrow>
     (let target = new_instrument Mexc ''BTC_USDT'';
          p = provider [(target, ''BTC'', ''USDT''), (new_instrument Bybit ''BTCUSDC'', ''BTC'', ''USDC''),
                        (new_instrument Binance ''BTCUSDT'', ''BTC'', ''USDT'')]
                [mark_quote Bybit ''BTCUSDC'' 64995 (utc 2026 4 25 10 0 0)]
      in price_usd_with_fallback p target ''BTC'' ''USDT'' (utc 2026 4 25 10 1 0) = Some (64995, Fallback Bybit True))"

definition loose_pass_picks_up_different_quote_family :: bool where
  "loose_pass_picks_up_different_quote_family \<longleftrightarrow>
     (let target = new_instrument Mexc ''BTC_USDT'';
          p = provider [(target, ''BTC'', ''USDT''), (new_instrument Binance ''BTCEUR'', ''BTC'', ''EUR'')]
                [mark_quote Binance ''BTCEUR'' 60000 (utc 2026 4 25 10 0 0)]
      in price_usd_with_fallback p target ''BTC'' ''USDT'' (utc 2026 4 25 10 1 0) = Some (60000, Fallback Binance False))"

definition strict_pass_beats_loose_when_both_available :: bool where
  "strict_pass_beats_loose_when_both_available \<longleftrightarrow>
     (let target = new_instrument Mexc ''BTC_USDT'';
          p = provider [(target, ''BTC'', ''USDT''), (new_instrument Binance ''BTCEUR'', ''BTC'', ''EUR''),
                        (new_instrument Bybit ''BTCUSDT'', ''BTC'', ''USDT'')]
                [mark_quote Binance ''BTCEUR'' 60000 (utc 2026 4 25 10 0 0), mark_quote Bybit ''BTCUSDT'' 64995 (utc 2026 4 25 10 0 0)]
      in price_usd_with_fallback p target ''BTC'' ''USDT'' (utc 2026 4 25 10 1 0) = Some (64995, Fallback Bybit True))"

definition native_price_wins_over_fallback :: bool where
  "native_price_wins_over_fallback \<longleftrightarrow>
     (let mexc = new_instrument Mexc ''BTC_USDT'';
          p = provider [(mexc, ''BTC'', ''USDT''), (new_instrument Binance ''BTCUSDT'', ''BTC'', ''USDT'')]
                [mark_quote Mexc ''BTC_USDT'' 64950 (utc 2026 4 25 10 0 0), mark_quote Binance ''BTCUSDT'' 65000 (utc 2026 4 25 10 0 0)]
      in price_usd_with_fallback p mexc ''BTC'' ''USDT'' (utc 2026 4 25 10 1 0) = Some (64950, Native))"

definition xbt_canonicalized_to_btc_for_kucoin :: bool where
  "xbt_canonicalized_to_btc_for_kucoin \<longleftrightarrow>
     (let kucoin = new_instrument KuCoin ''XBTUSDTM'';
          p = provider [(kucoin, ''XBT'', ''USDT''), (new_instrument Binance ''BTCUSDT'', ''BTC'', ''USDT'')]
                [mark_quote Binance ''BTCUSDT'' 65000 (utc 2026 4 25 10 0 0)]
      in price_usd_with_fallback p kucoin ''XBT'' ''USDT'' (utc 2026 4 25 10 1 0) = Some (65000, Fallback Binance True))"

definition fallback_returns_none_when_all_sources_stale :: bool where
  "fallback_returns_none_when_all_sources_stale \<longleftrightarrow>
     (let mexc = new_instrument Mexc ''BTC_USDT'';
          p = provider [(mexc, ''BTC'', ''USDT''), (new_instrument Binance ''BTCUSDT'', ''BTC'', ''USDT'')]
                [mark_quote Mexc ''BTC_USDT'' 64950 (utc 2026 4 25 9 0 0), mark_quote Binance ''BTCUSDT'' 65000 (utc 2026 4 25 9 0 0)]
      in price_usd_with_fallback p mexc ''BTC'' ''USDT'' (utc 2026 4 25 10 0 0) = None)"

definition declaration_order_priority_within_strict_pass :: bool where
  "declaration_order_priority_within_strict_pass \<longleftrightarrow>
     (let target = new_instrument Mexc ''BTC_USDT'';
          p = provider (map (\<lambda>i. (i, ''BTC'', ''USDT'')) [target, new_instrument Bybit ''BTCUSDT'', new_instrument Binance ''BTCUSDT''])
                [mark_quote Bybit ''BTCUSDT'' 64900 (utc 2026 4 25 10 0 0), mark_quote Binance ''BTCUSDT'' 65000 (utc 2026 4 25 10 0 0)]
      in price_usd_with_fallback p target ''BTC'' ''USDT'' (utc 2026 4 25 10 1 0) = Some (65000, Fallback Binance True))"

definition canonical_base_handles_known_aliases :: bool where
  "canonical_base_handles_known_aliases \<longleftrightarrow>
     canonical_base ''BTC'' = ''BTC'' \<and> canonical_base ''XBT'' = ''BTC'' \<and> canonical_base ''xbt'' = ''BTC'' \<and>
     canonical_base ''ETH'' = ''ETH''"

definition canonical_quote_collapses_usd_pegged_stables :: bool where
  "canonical_quote_collapses_usd_pegged_stables \<longleftrightarrow>
     list_all (\<lambda>q. canonical_quote q = ''USD-PEG'') [''USDT'', ''USDC'', ''BUSD'', ''FDUSD'', ''USD'', ''TUSD'', ''DAI''] \<and>
     canonical_quote ''usdt'' = ''USD-PEG'' \<and> canonical_quote ''EUR'' = ''EUR'' \<and> canonical_quote ''BTC'' = ''BTC''"

definition register_instrument_is_idempotent :: bool where
  "register_instrument_is_idempotent \<longleftrightarrow>
     (let i = new_instrument Binance ''BTCUSDT'';
          p = provider [(i, ''BTC'', ''USDT''), (i, ''BTC'', ''USDT''), (i, ''BTC'', ''USDT'')] []
      in map_option length (dm_get (pp_by_base p) ''BTC'') = Some 1)"

lemma price_provider_tests:
  "recent_price_is_returned" "stale_price_is_suppressed" "fallback_finds_same_quote_family_first"
  "loose_pass_picks_up_different_quote_family" "strict_pass_beats_loose_when_both_available"
  "native_price_wins_over_fallback" "xbt_canonicalized_to_btc_for_kucoin"
  "fallback_returns_none_when_all_sources_stale" "declaration_order_priority_within_strict_pass"
  "canonical_base_handles_known_aliases" "canonical_quote_collapses_usd_pegged_stables"
  "register_instrument_is_idempotent"
  by code_simp+

section \<open>\<open>aggregator.rs\<close>\<close>

definition coin_sample :: "int \<Rightarrow> timestamp \<Rightarrow> int oi_sample" where
  "coin_sample v recv =
     \<lparr>s_instrument = new_instrument Bybit ''BTCUSDT'', s_bucket_ts = utc 2026 4 25 10 0 0, s_recv_ts = recv, s_native_value = v,
      s_native_unit = Coins, s_oi_coins = Some v, s_oi_usd = Some (v * 64000), s_price_used = Some 64000\<rparr>"

definition first_observe_creates_bar_with_one_sample :: bool where
  "first_observe_creates_bar_with_one_sample \<longleftrightarrow>
     (let (agg, bar) = agg_observe [] (coin_sample 100 (utc 2026 4 25 10 0 1))
      in b_samples bar = 1 \<and> b_native_open bar = 100 \<and> b_native_close bar = 100 \<and> agg_len agg = 1)"

definition many_observes_in_same_minute_fold_into_one_bar :: bool where
  "many_observes_in_same_minute_fold_into_one_bar \<longleftrightarrow>
     (let (agg, bar) = agg_observe (agg_run [] [coin_sample 100 (utc 2026 4 25 10 0 1), coin_sample 105 (utc 2026 4 25 10 0 15),
            coin_sample 95 (utc 2026 4 25 10 0 30)]) (coin_sample 102 (utc 2026 4 25 10 0 45))
      in b_samples bar = 4 \<and> b_native_open bar = 100 \<and> b_native_high bar = 105 \<and> b_native_low bar = 95 \<and>
         b_native_close bar = 102 \<and> agg_len agg = 1)"

definition flush_through_drains_only_completed_buckets :: bool where
  "flush_through_drains_only_completed_buckets \<longleftrightarrow>
     (let other = \<lparr>s_instrument = new_instrument Okx ''BTC-USDT-SWAP'', s_bucket_ts = utc 2026 4 25 10 1 0,
            s_recv_ts = utc 2026 4 25 10 1 1, s_native_value = 200, s_native_unit = Coins, s_oi_coins = None, s_oi_usd = None,
            s_price_used = None\<rparr>;
          (agg, drained) = flush_through (agg_run [] [coin_sample 100 (utc 2026 4 25 10 0 1), other]) (utc 2026 4 25 10 0 0)
      in length drained = 1 \<and> id_exchange (b_instrument (drained ! 0)) = Bybit \<and> agg_len agg = 1)"

definition current_returns_in_progress_bar_without_mutating :: bool where
  "current_returns_in_progress_bar_without_mutating \<longleftrightarrow>
     (let agg = agg_run [] [coin_sample 100 (utc 2026 4 25 10 0 1), coin_sample 105 (utc 2026 4 25 10 0 15)]
      in (case agg_current agg (new_instrument Bybit ''BTCUSDT'') of
            None \<Rightarrow> False
          | Some peek \<Rightarrow> b_samples peek = 2 \<and> b_native_high peek = 105) \<and> agg_len agg = 1)"

definition bucket_roll_replaces_stale_bar_with_new_one :: bool where
  "bucket_roll_replaces_stale_bar_with_new_one \<longleftrightarrow>
     (let agg = agg_run [] [coin_sample 100 (utc 2026 4 25 10 0 1)];
          next_minute = (coin_sample 200 (utc 2026 4 25 10 1 1))\<lparr>s_bucket_ts := utc 2026 4 25 10 1 0\<rparr>;
          (agg', new_bar) = agg_observe agg next_minute
      in b_bucket_ts new_bar = utc 2026 4 25 10 1 0 \<and> b_samples new_bar = 1 \<and> b_native_open new_bar = 200 \<and> agg_len agg' = 1)"

definition flush_all_empties_the_aggregator :: bool where
  "flush_all_empties_the_aggregator \<longleftrightarrow>
     (let (agg, bars) = flush_all (agg_run [] [coin_sample 1 (utc 2026 4 25 10 0 1), coin_sample 2 (utc 2026 4 25 10 0 2)])
      in length bars = 1 \<and> b_samples (bars ! 0) = 2 \<and> agg_is_empty agg)"

lemmas aggregator_run =
  agg_observe_def agg_run_def agg_len_def agg_current_def agg_is_empty_def flush_through_def flush_all_def flush_keys_def
  dm_get_def dm_insert_def dm_remove_def dm_keys_def coin_sample_def observe_def start_from_sample_def
  saturating_add_u32_def utc_def seconds_def new_instrument_def Let_def

lemma aggregator_tests:
  "first_observe_creates_bar_with_one_sample" "many_observes_in_same_minute_fold_into_one_bar"
  "flush_through_drains_only_completed_buckets" "current_returns_in_progress_bar_without_mutating"
  "bucket_roll_replaces_stale_bar_with_new_one" "flush_all_empties_the_aggregator"
  by (simp_all add: first_observe_creates_bar_with_one_sample_def many_observes_in_same_minute_fold_into_one_bar_def
      flush_through_drains_only_completed_buckets_def current_returns_in_progress_bar_without_mutating_def
      bucket_roll_replaces_stale_bar_with_new_one_def flush_all_empties_the_aggregator_def aggregator_run)

section \<open>\<open>scheduler.rs\<close>\<close>

definition off :: duration where
  "off = seconds 2"

definition first_call_targets_the_already_closed_minute :: bool where
  "first_call_targets_the_already_closed_minute \<longleftrightarrow>
     (let (target, wait) = plan None (utc 2026 5 16 10 0 30) off in target = utc 2026 5 16 9 59 0 \<and> wait \<le> 0)"

definition steady_state_sleeps_to_next_aligned_deadline :: bool where
  "steady_state_sleeps_to_next_aligned_deadline \<longleftrightarrow>
     (let (target, wait) = plan (Some (utc 2026 5 16 10 0 0)) (utc 2026 5 16 10 1 5) off
      in target = utc 2026 5 16 10 1 0 \<and> wait = seconds 57)"

definition overrun_processes_the_next_minute_immediately_not_skipped :: bool where
  "overrun_processes_the_next_minute_immediately_not_skipped \<longleftrightarrow>
     (let (target, wait) = plan (Some (utc 2026 5 16 10 0 0)) (utc 2026 5 16 10 2 40) off
      in target = utc 2026 5 16 10 1 0 \<and> wait \<le> 0)"

fun produced_targets :: "nat \<Rightarrow> timestamp option \<Rightarrow> timestamp \<Rightarrow> timestamp list" where
  "produced_targets 0 prev now = []"
| "produced_targets (Suc n) prev now =
     (let (target, wait) = plan prev now off in target # produced_targets n (Some target) (now + seconds 86))"

definition no_skip_invariant_under_sustained_overrun :: bool where
  "no_skip_invariant_under_sustained_overrun \<longleftrightarrow>
     (let produced = produced_targets 10 (Some (utc 2026 5 16 10 0 0)) (utc 2026 5 16 10 1 28)
      in list_all (\<lambda>(a, b). b - a = minutes 1) (zip produced (tl produced)) \<and>
         hd produced = utc 2026 5 16 10 1 0 \<and> List.last produced = utc 2026 5 16 10 10 0)"

definition self_heals_back_to_aligned_cadence_after_a_spike :: bool where
  "self_heals_back_to_aligned_cadence_after_a_spike \<longleftrightarrow>
     (let (t1, w1) = plan (Some (utc 2026 5 16 10 0 0)) (utc 2026 5 16 10 2 40) off;
          (t2, w2) = plan (Some t1) (utc 2026 5 16 10 2 45) off
      in t1 = utc 2026 5 16 10 1 0 \<and> w1 \<le> 0 \<and> t2 = utc 2026 5 16 10 2 0 \<and> w2 = seconds 17)"

lemma scheduler_tests:
  "first_call_targets_the_already_closed_minute" "steady_state_sleeps_to_next_aligned_deadline"
  "overrun_processes_the_next_minute_immediately_not_skipped" "no_skip_invariant_under_sustained_overrun"
  "self_heals_back_to_aligned_cadence_after_a_spike"
  by code_simp+

section \<open>\<open>live.rs\<close>, \<open>backfill.rs\<close>\<close>

definition floor_to_minute_is_correct :: bool where
  "floor_to_minute_is_correct \<longleftrightarrow> floor_to_minute (utc 2026 4 25 10 15 37 + 500000000) = utc 2026 4 25 10 15 0"

definition floor_to_minute_zeroes_sub_minute_components :: bool where
  "floor_to_minute_zeroes_sub_minute_components \<longleftrightarrow>
     floor_to_minute (utc 2026 4 24 10 15 37 + 500000000) = utc 2026 4 24 10 15 0"

lemma floor_tests: "floor_to_minute_is_correct" "floor_to_minute_zeroes_sub_minute_components"
  by code_simp+

end
