(* ===== verification/Tests_Streams.thy ===== *)
theory Tests_Streams
  imports Tests_Core Live Ws_Handlers
begin

text \<open>
  The unit tests of the stream parsers \<open>stream.rs\<close> of the four streaming venues and of their
  WebSocket handlers \<open>ws.rs\<close>, run on the model (the tests that only read back an endpoint constant
  are left out). A frame is the value the text of the test denotes.
\<close>

section \<open>\<open>bybit/stream.rs\<close>\<close>

definition ticker_frame :: "string \<Rightarrow> string \<Rightarrow> string \<Rightarrow> json" where
  "ticker_frame symb oi mark =
     JObject [(''topic'', JString (''tickers.'' @ symb)), (''type'', JString ''snapshot''), (''ts'', JNumber ''1714000000000''),
       (''data'', JObject [(''symbol'', JString symb), (''openInterest'', JString oi), (''markPrice'', JString mark),
                          (''lastPrice'', JString mark)])]"

definition delta_frame :: "string \<Rightarrow> (string \<times> json) list \<Rightarrow> json" where
  "delta_frame symb kvs =
     JObject [(''topic'', JString (''tickers.'' @ symb)), (''type'', JString ''delta''), (''ts'', JNumber ''1714000000500''),
       (''data'', JObject kvs)]"

definition frame_data :: "json \<Rightarrow> json" where
  "frame_data f = the (json_get f ''data'')"

definition merged :: "rat symbol_state" where
  "merged = fst (merge_frame parse_dec FSnapshot (frame_data (ticker_frame ''BTCUSDT'' ''100.0'' ''64000.0'')) default_state)"

definition classifies_snapshot_and_delta :: bool where
  "classifies_snapshot_and_delta \<longleftrightarrow>
     classify_frame (ticker_frame ''BTCUSDT'' ''1.0'' ''64000'') = Some (FSnapshot, ''BTCUSDT'') \<and>
     map_option fst (classify_frame (delta_frame ''BTCUSDT'' [(''openInterest'', JString ''2.0'')])) = Some FDelta"

definition snapshot_populates_all_fields :: bool where
  "snapshot_populates_all_fields \<longleftrightarrow>
     (let (st, changed) = merge_frame parse_dec FSnapshot (frame_data (ticker_frame ''BTCUSDT'' ''100.0'' ''64000.0'')) default_state
      in changed = Some 100 \<and> open_interest st = Some 100 \<and> mark_price st = Some 64000)"

definition delta_oi_change_signals_emit :: bool where
  "delta_oi_change_signals_emit \<longleftrightarrow>
     snd (merge_frame parse_dec FDelta (frame_data (delta_frame ''BTCUSDT'' [(''openInterest'', JString ''110.0'')])) merged) = Some 110"

definition delta_without_oi_change_is_silent :: bool where
  "delta_without_oi_change_is_silent \<longleftrightarrow>
     (let (st, changed) = merge_frame parse_dec FDelta (frame_data (delta_frame ''BTCUSDT'' [(''markPrice'', JString ''64100.0'')])) merged
      in changed = None \<and> mark_price st = Some 64100)"

definition delta_with_same_oi_is_silent :: bool where
  "delta_with_same_oi_is_silent \<longleftrightarrow>
     snd (merge_frame parse_dec FDelta (frame_data (delta_frame ''BTCUSDT'' [(''openInterest'', JString ''100.0'')])) merged) = None"

definition to_raw_uses_mark_price_hint_when_available :: bool where
  "to_raw_uses_mark_price_hint_when_available \<longleftrightarrow>
     (case bybit_to_raw merged ''BTCUSDT'' (utc 2026 4 24 10 0 0) (utc 2026 4 24 10 0 5) of
        None \<Rightarrow> False
      | Some raw \<Rightarrow> raw_value raw = 100 \<and> map_option quote_source (raw_price_hint raw) = Some Mark)"

definition enrich_computes_usd_from_coins_and_price :: bool where
  "enrich_computes_usd_from_coins_and_price \<longleftrightarrow>
     (let i = new_instrument Bybit ''BTCUSDT''; t = utc 2026 4 24 10 0 0;
          raw = \<lparr>raw_instrument = i, raw_value = 100, raw_unit = Coins, raw_bucket_ts = t, raw_recv_ts = t,
                 raw_price_hint = Some \<lparr>quote_instrument = i, quote_price = 64000, quote_source = Mark, quote_ts = t\<rparr>\<rparr>
      in case enrich_coins rat_mul raw of
           Panic \<Rightarrow> False
         | Ret snap \<Rightarrow> s_oi_coins snap = Some 100 \<and> s_oi_usd snap = Some 6400000)"

lemma bybit_stream_tests:
  "classifies_snapshot_and_delta" "snapshot_populates_all_fields" "delta_oi_change_signals_emit"
  "delta_without_oi_change_is_silent" "delta_with_same_oi_is_silent" "to_raw_uses_mark_price_hint_when_available"
  "enrich_computes_usd_from_coins_and_price"
  by code_simp+

section \<open>\<open>okx/stream.rs\<close>\<close>

definition okx_frame :: "string \<Rightarrow> (string \<times> json) list \<Rightarrow> json" where
  "okx_frame channel row =
     JObject [(''arg'', JObject [(''channel'', JString channel), (''instId'', JString ''BTC-USDT-SWAP'')]),
              (''data'', JArray [JObject row])]"

definition extracts_instid_and_coins_from_open_interest_push :: bool where
  "extracts_instid_and_coins_from_open_interest_push \<longleftrightarrow>
     okx_extract parse_dec (okx_frame ''open-interest''
       [(''instType'', JString ''SWAP''), (''instId'', JString ''BTC-USDT-SWAP''), (''oi'', JString ''123456''),
        (''oiCcy'', JString ''1234.56''), (''ts'', JString ''1714000000000'')]) = Some (''BTC-USDT-SWAP'', dec_lit ''1234.56'')"

definition ignores_non_open_interest_channel :: bool where
  "ignores_non_open_interest_channel \<longleftrightarrow>
     okx_extract parse_dec (okx_frame ''tickers'' [(''instId'', JString ''BTC-USDT-SWAP''), (''oiCcy'', JString ''1.0'')]) = None"

definition ignores_empty_data :: bool where
  "ignores_empty_data \<longleftrightarrow>
     okx_extract parse_dec (JObject [(''arg'', JObject [(''channel'', JString ''open-interest'')]), (''data'', JArray [])]) = None"

definition ignores_missing_oiccy :: bool where
  "ignores_missing_oiccy \<longleftrightarrow>
     okx_extract parse_dec (okx_frame ''open-interest'' [(''instId'', JString ''BTC-USDT-SWAP''), (''oi'', JString ''1'')]) = None"

definition enrich_copies_coins_and_leaves_usd_null :: bool where
  "enrich_copies_coins_and_leaves_usd_null \<longleftrightarrow>
     (let snap = enrich_okx (okx_to_raw ''BTC-USDT-SWAP'' (dec_lit ''1234.56'') (utc 2026 4 24 10 15 37))
      in s_native_value snap = dec_lit ''1234.56'' \<and> s_oi_coins snap = Some (dec_lit ''1234.56'') \<and> s_oi_usd snap = None \<and>
         s_bucket_ts snap = utc 2026 4 24 10 15 0)"

lemma okx_stream_tests:
  "extracts_instid_and_coins_from_open_interest_push" "ignores_non_open_interest_channel" "ignores_empty_data"
  "ignores_missing_oiccy" "enrich_copies_coins_and_leaves_usd_null"
  by code_simp+

section \<open>\<open>bitget/stream.rs\<close> and \<open>hyperliquid/stream.rs\<close>\<close>

definition extracts_oi_and_mark_price_from_ticker_push :: bool where
  "extracts_oi_and_mark_price_from_ticker_push \<longleftrightarrow>
     bitget_extract parse_dec (JObject
       [(''action'', JString ''snapshot''),
        (''arg'', JObject [(''instType'', JString ''USDT-FUTURES''), (''channel'', JString ''ticker''), (''instId'', JString ''BTCUSDT'')]),
        (''data'', JArray [JObject [(''instId'', JString ''BTCUSDT''), (''last'', JString ''64000''), (''markPrice'', JString ''64001''),
                                   (''holdingAmount'', JString ''12345.67''), (''ts'', JString ''1714000000000'')]])])
       = Some (''BTCUSDT'', dec_lit ''12345.67'', Some 64001)"

definition ignores_non_ticker_channel :: bool where
  "ignores_non_ticker_channel \<longleftrightarrow>
     bitget_extract parse_dec (JObject
       [(''arg'', JObject [(''channel'', JString ''trade''), (''instId'', JString ''BTCUSDT'')]),
        (''data'', JArray [JObject [(''instId'', JString ''BTCUSDT''), (''holdingAmount'', JString ''1'')]])]) = None"

definition enrich_computes_usd_when_price_present :: bool where
  "enrich_computes_usd_when_price_present \<longleftrightarrow>
     (case enrich_coins rat_mul (bitget_to_raw ''BTCUSDT'' 100 (Some 64000) (utc 2026 4 24 10 15 37)) of
        Panic \<Rightarrow> False
      | Ret snap \<Rightarrow> s_oi_coins snap = Some 100 \<and> s_oi_usd snap = Some 6400000 \<and> s_bucket_ts snap = utc 2026 4 24 10 15 0)"

definition extracts_coin_oi_and_markpx :: bool where
  "extracts_coin_oi_and_markpx \<longleftrightarrow>
     hyperliquid_extract parse_dec (JObject
       [(''channel'', JString ''activeAssetCtx''),
        (''data'', JObject [(''coin'', JString ''BTC''),
           (''ctx'', JObject [(''markPx'', JString ''64000''), (''openInterest'', JString ''1234.5''), (''oraclePx'', JString ''64001'')])])])
       = Some (''BTC'', dec_lit ''1234.5'', Some 64000)"

definition ignores_other_channels :: bool where
  "ignores_other_channels \<longleftrightarrow>
     hyperliquid_extract parse_dec (JObject [(''channel'', JString ''l2Book''), (''data'', JObject [])]) = None"

definition enrich_produces_usd_from_coins_times_markpx :: bool where
  "enrich_produces_usd_from_coins_times_markpx \<longleftrightarrow>
     (case enrich_coins rat_mul (hyperliquid_to_raw ''BTC'' 100 (Some 64000) (utc 2026 4 24 10 15 0)) of
        Panic \<Rightarrow> False
      | Ret snap \<Rightarrow> s_oi_coins snap = Some 100 \<and> s_oi_usd snap = Some 6400000)"

lemma other_stream_tests:
  "extracts_oi_and_mark_price_from_ticker_push" "ignores_non_ticker_channel" "enrich_computes_usd_when_price_present"
  "extracts_coin_oi_and_markpx" "ignores_other_channels" "enrich_produces_usd_from_coins_times_markpx"
  by code_simp+

section \<open>The handlers\<close>

text \<open>Only the lengths of the chunks are asserted, so numbers stand for the formatted symbols.\<close>

definition topics_are_formatted_with_prefix :: bool where
  "topics_are_formatted_with_prefix \<longleftrightarrow> bybit_topics [''BTCUSDT'', ''ETHUSDT''] = [''tickers.BTCUSDT'', ''tickers.ETHUSDT'']"

definition topic_chunks_respect_arg_cap :: bool where
  "topic_chunks_respect_arg_cap \<longleftrightarrow> map length (chunks max_bybit_args [0 ..< 25]) = [max_bybit_args, max_bybit_args, 5]"

definition chunking_respects_arg_cap :: bool where
  "chunking_respects_arg_cap \<longleftrightarrow>
     (let cs = map length (chunks max_okx_args [0 ..< 100]) in length cs = 3 \<and> cs ! 0 = max_okx_args \<and> cs ! 2 = 20)"

definition arg_chunks_respect_cap :: bool where
  "arg_chunks_respect_cap \<longleftrightarrow>
     (let cs = map length (chunks max_bitget_args [0 ..< 120]) in length cs = 3 \<and> cs ! 0 = max_bitget_args \<and> cs ! 2 = 20)"

definition handler_defaults_are_reasonable :: bool where
  "handler_defaults_are_reasonable \<longleftrightarrow> default_ping_interval = seconds 20 \<and> default_idle_timeout = seconds 60"

lemma handler_tests:
  "topics_are_formatted_with_prefix" "topic_chunks_respect_arg_cap" "chunking_respects_arg_cap" "arg_chunks_respect_cap"
  "handler_defaults_are_reasonable"
  by code_simp+

end
