(* ===== verification/Tests_Storage.thy ===== *)
theory Tests_Storage
  imports Tests_Core Composite Schema_Sql "HOL-Library.Code_Target_Nat"
begin

text \<open>
  The unit tests of \<open>oi-storage\<close> (\<open>wal.rs\<close>, \<open>leader_gated.rs\<close>, \<open>clickhouse.rs\<close>, \<open>redis.rs\<close>, \<open>pubsub.rs\<close>),
  run on the model. The log is opened empty at a fixed clock; the tests that sleep move the
  clock, and the reaper's test starts later than the ten minutes by which it dates a file back. Naturals
  are evaluated as binary numbers. A payload is one byte, the number of its bars, all of them the bar of the test, and its
  checksum a sum: the tests use no other property of the encoding. The branches for corrupt and
  for failing files that the tests do not reach are covered by the lemmas of \<open>Wal\<close> and \<open>Drainer\<close>.
\<close>

section \<open>\<open>wal.rs\<close>: the fixtures\<close>

definition sample_snap :: "rat oi_snapshot" where
  "sample_snap =
     \<lparr>b_instrument = new_instrument Binance ''BTCUSDT'', b_bucket_ts = utc 2026 4 24 10 0 0,
      b_first_recv_ts = utc 2026 4 24 10 0 2, b_last_recv_ts = utc 2026 4 24 10 0 2, b_samples = 1, b_native_unit = Coins,
      b_native_open = 100, b_native_high = 100, b_native_low = 100, b_native_close = 100,
      b_oi_coins_open = Some 100, b_oi_coins_high = Some 100, b_oi_coins_low = Some 100, b_oi_coins_close = Some 100,
      b_oi_usd_open = Some 6400000, b_oi_usd_high = Some 6400000, b_oi_usd_low = Some 6400000, b_oi_usd_close = Some 6400000,
      b_price_used_close = Some 64000\<rparr>"

definition count_codec :: "rat codec" where
  "count_codec =
     \<lparr>enc_batch = (\<lambda>snaps. Inr [of_nat (length snaps)]),
      dec_batch = (\<lambda>bs. case bs of [n] \<Rightarrow> Inr (replicate (unat n) sample_snap) | _ \<Rightarrow> Inl ''length''),
      crc32 = (\<lambda>bs. fold (\<lambda>b a. a + ucast b) bs 0)\<rparr>"

definition fresh_wal :: wal_state where
  "fresh_wal = \<lparr>wal_files = [], wal_faults = [], wal_clock = 1000, wal_counter = 0, wal_pid = 7\<rparr>"

definition sleep_ms :: "int \<Rightarrow> wal_state \<Rightarrow> wal_state" where
  "sleep_ms d s = s\<lparr>wal_clock := wal_clock s + d\<rparr>"

text \<open>\<open>unwrap\<close>: the next step of a test, which fails when the call did.\<close>

definition unwrap_then :: "'s \<times> ('e + 'a) \<Rightarrow> ('a \<Rightarrow> 's \<Rightarrow> bool) \<Rightarrow> bool" where
  "unwrap_then p k = (case p of (s, Inl e) \<Rightarrow> False | (s, Inr a) \<Rightarrow> k a s)"

definition append_one :: "wal_state \<Rightarrow> wal_state \<times> (core_error + string)" where
  "append_one = wal_append count_codec [sample_snap]"

section \<open>\<open>wal.rs\<close>: the log\<close>

definition append_read_ack_roundtrip :: bool where
  "append_read_ack_roundtrip \<longleftrightarrow>
     unwrap_then (append_one fresh_wal) (\<lambda>path s.
     unwrap_then (wal_pending s) (\<lambda>pending s.
       pending = [path] \<and>
     unwrap_then (wal_read count_codec path s) (\<lambda>replay s.
       replay = [sample_snap] \<and>
     unwrap_then (wal_ack path s) (\<lambda>_ s.
     unwrap_then (wal_pending s) (\<lambda>pending s. pending = [])))))"

definition ack_of_missing_file_is_idempotent :: bool where
  "ack_of_missing_file_is_idempotent \<longleftrightarrow>
     unwrap_then (append_one fresh_wal) (\<lambda>path s.
     unwrap_then (wal_ack path s) (\<lambda>_ s.
     unwrap_then (wal_ack path s) (\<lambda>_ s. True)))"

definition pending_is_sorted_chronologically :: bool where
  "pending_is_sorted_chronologically \<longleftrightarrow>
     unwrap_then (append_one fresh_wal) (\<lambda>a s.
     unwrap_then (append_one (sleep_ms 5 s)) (\<lambda>b s.
     unwrap_then (wal_pending s) (\<lambda>pending s. pending = [a, b])))"

definition append_writes_oiw1_framed_file :: bool where
  "append_writes_oiw1_framed_file \<longleftrightarrow>
     unwrap_then (append_one fresh_wal) (\<lambda>path s.
     unwrap_then (os_read path s) (\<lambda>raw s.
       frame_header_len < length raw \<and> take 4 raw = frame_magic \<and>
       from_be_bytes (take 4 (drop 4 raw)) = crc32 count_codec (drop frame_header_len raw)))"

definition read_rejects_corrupted_payload :: bool where
  "read_rejects_corrupted_payload \<longleftrightarrow>
     unwrap_then (append_one fresh_wal) (\<lambda>path s.
     unwrap_then (os_read path s) (\<lambda>raw s.
       snd (wal_read count_codec path (put_file path (butlast raw @ [last raw XOR 0xFF]) s)) = Inl (Storage ''wal crc mismatch'')))"

definition read_accepts_legacy_unframed_msgpack :: bool where
  "read_accepts_legacy_unframed_msgpack \<longleftrightarrow>
     (case enc_batch count_codec [sample_snap] of
        Inl e \<Rightarrow> False
      | Inr payload \<Rightarrow>
          unwrap_then (wal_read count_codec ''0-deadbeef-1.mpk'' (put_file ''0-deadbeef-1.mpk'' payload fresh_wal))
            (\<lambda>read_back s. read_back = [sample_snap]))"

lemma wal_log_tests: "append_read_ack_roundtrip" "ack_of_missing_file_is_idempotent" "pending_is_sorted_chronologically"
  by code_simp+

lemma wal_frame_tests:
  "append_writes_oiw1_framed_file" "read_rejects_corrupted_payload" "read_accepts_legacy_unframed_msgpack"
  by code_simp+

section \<open>\<open>wal.rs\<close>: reaping and ages\<close>

definition parse_ts_ms_handles_real_filenames_and_garbage :: bool where
  "parse_ts_ms_handles_real_filenames_and_garbage \<longleftrightarrow>
     parse_ts_ms ''1714000000000-2a3f-0.mpk'' = Some 1714000000000 \<and> parse_ts_ms ''0-deadbeef-1.mpk'' = Some 0 \<and>
     parse_ts_ms ''nodashhere.mpk'' = None \<and> parse_ts_ms ''notanumber-x-y.mpk'' = None"

definition reap_deletes_files_older_than_max_age :: bool where
  "reap_deletes_files_older_than_max_age \<longleftrightarrow>
     unwrap_then (append_one (fresh_wal\<lparr>wal_clock := 9000000\<rparr>)) (\<lambda>recent s.
       let old_path = final_name (nat (wal_clock s - 10 * 60 * 1000)) ''deadbeef-1''
       in case enc_batch count_codec [sample_snap] of
            Inl e \<Rightarrow> False
          | Inr payload \<Rightarrow>
              unwrap_then (reap_older_than (5 * 60 * 1000) (put_file old_path (frame count_codec payload) s)) (\<lambda>n s.
                n = 1 \<and> wal_file s old_path = None \<and> wal_file s recent \<noteq> None))"

definition reap_is_a_noop_when_queue_is_empty_or_young :: bool where
  "reap_is_a_noop_when_queue_is_empty_or_young \<longleftrightarrow>
     unwrap_then (reap_older_than 60000 fresh_wal) (\<lambda>n s.
       n = 0 \<and>
     unwrap_then (append_one s) (\<lambda>path s.
     unwrap_then (reap_older_than 3600000 s) (\<lambda>n s. n = 0)))"

definition oldest_pending_age_is_none_when_empty_else_monotone :: bool where
  "oldest_pending_age_is_none_when_empty_else_monotone \<longleftrightarrow>
     unwrap_then (oldest_pending_age fresh_wal) (\<lambda>a s.
       a = None \<and>
     unwrap_then (append_one s) (\<lambda>path s.
     unwrap_then (oldest_pending_age s) (\<lambda>a1 s.
     unwrap_then (oldest_pending_age (sleep_ms 20 s)) (\<lambda>a2 s.
       a1 \<noteq> None \<and> a2 \<noteq> None \<and> the a1 \<le> the a2))))"

definition oldest_pending_age_tracks_oldest_not_newest :: bool where
  "oldest_pending_age_tracks_oldest_not_newest \<longleftrightarrow>
     unwrap_then (append_one fresh_wal) (\<lambda>oldest s.
     unwrap_then (append_one (sleep_ms 50 s)) (\<lambda>newest s.
     unwrap_then (oldest_pending_age s) (\<lambda>age s.
       age \<noteq> None \<and> 50 \<le> the age \<and>
     unwrap_then (wal_ack oldest s) (\<lambda>_ s.
     unwrap_then (oldest_pending_age s) (\<lambda>age_after s.
       age_after \<noteq> None \<and> the age_after < the age)))))"

lemma wal_reap_test: "reap_deletes_files_older_than_max_age"
  by code_simp

lemma wal_age_tests:
  "parse_ts_ms_handles_real_filenames_and_garbage"
  "reap_is_a_noop_when_queue_is_empty_or_young" "oldest_pending_age_is_none_when_empty_else_monotone"
  "oldest_pending_age_tracks_oldest_not_newest"
  by code_simp+

section \<open>\<open>wal.rs\<close>: the drainer and the durable repository\<close>

text \<open>The repositories of the tests: what their four mandatory methods do, over a counter of calls and rows.\<close>

definition stub_repo :: "('d oi_snapshot list \<Rightarrow> ('s, unit) io) \<Rightarrow> ('s, 'd) oi_repository" where
  "stub_repo upsert = without_funding
     \<lparr>upsert_snapshots = upsert, upsert_instruments = (\<lambda>_ s. (s, Inr ())),
      range_snapshots = (\<lambda>_ _ _ _. Inr []), latest_snapshot = (\<lambda>_ _. Inr None),
      upsert_funding = (\<lambda>_ s. (s, Inr ())), funding_range = (\<lambda>_ _ _ _. Inr []), latest_funding = (\<lambda>_ _. Inr None),
      upsert_funding_events = (\<lambda>_ s. (s, Inr ())), funding_events_range = (\<lambda>_ _ _ _. Inr []),
      latest_funding_event = (\<lambda>_ _. Inr None)\<rparr>"

definition counting_repo :: "(nat \<times> nat, rat) oi_repository" where
  "counting_repo = stub_repo (\<lambda>snaps (calls, rows). ((calls + 1, rows + length snaps), Inr ()))"

definition failing_repo :: "(unit, rat) oi_repository" where
  "failing_repo = stub_repo (\<lambda>_ s. (s, Inl (Storage ''synthetic downstream failure'')))"

definition drainer_acks_successful_inner_write :: bool where
  "drainer_acks_successful_inner_write \<longleftrightarrow>
     unwrap_then (append_one fresh_wal) (\<lambda>a s.
     unwrap_then (wal_append count_codec [sample_snap, sample_snap] s) (\<lambda>b s.
     unwrap_then (wal_pending s) (\<lambda>pending s.
       length pending = 2 \<and>
     unwrap_then (drain_once count_codec (upsert_snapshots counting_repo) (s, (0, 0))) (\<lambda>_ (s, counted).
     unwrap_then (wal_pending s) (\<lambda>pending s. pending = [] \<and> counted = (2, 3))))))"

definition drainer_stops_on_first_failure_and_leaves_files :: bool where
  "drainer_stops_on_first_failure_and_leaves_files \<longleftrightarrow>
     unwrap_then (append_one fresh_wal) (\<lambda>a s.
     unwrap_then (append_one s) (\<lambda>b s.
     (case drain_once count_codec (upsert_snapshots failing_repo) (s, ()) of
        (_, Inr _) \<Rightarrow> False
      | ((s, _), Inl err) \<Rightarrow>
          err = Storage ''synthetic downstream failure'' \<and>
          unwrap_then (wal_pending s) (\<lambda>pending s. length pending = 2))))"

text \<open>The repository of the last test panics when called: here it fails, and the write returns \<open>Ok\<close>.\<close>

definition empty_batch_is_a_noop :: bool where
  "empty_batch_is_a_noop \<longleftrightarrow>
     unwrap_then (upsert_snapshots (wal_backed count_codec failing_repo) [] (fresh_wal, ())) (\<lambda>_ s. s = (fresh_wal, ()))"

lemma wal_drainer_tests:
  "drainer_acks_successful_inner_write" "drainer_stops_on_first_failure_and_leaves_files" "empty_batch_is_a_noop"
  by code_simp+

section \<open>\<open>leader_gated.rs\<close>\<close>

text \<open>The state is the leadership flag and the number of upserts of the inner repository.\<close>

definition counting_inner :: "(bool \<times> nat, rat) oi_repository" where
  "counting_inner = stub_repo (\<lambda>_ (leader, upserts). ((leader, upserts + 1), Inr ()))"

definition gated_snap :: "rat oi_snapshot" where
  "gated_snap =
     \<lparr>b_instrument = new_instrument Binance ''BTCUSDT'', b_bucket_ts = utc 2026 4 25 0 0 0,
      b_first_recv_ts = utc 2026 4 25 0 0 1, b_last_recv_ts = utc 2026 4 25 0 0 1, b_samples = 1, b_native_unit = Coins,
      b_native_open = 1, b_native_high = 1, b_native_low = 1, b_native_close = 1,
      b_oi_coins_open = Some 1, b_oi_coins_high = Some 1, b_oi_coins_low = Some 1, b_oi_coins_close = Some 1,
      b_oi_usd_open = None, b_oi_usd_high = None, b_oi_usd_low = None, b_oi_usd_close = None,
      b_price_used_close = None\<rparr>"

definition leader_passes_writes_through :: bool where
  "leader_passes_writes_through \<longleftrightarrow>
     unwrap_then (upsert_snapshots (leader_gated counting_inner fst) [gated_snap] (True, 0)) (\<lambda>_ (leader, upserts). upserts = 1)"

definition follower_returns_err_and_skips_inner :: bool where
  "follower_returns_err_and_skips_inner \<longleftrightarrow>
     upsert_snapshots (leader_gated counting_inner fst) [gated_snap] (False, 0) = ((False, 0), Inl (Storage ''not leader''))"

definition read_paths_pass_through_regardless_of_leadership :: bool where
  "read_paths_pass_through_regardless_of_leadership \<longleftrightarrow>
     (let repo = leader_gated counting_inner fst; i = new_instrument Binance ''BTCUSDT''
      in is_ok (range_snapshots repo i (utc 2026 4 25 0 0 0) (utc 2026 4 25 1 0 0) (False, 0)) \<and>
         is_ok (latest_snapshot repo i (False, 0)))"

definition gate_can_flip_at_runtime :: bool where
  "gate_can_flip_at_runtime \<longleftrightarrow>
     (let repo = leader_gated counting_inner fst
      in case upsert_snapshots repo [gated_snap] (False, 0) of ((_, upserts), r) \<Rightarrow>
           \<not> is_ok r \<and>
           unwrap_then (upsert_snapshots repo [gated_snap] (True, upserts)) (\<lambda>_ (leader, upserts). upserts = 1))"

lemma leader_gated_tests:
  "leader_passes_writes_through" "follower_returns_err_and_skips_inner"
  "read_paths_pass_through_regardless_of_leadership" "gate_can_flip_at_runtime"
  by code_simp+

section \<open>\<open>clickhouse.rs\<close>, \<open>redis.rs\<close> and \<open>pubsub.rs\<close>\<close>

definition split_sql_produces_multiple_statements :: bool where
  "split_sql_produces_multiple_statements \<longleftrightarrow>
     length (split_sql (''CREATE TABLE a(x Int64) ENGINE=Memory;'' @ [newline, newline] @ ''-- comment only'' @ [newline] @
       '';'' @ [newline] @ ''CREATE TABLE b(y Int64) ENGINE=Memory;'')) = 2"

definition split_sql_ignores_semicolons_inside_line_comments :: bool where
  "split_sql_ignores_semicolons_inside_line_comments \<longleftrightarrow>
     (let parts = split_sql (''-- header: (note about A; and about B).'' @ [newline] @
        ''CREATE TABLE a(x Int64) ENGINE=Memory;'' @ [newline] @ ''-- another with ; in it.'' @ [newline] @
        ''CREATE TABLE b(y Int64) ENGINE=Memory;'' @ [newline])
      in length parts = 2 \<and> starts_with (parts ! 0) ''CREATE TABLE a'' \<and> starts_with (parts ! 1) ''CREATE TABLE b'')"

definition latest_key_is_stable :: bool where
  "latest_key_is_stable \<longleftrightarrow> latest_key (new_instrument Binance ''BTCUSDT'') = ''oi:latest:binance:BTCUSDT''"

definition channel_names_are_stable :: bool where
  "channel_names_are_stable \<longleftrightarrow>
     firehose_channel = ''oi:stream'' \<and> exchange_channel Binance = ''oi:stream:binance'' \<and>
     exchange_channel Hyperliquid = ''oi:stream:hyperliquid''"

lemma storage_text_tests:
  "split_sql_produces_multiple_statements" "split_sql_ignores_semicolons_inside_line_comments"
  "latest_key_is_stable" "channel_names_are_stable"
  by code_simp+

end
