(* ===== verification/Tests_Adapters.thy ===== *)
theory Tests_Adapters
  imports Tests_Core Adapters "HOL-Library.Code_Target_Nat"
begin

text \<open>
  The unit tests of the adapters (the test modules of \<open>oi-exchanges/src\<close>) and the tests under
  \<open>oi-exchanges/tests\<close>, which run an adapter against a local server with the venue's own replies.
  A body is the JSON value its text denotes; the server answers a request with the first reply
  whose URL is a prefix of the request's, and with status 404 when there is none.
\<close>

section \<open>The mock server\<close>

definition mock_reply :: "(string \<times> http_response \<times> json) list \<Rightarrow> string \<Rightarrow> http_response" where
  "mock_reply mocks url =
     (case List.find (\<lambda>(prefix, _). starts_with url (''http://server'' @ prefix)) mocks of
        None \<Rightarrow> answer 404 []
      | Some (prefix, resp, _) \<Rightarrow> resp\<lparr>resp_body := Some prefix\<rparr>)"

definition mock_server :: "(string \<times> http_response \<times> json) list \<Rightarrow> rat venue" where
  "mock_server mocks =
     \<lparr>vn_base = ''http://server'', vn_net = (\<lambda>k r. Inr (mock_reply mocks (rq_url r))),
      vn_json = (\<lambda>body. map_option snd (map_of mocks body)), vn_dec = parse_dec, vn_one = 1,
      vn_now = utc 2026 4 24 10 0 5, vn_pick = (\<lambda>n. n), vn_lost = (\<lambda>symb. False)\<rparr>"

definition replies :: "string \<Rightarrow> json \<Rightarrow> string \<times> http_response \<times> json" where
  "replies path body = (path, answer 200 [], body)"

definition symbols_of :: "rat instrument_meta list \<Rightarrow> string list" where
  "symbols_of metas = map (\<lambda>m. id_symbol (meta_id m)) metas"

definition reading_of :: "string \<Rightarrow> rat raw_oi list \<Rightarrow> rat raw_oi option" where
  "reading_of symb raws = List.find (\<lambda>r. id_symbol (raw_instrument r) = symb) raws"

definition hint_price :: "rat raw_oi \<Rightarrow> rat option" where
  "hint_price r = map_option quote_price (raw_price_hint r)"

definition is_rate_limited :: "exchange_error + 'a \<Rightarrow> bool" where
  "is_rate_limited r = (case r of Inl (RateLimited d) \<Rightarrow> True | _ \<Rightarrow> False)"

definition unwraps :: "'e + 'a \<Rightarrow> ('a \<Rightarrow> bool) \<Rightarrow> bool" where
  "unwraps r k = (case r of Inl e \<Rightarrow> False | Inr a \<Rightarrow> k a)"

definition some_and :: "'a option \<Rightarrow> ('a \<Rightarrow> bool) \<Rightarrow> bool" where
  "some_and r k = (case r of None \<Rightarrow> False | Some a \<Rightarrow> k a)"

definition bucket_10h :: timestamp where
  "bucket_10h = utc 2026 4 24 10 0 0"

section \<open>\<open>binance\<close> and \<open>aster\<close>\<close>

definition parses_exchange_info_symbol_filters :: bool where
  "parses_exchange_info_symbol_filters \<longleftrightarrow>
     extract_filters parse_dec
      [JObject [(''filterType'', JString ''PRICE_FILTER''), (''tickSize'', JString ''0.10'')],
       JObject [(''filterType'', JString ''LOT_SIZE''), (''stepSize'', JString ''0.001'')],
       JObject [(''filterType'', JString ''MIN_NOTIONAL''), (''notional'', JString ''5'')]] =
      (Some (dec_lit ''0.10''), Some (dec_lit ''0.001''))"

definition parses_open_interest_response_shape :: bool where
  "parses_open_interest_response_shape \<longleftrightarrow>
     Option.bind (de_open_interest (
       JObject [(''symbol'', JString ''BTCUSDT''), (''openInterest'', JString ''12345.678''), (''time'',
       JNumber ''1714000000000'')])) parse_dec =
       Some (dec_lit ''12345.678'')"

definition parses_mark_price_response_shape :: bool where
  "parses_mark_price_response_shape \<longleftrightarrow>
     some_and (vec_of de_mark_price (
       JArray [JObject [(''symbol'', JString ''BTCUSDT''), (''markPrice'', JString ''64000.50''), (''time'',
       JNumber ''1714000000000'')]]))
       (\<lambda>resp. length resp = 1 \<and> mp_symbol (resp ! 0) = ''BTCUSDT'')"

definition retag_changes_only_the_exchange :: bool where
  "retag_changes_only_the_exchange \<longleftrightarrow>
     (let tagged = retag Aster (new_instrument Binance ''BTCUSDT'')
      in id_exchange tagged = Aster \<and> id_symbol tagged = ''BTCUSDT'')"

definition exchange_info_body :: json where
  "exchange_info_body =
       JObject [(''timezone'', JString ''UTC''), (''serverTime'', JNumber ''1714000000000''), (''symbols'',
       JArray [JObject [(''symbol'', JString ''BTCUSDT''), (''contractType'', JString ''PERPETUAL''), (''baseAsset'',
       JString ''BTC''), (''quoteAsset'', JString ''USDT''), (''status'', JString ''TRADING''), (''filters'',
       JArray [JObject [(''filterType'', JString ''PRICE_FILTER''), (''tickSize'', JString ''0.10'')],
       JObject [(''filterType'', JString ''LOT_SIZE''), (''stepSize'', JString ''0.001'')]])], JObject [(''symbol'',
       JString ''ETHUSDT''), (''contractType'', JString ''PERPETUAL''), (''baseAsset'', JString ''ETH''),
       (''quoteAsset'', JString ''USDT''), (''status'', JString ''TRADING''), (''filters'',
       JArray [JObject [(''filterType'', JString ''PRICE_FILTER''), (''tickSize'', JString ''0.01'')],
       JObject [(''filterType'', JString ''LOT_SIZE''), (''stepSize'', JString ''0.001'')]])], JObject [(''symbol'',
       JString ''BTCUSDT_240628''), (''contractType'', JString ''CURRENT_QUARTER''), (''baseAsset'',
       JString ''BTC''), (''quoteAsset'', JString ''USDT''), (''status'', JString ''TRADING''), (''filters'',
       JArray [])], JObject [(''symbol'', JString ''TSLAUSDT''), (''contractType'', JString ''TRADIFI_PERPETUAL''),
       (''underlyingType'', JString ''EQUITY''), (''baseAsset'', JString ''TSLA''), (''quoteAsset'',
       JString ''USDT''), (''status'', JString ''TRADING''), (''filters'', JArray [JObject [(''filterType'',
       JString ''PRICE_FILTER''), (''tickSize'', JString ''0.01'')], JObject [(''filterType'', JString ''LOT_SIZE''),
       (''stepSize'', JString ''0.01'')]])]])]"

definition premium_index_body :: json where
  "premium_index_body =
       JArray [JObject [(''symbol'', JString ''BTCUSDT''), (''markPrice'', JString ''64000.50''), (''indexPrice'',
       JString ''64010.00''), (''estimatedSettlePrice'', JString ''63990.00''), (''lastFundingRate'',
       JString ''0.0001''), (''nextFundingTime'', JNumber ''1714003200000''), (''interestRate'', JString ''0.0001''),
       (''time'', JNumber ''1714000000000'')], JObject [(''symbol'', JString ''ETHUSDT''), (''markPrice'',
       JString ''3200.10''), (''indexPrice'', JString ''3201.00''), (''estimatedSettlePrice'', JString ''3199.90''),
       (''lastFundingRate'', JString ''0.0001''), (''nextFundingTime'', JNumber ''1714003200000''),
       (''interestRate'', JString ''0.0001''), (''time'', JNumber ''1714000000000'')], JObject [(''symbol'',
       JString ''DOGEUSDT''), (''markPrice'', JString ''0.12''), (''indexPrice'', JString ''0.12''),
       (''estimatedSettlePrice'', JString ''0.12''), (''lastFundingRate'', JString ''0.0001''), (''nextFundingTime'',
       JNumber ''1714003200000''), (''interestRate'', JString ''0.0001''), (''time'', JNumber ''1714000000000'')]]"

definition oi_body :: "string \<Rightarrow> string \<Rightarrow> json" where
  "oi_body symb oi = JObject [(''symbol'', JString symb), (''openInterest'', JString oi), (''time'', JNumber ''1714000000000'')]"

definition binance_server :: "rat venue" where
  "binance_server = mock_server
     [replies ''/fapi/v1/exchangeInfo'' exchange_info_body,
      replies ''/fapi/v1/openInterest?symbol=BTCUSDT'' (oi_body ''BTCUSDT'' ''80123.456''),
      replies ''/fapi/v1/openInterest?symbol=ETHUSDT'' (oi_body ''ETHUSDT'' ''555000.0''),
      replies ''/fapi/v1/openInterest?symbol=TSLAUSDT'' (oi_body ''TSLAUSDT'' ''43965.43''),
      replies ''/fapi/v1/premiumIndex'' premium_index_body]"

definition binance_discovery_oi_and_prices_end_to_end :: bool where
  "binance_discovery_oi_and_prices_end_to_end \<longleftrightarrow>
     unwraps (binance_discover binance_server) (\<lambda>metas.
       symbols_of metas = [''BTCUSDT'', ''ETHUSDT'', ''TSLAUSDT''] \<and>
       list_all (\<lambda>m. meta_native_unit m = Coins \<and> meta_is_perpetual m \<and> meta_active m) metas \<and>
       (let ids = map meta_id metas
        in unwraps (binance_fetch_oi binance_concurrency binance_server ids bucket_10h) (\<lambda>raw.
             length raw = 3 \<and>
             some_and (reading_of ''BTCUSDT'' raw) (\<lambda>r.
               raw_unit r = Coins \<and> raw_value r = dec_lit ''80123.456'' \<and> raw_bucket_ts r = bucket_10h) \<and>
             some_and (reading_of ''TSLAUSDT'' raw) (\<lambda>r. raw_unit r = Coins \<and> raw_value r = dec_lit ''43965.43'')) \<and>
           unwraps (binance_fetch_prices binance_server ids) (\<lambda>quotes.
             some_and (List.find (\<lambda>q. id_symbol (quote_instrument q) = ''BTCUSDT'') quotes) (\<lambda>q.
               quote_price q = dec_lit ''64000.50'' \<and> id_exchange (quote_instrument q) = Binance))))"

definition binance_handles_rate_limit_response :: bool where
  "binance_handles_rate_limit_response \<longleftrightarrow>
     binance_discover (mock_server
       [(''/fapi/v1/exchangeInfo'', (answer 429 [])\<lparr>resp_retry_after := Some ''2''\<rparr>,
         JObject [(''code'', JNumber ''-1003''), (''msg'', JString ''Too many requests'')])]) = Inl (RateLimited (Some 2))"

definition aster_exchange_info_body :: json where
  "aster_exchange_info_body =
       JObject [(''timezone'', JString ''UTC''), (''serverTime'', JNumber ''1714000000000''), (''symbols'',
       JArray [JObject [(''symbol'', JString ''BTCUSDT''), (''contractType'', JString ''PERPETUAL''), (''baseAsset'',
       JString ''BTC''), (''quoteAsset'', JString ''USDT''), (''status'', JString ''TRADING''), (''filters'',
       JArray [])]])]"

definition aster_server :: "rat venue" where
  "aster_server = mock_server
     [replies ''/fapi/v1/exchangeInfo'' aster_exchange_info_body,
      replies ''/fapi/v1/openInterest?symbol=BTCUSDT'' (oi_body ''BTCUSDT'' ''500.0'')]"

definition aster_delegates_to_binance_shape_and_retags :: bool where
  "aster_delegates_to_binance_shape_and_retags \<longleftrightarrow>
     unwraps (aster_discover aster_server) (\<lambda>metas.
       length metas = 1 \<and> meta_id (metas ! 0) = new_instrument Aster ''BTCUSDT'') \<and>
     unwraps (aster_fetch_oi binance_concurrency aster_server [new_instrument Aster ''BTCUSDT''] bucket_10h) (\<lambda>raw.
       length raw = 1 \<and> id_exchange (raw_instrument (raw ! 0)) = Aster \<and> raw_value (raw ! 0) = 500)"

lemma binance_tests:
  "parses_exchange_info_symbol_filters" "parses_open_interest_response_shape" "parses_mark_price_response_shape"
  "retag_changes_only_the_exchange" "binance_handles_rate_limit_response"
  "aster_delegates_to_binance_shape_and_retags" "binance_discovery_oi_and_prices_end_to_end"
  by code_simp+

section \<open>\<open>bybit\<close>\<close>

definition bybit_envelope_success_passes_through :: bool where
  "bybit_envelope_success_passes_through \<longleftrightarrow>
     some_and (de_bybit_envelope de_bybit_tickers (
       JObject [(''retCode'', JNumber ''0''), (''retMsg'', JString ''OK''), (''result'', JObject [(''list'',
       JArray [])])]))
       (\<lambda>env. bybit_check env = Inr [])"

definition bybit_envelope_known_rate_limit_code_maps_to_rate_limited :: bool where
  "bybit_envelope_known_rate_limit_code_maps_to_rate_limited \<longleftrightarrow>
     some_and (de_bybit_envelope de_bybit_tickers (
       JObject [(''retCode'', JNumber ''10006''), (''retMsg'', JString ''too many requests''), (''result'',
       JObject [(''list'', JArray [])])]))
       (\<lambda>env. is_rate_limited (bybit_check env))"

definition bybit_envelope_unknown_nonzero_code_is_schema_error :: bool where
  "bybit_envelope_unknown_nonzero_code_is_schema_error \<longleftrightarrow>
     some_and (de_bybit_envelope de_bybit_tickers (
       JObject [(''retCode'', JNumber ''110025''), (''retMsg'', JString ''whatever''), (''result'',
       JObject [(''list'', JArray [])])]))
       (\<lambda>env. is_schema (bybit_check env))"

definition bybit_instrument_row_parses_with_optional_filters :: bool where
  "bybit_instrument_row_parses_with_optional_filters \<longleftrightarrow>
     some_and (de_bybit_instrument (
       JObject [(''symbol'', JString ''BTCUSDT''), (''contractType'', JString ''LinearPerpetual''), (''status'',
       JString ''Trading''), (''baseCoin'', JString ''BTC''), (''quoteCoin'', JString ''USDT'')]))
       (\<lambda>r. bi_symbol r = ''BTCUSDT'' \<and> bi_tick_size r = None)"

definition bybit_page_1 :: json where
  "bybit_page_1 =
       JObject [(''retCode'', JNumber ''0''), (''retMsg'', JString ''OK''), (''result'', JObject [(''category'',
       JString ''linear''), (''nextPageCursor'', JString ''next_page_token''), (''list'',
       JArray [JObject [(''symbol'', JString ''BTCUSDT''), (''contractType'', JString ''LinearPerpetual''),
       (''status'', JString ''Trading''), (''baseCoin'', JString ''BTC''), (''quoteCoin'', JString ''USDT''),
       (''priceFilter'', JObject [(''tickSize'', JString ''0.10'')]), (''lotSizeFilter'', JObject [(''qtyStep'',
       JString ''0.001'')])], JObject [(''symbol'', JString ''ETHUSDT''), (''contractType'',
       JString ''LinearPerpetual''), (''status'', JString ''Trading''), (''baseCoin'', JString ''ETH''),
       (''quoteCoin'', JString ''USDT''), (''priceFilter'', JObject [(''tickSize'', JString ''0.01'')]),
       (''lotSizeFilter'', JObject [(''qtyStep'', JString ''0.001'')])], JObject [(''symbol'',
       JString ''SOLUSDT_240628''), (''contractType'', JString ''LinearFutures''), (''status'', JString ''Trading''),
       (''baseCoin'', JString ''SOL''), (''quoteCoin'', JString ''USDT'')]])])]"

definition bybit_page_2 :: json where
  "bybit_page_2 =
       JObject [(''retCode'', JNumber ''0''), (''retMsg'', JString ''OK''), (''result'', JObject [(''category'',
       JString ''linear''), (''nextPageCursor'', JString []), (''list'', JArray [JObject [(''symbol'',
       JString ''DOGEUSDT''), (''contractType'', JString ''LinearPerpetual''), (''status'', JString ''Trading''),
       (''baseCoin'', JString ''DOGE''), (''quoteCoin'', JString ''USDT''), (''priceFilter'', JObject [(''tickSize'',
       JString ''0.00001'')]), (''lotSizeFilter'', JObject [(''qtyStep'', JString ''1'')])]])])]"

definition bybit_tickers_body :: json where
  "bybit_tickers_body =
       JObject [(''retCode'', JNumber ''0''), (''retMsg'', JString ''OK''), (''result'', JObject [(''category'',
       JString ''linear''), (''list'', JArray [JObject [(''symbol'', JString ''BTCUSDT''), (''openInterest'',
       JString ''12345.67''), (''openInterestValue'', JString ''789012345.67''), (''markPrice'',
       JString ''64001.00''), (''lastPrice'', JString ''64000.00''), (''indexPrice'', JString ''64000.50'')],
       JObject [(''symbol'', JString ''ETHUSDT''), (''openInterest'', JString ''200000.0''), (''openInterestValue'',
       JString ''640000000''), (''markPrice'', JString ''3200.00''), (''lastPrice'', JString ''3200.10''),
       (''indexPrice'', JString ''3200.05'')], JObject [(''symbol'', JString ''DOGEUSDT''), (''openInterest'',
       JString ''5000000''), (''openInterestValue'', JString ''600000''), (''markPrice'', JString ''0.12''),
       (''lastPrice'', JString ''0.12''), (''indexPrice'', JString ''0.12'')]])])]"

definition bybit_discovery_follows_cursor_pagination :: bool where
  "bybit_discovery_follows_cursor_pagination \<longleftrightarrow>
     unwraps (bybit_discover (mock_server
       [replies ''/v5/market/instruments-info?category=linear&limit=1000&cursor=next_page_token'' bybit_page_2,
        replies ''/v5/market/instruments-info?category=linear'' bybit_page_1])) (\<lambda>metas.
       symbols_of metas = [''BTCUSDT'', ''ETHUSDT'', ''DOGEUSDT''] \<and>
       list_all (\<lambda>m. meta_native_unit m = Coins \<and> meta_is_perpetual m) metas \<and>
       meta_price_tick (metas ! 0) = Some (dec_lit ''0.10'') \<and> meta_qty_step (metas ! 0) = Some (dec_lit ''0.001''))"

definition bybit_fetch_oi_includes_mark_price_hint :: bool where
  "bybit_fetch_oi_includes_mark_price_hint \<longleftrightarrow>
     unwraps (bybit_fetch_oi (mock_server [replies ''/v5/market/tickers?category=linear'' bybit_tickers_body])
         [new_instrument Bybit ''BTCUSDT'', new_instrument Bybit ''ETHUSDT''] bucket_10h) (\<lambda>raw.
       length raw = 2 \<and>
       some_and (reading_of ''BTCUSDT'' raw) (\<lambda>r.
         raw_value r = dec_lit ''12345.67'' \<and> raw_unit r = Coins \<and> hint_price r = Some 64001))"

definition bybit_rate_limit_code_surfaces_as_rate_limited :: bool where
  "bybit_rate_limit_code_surfaces_as_rate_limited \<longleftrightarrow>
     is_rate_limited (bybit_fetch_oi (mock_server [replies ''/v5/market/tickers'' (
       JObject [(''retCode'', JNumber ''10006''), (''retMsg'', JString ''too many requests''), (''result'',
       JObject [(''list'', JArray [])])])]) [] bucket_10h)"

lemma bybit_tests:
  "bybit_envelope_success_passes_through" "bybit_envelope_known_rate_limit_code_maps_to_rate_limited"
  "bybit_envelope_unknown_nonzero_code_is_schema_error" "bybit_instrument_row_parses_with_optional_filters"
  "bybit_discovery_follows_cursor_pagination" "bybit_fetch_oi_includes_mark_price_hint"
  "bybit_rate_limit_code_surfaces_as_rate_limited"
  by code_simp+

section \<open>\<open>okx\<close>\<close>

definition okx_envelope_success_passes_data :: bool where
  "okx_envelope_success_passes_data \<longleftrightarrow>
     some_and (de_okx_envelope de_okx_oi (
       JObject [(''code'', JString ''0''), (''msg'', JString []), (''data'', JArray [JObject [(''instId'',
       JString ''BTC-USDT-SWAP''), (''oi'', JString ''1''), (''oiCcy'', JString ''0.01''), (''ts'', JString ''1'')]])]))
       (\<lambda>env. unwraps (okx_check env) (\<lambda>rows. length rows = 1))"

definition okx_envelope_non_zero_code_is_schema_error :: bool where
  "okx_envelope_non_zero_code_is_schema_error \<longleftrightarrow>
     some_and (de_okx_envelope de_okx_oi (
       JObject [(''code'', JString ''51001''), (''msg'', JString ''Instrument does not exist''), (''data'',
       JArray [])]))
       (\<lambda>env. is_schema (okx_check env))"

definition okx_instrument_derives_base_from_instid :: bool where
  "okx_instrument_derives_base_from_instid \<longleftrightarrow>
     some_and (de_okx_instrument (
       JObject [(''instId'', JString ''BTC-USDT-SWAP''), (''instType'', JString ''SWAP''), (''baseCcy'',
       JString []), (''quoteCcy'', JString ''USDT''), (''ctVal'', JString ''0.01''), (''ctValCcy'',
       JString ''BTC''), (''settleCcy'', JString ''USDT''), (''tickSz'', JString ''0.1''), (''lotSz'',
       JString ''1''), (''state'', JString ''live''), (''ctType'', JString ''linear'')]))
       (\<lambda>r. oi_inst_id r = ''BTC-USDT-SWAP'' \<and> hd (split_on CHR ''-'' (oi_inst_id r)) = ''BTC'')"

definition okx_instruments_body :: json where
  "okx_instruments_body =
       JObject [(''code'', JString ''0''), (''msg'', JString []), (''data'', JArray [JObject [(''instId'',
       JString ''BTC-USDT-SWAP''), (''instType'', JString ''SWAP''), (''baseCcy'', JString []), (''quoteCcy'',
       JString ''USDT''), (''ctVal'', JString ''0.01''), (''ctValCcy'', JString ''BTC''), (''settleCcy'',
       JString ''USDT''), (''tickSz'', JString ''0.1''), (''lotSz'', JString ''1''), (''state'', JString ''live''),
       (''ctType'', JString ''linear'')], JObject [(''instId'', JString ''ETH-USDT-SWAP''), (''instType'',
       JString ''SWAP''), (''baseCcy'', JString []), (''quoteCcy'', JString ''USDT''), (''ctVal'',
       JString ''0.1''), (''ctValCcy'', JString ''ETH''), (''settleCcy'', JString ''USDT''), (''tickSz'',
       JString ''0.01''), (''lotSz'', JString ''1''), (''state'', JString ''live''), (''ctType'',
       JString ''linear'')], JObject [(''instId'', JString ''BTC-USD-SWAP''), (''instType'', JString ''SWAP''),
       (''baseCcy'', JString []), (''quoteCcy'', JString ''USD''), (''ctVal'', JString ''100''), (''ctValCcy'',
       JString ''USD''), (''settleCcy'', JString ''BTC''), (''tickSz'', JString ''0.1''), (''lotSz'', JString ''1''),
       (''state'', JString ''live''), (''ctType'', JString ''inverse'')]])]"

definition okx_oi_body :: json where
  "okx_oi_body =
       JObject [(''code'', JString ''0''), (''msg'', JString []), (''data'', JArray [JObject [(''instId'',
       JString ''BTC-USDT-SWAP''), (''instType'', JString ''SWAP''), (''oi'', JString ''123450''), (''oiCcy'',
       JString ''1234.5''), (''ts'', JString ''1714000000000'')], JObject [(''instId'', JString ''ETH-USDT-SWAP''),
       (''instType'', JString ''SWAP''), (''oi'', JString ''98760''), (''oiCcy'', JString ''9876.0''), (''ts'',
       JString ''1714000000000'')]])]"

definition okx_discovery_filters_to_linear_swaps :: bool where
  "okx_discovery_filters_to_linear_swaps \<longleftrightarrow>
     unwraps (okx_discover (mock_server [replies ''/api/v5/public/instruments?instType=SWAP'' okx_instruments_body])) (\<lambda>metas.
       symbols_of metas = [''BTC-USDT-SWAP'', ''ETH-USDT-SWAP''] \<and>
       list_all (\<lambda>m. meta_native_unit m = Coins \<and> meta_contract_multiplier m \<noteq> None) metas)"

definition okx_fetch_oi_prefers_oiccy_coins :: bool where
  "okx_fetch_oi_prefers_oiccy_coins \<longleftrightarrow>
     unwraps (okx_fetch_oi (mock_server [replies ''/api/v5/public/open-interest?instType=SWAP'' okx_oi_body])
         [new_instrument Okx ''BTC-USDT-SWAP'', new_instrument Okx ''ETH-USDT-SWAP''] bucket_10h) (\<lambda>raw.
       length raw = 2 \<and>
       some_and (reading_of ''BTC-USDT-SWAP'' raw) (\<lambda>r. raw_unit r = Coins \<and> raw_value r = dec_lit ''1234.5''))"

definition okx_non_zero_code_is_reported_as_schema :: bool where
  "okx_non_zero_code_is_reported_as_schema \<longleftrightarrow>
     is_schema (okx_fetch_oi (mock_server [replies ''/api/v5/public/open-interest'' (
       JObject [(''code'', JString ''50001''), (''msg'', JString ''Service unavailable''), (''data'', JArray [])])]) [] bucket_10h)"

lemma okx_tests:
  "okx_envelope_success_passes_data" "okx_envelope_non_zero_code_is_schema_error"
  "okx_instrument_derives_base_from_instid" "okx_discovery_filters_to_linear_swaps"
  "okx_fetch_oi_prefers_oiccy_coins" "okx_non_zero_code_is_reported_as_schema"
  by code_simp+

section \<open>\<open>bitget\<close>\<close>

definition bitget_envelope_success_code_is_five_zeros :: bool where
  "bitget_envelope_success_code_is_five_zeros \<longleftrightarrow>
     some_and (de_bitget_envelope (vec_of de_bitget_ticker) (
       JObject [(''code'', JString ''00000''), (''msg'', JString ''success''), (''data'', JArray [])]))
       (\<lambda>env. bitget_check env = Inr [])"

definition bitget_envelope_rate_limit_code_maps_to_rate_limited :: bool where
  "bitget_envelope_rate_limit_code_maps_to_rate_limited \<longleftrightarrow>
     some_and (de_bitget_envelope (vec_of de_bitget_ticker) (
       JObject [(''code'', JString ''429''), (''msg'', JString ''too many''), (''data'', JArray [])]))
       (\<lambda>env. is_rate_limited (bitget_check env))"

definition bitget_envelope_unknown_nonzero_is_schema_error :: bool where
  "bitget_envelope_unknown_nonzero_is_schema_error \<longleftrightarrow>
     some_and (de_bitget_envelope (vec_of de_bitget_ticker) (
       JObject [(''code'', JString ''40002''), (''msg'', JString ''bad param''), (''data'', JArray [])]))
       (\<lambda>env. is_schema (bitget_check env))"

definition bitget_contracts_body :: json where
  "bitget_contracts_body =
       JObject [(''code'', JString ''00000''), (''msg'', JString ''success''), (''data'',
       JArray [JObject [(''symbol'', JString ''BTCUSDT''), (''baseCoin'', JString ''BTC''), (''quoteCoin'',
       JString ''USDT''), (''symbolType'', JString ''perpetual''), (''symbolStatus'', JString ''normal''),
       (''minTradeNum'', JString ''0.001'')], JObject [(''symbol'', JString ''ETHUSDT''), (''baseCoin'',
       JString ''ETH''), (''quoteCoin'', JString ''USDT''), (''symbolType'', JString ''perpetual''),
       (''symbolStatus'', JString ''normal''), (''minTradeNum'', JString ''0.01'')], JObject [(''symbol'',
       JString ''SOLUSDT_240628''), (''baseCoin'', JString ''SOL''), (''quoteCoin'', JString ''USDT''),
       (''symbolType'', JString ''delivery''), (''symbolStatus'', JString ''normal'')]])]"

definition bitget_tickers_body :: json where
  "bitget_tickers_body =
       JObject [(''code'', JString ''00000''), (''msg'', JString ''success''), (''data'',
       JArray [JObject [(''symbol'', JString ''BTCUSDT''), (''holdingAmount'', JString ''12345.67''), (''markPrice'',
       JString ''64001''), (''indexPrice'', JString ''64000.5''), (''lastPr'', JString ''64000''), (''ts'',
       JString ''1714000000000'')], JObject [(''symbol'', JString ''ETHUSDT''), (''holdingAmount'',
       JString ''200000''), (''markPrice'', JString ''3200''), (''indexPrice'', JString ''3200.5''), (''lastPr'',
       JString ''3201''), (''ts'', JString ''1714000000000'')]])]"

definition bitget_discovery_filters_perpetuals_only :: bool where
  "bitget_discovery_filters_perpetuals_only \<longleftrightarrow>
     unwraps (bitget_discover (mock_server
         [replies ''/api/v2/mix/market/contracts?productType=USDT-FUTURES'' bitget_contracts_body])) (\<lambda>metas.
       symbols_of metas = [''BTCUSDT'', ''ETHUSDT''] \<and> list_all (\<lambda>m. meta_native_unit m = Coins) metas)"

definition bitget_fetch_oi_uses_holding_amount_and_mark_price :: bool where
  "bitget_fetch_oi_uses_holding_amount_and_mark_price \<longleftrightarrow>
     unwraps (bitget_fetch_oi (mock_server
         [replies ''/api/v2/mix/market/tickers?productType=USDT-FUTURES'' bitget_tickers_body])
         [new_instrument Bitget ''BTCUSDT''] bucket_10h) (\<lambda>raw.
       length raw = 1 \<and> raw_value (raw ! 0) = dec_lit ''12345.67'' \<and> raw_unit (raw ! 0) = Coins \<and>
       hint_price (raw ! 0) = Some 64001)"

lemma bitget_tests:
  "bitget_envelope_success_code_is_five_zeros" "bitget_envelope_rate_limit_code_maps_to_rate_limited"
  "bitget_envelope_unknown_nonzero_is_schema_error" "bitget_discovery_filters_perpetuals_only"
  "bitget_fetch_oi_uses_holding_amount_and_mark_price"
  by code_simp+

section \<open>\<open>mexc\<close> and \<open>kucoin\<close>\<close>

definition mexc_number_to_decimal_preserves_small_contract_size :: bool where
  "mexc_number_to_decimal_preserves_small_contract_size \<longleftrightarrow>
     Option.bind (as_number (JNumber ''0.0001'')) parse_dec = Some (1 / 10000)"

definition mexc_number_to_decimal_preserves_integers :: bool where
  "mexc_number_to_decimal_preserves_integers \<longleftrightarrow>
     Option.bind (as_number (JNumber ''123456'')) parse_dec = Some 123456"

definition mexc_envelope_success_requires_code_zero_and_success_true :: bool where
  "mexc_envelope_success_requires_code_zero_and_success_true \<longleftrightarrow>
     some_and (de_mexc_envelope (vec_of de_mexc_ticker) (
       JObject [(''success'', JBool True), (''code'', JNumber ''0''), (''data'', JArray [])]))
       (\<lambda>env. mexc_check env = Inr [])"

definition mexc_envelope_rate_limit_code_maps_to_rate_limited :: bool where
  "mexc_envelope_rate_limit_code_maps_to_rate_limited \<longleftrightarrow>
     some_and (de_mexc_envelope (vec_of de_mexc_ticker) (
       JObject [(''success'', JBool False), (''code'', JNumber ''510''), (''data'', JArray [])]))
       (\<lambda>env. is_rate_limited (mexc_check env))"

definition mexc_envelope_generic_failure_is_schema_error :: bool where
  "mexc_envelope_generic_failure_is_schema_error \<longleftrightarrow>
     some_and (de_mexc_envelope (vec_of de_mexc_ticker) (
       JObject [(''success'', JBool False), (''code'', JNumber ''1002''), (''data'', JArray [])]))
       (\<lambda>env. is_schema (mexc_check env))"

definition mexc_detail_body :: json where
  "mexc_detail_body =
       JObject [(''success'', JBool True), (''code'', JNumber ''0''), (''data'', JArray [JObject [(''symbol'',
       JString ''BTC_USDT''), (''baseCoin'', JString ''BTC''), (''quoteCoin'', JString ''USDT''), (''contractSize'',
       JNumber ''0.0001''), (''priceUnit'', JNumber ''0.1''), (''volUnit'', JNumber ''1''), (''state'',
       JNumber ''0'')], JObject [(''symbol'', JString ''ETH_USDT''), (''baseCoin'', JString ''ETH''), (''quoteCoin'',
       JString ''USDT''), (''contractSize'', JNumber ''0.01''), (''priceUnit'', JNumber ''0.01''), (''volUnit'',
       JNumber ''1''), (''state'', JNumber ''0'')], JObject [(''symbol'', JString ''OLD_USDT''), (''baseCoin'',
       JString ''OLD''), (''quoteCoin'', JString ''USDT''), (''contractSize'', JNumber ''1''), (''state'',
       JNumber ''2'')]])]"

definition mexc_ticker_body :: json where
  "mexc_ticker_body =
       JObject [(''success'', JBool True), (''code'', JNumber ''0''), (''data'', JArray [JObject [(''symbol'',
       JString ''BTC_USDT''), (''holdVol'', JNumber ''123456''), (''fairPrice'', JNumber ''64001''), (''lastPrice'',
       JNumber ''64000''), (''indexPrice'', JNumber ''64000.5''), (''timestamp'', JNumber ''1714000000000'')],
       JObject [(''symbol'', JString ''ETH_USDT''), (''holdVol'', JNumber ''50000''), (''fairPrice'',
       JNumber ''3200''), (''lastPrice'', JNumber ''3201''), (''indexPrice'', JNumber ''3200.5''), (''timestamp'',
       JNumber ''1714000000000'')]])]"

definition mexc_discovery_captures_contract_multiplier :: bool where
  "mexc_discovery_captures_contract_multiplier \<longleftrightarrow>
     unwraps (fst (mexc_discover (mock_server [replies ''/api/v1/contract/detail'' mexc_detail_body]) [])) (\<lambda>metas.
       some_and (List.find (\<lambda>m. id_symbol (meta_id m) = ''BTC_USDT'') metas) (\<lambda>m.
         meta_native_unit m = Contracts \<and> meta_contract_multiplier m = Some (dec_lit ''0.0001'')) \<and>
       some_and (List.find (\<lambda>m. id_symbol (meta_id m) = ''OLD_USDT'') metas) (\<lambda>m. \<not> meta_active m))"

definition mexc_fetch_oi_returns_contracts_with_price_hint :: bool where
  "mexc_fetch_oi_returns_contracts_with_price_hint \<longleftrightarrow>
     unwraps (mexc_fetch_oi (mock_server [replies ''/api/v1/contract/ticker'' mexc_ticker_body])
         [new_instrument Mexc ''BTC_USDT''] bucket_10h) (\<lambda>raw.
       length raw = 1 \<and> raw_value (raw ! 0) = 123456 \<and> raw_unit (raw ! 0) = Contracts \<and>
       hint_price (raw ! 0) = Some 64001)"

definition kucoin_envelope_success_code_is_six_zeros_prefix :: bool where
  "kucoin_envelope_success_code_is_six_zeros_prefix \<longleftrightarrow>
     some_and (de_kucoin_envelope (vec_of de_kucoin_contract) (
       JObject [(''code'', JString ''200000''), (''data'', JArray [])]))
       (\<lambda>env. kucoin_check env = Inr [])"

definition kucoin_envelope_rate_limit_code_maps_to_rate_limited :: bool where
  "kucoin_envelope_rate_limit_code_maps_to_rate_limited \<longleftrightarrow>
     some_and (de_kucoin_envelope (vec_of de_kucoin_contract) (
       JObject [(''code'', JString ''429000''), (''msg'', JString ''too many''), (''data'', JArray [])]))
       (\<lambda>env. is_rate_limited (kucoin_check env))"

definition kucoin_number_to_decimal_preserves_multiplier_precision :: bool where
  "kucoin_number_to_decimal_preserves_multiplier_precision \<longleftrightarrow>
     Option.bind (as_number (JNumber ''0.001'')) parse_dec = Some (1 / 1000)"

definition kucoin_contracts_body :: json where
  "kucoin_contracts_body =
       JObject [(''code'', JString ''200000''), (''data'', JArray [JObject [(''symbol'', JString ''XBTUSDTM''),
       (''rootSymbol'', JString ''USDT''), (''type'', JString ''FFWCSX''), (''baseCurrency'', JString ''XBT''),
       (''quoteCurrency'', JString ''USDT''), (''settleCurrency'', JString ''USDT''), (''multiplier'',
       JNumber ''0.001''), (''tickSize'', JNumber ''0.1''), (''openInterest'', JString ''123456''), (''markPrice'',
       JNumber ''64001''), (''lastTradePrice'', JNumber ''64000''), (''indexPrice'', JNumber ''64000.5''),
       (''isInverse'', JBool False), (''status'', JString ''Open'')], JObject [(''symbol'', JString ''ETHUSDTM''),
       (''rootSymbol'', JString ''USDT''), (''type'', JString ''FFWCSX''), (''baseCurrency'', JString ''ETH''),
       (''quoteCurrency'', JString ''USDT''), (''settleCurrency'', JString ''USDT''), (''multiplier'',
       JNumber ''0.01''), (''tickSize'', JNumber ''0.01''), (''openInterest'', JString ''98760''), (''markPrice'',
       JNumber ''3200''), (''lastTradePrice'', JNumber ''3201''), (''indexPrice'', JNumber ''3200.5''),
       (''isInverse'', JBool False), (''status'', JString ''Open'')], JObject [(''symbol'', JString ''XBTUSDM''),
       (''rootSymbol'', JString ''USD''), (''type'', JString ''FFICSX''), (''baseCurrency'', JString ''XBT''),
       (''quoteCurrency'', JString ''USD''), (''settleCurrency'', JString ''XBT''), (''multiplier'', JNumber ''1''),
       (''tickSize'', JNumber ''1''), (''openInterest'', JString ''1000''), (''markPrice'', JNumber ''64000''),
       (''lastTradePrice'', JNumber ''64000''), (''indexPrice'', JNumber ''64000.5''), (''isInverse'', JBool True),
       (''status'', JString ''Open'')]])]"

definition kucoin_server :: "rat venue" where
  "kucoin_server = mock_server [replies ''/api/v1/contracts/active'' kucoin_contracts_body]"

definition kucoin_single_call_covers_discovery_and_oi :: bool where
  "kucoin_single_call_covers_discovery_and_oi \<longleftrightarrow>
     unwraps (fst (kucoin_discover kucoin_server [])) (\<lambda>metas.
       symbols_of metas = [''XBTUSDTM'', ''ETHUSDTM''] \<and>
       list_all (\<lambda>m. meta_native_unit m = Contracts \<and> meta_contract_multiplier m \<noteq> None) metas \<and>
       some_and (List.find (\<lambda>m. id_symbol (meta_id m) = ''XBTUSDTM'') metas) (\<lambda>m.
         meta_contract_multiplier m = Some (dec_lit ''0.001'')) \<and>
       unwraps (kucoin_fetch_oi kucoin_server (map meta_id metas) bucket_10h) (\<lambda>raw.
         length raw = 2 \<and>
         some_and (reading_of ''XBTUSDTM'' raw) (\<lambda>r.
           raw_value r = 123456 \<and> raw_unit r = Contracts \<and> hint_price r = Some 64001)))"

definition kucoin_429000_code_surfaces_as_rate_limited :: bool where
  "kucoin_429000_code_surfaces_as_rate_limited \<longleftrightarrow>
     is_rate_limited (fst (kucoin_discover (mock_server [replies ''/api/v1/contracts/active'' (
       JObject [(''code'', JString ''429000''), (''msg'', JString ''throttled''), (''data'', JArray [])])]) []))"

lemma mexc_tests:
  "mexc_number_to_decimal_preserves_small_contract_size" "mexc_number_to_decimal_preserves_integers"
  "mexc_envelope_success_requires_code_zero_and_success_true"
  "mexc_envelope_rate_limit_code_maps_to_rate_limited" "mexc_envelope_generic_failure_is_schema_error"
  "mexc_discovery_captures_contract_multiplier" "mexc_fetch_oi_returns_contracts_with_price_hint"
  by code_simp+

lemma kucoin_tests:
  "kucoin_envelope_success_code_is_six_zeros_prefix" "kucoin_envelope_rate_limit_code_maps_to_rate_limited"
  "kucoin_number_to_decimal_preserves_multiplier_precision" "kucoin_single_call_covers_discovery_and_oi"
  "kucoin_429000_code_surfaces_as_rate_limited"
  by code_simp+

section \<open>\<open>bingx\<close>\<close>

definition bingx_envelope_success_passes :: bool where
  "bingx_envelope_success_passes \<longleftrightarrow>
     some_and (de_bingx_envelope de_bingx_open_interest (
       JObject [(''code'', JNumber ''0''), (''msg'', JString []), (''data'', JObject [(''openInterest'',
       JString ''1''), (''symbol'', JString ''BTC-USDT''), (''time'', JNumber ''1'')])]))
       (\<lambda>env. bingx_check env = Inr ''1'')"

definition bingx_envelope_throttle_code_is_rate_limited :: bool where
  "bingx_envelope_throttle_code_is_rate_limited \<longleftrightarrow>
     some_and (de_bingx_envelope de_bingx_open_interest (
       JObject [(''code'', JNumber ''100410''), (''msg'', JString ''throttle''), (''data'',
       JObject [(''openInterest'', JString []), (''symbol'', JString []), (''time'', JNumber ''0'')])]))
       (\<lambda>env. is_rate_limited (bingx_check env))"

definition bingx_contracts_body :: json where
  "bingx_contracts_body =
       JObject [(''code'', JNumber ''0''), (''msg'', JString []), (''data'', JArray [JObject [(''symbol'',
       JString ''BTC-USDT''), (''asset'', JString ''BTC''), (''currency'', JString ''USDT''), (''status'',
       JNumber ''1''), (''pricePrecision'', JNumber ''1''), (''quantityPrecision'', JNumber ''4''),
       (''tradeMinLimit'', JNumber ''0.0001'')], JObject [(''symbol'', JString ''ETH-USDT''), (''asset'',
       JString ''ETH''), (''currency'', JString ''USDT''), (''status'', JNumber ''1''), (''pricePrecision'',
       JNumber ''2''), (''quantityPrecision'', JNumber ''4''), (''tradeMinLimit'', JNumber ''0.001'')],
       JObject [(''symbol'', JString ''DOGE-USDT''), (''asset'', JString ''DOGE''), (''currency'', JString ''USDT''),
       (''status'', JNumber ''0''), (''pricePrecision'', JNumber ''5''), (''quantityPrecision'', JNumber ''0''),
       (''tradeMinLimit'', JNumber ''1'')]])]"

definition bingx_oi_body :: "string \<Rightarrow> string \<Rightarrow> json" where
  "bingx_oi_body symb oi =
     JObject [(''code'', JNumber ''0''), (''msg'', JString []),
       (''data'', JObject [(''openInterest'', JString oi), (''symbol'', JString symb), (''time'', JNumber ''1714000000000'')])]"

definition bingx_server :: "rat venue" where
  "bingx_server = mock_server
     [replies ''/openApi/swap/v2/quote/contracts'' bingx_contracts_body,
      replies ''/openApi/swap/v2/quote/openInterest?symbol=BTC-USDT'' (bingx_oi_body ''BTC-USDT'' ''1234.56''),
      replies ''/openApi/swap/v2/quote/openInterest?symbol=ETH-USDT'' (bingx_oi_body ''ETH-USDT'' ''9876.5'')]"

definition bingx_discovery_and_per_symbol_oi :: bool where
  "bingx_discovery_and_per_symbol_oi \<longleftrightarrow>
     unwraps (bingx_discover bingx_server) (\<lambda>metas.
       symbols_of (filter meta_active metas) = [''BTC-USDT'', ''ETH-USDT''] \<and>
       some_and (List.find (\<lambda>m. id_symbol (meta_id m) = ''DOGE-USDT'') metas) (\<lambda>m. \<not> meta_active m) \<and>
       list_all (\<lambda>m. meta_native_unit m = Coins) metas \<and>
       unwraps (bingx_fetch_oi bingx_server (map meta_id (filter meta_active metas)) bucket_10h) (\<lambda>raw.
         length raw = 2 \<and> some_and (reading_of ''BTC-USDT'' raw) (\<lambda>r. raw_value r = dec_lit ''1234.56'')))"

definition bingx_throttle_code_is_rate_limited :: bool where
  "bingx_throttle_code_is_rate_limited \<longleftrightarrow>
     bingx_fetch_oi (mock_server [replies ''/openApi/swap/v2/quote/openInterest'' (
       JObject [(''code'', JNumber ''100410''), (''msg'', JString ''throttle''), (''data'',
       JObject [(''openInterest'', JString []), (''symbol'', JString []), (''time'', JNumber ''0'')])])])
       [new_instrument BingX ''BTC-USDT''] bucket_10h = Inr []"

lemma bingx_tests:
  "bingx_envelope_success_passes" "bingx_envelope_throttle_code_is_rate_limited"
  "bingx_throttle_code_is_rate_limited" "bingx_discovery_and_per_symbol_oi"
  by code_simp+

section \<open>\<open>hyperliquid\<close> and \<open>http.rs\<close>\<close>

definition hyperliquid_deserialises_positional_meta_ctxs :: bool where
  "hyperliquid_deserialises_positional_meta_ctxs \<longleftrightarrow>
     some_and (de_meta_and_ctxs (
       JArray [JObject [(''universe'', JArray [JObject [(''name'', JString ''BTC''), (''szDecimals'', JNumber ''5''),
       (''maxLeverage'', JNumber ''50'')], JObject [(''name'', JString ''ETH''), (''szDecimals'', JNumber ''4''),
       (''maxLeverage'', JNumber ''50'')]])], JArray [JObject [(''openInterest'', JString ''1234.5''), (''markPx'',
       JString ''64000.0''), (''oraclePx'', JString ''63999.0''), (''premium'', JString ''0.0001'')],
       JObject [(''openInterest'', JString ''9876.0''), (''markPx'', JString ''3200.0''), (''oraclePx'',
       JString ''3200.5'')]]]))
       (\<lambda>(entries, ctxs).
          length entries = 2 \<and> ue_name (entries ! 0) = ''BTC'' \<and> length ctxs = 2 \<and>
          ac_open_interest (ctxs ! 0) = Some ''1234.5'')"

definition hyperliquid_tolerates_missing_optional_fields :: bool where
  "hyperliquid_tolerates_missing_optional_fields \<longleftrightarrow>
     some_and (de_meta_and_ctxs (
       JArray [JObject [(''universe'', JArray [JObject [(''name'', JString ''BTC''), (''szDecimals'',
       JNumber ''5'')]])], JArray [JObject [(''openInterest'', JString ''1'')]]]))
       (\<lambda>(entries, ctxs). ac_open_interest (ctxs ! 0) = Some ''1'' \<and> ac_mark_px (ctxs ! 0) = None)"

definition hyperliquid_body :: json where
  "hyperliquid_body =
       JArray [JObject [(''universe'', JArray [JObject [(''name'', JString ''BTC''), (''szDecimals'', JNumber ''5''),
       (''maxLeverage'', JNumber ''50'')], JObject [(''name'', JString ''ETH''), (''szDecimals'', JNumber ''4''),
       (''maxLeverage'', JNumber ''50'')], JObject [(''name'', JString ''DOGE''), (''szDecimals'', JNumber ''0''),
       (''maxLeverage'', JNumber ''10''), (''isDelisted'', JBool True)]])], JArray [JObject [(''openInterest'',
       JString ''1234.5''), (''markPx'', JString ''64000''), (''oraclePx'', JString ''63999''), (''premium'',
       JString ''0.0001'')], JObject [(''openInterest'', JString ''9876.0''), (''markPx'', JString ''3200''),
       (''oraclePx'', JString ''3200.5'')], JObject [(''openInterest'', JString ''0''), (''markPx'',
       JString ''0.12'')]]]"

definition hyperliquid_server :: "rat venue" where
  "hyperliquid_server = mock_server [replies ''/info'' hyperliquid_body]"

definition hyperliquid_discovers_and_fetches_oi_in_one_call :: bool where
  "hyperliquid_discovers_and_fetches_oi_in_one_call \<longleftrightarrow>
     unwraps (hyperliquid_discover hyperliquid_server) (\<lambda>metas.
       symbols_of metas = [''BTC'', ''ETH'', ''DOGE''] \<and>
       list_all (\<lambda>m. meta_native_unit m = Coins \<and> meta_is_perpetual m) metas \<and>
       some_and (List.find (\<lambda>m. id_symbol (meta_id m) = ''DOGE'') metas) (\<lambda>m. \<not> meta_active m) \<and>
       unwraps (hyperliquid_fetch_oi hyperliquid_server (map meta_id (filter meta_active metas)) bucket_10h) (\<lambda>raw.
         length raw = 2 \<and>
         some_and (reading_of ''BTC'' raw) (\<lambda>r.
           raw_value r = dec_lit ''1234.5'' \<and> raw_unit r = Coins \<and> hint_price r = Some 64000)))"

definition truncate_does_not_panic_on_multibyte :: bool where
  "truncate_does_not_panic_on_multibyte \<longleftrightarrow>
     truncate_text ''abcdef'' 100 = ''abcdef''"

lemma hyperliquid_tests:
  "hyperliquid_deserialises_positional_meta_ctxs" "hyperliquid_tolerates_missing_optional_fields"
  "hyperliquid_discovers_and_fetches_oi_in_one_call" "truncate_does_not_panic_on_multibyte"
  by code_simp+

end
