(* ===== verification/Tests_Api.thy ===== *)
theory Tests_Api
  imports Tests_Storage Api_Ws Api_Server Lease
begin

text \<open>
  The unit tests of \<open>oi-api\<close> (\<open>auth.rs\<close>, \<open>ws.rs\<close>), its test of the middleware around the router
  (\<open>tests/auth_middleware.rs\<close>) and the unit tests of \<open>oi-replication/src/failover.rs\<close>, run on the model.
\<close>

section \<open>\<open>auth.rs\<close>\<close>

definition extract_bearer_recognizes_only_proper_prefix :: bool where
  "extract_bearer_recognizes_only_proper_prefix \<longleftrightarrow>
     extract_bearer (Some ''Bearer s3cr3t'') = Some ''s3cr3t'' \<and> extract_bearer (Some ''bearer s3cr3t'') = None \<and>
     extract_bearer (Some ''Token s3cr3t'') = None \<and> extract_bearer None = None"

definition ct_eq_matches_eq_for_equal_and_unequal_inputs :: bool where
  "ct_eq_matches_eq_for_equal_and_unequal_inputs \<longleftrightarrow>
     ct_eq (as_bytes ''abcd'') (as_bytes ''abcd'') \<and> \<not> ct_eq (as_bytes ''abcd'') (as_bytes ''abce'') \<and>
     \<not> ct_eq (as_bytes ''abc'') (as_bytes ''abcd'') \<and> ct_eq [] []"

definition auth_state_accepts_listed_tokens_only :: bool where
  "auth_state_accepts_listed_tokens_only \<longleftrightarrow>
     (let s = \<lparr>auth_tokens = [''alpha'', ''bravo'']\<rparr>
      in accepts s ''alpha'' \<and> accepts s ''bravo'' \<and> \<not> accepts s ''charlie'' \<and> \<not> accepts s [])"

definition public_path_check_is_strict_prefix :: bool where
  "public_path_check_is_strict_prefix \<longleftrightarrow>
     is_public_path ''/health'' \<and> is_public_path ''/health/live'' \<and> is_public_path ''/health/ready'' \<and>
     is_public_path ''/metrics'' \<and> \<not> is_public_path ''/healthier'' \<and>
     \<not> is_public_path ''/v1/oi/latest/binance/BTCUSDT'' \<and> \<not> is_public_path ''/''"

lemma auth_tests:
  "extract_bearer_recognizes_only_proper_prefix" "ct_eq_matches_eq_for_equal_and_unequal_inputs"
  "auth_state_accepts_listed_tokens_only" "public_path_check_is_strict_prefix"
  by code_simp+

section \<open>\<open>ws.rs\<close>\<close>

definition parse_instrument_accepts_exchange_colon_symbol :: bool where
  "parse_instrument_accepts_exchange_colon_symbol \<longleftrightarrow>
     (case parse_instrument ''binance:BTCUSDT'' of
        None \<Rightarrow> False
      | Some i \<Rightarrow> id_exchange i = Binance \<and> id_symbol i = ''BTCUSDT'')"

definition parse_instrument_rejects_unknown_exchange :: bool where
  "parse_instrument_rejects_unknown_exchange \<longleftrightarrow> parse_instrument ''noex:BTCUSDT'' = None"

definition parse_instrument_rejects_missing_separator :: bool where
  "parse_instrument_rejects_missing_separator \<longleftrightarrow> parse_instrument ''BTCUSDT'' = None"

lemma ws_tests:
  "parse_instrument_accepts_exchange_colon_symbol" "parse_instrument_rejects_unknown_exchange"
  "parse_instrument_rejects_missing_separator"
  by code_simp+

section \<open>\<open>tests/auth_middleware.rs\<close>\<close>

definition noop_repo :: "(unit, nat) oi_repository" where
  "noop_repo = stub_repo (\<lambda>_ s. (s, Inr ()))"

definition noop_state :: "(unit, nat, nat) rest_state" where
  "noop_state = idle_state\<lparr>rs_repo := noop_repo\<rparr>"

definition client_get :: "string \<Rightarrow> string option \<Rightarrow> nat answer rust response" where
  "client_get path authorization =
     rest_auth_middleware Some \<lparr>auth_tokens = [''s3cr3t'']\<rparr>
       ((page_request authorization)\<lparr>req_path := path\<rparr>) (\<lambda>r. Served (rest_router Some noop_state r))"

definition health_endpoints_bypass_auth_data_endpoints_require_it :: bool where
  "health_endpoints_bypass_auth_data_endpoints_require_it \<longleftrightarrow>
     client_get ''/health/live'' None = Served (Ret (Text_Answer 200 ''live'')) \<and>
     client_get ''/v1/oi/latest/binance/BTCUSDT'' None = unauthenticated_response \<and>
     client_get ''/v1/oi/latest/binance/BTCUSDT'' (Some ''Bearer wrong-token'') = unauthenticated_response \<and>
     (case client_get ''/v1/oi/latest/binance/BTCUSDT'' (Some ''Bearer s3cr3t'') of
        Served (Ret (Bar_Answer (status, body))) \<Rightarrow> status = 404
      | _ \<Rightarrow> False)"

lemma middleware_test: "health_endpoints_bypass_auth_data_endpoints_require_it"
  by code_simp

section \<open>\<open>failover.rs\<close>\<close>

text \<open>The identifier a configuration draws is the first argument of \<open>new_lease_config\<close>.\<close>

definition config_defaults_are_sane :: bool where
  "config_defaults_are_sane \<longleftrightarrow>
     (let cfg = new_lease_config ''7a0c'' ''redis://localhost''
      in lc_key cfg = ''oi:lease:writer'' \<and> lc_ttl cfg = 15 * 1000 \<and> lc_refresh_interval cfg < lc_ttl cfg \<and> lc_node_id cfg \<noteq> [])"

definition custom_node_id_overrides_default :: bool where
  "custom_node_id_overrides_default \<longleftrightarrow>
     lc_node_id (with_node_id (new_lease_config ''7a0c'' ''redis://localhost'') ''node-A'') = ''node-A''"

definition lease_manager_reports_initial_state_as_follower :: bool where
  "lease_manager_reports_initial_state_as_follower \<longleftrightarrow> \<not> ls_leader lease_init ''test''"

lemma failover_tests:
  "config_defaults_are_sane" "custom_node_id_overrides_default" "lease_manager_reports_initial_state_as_follower"
  by code_simp+

end
