(* ===== verification/Spec2Isabelle.thy ===== *)
theory Spec2Isabelle
  imports Aggregator Scheduler Price_Provider Lease Clickhouse Schema_Sql Composite Collector Funding_Sweep Live Api_Ws Api_Rest Api_Grpc Resync Api_System Push End_To_End Drainer Startup
    Tests_Collector Tests_Streams Tests_Storage Tests_Adapters Tests_Api
begin
text \<open>
  A verification development for the open-interest and funding terminal (crates \<open>oi-core\<close>,
  \<open>oi-exchanges\<close>, \<open>oi-collector\<close>, \<open>oi-replication\<close>, \<open>oi-storage\<close> and \<open>oi-api\<close> under
  \<open>src/crates\<close>).

  \<^bold>\<open>The program.\<close> A collector runs one loop per exchange. A scheduler opens a minute; the
  loop fetches the readings of the minute, turns each into a sample with a USD value, folds the
  samples into one open bar per instrument, flushes the closed bars and hands them to a
  repository. Followers of the cluster write to a local write-ahead log instead; a lease in
  Redis elects the leader. The repository of the leader writes to ClickHouse behind a
  write-ahead log, to a Redis cache of the latest bars and to a pub/sub channel. The API serves
  the stored bars over REST, WebSocket and gRPC.

  \<^bold>\<open>Common ground.\<close> \<open>Prelude\<close> (outcomes of calls that may panic, association lists in
  the place of \<open>DashMap\<close>), \<open>Text\<close> (Rust's string functions on byte lists), \<open>Timestamps\<close>
  (instants and durations in nanoseconds), \<open>Json\<close> (a \<open>serde_json::Value\<close>), \<open>Serde\<close> (what
  a derived \<open>Deserialize\<close> makes of one, field by field), \<open>Fan_Out\<close> (\<open>buffer_unordered\<close>: at
  most so many calls in flight, completing in an order the runtime picks), \<open>Core_Types\<close>
  (exchanges, instruments, prices, errors).

  \<^bold>\<open>Exchanges.\<close> \<open>Http_Client\<close> is \<open>http.rs\<close>: one request, its status and body classified.
  \<open>Adapter_Contract\<close> is the trait \<open>ExchangeAdapter\<close> as a record of operations; its locale
  \<open>exchange_adapter\<close> states what the pipeline relies on (what comes back is about the exchange, the
  instruments and the minute that were asked for), and each of
  \<open>Adapter_Binance\<close> (with Aster), \<open>Adapter_Okx\<close>, \<open>Adapter_Bybit\<close>, \<open>Adapter_Bitget\<close>,
  \<open>Adapter_Hyperliquid\<close>, \<open>Adapter_Mexc\<close>, \<open>Adapter_Kucoin\<close> and \<open>Adapter_Bingx\<close> models the
  \<open>rest.rs\<close> or \<open>mod.rs\<close> of its exchange and interprets the locale. \<open>Adapters\<close> dispatches over
  them and holds what is true of them all. \<open>Ws_Supervisor\<close> is \<open>common/ws.rs\<close>: connect,
  subscribe, read, ping, back off, for ever; it is unfolded over the events of its connections.
  \<open>Ws_Handlers\<close> is the handler of each streaming venue, composed with the supervisor below and the
  bars above.

  \<^bold>\<open>Collector.\<close> \<open>Bars\<close> is \<open>snapshot.rs\<close>: enrichment and the OHLC fold, with the
  proof that the fold is the bar of its samples. \<open>Aggregator\<close> is the map of open bars; it
  refines a specification that keeps the samples themselves. \<open>Scheduler\<close> is the minute tick.
  \<open>Price_Provider\<close> is the price cache with its fallback over other exchanges. \<open>Collector\<close>
  is the loop body of \<open>runner.rs\<close> and \<open>backfill.rs\<close>; \<open>Written_Bars\<close> runs it beside its
  live task on their shared aggregator and shows that all it writes are candles, one per minute;
  \<open>Resync\<close> is the resync over the nine adapters and the commands around it.
  \<open>Funding_Sweep\<close> is the bounded fan-out over the instruments. \<open>Live\<close> is the path of the
  streams: frame parsers, Bybit's per-symbol state, the fold under the lease flag.

  \<^bold>\<open>Replication and storage.\<close> \<open>Lease\<close> is \<open>failover.rs\<close> over one Redis key with an
  expiry, as a step relation on a cluster. \<open>Repository\<close> holds the trait \<open>OiRepository\<close> as
  a record of operations and the leader gate; its contract is a locale that the stores
  interpret. \<open>Wal\<close> and \<open>Durability\<close> are \<open>wal.rs\<close> over a file system whose every call
  may fail; \<open>Drainer\<close> is the loop of its worker beside the writers, with the theorem that no
  entry is ever lost. \<open>Clickhouse\<close>, \<open>Clickhouse_Admin\<close> and \<open>Schema_Sql\<close> are the row encodings,
  the queries, the probe, the table sizes and the creation of the schema. \<open>Composite\<close> is Redis,
  pub/sub and the composite repository.

  \<^bold>\<open>API.\<close> \<open>Api_Auth\<close> (tokens and guards), \<open>Api_Rest\<close> (queries, batch fan-out, the
  columnar form), \<open>Api_Ws\<close> (subscription sockets and the guards of the router), \<open>Api_Grpc\<close>,
  \<open>Api_System\<close> (\<open>sysmetrics.rs\<close>: disks, memory, the shared peak of the processor), \<open>Api_Server\<close>
  (\<open>server.rs\<close> and the table of routes: what any request is answered under a configuration).

  \<^bold>\<open>The daemons as wholes.\<close> \<open>Wire\<close> is the derived encoding of bars in JSON and MessagePack.
  \<open>Configuration\<close> holds the two configuration trees with their defaults and what is refused.
  \<open>Runner\<close> assembles the store and the live tasks of a configuration, \<open>Startup\<close> is \<open>run_async\<close> of
  the collector: the steps of the start and the tasks that run afterwards. \<open>Push\<close> follows a batch
  from the leader over the channel into the frames of a WebSocket client. \<open>End_To_End\<close> follows a
  reading from the venue over the collector and ClickHouse into the answer of the API.

  \<^bold>\<open>The repository's tests.\<close> \<open>Tests_Core\<close>, \<open>Tests_Collector\<close>, \<open>Tests_Streams\<close>,
  \<open>Tests_Storage\<close>, \<open>Tests_Adapters\<close> and \<open>Tests_Api\<close> translate the test modules of the crates and the
  tests that run an adapter against a local server: a test function is a truth value of the same
  name (prefixed by the venue where several share one), and a lemma per group evaluates it. They
  show on the authors' own inputs that the definitions compute what the code does. Left out are the tests
  that print a value as JSON and read it back, that assert an endpoint constant or the inside of a
  runtime channel, and those that need containers or certificates.

  \<^bold>\<open>Parameters.\<close> Decimals are a linear order with the operations the code calls passed as
  arguments (they may panic on overflow, as \<open>rust_decimal\<close> does); encoders (MessagePack, JSON
  text), hash functions, the clock, the scheduler of the async runtime (which pending future
  finishes next) and the replies of the network are arguments too; the record \<open>venue\<close> collects
  those of one adapter (its reply to each request, its JSON and decimal parsers, the order in which
  calls complete, the calls lost to a panic). No recursion uses fuel: loops over the network are
  unfolded over the list of replies or events they receive.

  \<^bold>\<open>Not modelled.\<close> Argument parsing and the set-up of the runtime and of tracing, Prometheus
  counters and logging, opening of sockets and TLS handshakes, the construction of HTTP clients
  and the waiting of the rate limiter, \<open>sysinfo\<close> (its readings are a parameter), migrations and
  deployment files: input and output without a decision of the pipeline in them. ClickHouse,
  Redis and the file system are parameters with the behaviour the code relies on; of the
  expiry of rows (400 days) and of merges nothing is assumed.
\<close>
end
